(* ===== verification/Prelude.thy ===== *)
theory Prelude
  imports Main "HOL-Library.Word" "HOL-Library.State_Monad"
begin

text \<open>
  The prelude of the development: the C scalar types, the status codes of
  \<^verbatim>\<open>include/bf_types/bf_types.h\<close>, the calculus for stateful code and the
  byte-buffer lemmas that every component uses.

  Stateful C functions are computations of \<open>HOL-Library.State_Monad\<close>.
  \<open>wp m Q s\<close> says that running \<open>m\<close> in \<open>s\<close> ends in a result and a state that
  satisfy \<open>Q\<close>; it is computed by the rules of \<open>wp_simps\<close>. \<open>keeps f m\<close> says that
  \<open>m\<close> does not change the component \<open>f\<close> of the state, \<open>pres I m\<close> that it preserves \<open>I\<close>;
  both are closed under the constructs of the monad (\<open>keeps_intros\<close>, \<open>pres_intros\<close>).
\<close>

section \<open>Scalar types\<close>

type_synonym u8 = "8 word"
type_synonym u16 = "16 word"
type_synonym u32 = "32 word"
type_synonym u64 = "64 word"

text \<open>A C pointer: an address, 0 being \<open>NULL\<close>.\<close>

type_synonym ptr = nat

abbreviation NULL :: ptr where
  "NULL \<equiv> 0"

datatype bf_status =
    BF_SUCCESS | BF_NOT_READY | BF_NO_SYS_RESOURCES | BF_INVALID_ARG | BF_ALREADY_EXISTS
  | BF_HW_COMM_FAIL | BF_OBJECT_NOT_FOUND | BF_MAX_SESSIONS_EXCEEDED | BF_SESSION_NOT_FOUND
  | BF_NO_SPACE | BF_EAGAIN | BF_INIT_ERROR | BF_TXN_NOT_SUPPORTED | BF_TABLE_LOCKED | BF_IO
  | BF_UNEXPECTED | BF_ENTRY_REFERENCES_EXIST | BF_NOT_SUPPORTED | BF_HW_UPDATE_FAILED
  | BF_NO_LEARN_CLIENTS | BF_IDLE_UPDATE_IN_PROGRESS | BF_DEVICE_LOCKED | BF_INTERNAL_ERROR
  | BF_TABLE_NOT_FOUND | BF_IN_USE | BF_NOT_IMPLEMENTED

section \<open>Computations\<close>

abbreviation ret :: "'a \<Rightarrow> ('s, 'a) state" where
  "ret \<equiv> State_Monad.return"

definition gets :: "('s \<Rightarrow> 'a) \<Rightarrow> ('s, 'a) state" where
  "gets f = State (\<lambda>s. (f s, s))"

definition modify :: "('s \<Rightarrow> 's) \<Rightarrow> ('s, unit) state" where
  "modify f = State (\<lambda>s. ((), f s))"

lemma run_gets [simp]: "run_state (gets f) s = (f s, s)"
  by (simp add: gets_def)

lemma run_modify [simp]: "run_state (modify f) s = ((), f s)"
  by (simp add: modify_def)

definition wp :: "('s, 'a) state \<Rightarrow> ('a \<Rightarrow> 's \<Rightarrow> bool) \<Rightarrow> 's \<Rightarrow> bool" where
  "wp m Q s = (case run_state m s of (a, t) \<Rightarrow> Q a t)"

named_theorems wp_simps \<open>computation rules of the weakest precondition\<close>

lemma wp_return [wp_simps]: "wp (ret x) Q = Q x"
  by (simp add: wp_def fun_eq_iff)

lemma wp_bind [wp_simps]: "wp (State_Monad.bind m f) Q = wp m (\<lambda>x. wp (f x) Q)"
  by (simp add: wp_def fun_eq_iff split: prod.split)

lemma wp_gets [wp_simps]: "wp (gets f) Q s = Q (f s) s"
  by (simp add: wp_def)

lemma wp_modify [wp_simps]: "wp (modify f) Q s = Q () (f s)"
  by (simp add: wp_def)

lemma wp_if [wp_simps]:
  "wp (if b then m else n) Q s = (if b then wp m Q s else wp n Q s)"
  by simp

lemma wp_Let [wp_simps]: "wp (Let x f) Q s = wp (f x) Q s"
  by simp

lemma wp_case_option [wp_simps]:
  "wp (case x of None \<Rightarrow> m | Some y \<Rightarrow> f y) Q s =
   (case x of None \<Rightarrow> wp m Q s | Some y \<Rightarrow> wp (f y) Q s)"
  by (cases x) auto

lemma wp_case_prod [wp_simps]:
  "wp (case x of (a, b) \<Rightarrow> f a b) Q s = (case x of (a, b) \<Rightarrow> wp (f a b) Q s)"
  by (cases x) auto

lemma wp_conseq: "wp m P s \<Longrightarrow> (\<And>a t. P a t \<Longrightarrow> Q a t) \<Longrightarrow> wp m Q s"
  by (auto simp: wp_def split: prod.splits)

lemma wp_conj: "wp m P s \<Longrightarrow> wp m Q s \<Longrightarrow> wp m (\<lambda>a t. P a t \<and> Q a t) s"
  by (auto simp: wp_def split: prod.splits)

lemma wp_run: "run_state m s = (a, t) \<Longrightarrow> wp m Q s \<Longrightarrow> Q a t"
  by (simp add: wp_def)

lemma wp_runI: "(\<And>a t. run_state m s = (a, t) \<Longrightarrow> Q a t) \<Longrightarrow> wp m Q s"
  by (auto simp: wp_def split: prod.split)

section \<open>Frame and invariant calculus\<close>

definition pres :: "('s \<Rightarrow> bool) \<Rightarrow> ('s, 'a) state \<Rightarrow> bool" where
  "pres I m \<longleftrightarrow> (\<forall>s. I s \<longrightarrow> I (snd (run_state m s)))"

definition keeps :: "('s \<Rightarrow> 'c) \<Rightarrow> ('s, 'a) state \<Rightarrow> bool" where
  "keeps f m \<longleftrightarrow> (\<forall>s. f (snd (run_state m s)) = f s)"

named_theorems keeps_intros \<open>computations that leave a component of the state alone\<close>
named_theorems pres_intros \<open>computations that preserve an invariant\<close>

lemma keeps_return [keeps_intros]: "keeps f (ret x)"
  by (simp add: keeps_def)

lemma keeps_gets [keeps_intros]: "keeps f (gets g)"
  by (simp add: keeps_def)

lemma keeps_modify [keeps_intros]: "(\<And>s. f (g s) = f s) \<Longrightarrow> keeps f (modify g)"
  by (simp add: keeps_def)

lemma keeps_bind [keeps_intros]:
  assumes "keeps f m" and "\<And>x. keeps f (g x)"
  shows "keeps f (State_Monad.bind m g)"
  unfolding keeps_def
proof
  fix s
  obtain x t where run: "run_state m s = (x, t)" by force
  from assms(1) run have "f t = f s" by (auto simp: keeps_def dest: spec [of _ s])
  with assms(2) [of x] run show "f (snd (run_state (State_Monad.bind m g) s)) = f s"
    by (auto simp: keeps_def)
qed

lemma keeps_if [keeps_intros]: "keeps f m \<Longrightarrow> keeps f n \<Longrightarrow> keeps f (if b then m else n)"
  by simp

lemma keeps_Let [keeps_intros]: "keeps f (g x) \<Longrightarrow> keeps f (Let x g)"
  by simp

lemma keeps_case_option [keeps_intros]:
  "keeps f m \<Longrightarrow> (\<And>y. keeps f (g y)) \<Longrightarrow> keeps f (case x of None \<Rightarrow> m | Some y \<Rightarrow> g y)"
  by (cases x) auto

lemma keeps_case_prod [keeps_intros]:
  "(\<And>a b. keeps f (g a b)) \<Longrightarrow> keeps f (case x of (a, b) \<Rightarrow> g a b)"
  by (cases x) auto

lemma keepsD: "keeps f m \<Longrightarrow> run_state m s = (a, t) \<Longrightarrow> f t = f s"
  by (auto simp: keeps_def dest: spec [of _ s])

lemma keeps_wp: "keeps f m \<Longrightarrow> wp m (\<lambda>_ t. f t = f s) s"
  by (auto simp: wp_def dest: keepsD split: prod.split)

lemma keeps_comp: "keeps f m \<Longrightarrow> keeps (\<lambda>s. g (f s)) m"
  by (simp add: keeps_def)

lemma pres_return [pres_intros]: "pres I (ret x)"
  by (simp add: pres_def)

lemma pres_gets [pres_intros]: "pres I (gets g)"
  by (simp add: pres_def)

lemma pres_modify: "(\<And>s. I s \<Longrightarrow> I (g s)) \<Longrightarrow> pres I (modify g)"
  by (simp add: pres_def)

lemma pres_bind [pres_intros]:
  assumes "pres I m" and "\<And>x. pres I (g x)"
  shows "pres I (State_Monad.bind m g)"
  unfolding pres_def
proof (intro allI impI)
  fix s assume "I s"
  obtain x t where run: "run_state m s = (x, t)" by force
  from assms(1) run \<open>I s\<close> have "I t" by (auto simp: pres_def dest: spec [of _ s])
  with assms(2) [of x] run show "I (snd (run_state (State_Monad.bind m g) s))"
    by (auto simp: pres_def)
qed

lemma pres_if [pres_intros]: "pres I m \<Longrightarrow> pres I n \<Longrightarrow> pres I (if b then m else n)"
  by simp

lemma pres_Let [pres_intros]: "pres I (g x) \<Longrightarrow> pres I (Let x g)"
  by simp

lemma pres_case_option [pres_intros]:
  "pres I m \<Longrightarrow> (\<And>y. pres I (g y)) \<Longrightarrow> pres I (case x of None \<Rightarrow> m | Some y \<Rightarrow> g y)"
  by (cases x) auto

lemma pres_case_prod [pres_intros]:
  "(\<And>a b. pres I (g a b)) \<Longrightarrow> pres I (case x of (a, b) \<Rightarrow> g a b)"
  by (cases x) auto

lemma presD: "pres I m \<Longrightarrow> I s \<Longrightarrow> run_state m s = (a, t) \<Longrightarrow> I t"
  by (auto simp: pres_def dest: spec [of _ s])

lemma pres_wp: "pres I m \<Longrightarrow> I s \<Longrightarrow> wp m (\<lambda>_. I) s"
  by (auto simp: wp_def dest: presD split: prod.split)

lemma pres_keeps: "keeps f m \<Longrightarrow> pres (\<lambda>s. P (f s)) m"
  by (simp add: pres_def keeps_def)

end
