(* ===== verification/Osdep.thy ===== *)
theory Osdep
  imports Prelude
begin

text \<open>
  The operating-system layer: \<^verbatim>\<open>include/osdep/p4_sde_osdep.h\<close> and
  \<^verbatim>\<open>include/osdep/p4_sde_osdep_utils.h\<close> rename the mutexes, read-write locks, allocator,
  map, id allocator and hash table of the external \<^verbatim>\<open>target-sys\<close> and
  \<^verbatim>\<open>target-utils\<close> libraries. None of that code is in the repository, so all of it is
  the parameter \<open>E :: ('m, 'i, 'h) ext\<close> of the model: \<open>'m\<close> is the state of a
  \<^verbatim>\<open>bf_map_t\<close>, \<open>'i\<close> of a \<^verbatim>\<open>bf_id_allocator\<close>, \<open>'h\<close> of a
  \<^verbatim>\<open>bf_hashtable_t\<close>. A call whose outcome depends on the system (a lock, an
  allocation) gets its answer from the tick of the call, so \<open>E\<close> ranges over every
  sequence of successes and failures.

  The contracts \<open>map_ok\<close>, \<open>id_ok\<close>, \<open>ht_ok\<close>, \<open>unlock_ok\<close> and \<open>calloc_ok\<close> state what the code
  relies on; \<open>map_abs\<close>, \<open>id_used\<close> and \<open>ht_keys\<close> are the abstract contents they speak of.
  \<open>os_fault\<close> becomes true when a computation does what C leaves undefined or blocks on
  itself: an access outside a buffer, a dereference of a pointer that is not allocated,
  a lock that is dead or already taken by the caller.
\<close>

section \<open>External operations\<close>

datatype map_sts = BF_MAP_OK | BF_MAP_NO_KEY | BF_MAP_KEY_EXISTS | BF_MAP_OTHER

record ('m, 'i, 'h) ext =
  x_mutex_init :: "nat \<Rightarrow> int"
  x_mutex_lock :: "nat \<Rightarrow> int"
  x_mutex_unlock :: "nat \<Rightarrow> int"
  x_rw_init :: "nat \<Rightarrow> int"
  x_rdlock :: "nat \<Rightarrow> int"
  x_wrlock :: "nat \<Rightarrow> int"
  x_rw_unlock :: "nat \<Rightarrow> int"
  x_calloc :: "nat \<Rightarrow> bool"
  x_map_init :: "map_sts \<times> 'm"
  x_map_add :: "'m \<Rightarrow> u64 \<Rightarrow> ptr \<Rightarrow> map_sts \<times> 'm"
  x_map_get :: "'m \<Rightarrow> u64 \<Rightarrow> map_sts \<times> ptr"
  x_map_rmv :: "'m \<Rightarrow> u64 \<Rightarrow> map_sts \<times> 'm"
  x_map_get_first :: "'m \<Rightarrow> map_sts \<times> u64 \<times> ptr"
  x_map_get_next :: "'m \<Rightarrow> u64 \<Rightarrow> map_sts \<times> u64 \<times> ptr"
  x_id_alloc :: "'i \<Rightarrow> u32 \<times> 'i"
  x_id_free :: "'i \<Rightarrow> u32 \<Rightarrow> 'i"
  x_ht_init :: "nat \<Rightarrow> int \<times> 'h"
  x_ht_insert :: "'h \<Rightarrow> ptr \<Rightarrow> u8 list \<Rightarrow> int \<times> 'h"
  x_ht_walk :: "'h \<Rightarrow> u8 list \<Rightarrow> ptr list"
  x_ht_unlink :: "'h \<Rightarrow> ptr \<Rightarrow> 'h"
  map_abs :: "'m \<Rightarrow> u64 \<rightharpoonup> ptr"
  id_used :: "'i \<Rightarrow> u32 set"
  ht_keys :: "'h \<Rightarrow> ptr \<rightharpoonup> u8 list"

text \<open>The value \<^verbatim>\<open>ENTRY_HANDLE_ARRAY_SIZE\<close>, which is also what the id allocator
  returns (as -1) when it has no id left.\<close>

abbreviation ENTRY_HANDLE_ARRAY_SIZE :: u32 where
  "ENTRY_HANDLE_ARRAY_SIZE \<equiv> 0xFFFFFFFF"

section \<open>Contracts\<close>

text \<open>A map stores at most one datum per key; adding an existing key fails; a call that
  fails leaves the map unchanged; iteration is in ascending key order.\<close>

definition map_ok :: "('m, 'i, 'h, 'z) ext_scheme \<Rightarrow> bool" where
  "map_ok E \<longleftrightarrow>
     (\<forall>m k p. map_abs E m k = Some p \<longrightarrow> x_map_get E m k = (BF_MAP_OK, p)) \<and>
     (\<forall>m k. map_abs E m k = None \<longrightarrow> fst (x_map_get E m k) = BF_MAP_NO_KEY) \<and>
     (\<forall>m k p. map_abs E m k = None \<longrightarrow>
        map_abs E (snd (x_map_add E m k p)) =
          (if fst (x_map_add E m k p) = BF_MAP_OK then (map_abs E m)(k \<mapsto> p) else map_abs E m)) \<and>
     (\<forall>m k p. map_abs E m k \<noteq> None \<longrightarrow>
        fst (x_map_add E m k p) = BF_MAP_KEY_EXISTS \<and>
        map_abs E (snd (x_map_add E m k p)) = map_abs E m) \<and>
     (\<forall>m k. map_abs E (snd (x_map_rmv E m k)) = (map_abs E m)(k := None)) \<and>
     (\<forall>m k. fst (x_map_rmv E m k) =
        (if map_abs E m k = None then BF_MAP_NO_KEY else BF_MAP_OK))"

definition map_iter_ok :: "('m, 'i, 'h, 'z) ext_scheme \<Rightarrow> bool" where
  "map_iter_ok E \<longleftrightarrow>
     (\<forall>m sts k p. x_map_get_first E m = (sts, k, p) \<longrightarrow>
        (if dom (map_abs E m) = {} then sts = BF_MAP_NO_KEY
         else sts = BF_MAP_OK \<and> map_abs E m k = Some p \<and> (\<forall>k' \<in> dom (map_abs E m). k \<le> k'))) \<and>
     (\<forall>m k0 sts k p. x_map_get_next E m k0 = (sts, k, p) \<longrightarrow>
        (if {k' \<in> dom (map_abs E m). k0 < k'} = {} then sts = BF_MAP_NO_KEY
         else sts = BF_MAP_OK \<and> k0 < k \<and> map_abs E m k = Some p \<and>
              (\<forall>k' \<in> dom (map_abs E m). k0 < k' \<longrightarrow> k \<le> k')))"

text \<open>The id allocator is created with \<^verbatim>\<open>zero_based = false\<close>: ids start at 1. It hands
  out only ids that are not in use.\<close>

definition id_ok :: "('m, 'i, 'h, 'z) ext_scheme \<Rightarrow> bool" where
  "id_ok E \<longleftrightarrow>
     (\<forall>i. fst (x_id_alloc E i) = ENTRY_HANDLE_ARRAY_SIZE \<longrightarrow>
        id_used E (snd (x_id_alloc E i)) = id_used E i) \<and>
     (\<forall>i. fst (x_id_alloc E i) \<noteq> ENTRY_HANDLE_ARRAY_SIZE \<longrightarrow>
        fst (x_id_alloc E i) \<noteq> 0 \<and> fst (x_id_alloc E i) \<notin> id_used E i \<and>
        id_used E (snd (x_id_alloc E i)) = insert (fst (x_id_alloc E i)) (id_used E i)) \<and>
     (\<forall>i x. id_used E (x_id_free E i x) = id_used E i - {x})"

text \<open>A hash table files each node under the key it was inserted with.
  \<open>x_ht_walk h k\<close> lists the nodes at the hash location of \<open>k\<close>, the ones a search for
  \<open>k\<close> hands to the compare function: every node filed under \<open>k\<close> itself, and possibly
  nodes filed under other keys of the same hash.\<close>

definition ht_ok :: "('m, 'i, 'h, 'z) ext_scheme \<Rightarrow> bool" where
  "ht_ok E \<longleftrightarrow>
     (\<forall>n. fst (x_ht_init E n) = 0 \<and> ht_keys E (snd (x_ht_init E n)) = Map.empty) \<and>
     (\<forall>h n k. ht_keys E (snd (x_ht_insert E h n k)) =
        (if fst (x_ht_insert E h n k) = 0 then (ht_keys E h)(n \<mapsto> k) else ht_keys E h)) \<and>
     (\<forall>h k. set (x_ht_walk E h k) \<subseteq> dom (ht_keys E h)) \<and>
     (\<forall>h k n. ht_keys E h n = Some k \<longrightarrow> n \<in> set (x_ht_walk E h k)) \<and>
     (\<forall>h n. ht_keys E (x_ht_unlink E h n) = (ht_keys E h)(n := None))"

text \<open>Unlocking a lock that the caller holds succeeds.\<close>

definition unlock_ok :: "('m, 'i, 'h, 'z) ext_scheme \<Rightarrow> bool" where
  "unlock_ok E \<longleftrightarrow> (\<forall>n. x_mutex_unlock E n = 0) \<and> (\<forall>n. x_rw_unlock E n = 0)"

text \<open>No lock operation fails.\<close>

definition locks_ok :: "('m, 'i, 'h, 'z) ext_scheme \<Rightarrow> bool" where
  "locks_ok E \<longleftrightarrow> unlock_ok E \<and> (\<forall>n. x_mutex_init E n = 0 \<and> x_mutex_lock E n = 0 \<and>
     x_rw_init E n = 0 \<and> x_rdlock E n = 0 \<and> x_wrlock E n = 0)"

lemma locks_ok_unlock: "locks_ok E \<Longrightarrow> unlock_ok E"
  by (simp add: locks_ok_def)

text \<open>No allocation fails.\<close>

definition calloc_ok :: "('m, 'i, 'h, 'z) ext_scheme \<Rightarrow> bool" where
  "calloc_ok E \<longleftrightarrow> (\<forall>n. x_calloc E n)"

text \<open>The contracts together.\<close>

definition env_ok :: "('m, 'i, 'h, 'z) ext_scheme \<Rightarrow> bool" where
  "env_ok E \<longleftrightarrow> map_ok E \<and> map_iter_ok E \<and> id_ok E \<and> ht_ok E \<and> unlock_ok E"

lemma env_okD:
  assumes "env_ok E"
  shows "map_ok E" "map_iter_ok E" "id_ok E" "ht_ok E" "unlock_ok E"
  using assms by (auto simp: env_ok_def)

lemma map_get_Some: "map_ok E \<Longrightarrow> map_abs E m k = Some p \<Longrightarrow> x_map_get E m k = (BF_MAP_OK, p)"
  by (simp add: map_ok_def)

lemma map_get_None: "map_ok E \<Longrightarrow> map_abs E m k = None \<Longrightarrow> \<exists>p. x_map_get E m k = (BF_MAP_NO_KEY, p)"
  unfolding map_ok_def by (metis prod.collapse)

lemma map_add_new:
  "map_ok E \<Longrightarrow> map_abs E m k = None \<Longrightarrow> x_map_add E m k p = (sts, m') \<Longrightarrow>
   map_abs E m' = (if sts = BF_MAP_OK then (map_abs E m)(k \<mapsto> p) else map_abs E m)"
  unfolding map_ok_def by (metis fst_conv snd_conv)

lemma map_rmv_abs:
  "map_ok E \<Longrightarrow> x_map_rmv E m k = (sts, m') \<Longrightarrow> map_abs E m' = (map_abs E m)(k := None) \<and>
   sts = (if map_abs E m k = None then BF_MAP_NO_KEY else BF_MAP_OK)"
  unfolding map_ok_def by (metis fst_conv snd_conv)

lemma id_alloc_cases:
  assumes "id_ok E" "x_id_alloc E i = (x, i')"
  obtains "x = ENTRY_HANDLE_ARRAY_SIZE" "id_used E i' = id_used E i"
  | "x \<noteq> ENTRY_HANDLE_ARRAY_SIZE" "x \<noteq> 0" "x \<notin> id_used E i" "id_used E i' = insert x (id_used E i)"
  using assms unfolding id_ok_def by (metis fst_conv snd_conv)

lemma id_free_used: "id_ok E \<Longrightarrow> id_used E (x_id_free E i x) = id_used E i - {x}"
  by (simp add: id_ok_def)

lemma ht_init_abs: "ht_ok E \<Longrightarrow> x_ht_init E n = (sts, h) \<Longrightarrow> sts = 0 \<and> ht_keys E h = Map.empty"
  unfolding ht_ok_def by (metis fst_conv snd_conv)

lemma ht_insert_abs:
  "ht_ok E \<Longrightarrow> x_ht_insert E h n k = (sts, h') \<Longrightarrow>
   ht_keys E h' = (if sts = 0 then (ht_keys E h)(n \<mapsto> k) else ht_keys E h)"
  unfolding ht_ok_def by (metis fst_conv snd_conv)

lemma ht_walk_dom: "ht_ok E \<Longrightarrow> n \<in> set (x_ht_walk E h k) \<Longrightarrow> \<exists>k'. ht_keys E h n = Some k'"
  unfolding ht_ok_def by blast

lemma ht_walk_mem: "ht_ok E \<Longrightarrow> ht_keys E h n = Some k \<Longrightarrow> n \<in> set (x_ht_walk E h k)"
  unfolding ht_ok_def by blast

lemma ht_unlink_abs: "ht_ok E \<Longrightarrow> ht_keys E (x_ht_unlink E h n) = (ht_keys E h)(n := None)"
  by (simp add: ht_ok_def)

section \<open>The state of the layer\<close>

text \<open>A lock is named by the object it is embedded in.\<close>

datatype lock_id = PIPE_MGR_LOCK | SESS_LOCK nat | PROF_LOCK ptr nat | TBL_LOCK ptr | VL_LOCK ptr

text \<open>\<open>Rd n\<close>: held by \<open>n + 1\<close> readers; \<open>Held\<close>: held exclusively; \<open>Dead\<close>: not
  initialised, or destroyed.\<close>

datatype lockst = Dead | Free | Rd nat | Held

record os =
  os_clk :: nat
  os_fault :: bool
  os_next :: ptr
  os_locks :: "lock_id \<Rightarrow> lockst"

definition tick :: "('a os_scheme, nat) state" where
  "tick = do {
     n \<leftarrow> gets os_clk;
     modify (\<lambda>s. s\<lparr>os_clk := Suc n\<rparr>);
     ret n }"

definition fault :: "('a os_scheme, unit) state" where
  "fault = modify (\<lambda>s. s\<lparr>os_fault := True\<rparr>)"

definition guard_c :: "bool \<Rightarrow> ('a os_scheme, unit) state" where
  "guard_c b = (if b then ret () else fault)"

section \<open>Locks\<close>

fun take_excl :: "lockst \<Rightarrow> lockst option" where
  "take_excl Free = Some Held"
| "take_excl _ = None"

fun take_shared :: "lockst \<Rightarrow> lockst option" where
  "take_shared Free = Some (Rd 0)"
| "take_shared (Rd n) = Some (Rd (Suc n))"
| "take_shared _ = None"

fun release :: "lockst \<Rightarrow> lockst option" where
  "release Held = Some Free"
| "release (Rd 0) = Some Free"
| "release (Rd (Suc n)) = Some (Rd n)"
| "release _ = None"

definition lock_op ::
  "(nat \<Rightarrow> int) \<Rightarrow> (lockst \<Rightarrow> lockst option) \<Rightarrow> lock_id \<Rightarrow> ('a os_scheme, int) state" where
  "lock_op rcs f l = do {
     n \<leftarrow> tick;
     if rcs n \<noteq> 0 then ret (rcs n)
     else do {
       x \<leftarrow> gets (\<lambda>s. f (os_locks s l));
       (case x of
          None \<Rightarrow> fault
        | Some y \<Rightarrow> modify (\<lambda>s. s\<lparr>os_locks := (os_locks s)(l := y)\<rparr>));
       ret 0 } }"

definition mutex_lock :: "('m, 'i, 'h, 'z) ext_scheme \<Rightarrow> lock_id \<Rightarrow> ('a os_scheme, int) state" where
  "mutex_lock E = lock_op (x_mutex_lock E) take_excl"

definition mutex_unlock :: "('m, 'i, 'h, 'z) ext_scheme \<Rightarrow> lock_id \<Rightarrow> ('a os_scheme, int) state" where
  "mutex_unlock E = lock_op (x_mutex_unlock E) release"

definition rdlock :: "('m, 'i, 'h, 'z) ext_scheme \<Rightarrow> lock_id \<Rightarrow> ('a os_scheme, int) state" where
  "rdlock E = lock_op (x_rdlock E) take_shared"

definition wrlock :: "('m, 'i, 'h, 'z) ext_scheme \<Rightarrow> lock_id \<Rightarrow> ('a os_scheme, int) state" where
  "wrlock E = lock_op (x_wrlock E) take_excl"

definition rw_unlock :: "('m, 'i, 'h, 'z) ext_scheme \<Rightarrow> lock_id \<Rightarrow> ('a os_scheme, int) state" where
  "rw_unlock E = lock_op (x_rw_unlock E) release"

definition mutex_init :: "('m, 'i, 'h, 'z) ext_scheme \<Rightarrow> lock_id \<Rightarrow> ('a os_scheme, int) state" where
  "mutex_init E = lock_op (x_mutex_init E) (\<lambda>_. Some Free)"

definition rwlock_init :: "('m, 'i, 'h, 'z) ext_scheme \<Rightarrow> lock_id \<Rightarrow> ('a os_scheme, int) state" where
  "rwlock_init E = lock_op (x_rw_init E) (\<lambda>_. Some Free)"

definition lock_destroy :: "lock_id \<Rightarrow> ('a os_scheme, unit) state" where
  "lock_destroy l = modify (\<lambda>s. s\<lparr>os_locks := (os_locks s)(l := Dead)\<rparr>)"

lemmas lock_defs = mutex_lock_def mutex_unlock_def rdlock_def wrlock_def rw_unlock_def
  mutex_init_def rwlock_init_def

text \<open>Releasing undoes either way of taking.\<close>

lemma release_take_shared: "take_shared x = Some y \<Longrightarrow> release y = Some x"
  by (cases x) auto

lemma release_take_excl: "take_excl x = Some y \<Longrightarrow> release y = Some x"
  by (cases x) auto

lemma wp_tick [wp_simps]: "wp tick Q s = Q (os_clk s) (s\<lparr>os_clk := Suc (os_clk s)\<rparr>)"
  by (simp add: tick_def wp_simps)

lemma wp_fault [wp_simps]: "wp fault Q s = Q () (s\<lparr>os_fault := True\<rparr>)"
  by (simp add: fault_def wp_simps)

lemma wp_guard_c [wp_simps]:
  "wp (guard_c b) Q s = (if b then Q () s else Q () (s\<lparr>os_fault := True\<rparr>))"
  by (simp add: guard_c_def wp_simps)

lemma wp_lock_op:
  "wp (lock_op rcs f l) Q s =
   (let s' = s\<lparr>os_clk := Suc (os_clk s)\<rparr>; rc = rcs (os_clk s) in
    if rc \<noteq> 0 then Q rc s'
    else case f (os_locks s l) of
      None \<Rightarrow> Q 0 (s'\<lparr>os_fault := True\<rparr>)
    | Some y \<Rightarrow> Q 0 (s'\<lparr>os_locks := (os_locks s)(l := y)\<rparr>))"
  by (simp add: lock_op_def wp_simps Let_def split: option.split)

section \<open>Allocation\<close>

text \<open>\<^verbatim>\<open>P4_SDE_CALLOC\<close>: a fresh address, or \<open>NULL\<close>. The contents of the new object are
  stored by the caller in the heap of its type.\<close>

definition calloc :: "('m, 'i, 'h, 'z) ext_scheme \<Rightarrow> ('a os_scheme, ptr) state" where
  "calloc E = do {
     n \<leftarrow> tick;
     if x_calloc E n then do {
       p \<leftarrow> gets os_next;
       modify (\<lambda>s. s\<lparr>os_next := Suc p\<rparr>);
       ret (Suc p) }
     else ret NULL }"

text \<open>\<^verbatim>\<open>P4_SDE_CALLOC(n, 1)\<close> for a byte buffer that only the caller sees: its
  \<open>n\<close> zero bytes, or \<open>None\<close>.\<close>

definition calloc_bytes :: "('m, 'i, 'h, 'z) ext_scheme \<Rightarrow> nat \<Rightarrow> ('a os_scheme, u8 list option) state" where
  "calloc_bytes E n = do {
     t \<leftarrow> tick;
     if x_calloc E t then ret (Some (replicate n 0)) else ret None }"

lemma wp_calloc [wp_simps]:
  "wp (calloc E) Q s =
   (let s' = s\<lparr>os_clk := Suc (os_clk s)\<rparr> in
    if x_calloc E (os_clk s) then Q (Suc (os_next s)) (s'\<lparr>os_next := Suc (os_next s)\<rparr>)
    else Q NULL s')"
  by (simp add: calloc_def wp_simps Let_def)

lemma wp_calloc_bytes [wp_simps]:
  "wp (calloc_bytes E n) Q s =
   Q (if x_calloc E (os_clk s) then Some (replicate n 0) else None)
     (s\<lparr>os_clk := Suc (os_clk s)\<rparr>)"
  by (simp add: calloc_bytes_def wp_simps)

section \<open>Byte buffers\<close>

text \<open>\<^verbatim>\<open>memcpy(&dst[off], src, n)\<close>. A copy that leaves either buffer is a fault; the part
  of it that lies inside \<open>dst\<close> is carried out.\<close>

definition mem_write :: "u8 list \<Rightarrow> nat \<Rightarrow> u8 list \<Rightarrow> u8 list" where
  "mem_write dst off src = take (length dst) (take off dst @ src @ drop (off + length src) dst)"

definition memcpy :: "u8 list \<Rightarrow> nat \<Rightarrow> u8 list \<Rightarrow> nat \<Rightarrow> ('a os_scheme, u8 list) state" where
  "memcpy dst off src n = do {
     guard_c (off + n \<le> length dst \<and> n \<le> length src);
     ret (mem_write dst off (take n src)) }"

text \<open>The bytes of an integer in memory (little-endian hosts), and back.\<close>

definition le_bytes :: "nat \<Rightarrow> 'a::len word \<Rightarrow> u8 list" where
  "le_bytes n w = map (\<lambda>i. ucast (drop_bit (8 * i) w)) [0..<n]"

lemma length_le_bytes [simp]: "length (le_bytes n w) = n"
  by (simp add: le_bytes_def)

lemma length_mem_write [simp]:
  "off + length src \<le> length dst \<Longrightarrow> length (mem_write dst off src) = length dst"
  by (simp add: mem_write_def)

lemma mem_write_in:
  "off + length src \<le> length dst \<Longrightarrow>
   mem_write dst off src = take off dst @ src @ drop (off + length src) dst"
  by (simp add: mem_write_def)

lemma wp_memcpy [wp_simps]:
  "wp (memcpy dst off src n) Q s =
   (if off + n \<le> length dst \<and> n \<le> length src then Q (mem_write dst off (take n src)) s
    else Q (mem_write dst off (take n src)) (s\<lparr>os_fault := True\<rparr>))"
  by (simp add: memcpy_def wp_simps)

section \<open>Frame rules of the layer\<close>

lemma keeps_tick [keeps_intros]: "(\<And>s n. f (s\<lparr>os_clk := n\<rparr>) = f s) \<Longrightarrow> keeps f tick"
  by (auto simp: tick_def intro!: keeps_intros)

lemma keeps_fault [keeps_intros]: "(\<And>s. f (s\<lparr>os_fault := True\<rparr>) = f s) \<Longrightarrow> keeps f fault"
  by (auto simp: fault_def intro!: keeps_intros)

lemma keeps_guard_c [keeps_intros]: "(\<And>s. f (s\<lparr>os_fault := True\<rparr>) = f s) \<Longrightarrow> keeps f (guard_c b)"
  by (auto simp: guard_c_def intro!: keeps_intros)

lemma keeps_lock_op [keeps_intros]:
  "(\<And>s n. f (s\<lparr>os_clk := n\<rparr>) = f s) \<Longrightarrow> (\<And>s. f (s\<lparr>os_fault := True\<rparr>) = f s) \<Longrightarrow>
   (\<And>s x. f (s\<lparr>os_locks := x\<rparr>) = f s) \<Longrightarrow> keeps f (lock_op rcs g l)"
  by (auto simp: lock_op_def intro!: keeps_intros)

lemma keeps_calloc [keeps_intros]:
  "(\<And>s n. f (s\<lparr>os_clk := n\<rparr>) = f s) \<Longrightarrow> (\<And>s n. f (s\<lparr>os_next := n\<rparr>) = f s) \<Longrightarrow> keeps f (calloc E)"
  by (auto simp: calloc_def intro!: keeps_intros)

lemma keeps_calloc_bytes [keeps_intros]:
  "(\<And>s n. f (s\<lparr>os_clk := n\<rparr>) = f s) \<Longrightarrow> keeps f (calloc_bytes E n)"
  by (auto simp: calloc_bytes_def intro!: keeps_intros)

lemma keeps_memcpy [keeps_intros]:
  "(\<And>s. f (s\<lparr>os_fault := True\<rparr>) = f s) \<Longrightarrow> keeps f (memcpy d off src n)"
  by (auto simp: memcpy_def intro!: keeps_intros)

end
