(* ===== verification/World.thy ===== *)
theory World
  imports Osdep
begin

text \<open>
  The data of the pipeline manager: the structures of
  \<^verbatim>\<open>src/pipe_mgr/shared/infra/pipe_mgr_int.h\<close>,
  \<^verbatim>\<open>include/pipe_mgr/shared/pipe_mgr_mat.h\<close>,
  \<^verbatim>\<open>src/pipe_mgr/shared/dal/dpdk/pipe_mgr_dpdk_int.h\<close> and the \<^verbatim>\<open>pipeline\<close> object of
  \<^verbatim>\<open>src/lld/dpdk/infra/dpdk_infra.h\<close>, and the state \<open>world\<close> over which every operation
  runs.

  Objects that the code shares by pointer (devices, tables, entries, hash-table nodes,
  pipelines) live in one heap per type. A structure that has exactly one owner (the match
  and action specifications of an entry, the buffers inside them, the stage table of a
  table) is a value inside its owner. A C linked list is a list, in link order. Locks are
  kept apart from the objects they are embedded in, in \<open>os_locks\<close>. 16-bit and 32-bit sizes
  are naturals: the code only adds and doubles 16-bit byte counts in 32-bit arithmetic,
  which cannot wrap.
\<close>

section \<open>Specifications passed by clients\<close>

datatype pipe_mgr_match_type =
    PIPE_MGR_MATCH_TYPE_EXACT | PIPE_MGR_MATCH_TYPE_TERNARY | PIPE_MGR_MATCH_TYPE_LPM
  | PIPE_MGR_MATCH_TYPE_SELECTOR | PIPE_MGR_MATCH_TYPE_INVALID

datatype pipe_mgr_table_type =
    PIPE_MGR_TABLE_TYPE_MAT | PIPE_MGR_TABLE_TYPE_ADT | PIPE_MGR_TABLE_TYPE_SEL
  | PIPE_MGR_TABLE_TYPE_VALUE_LOOKUP

record bf_dev_target =
  device_id :: int
  dev_pipe_id :: nat

record pipe_tbl_match_spec =
  num_valid_match_bits :: nat
  num_match_bytes :: nat
  match_value_bits :: "u8 list"
  match_mask_bits :: "u8 list"
  match_field_validity :: u16
  priority :: u32

record pipe_action_data_spec =
  num_valid_action_data_bits :: nat
  num_action_data_bytes :: nat
  action_data_bits :: "u8 list"

record pipe_res_spec =
  res_tbl_hdl :: u32
  res_tbl_idx :: u32

abbreviation PIPE_NUM_TBL_RESOURCES :: nat where
  "PIPE_NUM_TBL_RESOURCES \<equiv> 4"

record pipe_action_spec =
  pipe_action_datatype_bmap :: u8
  act_data :: pipe_action_data_spec
  as_adt_ent_hdl :: u32
  as_sel_grp_hdl :: u32
  resources :: "pipe_res_spec list"
  resource_count :: nat

abbreviation PIPE_ACTION_DATA_TYPE :: u8 where "PIPE_ACTION_DATA_TYPE \<equiv> 1"
abbreviation PIPE_ACTION_DATA_HDL_TYPE :: u8 where "PIPE_ACTION_DATA_HDL_TYPE \<equiv> 2"
abbreviation PIPE_SEL_GRP_HDL_TYPE :: u8 where "PIPE_SEL_GRP_HDL_TYPE \<equiv> 4"

record pipe_data_spec =
  num_data_bytes :: nat
  data_bytes :: "u8 list"

section \<open>Entries\<close>

record pipe_mgr_mat_entry_info =
  me_mat_ent_hdl :: u32
  me_act_fn_hdl :: u32
  me_match_spec :: pipe_tbl_match_spec
  me_act_data_spec :: pipe_action_spec

text \<open>The node's \<^verbatim>\<open>match_spec\<close> pointer is the one of the entry it stands for, so it is
  represented by the address of that entry.\<close>

record pipe_mgr_mat_key_htbl_node =
  kn_mat_ent_hdl :: u32
  kn_match_spec_of :: ptr

record pipe_mgr_adt_ent_data =
  ad_num_resources :: nat
  ad_act_fn_hdl :: u32
  ad_action_data :: pipe_action_data_spec
  ad_resources :: "pipe_res_spec list"

record pipe_mgr_adt_entry_info =
  ae_adt_ent_hdl :: u32
  ae_act_fn_hdl :: u32
  ae_mbr_id :: u32
  ae_entry_data :: "pipe_mgr_adt_ent_data option"
  ae_act_data_spec :: pipe_action_spec
  ae_reference_count :: u32

record pipe_mgr_sel_entry_info =
  se_sel_tbl_hdl :: u32
  se_sel_grp_hdl :: u32
  se_sel_grp_id :: u32
  se_max_grp_size :: u32
  se_num_mbrs :: nat
  se_mbrs :: "u32 list option"

record pipe_mgr_value_lookup_entry_info =
  ve_mat_ent_hdl :: u32
  ve_match_spec :: pipe_tbl_match_spec
  ve_data_spec :: pipe_data_spec

section \<open>DPDK objects of the device abstraction layer\<close>

text \<open>A pointer inside a structure to an object that has no other owner: the code frees some
  of these objects on an error path and leaves the pointer behind.\<close>

datatype 'a cbuf = Null | Live 'a | Freed

text \<open>A list through such a pointer; a freed list cannot be read.\<close>

fun cbuf_list :: "'a list cbuf \<Rightarrow> 'a list option" where
  "cbuf_list Null = Some []"
| "cbuf_list (Live xs) = Some xs"
| "cbuf_list Freed = None"

text \<open>Structures of the external DPDK headers that the code fills or reads.\<close>

record rte_swx_ctl_table_match_field_info =
  mf_is_header :: bool
  mf_n_bits :: nat
  mf_offset :: nat

record rte_swx_ctl_pipeline_info =
  pi_n_ports_in :: nat
  pi_n_ports_out :: nat
  pi_n_actions :: nat
  pi_n_tables :: nat

record rte_swx_ctl_action_arg_info =
  arg_name :: string
  arg_n_bits :: nat

record rte_swx_table_entry =
  te_key :: "u8 list"
  te_key_mask :: "u8 list option"
  te_key_priority :: u32
  te_action_id :: u64
  te_action_data :: "u8 list"

record pipe_mgr_dpdk_immediate_fields =
  param_name :: string
  dest_start :: nat
  dest_width :: nat

record pipe_mgr_dpdk_action_format =
  af_action_name :: string
  af_action_handle :: u32
  af_immediate_field :: "pipe_mgr_dpdk_immediate_fields list"
  af_action_id :: u32
  af_n_args :: nat
  af_arg_info :: "rte_swx_ctl_action_arg_info list cbuf"
  af_arg_nbits :: nat

record dal_dpdk_table_metadata =
  tm_pipe :: ptr
  tm_table_id :: u32
  tm_n_match_fields :: nat
  tm_n_actions :: nat
  tm_mf :: "rte_swx_ctl_table_match_field_info list"
  tm_match_type :: pipe_mgr_match_type
  tm_match_field_nbits :: nat
  tm_action_data_size :: nat
  tm_first_offset :: nat

datatype pipe_mgr_dpdk_resource_id = PIPE_MGR_DPDK_RES_MIR_SESSION | PIPE_MGR_DPDK_RES_INVALID

record pipe_mgr_dpdk_stage_table =
  st_act_fmt :: "pipe_mgr_dpdk_action_format list cbuf"
  st_resource_id :: pipe_mgr_dpdk_resource_id
  st_immediate_field :: "pipe_mgr_dpdk_immediate_fields list"
  st_table_meta :: "dal_dpdk_table_metadata option"
  st_val_lookup_meta :: "ptr cbuf"

record pipeline =
  pl_name :: string
  pl_p :: ptr
  pl_ctl :: ptr
  pl_timer_period_ms :: u32
  pl_enabled :: bool
  pl_thread_id :: u32
  pl_numa_node :: u32
  pl_net_port_mask :: "u64 list"

section \<open>Tables\<close>

record pipe_mgr_match_key_fields =
  kf_name :: string
  kf_match_type :: pipe_mgr_match_type

record pipe_mgr_actions_list =
  al_name :: string
  al_target_action_name :: string
  al_handle :: u32

record pipe_mgr_mat_ctx =
  mc_handle :: u32
  mc_name :: string
  mc_target_table_name :: string
  mc_add_on_miss :: bool
  mc_mat_key_fields_count :: nat
  mc_mat_key_fields :: "pipe_mgr_match_key_fields list"
  mc_actions :: "pipe_mgr_actions_list list"
  mc_match_type :: pipe_mgr_match_type
  mc_match_stage_table_count :: nat
  mc_match_stage_table :: "pipe_mgr_dpdk_stage_table option"
  mc_store_entries :: bool
  mc_duplicate_entry_check :: bool
  mc_adt_count :: nat
  mc_sel_tbl_count :: nat
  mc_adt_handle :: u32
  mc_stage_table_count :: nat
  mc_stage_table :: "pipe_mgr_dpdk_stage_table option"

record ('m, 'i, 'h) pipe_mgr_mat_state =
  entry_handle_array :: 'i
  entry_info_htbl :: 'm
  mbr_id_htbl :: 'm
  key_htbl :: "'h option list"

record ('m, 'i, 'h) pipe_mgr_mat =
  mat_ctx :: pipe_mgr_mat_ctx
  mat_state :: "('m, 'i, 'h) pipe_mgr_mat_state option"

record pipe_mgr_value_lookup_ctx =
  vc_handle :: u32
  vc_name :: string
  vc_target_table_name :: string
  vc_store_entries :: bool
  vc_duplicate_entry_check :: bool
  vc_match_type :: pipe_mgr_match_type
  vc_match_stage_table_count :: nat
  vc_match_stage_table :: "pipe_mgr_dpdk_stage_table option"

record ('m, 'i, 'h) pipe_mgr_value_lookup =
  vl_ctx :: pipe_mgr_value_lookup_ctx
  vl_state :: "('m, 'i, 'h) pipe_mgr_mat_state option"

datatype externs_attr_type =
    EXTERNS_ATTR_TYPE_BYTES | EXTERNS_ATTR_TYPE_PACKETS | EXTERNS_ATTR_TYPE_PACKETS_AND_BYTES

datatype externs_type =
    EXTERNS_COUNTER | EXTERNS_REGISTER | EXTERNS_DIRECT_COUNTER | EXTERNS_METER
  | EXTERNS_DIRECT_METER | EXTERNS_HASH | EXTERNS_INTERNET_CHECK_SUM

record pipe_mgr_externs_ctx =
  xc_name :: string
  xc_target_name :: string
  xc_type :: externs_type
  xc_attr_type :: externs_attr_type
  xc_externs_attr_table_id :: u32

section \<open>Devices and the global context\<close>

text \<open>\<^verbatim>\<open>bf_externs_htbl\<close> is built once, when the context file is parsed, and only
  searched afterwards, so a profile has its contents as a function of the name. A profile
  array that is \<open>NULL\<close> is the empty list.\<close>

record pipe_mgr_p4_pipeline =
  pc_arch_name :: string
  pc_mat_tables :: "ptr list"
  pc_value_lookup_tables :: "ptr list"
  pc_externs_htbl :: "(string \<rightharpoonup> pipe_mgr_externs_ctx) option"
  pc_externs_tables_name :: "string list"

record pipe_mgr_profile =
  pf_profile_id :: nat
  pf_core_id :: int
  pf_fast_clone :: int
  pf_prog_name :: string
  pf_pipeline_name :: string
  pf_cfg_file :: string
  pf_pipe_ctx :: pipe_mgr_p4_pipeline
  pf_num_ct_timer_profiles :: nat
  pf_bf_ct_timeout :: "int list"

record pipe_mgr_dev =
  pd_dev_id :: int
  pd_num_pipeline_profiles :: nat
  pd_profiles :: "pipe_mgr_profile list"

abbreviation P4_SDE_MAX_SESSIONS :: nat where
  "P4_SDE_MAX_SESSIONS \<equiv> 16"

record 'm pipe_mgr_ctx =
  sessions :: "bool list"
  dev_map :: 'm

section \<open>The world\<close>

text \<open>Calls of the DPDK control library that change the data plane.\<close>

datatype rte_call =
    TableEntryAdd ptr string rte_swx_table_entry
  | TableDefaultEntryAdd ptr string rte_swx_table_entry
  | TableEntryDelete ptr string rte_swx_table_entry
  | SelectorGroupAdd ptr string
  | SelectorGroupDelete ptr string u32
  | SelectorGroupMemberAdd ptr string u32 u32 u32
  | SelectorGroupMemberDelete ptr string u32 u32
  | RegarrayWrite ptr string int u64
  | MirroringSessionSet ptr u32 u32 int u32
  | Commit ptr

record ('m, 'i, 'h) world = os +
  pipe_mgr_ctx_obj :: ptr
  pipe_mgr_int_sess_hndl :: nat
  w_ctxs :: "ptr \<rightharpoonup> 'm pipe_mgr_ctx"
  w_devs :: "ptr \<rightharpoonup> pipe_mgr_dev"
  w_mats :: "ptr \<rightharpoonup> ('m, 'i, 'h) pipe_mgr_mat"
  w_vls :: "ptr \<rightharpoonup> ('m, 'i, 'h) pipe_mgr_value_lookup"
  w_mat_ents :: "ptr \<rightharpoonup> pipe_mgr_mat_entry_info"
  w_vl_ents :: "ptr \<rightharpoonup> pipe_mgr_value_lookup_entry_info"
  w_adt_ents :: "ptr \<rightharpoonup> pipe_mgr_adt_entry_info"
  w_sel_ents :: "ptr \<rightharpoonup> pipe_mgr_sel_entry_info"
  w_nodes :: "ptr \<rightharpoonup> pipe_mgr_mat_key_htbl_node"
  w_pipes :: "(ptr \<times> pipeline) list"
  w_rte :: "(rte_call \<times> int) list"

text \<open>The DPDK part of the environment: the return code of each control call, the group id
  that \<^verbatim>\<open>rte_swx_ctl_pipeline_selector_group_add\<close> stores, and the queries on a built
  pipeline.\<close>

record ('m, 'i, 'h) dpdk = "('m, 'i, 'h) ext" +
  r_call :: "nat \<Rightarrow> rte_call \<Rightarrow> int"
  r_group_id :: "nat \<Rightarrow> u32"
  r_regarray_read :: "nat \<Rightarrow> ptr \<Rightarrow> string \<Rightarrow> int \<Rightarrow> int \<times> u64"
  r_regarray_read_key :: "nat \<Rightarrow> ptr \<Rightarrow> string \<Rightarrow> string \<Rightarrow> u8 list \<Rightarrow> int \<times> u64"
  r_pipeline_info :: "ptr \<Rightarrow> int \<times> rte_swx_ctl_pipeline_info"
  r_action_info :: "ptr \<Rightarrow> nat \<Rightarrow> int \<times> string \<times> nat"
  r_table_info :: "ptr \<Rightarrow> nat \<Rightarrow> int \<times> string \<times> nat \<times> nat"
  r_match_field_info :: "ptr \<Rightarrow> nat \<Rightarrow> nat \<Rightarrow> int \<times> rte_swx_ctl_table_match_field_info"
  r_action_arg_info :: "ptr \<Rightarrow> nat \<Rightarrow> nat \<Rightarrow> int \<times> rte_swx_ctl_action_arg_info"

type_synonym ('m, 'i, 'h, 'r) cmd = "(('m, 'i, 'h) world, 'r) state"

section \<open>Access through pointers\<close>

text \<open>Dereferencing a pointer: the object is handed to the continuation; a pointer to no
  object is a fault, with an arbitrary result \<open>d\<close>.\<close>

definition deref ::
  "('a os_scheme \<Rightarrow> 'b option) \<Rightarrow> 'r \<Rightarrow> ('b \<Rightarrow> ('a os_scheme, 'r) state) \<Rightarrow> ('a os_scheme, 'r) state" where
  "deref get_obj d k = do {
     x \<leftarrow> gets get_obj;
     case x of
       None \<Rightarrow> do { fault; ret d }
     | Some v \<Rightarrow> k v }"

lemma wp_deref [wp_simps]:
  "wp (deref g d k) Q s =
   (case g s of None \<Rightarrow> Q d (s\<lparr>os_fault := True\<rparr>) | Some v \<Rightarrow> wp (k v) Q s)"
  by (simp add: deref_def wp_simps split: option.split)

lemma keeps_deref [keeps_intros]:
  "(\<And>s. f (s\<lparr>os_fault := True\<rparr>) = f s) \<Longrightarrow> (\<And>v. keeps f (k v)) \<Longrightarrow> keeps f (deref g d k)"
  by (auto simp: deref_def intro!: keeps_intros)

text \<open>A control call: it gets its return code from the environment and is recorded
  with it.\<close>

definition rte_do :: "('m, 'i, 'h, 'z) dpdk_scheme \<Rightarrow> rte_call \<Rightarrow> ('m, 'i, 'h, int) cmd" where
  "rte_do E c = do {
     n \<leftarrow> tick;
     let rc = r_call E n c;
     modify (\<lambda>s. s\<lparr>w_rte := w_rte s @ [(c, rc)]\<rparr>);
     ret rc }"

lemma wp_rte_do [wp_simps]:
  "wp (rte_do E c) Q s =
   Q (r_call E (os_clk s) c)
     (s\<lparr>os_clk := Suc (os_clk s), w_rte := w_rte s @ [(c, r_call E (os_clk s) c)]\<rparr>)"
  by (simp add: rte_do_def wp_simps Let_def)

lemma keeps_rte_do [keeps_intros]:
  "(\<And>s n. f (s\<lparr>os_clk := n\<rparr>) = f s) \<Longrightarrow> (\<And>s x. f (s\<lparr>w_rte := x\<rparr>) = f s) \<Longrightarrow> keeps f (rte_do E c)"
  by (auto simp: rte_do_def intro!: keeps_intros)

end
