(* ===== verification/Discipline.thy ===== *)
theory Discipline
  imports World
begin

text \<open>
  A Hoare logic for the locks that a computation takes and gives back.
  \<open>lt L m N\<close>: run with the locks in state \<open>L\<close>, the computation \<open>m\<close> either faults or ends
  with the locks in state \<open>N r\<close>, \<open>r\<close> being its result. \<open>bal m\<close> (balanced): every lock \<open>m\<close>
  takes it gives back, on every path, the error paths included. \<open>bal\<close> is closed under the
  constructs of the monad (\<open>bal_intros\<close>); \<open>bal_ops\<close> collects the operations known to be
  balanced. Code that takes and releases locks is walked through with the rules
  \<open>lt_intros\<close>.
\<close>

definition lt ::
  "(lock_id \<Rightarrow> lockst) \<Rightarrow> ('a os_scheme, 'r) state \<Rightarrow> ('r \<Rightarrow> lock_id \<Rightarrow> lockst) \<Rightarrow> bool" where
  "lt L m N \<longleftrightarrow> (\<forall>s r t. run_state m s = (r, t) \<longrightarrow>
     (os_fault s \<longrightarrow> os_fault t) \<and> (os_locks s = L \<longrightarrow> os_fault t \<or> os_locks t = N r))"

definition bal :: "('a os_scheme, 'r) state \<Rightarrow> bool" where
  "bal m \<longleftrightarrow> (\<forall>L. lt L m (\<lambda>_. L))"

named_theorems lt_intros \<open>rules of the lock logic\<close>
named_theorems bal_intros \<open>constructs that keep computations balanced\<close>
named_theorems bal_ops \<open>operations that give back the locks they take\<close>

lemma bal_alt:
  "bal m \<longleftrightarrow> (\<forall>s r t. run_state m s = (r, t) \<longrightarrow>
     (os_fault s \<longrightarrow> os_fault t) \<and> (os_fault t \<or> os_locks t = os_locks s))"
  by (auto simp: bal_def lt_def)

lemma balI: "(\<And>L. lt L m (\<lambda>_. L)) \<Longrightarrow> bal m"
  by (simp add: bal_def)

lemma balD: "bal m \<Longrightarrow> run_state m s = (r, t) \<Longrightarrow> os_fault t \<or> os_locks t = os_locks s"
  by (auto simp: bal_alt)

lemma bal_keeps: "keeps os_locks m \<Longrightarrow> pres os_fault m \<Longrightarrow> bal m"
  by (auto simp: bal_alt dest: keepsD presD)

lemma lt_bind:
  assumes "lt L m M" and "\<And>r. lt (M r) (k r) N"
  shows "lt L (State_Monad.bind m k) N"
  unfolding lt_def
proof (intro allI impI)
  fix s r t assume run: "run_state (State_Monad.bind m k) s = (r, t)"
  obtain x u where m: "run_state m s = (x, u)" by force
  with run have k: "run_state (k x) u = (r, t)" by simp
  from assms(1) m have 1: "(os_fault s \<longrightarrow> os_fault u) \<and> (os_locks s = L \<longrightarrow> os_fault u \<or> os_locks u = M x)"
    by (auto simp: lt_def)
  from assms(2) [of x] k have 2: "(os_fault u \<longrightarrow> os_fault t) \<and> (os_locks u = M x \<longrightarrow> os_fault t \<or> os_locks t = N r)"
    by (auto simp: lt_def)
  from 1 2 show "(os_fault s \<longrightarrow> os_fault t) \<and> (os_locks s = L \<longrightarrow> os_fault t \<or> os_locks t = N r)" by auto
qed

lemma lt_weaken: "lt L m M \<Longrightarrow> (\<And>r. M r = N r) \<Longrightarrow> lt L m N"
  by (simp add: lt_def)

lemma lt_ret [lt_intros]: "L = N x \<Longrightarrow> lt L (ret x) N"
  by (simp add: lt_def)

lemma lt_bal: "bal m \<Longrightarrow> (\<And>x. lt L (k x) N) \<Longrightarrow> lt L (State_Monad.bind m k) N"
  by (rule lt_bind [where M = "\<lambda>_. L"]) (auto simp: bal_def)

lemma lt_tail: "bal m \<Longrightarrow> (\<And>r. L = N r) \<Longrightarrow> lt L m N"
  unfolding bal_def by (drule spec [of _ L]) (erule lt_weaken, simp)

lemma lt_if [lt_intros]:
  "(b \<Longrightarrow> lt L m N) \<Longrightarrow> (\<not> b \<Longrightarrow> lt L n N) \<Longrightarrow> lt L (if b then m else n) N"
  by simp

lemma lt_Let [lt_intros]: "lt L (g x) N \<Longrightarrow> lt L (Let x g) N"
  by simp

lemma lt_case_option [lt_intros]:
  "(x = None \<Longrightarrow> lt L m N) \<Longrightarrow> (\<And>y. x = Some y \<Longrightarrow> lt L (g y) N) \<Longrightarrow>
   lt L (case x of None \<Rightarrow> m | Some y \<Rightarrow> g y) N"
  by (cases x) auto

lemma lt_case_prod [lt_intros]:
  "(\<And>a b. x = (a, b) \<Longrightarrow> lt L (g a b) N) \<Longrightarrow> lt L (case x of (a, b) \<Rightarrow> g a b) N"
  by (cases x) auto

text \<open>A lock operation: where it returns a nonzero code the locks are unchanged, where the
  lock is not in a state that allows it the computation has faulted.\<close>

lemma lt_mono: "lt L m N \<Longrightarrow> pres os_fault m"
  by (auto simp: lt_def pres_def) (metis prod.collapse)

lemma lt_lock_op:
  assumes ok: "\<And>y. f (L l) = Some y \<Longrightarrow> lt (L(l := y)) (k 0) N"
    and err: "\<And>rc. rc \<noteq> 0 \<Longrightarrow> rc \<in> range rcs \<Longrightarrow> lt L (k rc) N"
    and mono: "\<And>rc. pres os_fault (k rc)"
  shows "lt L (State_Monad.bind (lock_op rcs f l) k) N"
  unfolding lt_def
proof (intro allI impI)
  fix s r t assume run: "run_state (State_Monad.bind (lock_op rcs f l) k) s = (r, t)"
  let ?s = "s\<lparr>os_clk := Suc (os_clk s)\<rparr>" and ?rc = "rcs (os_clk s)"
  consider (err) "?rc \<noteq> 0" "run_state (k ?rc) ?s = (r, t)"
    | (bad) "run_state (k 0) (?s\<lparr>os_fault := True\<rparr>) = (r, t)"
    | (ok) y where "f (os_locks s l) = Some y"
        "run_state (k 0) (?s\<lparr>os_locks := (os_locks s)(l := y)\<rparr>) = (r, t)"
    using run by (fastforce simp: lock_op_def tick_def fault_def split: if_splits option.splits)
  then show "(os_fault s \<longrightarrow> os_fault t) \<and> (os_locks s = L \<longrightarrow> os_fault t \<or> os_locks t = N r)"
  proof cases
    case err
    with assms(2) [of ?rc] have "lt L (k ?rc) N" by blast
    with err show ?thesis by (fastforce simp: lt_def)
  next
    case bad
    from presD [OF mono _ bad] show ?thesis by simp
  next
    case (ok y)
    have "os_fault s \<longrightarrow> os_fault t" using presD [OF mono _ ok(2)] by simp
    moreover have "os_locks s = L \<longrightarrow> os_fault t \<or> os_locks t = N r"
    proof
      assume L: "os_locks s = L"
      with ok assms(1) [of y] have "lt (L(l := y)) (k 0) N" by simp
      with ok L show "os_fault t \<or> os_locks t = N r" by (fastforce simp: lt_def)
    qed
    ultimately show ?thesis by blast
  qed
qed

lemma take_excl_Some [simp]: "take_excl x = Some y \<longleftrightarrow> x = Free \<and> y = Held"
  by (cases x) auto

lemma lt_mutex_lock [lt_intros]:
  "(L l = Free \<Longrightarrow> lt (L(l := Held)) (k 0) N) \<Longrightarrow> (\<And>rc. rc \<noteq> 0 \<Longrightarrow> lt L (k rc) N) \<Longrightarrow>
   (\<And>rc. pres os_fault (k rc)) \<Longrightarrow> lt L (State_Monad.bind (mutex_lock E l) k) N"
  unfolding mutex_lock_def by (rule lt_lock_op) auto

lemma lt_mutex_unlock [lt_intros]:
  "unlock_ok E \<Longrightarrow> L l = Held \<Longrightarrow> lt (L(l := Free)) (k 0) N \<Longrightarrow> (\<And>rc. pres os_fault (k rc)) \<Longrightarrow>
   lt L (State_Monad.bind (mutex_unlock E l) k) N"
  unfolding mutex_unlock_def by (rule lt_lock_op) (auto simp: unlock_ok_def)

lemma lt_wrlock [lt_intros]:
  "(L l = Free \<Longrightarrow> lt (L(l := Held)) (k 0) N) \<Longrightarrow> (\<And>rc. rc \<noteq> 0 \<Longrightarrow> lt L (k rc) N) \<Longrightarrow>
   (\<And>rc. pres os_fault (k rc)) \<Longrightarrow> lt L (State_Monad.bind (wrlock E l) k) N"
  unfolding wrlock_def by (rule lt_lock_op) auto

lemma lt_rdlock [lt_intros]:
  "(\<And>y. take_shared (L l) = Some y \<Longrightarrow> lt (L(l := y)) (k 0) N) \<Longrightarrow>
   (\<And>rc. rc \<noteq> 0 \<Longrightarrow> lt L (k rc) N) \<Longrightarrow>
   (\<And>rc. pres os_fault (k rc)) \<Longrightarrow> lt L (State_Monad.bind (rdlock E l) k) N"
  unfolding rdlock_def by (rule lt_lock_op) auto

lemma lt_rw_unlock [lt_intros]:
  "unlock_ok E \<Longrightarrow> release (L l) = Some y \<Longrightarrow> lt (L(l := y)) (k 0) N \<Longrightarrow>
   (\<And>rc. pres os_fault (k rc)) \<Longrightarrow> lt L (State_Monad.bind (rw_unlock E l) k) N"
  unfolding rw_unlock_def by (rule lt_lock_op) (auto simp: unlock_ok_def)

section \<open>Faults are never forgotten\<close>

lemma fault_modify [pres_intros]:
  "(\<And>s. os_fault s \<Longrightarrow> os_fault (g s)) \<Longrightarrow> pres os_fault (modify g)"
  by (rule pres_modify)

lemma fault_tick [pres_intros]: "pres os_fault tick"
  by (auto simp: tick_def intro!: pres_intros)

lemma fault_fault [pres_intros]: "pres os_fault fault"
  by (auto simp: fault_def intro!: pres_intros)

lemma fault_guard_c [pres_intros]: "pres os_fault (guard_c b)"
  by (auto simp: guard_c_def intro!: pres_intros)

lemma fault_lock_op [pres_intros]: "pres os_fault (lock_op rcs f l)"
  by (auto simp: lock_op_def intro!: pres_intros)

lemma fault_lock_ops [pres_intros]:
  "pres os_fault (mutex_lock E l)" "pres os_fault (mutex_unlock E l)" "pres os_fault (rdlock E l)"
  "pres os_fault (wrlock E l)" "pres os_fault (rw_unlock E l)" "pres os_fault (mutex_init E l)"
  "pres os_fault (rwlock_init E l)" "pres os_fault (lock_destroy l)"
  by (auto simp: lock_defs lock_destroy_def intro!: pres_intros)

lemma fault_calloc [pres_intros]: "pres os_fault (calloc E)"
  by (auto simp: calloc_def intro!: pres_intros)

lemma fault_calloc_bytes [pres_intros]: "pres os_fault (calloc_bytes E n)"
  by (auto simp: calloc_bytes_def intro!: pres_intros)

lemma fault_memcpy [pres_intros]: "pres os_fault (memcpy d off src n)"
  by (auto simp: memcpy_def intro!: pres_intros)

lemma fault_deref [pres_intros]: "(\<And>v. pres os_fault (k v)) \<Longrightarrow> pres os_fault (deref g d k)"
  by (auto simp: deref_def intro!: pres_intros)

lemma fault_rte_do [pres_intros]: "pres os_fault (rte_do E c)"
  by (auto simp: rte_do_def intro!: pres_intros)

section \<open>Balanced computations\<close>

lemma bal_fault: "bal m \<Longrightarrow> pres os_fault m"
  by (auto simp: bal_def dest: lt_mono)

lemma bal_return [bal_ops]: "bal (ret x)"
  by (auto intro!: bal_keeps keeps_intros pres_intros)

lemma bal_gets [bal_ops]: "bal (gets g)"
  by (auto intro!: bal_keeps keeps_intros pres_intros)

lemma bal_modify [bal_ops]:
  "(\<And>s. os_locks (g s) = os_locks s) \<Longrightarrow> (\<And>s. os_fault s \<Longrightarrow> os_fault (g s)) \<Longrightarrow> bal (modify g)"
  by (auto intro!: bal_keeps keeps_intros pres_intros)

lemma bal_bind [bal_intros]: "bal m \<Longrightarrow> (\<And>x. bal (k x)) \<Longrightarrow> bal (State_Monad.bind m k)"
  by (rule balI, rule lt_bal) (auto simp: bal_def)

lemma bal_if [bal_intros]: "bal m \<Longrightarrow> bal n \<Longrightarrow> bal (if b then m else n)"
  by simp

lemma bal_Let [bal_intros]: "bal (g x) \<Longrightarrow> bal (Let x g)"
  by simp

lemma bal_case_option [bal_intros]:
  "bal m \<Longrightarrow> (\<And>y. bal (g y)) \<Longrightarrow> bal (case x of None \<Rightarrow> m | Some y \<Rightarrow> g y)"
  by (cases x) auto

lemma bal_case_prod [bal_intros]: "(\<And>a b. bal (g a b)) \<Longrightarrow> bal (case x of (a, b) \<Rightarrow> g a b)"
  by (cases x) auto

lemma bal_prims [bal_ops]:
  "bal tick" "bal fault" "bal (guard_c b)" "bal (calloc E)" "bal (calloc_bytes E n)"
  "bal (memcpy d off src n)" "bal (rte_do D c)"
  by (auto intro!: bal_keeps keeps_intros pres_intros)

lemma bal_deref [bal_intros]: "(\<And>v. bal (k v)) \<Longrightarrow> bal (deref g d k)"
  by (auto simp: deref_def intro!: bal_intros bal_ops)

lemma lt_fault_ret: "lt L (do { fault; ret d }) N"
  by (auto simp: lt_def fault_def)

lemma lt_deref [lt_intros]: "(\<And>v. lt L (k v) N) \<Longrightarrow> lt L (deref g d k) N"
  unfolding deref_def
  by (rule lt_bal, rule bal_gets, rule lt_case_option) (simp_all add: lt_fault_ret)

lemma lt_bind_assoc [lt_intros]:
  "lt L (State_Monad.bind m (\<lambda>x. State_Monad.bind (f x) g)) N \<Longrightarrow>
   lt L (State_Monad.bind (State_Monad.bind m f) g) N"
  by simp

lemma lt_bind_ret [lt_intros]: "lt L (k x) N \<Longrightarrow> lt L (State_Monad.bind (ret x) k) N"
  by simp

lemma lt_bind_if [lt_intros]:
  "(b \<Longrightarrow> lt L (State_Monad.bind m k) N) \<Longrightarrow> (\<not> b \<Longrightarrow> lt L (State_Monad.bind n k) N) \<Longrightarrow>
   lt L (State_Monad.bind (if b then m else n) k) N"
  by simp

lemma lt_bind_case_option [lt_intros]:
  "(x = None \<Longrightarrow> lt L (State_Monad.bind m k) N) \<Longrightarrow>
   (\<And>y. x = Some y \<Longrightarrow> lt L (State_Monad.bind (g y) k) N) \<Longrightarrow>
   lt L (State_Monad.bind (case x of None \<Rightarrow> m | Some y \<Rightarrow> g y) k) N"
  by (cases x) auto

lemma lt_bind_deref [lt_intros]:
  assumes "\<And>v. lt L (State_Monad.bind (f v) k) N" and "pres os_fault (k d)"
  shows "lt L (State_Monad.bind (deref g d f) k) N"
proof -
  have "lt L (State_Monad.bind fault (\<lambda>_. k d)) N"
    by (auto simp: lt_def fault_def dest!: presD [OF assms(2), rotated])
  with assms(1) show ?thesis
    unfolding deref_def
    by (auto intro!: lt_bind_assoc lt_bal [OF bal_gets] lt_bind_case_option)
qed

text \<open>A critical section: the work between \<^verbatim>\<open>P4_SDE_MUTEX_LOCK\<close> and
  \<^verbatim>\<open>P4_SDE_MUTEX_UNLOCK\<close> on all paths.\<close>

lemma bal_mutex_section:
  assumes E: "unlock_ok E" and m: "bal m" and err: "\<And>rc. bal (err rc)" and k: "\<And>x rc. bal (k x rc)"
  shows "bal (do { rc \<leftarrow> mutex_lock E l;
    if rc \<noteq> 0 then err rc else do { x \<leftarrow> m; rc \<leftarrow> mutex_unlock E l; k x rc } })"
proof (rule balI)
  fix L
  have tail: "lt L (k x 0) (\<lambda>_. L)" for x using k by (simp add: bal_def)
  show "lt L (do { rc \<leftarrow> mutex_lock E l;
    if rc \<noteq> 0 then err rc else do { x \<leftarrow> m; rc \<leftarrow> mutex_unlock E l; k x rc } }) (\<lambda>_. L)"
    using E m err k tail
    by (auto intro!: lt_mutex_lock lt_bal [OF m] lt_mutex_unlock pres_intros m [THEN bal_fault]
        err [THEN bal_fault] k [THEN bal_fault] lt_tail [OF err] simp: fun_upd_idem)
qed

end
