(* ===== verification/Session.thy ===== *)
theory Session
  imports Discipline
begin

text \<open>
  Sessions and the life cycle of the global context:
  \<^verbatim>\<open>src/pipe_mgr/shared/infra/pipe_mgr_session.c\<close> and the context part of
  \<^verbatim>\<open>pipe_mgr_shared_init.c\<close>. The session table has 16 slots, each with an
  \<^verbatim>\<open>in_use\<close> flag and a mutex; the reader-writer lock \<^verbatim>\<open>pipe_mgr_lock\<close> lets calls of
  different sessions run in parallel and gives client registration exclusive access.
\<close>

section \<open>Operations\<close>

definition get_pipe_mgr_ctx :: "('m, 'i, 'h, ptr) cmd" where
  "get_pipe_mgr_ctx = gets pipe_mgr_ctx_obj"

definition pipe_mgr_session_valid :: "nat \<Rightarrow> ('m, 'i, 'h, bool) cmd" where
  "pipe_mgr_session_valid sess_hdl =
     (if sess_hdl \<ge> P4_SDE_MAX_SESSIONS then ret False
      else do {
        c \<leftarrow> get_pipe_mgr_ctx;
        if c = NULL then ret False
        else deref (\<lambda>s. w_ctxs s c) False (\<lambda>ctx. ret (sessions ctx ! sess_hdl)) })"

definition api_enter ::
  "('m, 'i, 'h, 'z) ext_scheme \<Rightarrow> nat \<Rightarrow> bool \<Rightarrow> ('m, 'i, 'h, bf_status) cmd" where
  "api_enter E sess_hdl exclusive_lock = do {
     status \<leftarrow> (if exclusive_lock then wrlock E PIPE_MGR_LOCK else rdlock E PIPE_MGR_LOCK);
     if status \<noteq> 0 then ret BF_UNEXPECTED
     else do {
       v \<leftarrow> pipe_mgr_session_valid sess_hdl;
       if \<not> v then do { rw_unlock E PIPE_MGR_LOCK; ret BF_INVALID_ARG }
       else do {
         c \<leftarrow> get_pipe_mgr_ctx;
         if c = NULL then do { rw_unlock E PIPE_MGR_LOCK; ret BF_NOT_READY }
         else do {
           status \<leftarrow> mutex_lock E (SESS_LOCK sess_hdl);
           if status \<noteq> 0 then do { rw_unlock E PIPE_MGR_LOCK; ret BF_UNEXPECTED }
           else ret BF_SUCCESS }}}}"

definition pipe_mgr_api_enter :: "('m, 'i, 'h, 'z) ext_scheme \<Rightarrow> nat \<Rightarrow> ('m, 'i, 'h, bf_status) cmd" where
  "pipe_mgr_api_enter E sess_hdl = api_enter E sess_hdl False"

definition pipe_mgr_api_exit :: "('m, 'i, 'h, 'z) ext_scheme \<Rightarrow> nat \<Rightarrow> ('m, 'i, 'h, unit) cmd" where
  "pipe_mgr_api_exit E sess_hdl = do {
     c \<leftarrow> get_pipe_mgr_ctx;
     if c = NULL then ret ()
     else do {
       v \<leftarrow> pipe_mgr_session_valid sess_hdl;
       (if v then do { mutex_unlock E (SESS_LOCK sess_hdl); ret () } else ret ());
       rw_unlock E PIPE_MGR_LOCK;
       ret () }}"

definition pipe_mgr_api_exclusive_enter ::
  "('m, 'i, 'h, 'z) ext_scheme \<Rightarrow> nat \<Rightarrow> ('m, 'i, 'h, bf_status) cmd" where
  "pipe_mgr_api_exclusive_enter E sess_hdl = api_enter E sess_hdl True"

definition pipe_mgr_api_exclusive_exit ::
  "('m, 'i, 'h, 'z) ext_scheme \<Rightarrow> nat \<Rightarrow> ('m, 'i, 'h, unit) cmd" where
  "pipe_mgr_api_exclusive_exit E sess_hdl = pipe_mgr_api_exit E sess_hdl"

text \<open>The search loop of \<^verbatim>\<open>pipe_mgr_session_create\<close>: the first slot not in use, or the
  number of slots.\<close>

fun free_session :: "bool list \<Rightarrow> nat" where
  "free_session [] = 0"
| "free_session (u # us) = (if u then Suc (free_session us) else 0)"

definition set_session :: "ptr \<Rightarrow> nat \<Rightarrow> bool \<Rightarrow> ('m, 'i, 'h, unit) cmd" where
  "set_session c i b = modify (\<lambda>s. s\<lparr>w_ctxs := (w_ctxs s)(c :=
     map_option (\<lambda>ctx. ctx\<lparr>sessions := (sessions ctx)[i := b]\<rparr>) (w_ctxs s c))\<rparr>)"

text \<open>The out parameter is the second component, \<open>None\<close> while it is not written; the
  argument says whether the caller passed a pointer that is not \<open>NULL\<close>.\<close>

definition pipe_mgr_session_create ::
  "('m, 'i, 'h, 'z) ext_scheme \<Rightarrow> bool \<Rightarrow> ('m, 'i, 'h, bf_status \<times> nat option) cmd" where
  "pipe_mgr_session_create E sess_hdl =
     (if \<not> sess_hdl then ret (BF_INVALID_ARG, None)
      else do {
        c \<leftarrow> get_pipe_mgr_ctx;
        if c = NULL then ret (BF_NOT_READY, None)
        else deref (\<lambda>s. w_ctxs s c) (BF_UNEXPECTED, None) (\<lambda>ctx.
          let i = free_session (sessions ctx) in
          if i = P4_SDE_MAX_SESSIONS then ret (BF_MAX_SESSIONS_EXCEEDED, None)
          else do {
            status \<leftarrow> mutex_init E (SESS_LOCK i);
            if status \<noteq> 0 then ret (BF_UNEXPECTED, None)
            else do {
              set_session c i True;
              ret (BF_SUCCESS, Some i) }}) })"

definition pipe_mgr_session_destroy :: "nat \<Rightarrow> ('m, 'i, 'h, bf_status) cmd" where
  "pipe_mgr_session_destroy sess_hdl = do {
     v \<leftarrow> pipe_mgr_session_valid sess_hdl;
     if \<not> v then ret BF_SESSION_NOT_FOUND
     else do {
       c \<leftarrow> get_pipe_mgr_ctx;
       if c = NULL then ret BF_NOT_READY
       else do {
         set_session c sess_hdl False;
         lock_destroy (SESS_LOCK sess_hdl);
         ret BF_SUCCESS }}}"

definition pipe_mgr_client_init ::
  "('m, 'i, 'h, 'z) ext_scheme \<Rightarrow> bool \<Rightarrow> ('m, 'i, 'h, bf_status \<times> nat option) cmd" where
  "pipe_mgr_client_init E sess_hdl = do {
     rc \<leftarrow> wrlock E PIPE_MGR_LOCK;
     if rc \<noteq> 0 then ret (BF_UNEXPECTED, None)
     else do {
       (status, h) \<leftarrow> pipe_mgr_session_create E sess_hdl;
       rc \<leftarrow> rw_unlock E PIPE_MGR_LOCK;
       ret (if rc \<noteq> 0 \<and> status = BF_SUCCESS then BF_UNEXPECTED else status, h) }}"

definition pipe_mgr_client_cleanup ::
  "('m, 'i, 'h, 'z) ext_scheme \<Rightarrow> nat \<Rightarrow> ('m, 'i, 'h, bf_status) cmd" where
  "pipe_mgr_client_cleanup E sess_hdl = do {
     rc \<leftarrow> wrlock E PIPE_MGR_LOCK;
     if rc \<noteq> 0 then ret BF_UNEXPECTED
     else do {
       status \<leftarrow> pipe_mgr_session_destroy sess_hdl;
       rc \<leftarrow> rw_unlock E PIPE_MGR_LOCK;
       ret (if rc \<noteq> 0 \<and> status = BF_SUCCESS then BF_UNEXPECTED else status) }}"

definition free_ctx :: "ptr \<Rightarrow> ('m, 'i, 'h, unit) cmd" where
  "free_ctx c = modify (\<lambda>s. s\<lparr>w_ctxs := (w_ctxs s)(c := None)\<rparr>)"

text \<open>\<^verbatim>\<open>pipe_mgr_shared_init\<close>. The new context is visible from the moment its map is
  initialised, so it enters the heap there.\<close>

definition pipe_mgr_shared_init :: "('m, 'i, 'h, 'z) ext_scheme \<Rightarrow> ('m, 'i, 'h, bf_status) cmd" where
  "pipe_mgr_shared_init E = do {
     obj \<leftarrow> gets pipe_mgr_ctx_obj;
     if obj \<noteq> NULL then ret BF_SUCCESS
     else do {
       c \<leftarrow> calloc E;
       if c = NULL then ret BF_NO_SYS_RESOURCES
       else do {
         rc \<leftarrow> rwlock_init E PIPE_MGR_LOCK;
         if rc \<noteq> 0 then do { free_ctx c; ret BF_UNEXPECTED }
         else do {
           rc \<leftarrow> wrlock E PIPE_MGR_LOCK;
           if rc \<noteq> 0 then do { free_ctx c; ret BF_UNEXPECTED }
           else if fst (x_map_init E) \<noteq> BF_MAP_OK then do {
             rw_unlock E PIPE_MGR_LOCK;
             lock_destroy PIPE_MGR_LOCK;
             free_ctx c;
             ret BF_UNEXPECTED }
           else do {
             modify (\<lambda>s. s\<lparr>w_ctxs := (w_ctxs s)(c \<mapsto>
               \<lparr>sessions = replicate P4_SDE_MAX_SESSIONS False, dev_map = snd (x_map_init E)\<rparr>)\<rparr>);
             modify (\<lambda>s. s\<lparr>pipe_mgr_ctx_obj := c\<rparr>);
             (status, h) \<leftarrow> pipe_mgr_session_create E True;
             (case h of None \<Rightarrow> ret () | Some i \<Rightarrow> modify (\<lambda>s. s\<lparr>pipe_mgr_int_sess_hndl := i\<rparr>));
             if status \<noteq> BF_SUCCESS then do {
               rw_unlock E PIPE_MGR_LOCK;
               lock_destroy PIPE_MGR_LOCK;
               free_ctx c;
               ret status }
             else do {
               rw_unlock E PIPE_MGR_LOCK;
               ret BF_SUCCESS }}}}}}"

definition pipe_mgr_shared_cleanup :: "('m, 'i, 'h, 'z) ext_scheme \<Rightarrow> ('m, 'i, 'h, unit) cmd" where
  "pipe_mgr_shared_cleanup E = do {
     wrlock E PIPE_MGR_LOCK;
     c \<leftarrow> gets pipe_mgr_ctx_obj;
     if c = NULL then do { rw_unlock E PIPE_MGR_LOCK; ret () }
     else do {
       i \<leftarrow> gets pipe_mgr_int_sess_hndl;
       pipe_mgr_session_destroy i;
       free_ctx c;
       modify (\<lambda>s. s\<lparr>pipe_mgr_ctx_obj := NULL\<rparr>);
       rw_unlock E PIPE_MGR_LOCK;
       lock_destroy PIPE_MGR_LOCK }}"

definition pipe_mgr_get_int_sess_hdl :: "('m, 'i, 'h, bf_status \<times> nat option) cmd" where
  "pipe_mgr_get_int_sess_hdl = do {
     c \<leftarrow> gets pipe_mgr_ctx_obj;
     if c = NULL then ret (BF_NOT_READY, None)
     else do {
       i \<leftarrow> gets pipe_mgr_int_sess_hndl;
       ret (BF_SUCCESS, Some i) }}"

section \<open>Well-formed states\<close>

definition the_ctx :: "('m, 'i, 'h) world \<Rightarrow> 'm pipe_mgr_ctx option" where
  "the_ctx s = (if pipe_mgr_ctx_obj s = NULL then None else w_ctxs s (pipe_mgr_ctx_obj s))"

text \<open>The sessions in use.\<close>

definition live_sessions :: "('m, 'i, 'h) world \<Rightarrow> nat set" where
  "live_sessions s = (case the_ctx s of
     None \<Rightarrow> {} | Some ctx \<Rightarrow> {i. i < P4_SDE_MAX_SESSIONS \<and> sessions ctx ! i})"

text \<open>The context pointer is \<open>NULL\<close> or points to a context with all its slots; the mutex of
  a slot is initialised exactly while the slot is in use.\<close>

definition sess_wf :: "('m, 'i, 'h) world \<Rightarrow> bool" where
  "sess_wf s \<longleftrightarrow> pipe_mgr_ctx_obj s = NULL \<or>
     (\<exists>ctx. w_ctxs s (pipe_mgr_ctx_obj s) = Some ctx \<and>
        length (sessions ctx) = P4_SDE_MAX_SESSIONS \<and> os_locks s PIPE_MGR_LOCK \<noteq> Dead \<and>
        (\<forall>i < P4_SDE_MAX_SESSIONS. sessions ctx ! i \<longleftrightarrow> os_locks s (SESS_LOCK i) \<noteq> Dead))"

lemma free_session_le: "free_session us \<le> length us"
  by (induction us) auto

lemma free_session_used: "i < free_session us \<Longrightarrow> us ! i"
  by (induction us arbitrary: i) (auto simp: nth_Cons split: if_splits nat.splits)

lemma free_session_free: "free_session us < length us \<Longrightarrow> \<not> us ! free_session us"
  by (induction us) auto

lemmas session_defs = get_pipe_mgr_ctx_def pipe_mgr_session_valid_def set_session_def free_ctx_def

lemma wp_session_valid [wp_simps]:
  "wp (pipe_mgr_session_valid h) Q s =
   (if h \<ge> P4_SDE_MAX_SESSIONS \<or> pipe_mgr_ctx_obj s = NULL then Q False s
    else case w_ctxs s (pipe_mgr_ctx_obj s) of
      None \<Rightarrow> Q False (s\<lparr>os_fault := True\<rparr>)
    | Some ctx \<Rightarrow> Q (sessions ctx ! h) s)"
  by (simp add: session_defs wp_simps split: option.split)

lemma session_valid_run:
  "sess_wf s \<Longrightarrow> run_state (pipe_mgr_session_valid h) s = (h \<in> live_sessions s, s)"
  by (auto simp: session_defs deref_def sess_wf_def live_sessions_def the_ctx_def split: option.splits)

section \<open>The lock effect of entering and leaving\<close>

lemma fault_session_ops [pres_intros]:
  "pres os_fault get_pipe_mgr_ctx" "pres os_fault (pipe_mgr_session_valid h)"
  "pres os_fault (set_session c i b)" "pres os_fault (free_ctx c)"
  "pres os_fault (pipe_mgr_session_create E nn)" "pres os_fault (pipe_mgr_session_destroy h)"
  by (auto simp: session_defs pipe_mgr_session_create_def pipe_mgr_session_destroy_def
      intro!: pres_intros)

lemma bal_session_ops [bal_ops]:
  "bal get_pipe_mgr_ctx" "bal (pipe_mgr_session_valid h)"
  by (auto simp: session_defs intro!: bal_intros bal_ops)

text \<open>Entering succeeds with both locks held and fails with the locks as they were.\<close>

lemma lt_api_enter:
  assumes "unlock_ok E"
  shows "lt L (api_enter E h x) (\<lambda>st. if st = BF_SUCCESS
    then L(PIPE_MGR_LOCK := the ((if x then take_excl else take_shared) (L PIPE_MGR_LOCK)),
           SESS_LOCK h := Held)
    else L)"
  using assms unfolding api_enter_def
  by (cases x)
     (auto intro!: lt_intros bal_ops [THEN lt_bal] pres_intros simp: release_take_shared)

text \<open>Leaving releases what entering took.\<close>

lemma wp_mutex_unlock_held:
  "unlock_ok E \<Longrightarrow> os_locks s l = Held \<Longrightarrow>
   wp (mutex_unlock E l) Q s = Q 0 (s\<lparr>os_clk := Suc (os_clk s), os_locks := (os_locks s)(l := Free)\<rparr>)"
  by (simp add: mutex_unlock_def wp_lock_op unlock_ok_def Let_def)

lemma wp_rw_unlock_held:
  "unlock_ok E \<Longrightarrow> release (os_locks s l) = Some y \<Longrightarrow>
   wp (rw_unlock E l) Q s = Q 0 (s\<lparr>os_clk := Suc (os_clk s), os_locks := (os_locks s)(l := y)\<rparr>)"
  by (simp add: rw_unlock_def wp_lock_op unlock_ok_def Let_def)

lemma wp_api_exit:
  assumes "unlock_ok E" "h \<in> live_sessions s" "os_locks s (SESS_LOCK h) = Held"
    "release (os_locks s PIPE_MGR_LOCK) = Some y"
  shows "wp (pipe_mgr_api_exit E h) (\<lambda>_ t. t = s\<lparr>os_clk := Suc (Suc (os_clk s)),
    os_locks := (os_locks s)(SESS_LOCK h := Free, PIPE_MGR_LOCK := y)\<rparr>) s"
  using assms
  by (auto simp: pipe_mgr_api_exit_def get_pipe_mgr_ctx_def wp_simps wp_mutex_unlock_held
      wp_rw_unlock_held live_sessions_def the_ctx_def split: option.splits if_splits)

section \<open>Registration refines a set of handles\<close>

text \<open>The abstract registry is the set of handles in use. Registration hands out the least
  free handle below 16.\<close>

definition spec_create :: "nat set \<Rightarrow> (bf_status \<times> nat option) \<times> nat set" where
  "spec_create A = (case filter (\<lambda>i. i \<notin> A) [0..<P4_SDE_MAX_SESSIONS] of
     [] \<Rightarrow> ((BF_MAX_SESSIONS_EXCEEDED, None), A)
   | i # _ \<Rightarrow> ((BF_SUCCESS, Some i), insert i A))"

definition spec_destroy :: "nat \<Rightarrow> nat set \<Rightarrow> bf_status \<times> nat set" where
  "spec_destroy i A = (if i \<in> A then (BF_SUCCESS, A - {i}) else (BF_SESSION_NOT_FOUND, A))"

lemma filter_upt_first:
  assumes "\<And>i. i < k \<Longrightarrow> \<not> P i" "P k" "k < n"
  shows "\<exists>ks. filter P [0..<n] = k # ks"
proof -
  have "[0..<n] = [0..<k] @ k # [Suc k..<n]"
    using assms(3) by (metis le_add1 add_0 less_imp_le upt_add_eq_append upt_conv_Cons le_add_diff_inverse)
  with assms show ?thesis by simp
qed

lemma spec_create_free_session:
  assumes len: "length us = P4_SDE_MAX_SESSIONS" and A: "A = {i. i < P4_SDE_MAX_SESSIONS \<and> us ! i}"
  shows "spec_create A =
    (if free_session us = P4_SDE_MAX_SESSIONS then ((BF_MAX_SESSIONS_EXCEEDED, None), A)
     else ((BF_SUCCESS, Some (free_session us)), insert (free_session us) A))"
proof (cases "free_session us = P4_SDE_MAX_SESSIONS")
  case True
  then have "filter (\<lambda>i. i \<notin> A) [0..<P4_SDE_MAX_SESSIONS] = []"
    using free_session_used [of _ us] by (auto simp: A filter_empty_conv)
  with True show ?thesis by (simp add: spec_create_def)
next
  case False
  with free_session_le [of us] len have lt: "free_session us < P4_SDE_MAX_SESSIONS" by simp
  with free_session_free [of us] free_session_used [of _ us] len
  have "\<exists>ks. filter (\<lambda>i. i \<notin> A) [0..<P4_SDE_MAX_SESSIONS] = free_session us # ks"
    by (intro filter_upt_first) (auto simp: A)
  with False show ?thesis by (auto simp: spec_create_def)
qed

text \<open>A state between two calls: the context exists and nobody holds \<^verbatim>\<open>pipe_mgr_lock\<close>.\<close>

definition registry_idle :: "('m, 'i, 'h) world \<Rightarrow> bool" where
  "registry_idle s \<longleftrightarrow> sess_wf s \<and> pipe_mgr_ctx_obj s \<noteq> NULL \<and> os_locks s PIPE_MGR_LOCK = Free"

lemma session_create_spec:
  assumes "sess_wf s" "pipe_mgr_ctx_obj s \<noteq> NULL"
  shows "wp (pipe_mgr_session_create E True) (\<lambda>r t.
      sess_wf t \<and> os_fault t = os_fault s \<and> pipe_mgr_ctx_obj t = pipe_mgr_ctx_obj s \<and>
      os_locks t PIPE_MGR_LOCK = os_locks s PIPE_MGR_LOCK \<and>
      (spec_create (live_sessions s) = (r, live_sessions t) \<or>
       r = (BF_UNEXPECTED, None) \<and> live_sessions t = live_sessions s \<and> \<not> locks_ok E)) s"
proof -
  from assms obtain ctx where ctx: "w_ctxs s (pipe_mgr_ctx_obj s) = Some ctx"
      and len: "length (sessions ctx) = P4_SDE_MAX_SESSIONS" and lock: "os_locks s PIPE_MGR_LOCK \<noteq> Dead"
      and live: "\<And>i. i < P4_SDE_MAX_SESSIONS \<Longrightarrow> sessions ctx ! i \<longleftrightarrow> os_locks s (SESS_LOCK i) \<noteq> Dead"
    by (auto simp: sess_wf_def)
  let ?i = "free_session (sessions ctx)"
  have A: "live_sessions s = {i. i < P4_SDE_MAX_SESSIONS \<and> sessions ctx ! i}"
    using assms ctx by (simp add: live_sessions_def the_ctx_def)
  have i: "?i \<noteq> P4_SDE_MAX_SESSIONS \<Longrightarrow> ?i < P4_SDE_MAX_SESSIONS"
    using free_session_le [of "sessions ctx"] len by simp
  show ?thesis
    using assms ctx len lock live i
    by (auto simp: pipe_mgr_session_create_def session_defs wp_simps mutex_init_def wp_lock_op Let_def
        spec_create_free_session [OF len A] sess_wf_def nth_list_update locks_ok_def)
      (auto simp: live_sessions_def the_ctx_def nth_list_update split: if_splits)
qed

lemma session_destroy_spec:
  assumes "sess_wf s" "pipe_mgr_ctx_obj s \<noteq> NULL"
  shows "wp (pipe_mgr_session_destroy h) (\<lambda>r t.
      sess_wf t \<and> os_fault t = os_fault s \<and> pipe_mgr_ctx_obj t = pipe_mgr_ctx_obj s \<and>
      os_locks t PIPE_MGR_LOCK = os_locks s PIPE_MGR_LOCK \<and>
      spec_destroy h (live_sessions s) = (r, live_sessions t)) s"
  using assms
  by (auto simp: pipe_mgr_session_destroy_def session_defs lock_destroy_def wp_simps spec_destroy_def
      sess_wf_def live_sessions_def the_ctx_def nth_list_update split: if_splits)

text \<open>A client call brackets the registry operation with the writer lock.\<close>

lemma wp_wrlock_free:
  "os_locks s l = Free \<Longrightarrow>
   wp (wrlock E l) Q s =
   (let s' = s\<lparr>os_clk := Suc (os_clk s)\<rparr>; rc = x_wrlock E (os_clk s) in
    if rc \<noteq> 0 then Q rc s' else Q 0 (s'\<lparr>os_locks := (os_locks s)(l := Held)\<rparr>))"
  by (simp add: wrlock_def wp_lock_op Let_def)

lemma sess_wf_locks:
  "sess_wf s \<Longrightarrow> y \<noteq> Dead \<Longrightarrow> sess_wf (s\<lparr>os_clk := n, os_locks := (os_locks s)(PIPE_MGR_LOCK := y)\<rparr>)"
  by (auto simp: sess_wf_def)

lemma live_sessions_os [simp]:
  "live_sessions (s\<lparr>os_clk := n\<rparr>) = live_sessions s"
  "live_sessions (s\<lparr>os_locks := L\<rparr>) = live_sessions s"
  "live_sessions (s\<lparr>os_fault := b\<rparr>) = live_sessions s"
  by (simp_all add: live_sessions_def the_ctx_def)

lemma sess_wf_clk [simp]: "sess_wf (s\<lparr>os_clk := n\<rparr>) = sess_wf s"
  by (simp add: sess_wf_def)

lemma client_init_spec:
  assumes "unlock_ok E" "registry_idle s"
  shows "wp (pipe_mgr_client_init E True) (\<lambda>r t. registry_idle t \<and> os_fault t = os_fault s \<and>
      (spec_create (live_sessions s) = (r, live_sessions t) \<or>
       r = (BF_UNEXPECTED, None) \<and> live_sessions t = live_sessions s \<and> \<not> locks_ok E)) s"
proof (cases "x_wrlock E (os_clk s) = 0")
  case True
  let ?s = "s\<lparr>os_clk := Suc (os_clk s), os_locks := (os_locks s)(PIPE_MGR_LOCK := Held)\<rparr>"
  have wf: "sess_wf ?s" "pipe_mgr_ctx_obj ?s \<noteq> NULL"
    using assms(2) by (auto simp: registry_idle_def intro: sess_wf_locks)
  show ?thesis
    using True assms
    by (simp add: pipe_mgr_client_init_def wp_simps wp_wrlock_free registry_idle_def Let_def)
      (rule wp_conseq [OF session_create_spec [OF wf]],
       auto simp: wp_rw_unlock_held wp_simps sess_wf_locks split: prod.splits)
qed (use assms in \<open>auto simp: pipe_mgr_client_init_def wp_simps wp_wrlock_free registry_idle_def Let_def locks_ok_def\<close>)

lemma client_cleanup_spec:
  assumes "unlock_ok E" "registry_idle s"
  shows "wp (pipe_mgr_client_cleanup E h) (\<lambda>r t. registry_idle t \<and> os_fault t = os_fault s \<and>
      (spec_destroy h (live_sessions s) = (r, live_sessions t) \<or>
       r = BF_UNEXPECTED \<and> live_sessions t = live_sessions s \<and> \<not> locks_ok E)) s"
proof (cases "x_wrlock E (os_clk s) = 0")
  case True
  let ?s = "s\<lparr>os_clk := Suc (os_clk s), os_locks := (os_locks s)(PIPE_MGR_LOCK := Held)\<rparr>"
  have wf: "sess_wf ?s" "pipe_mgr_ctx_obj ?s \<noteq> NULL"
    using assms(2) by (auto simp: registry_idle_def intro: sess_wf_locks)
  show ?thesis
    using True assms
    by (simp add: pipe_mgr_client_cleanup_def wp_simps wp_wrlock_free registry_idle_def Let_def)
      (rule wp_conseq [OF session_destroy_spec [OF wf]],
       auto simp: wp_rw_unlock_held wp_simps sess_wf_locks)
qed (use assms in \<open>auto simp: pipe_mgr_client_cleanup_def wp_simps wp_wrlock_free registry_idle_def Let_def locks_ok_def\<close>)

text \<open>Initialisation creates the context with the internal session only.\<close>

definition uninit :: "('m, 'i, 'h) world \<Rightarrow> bool" where
  "uninit s \<longleftrightarrow> pipe_mgr_ctx_obj s = NULL \<and> (\<forall>i. os_locks s (SESS_LOCK i) = Dead)"

lemma shared_init_spec:
  assumes "unlock_ok E" "uninit s"
  shows "wp (pipe_mgr_shared_init E) (\<lambda>r t. os_fault t = os_fault s \<and>
      (r = BF_SUCCESS \<longrightarrow> registry_idle t \<and> live_sessions t = {0} \<and> pipe_mgr_int_sess_hndl t = 0)) s"
  using assms
  by (auto simp: pipe_mgr_shared_init_def pipe_mgr_session_create_def session_defs wp_simps
      lock_destroy_def rwlock_init_def wrlock_def mutex_init_def wp_lock_op wp_rw_unlock_held Let_def
      uninit_def numeral_eq_Suc)
   (auto simp: registry_idle_def sess_wf_def live_sessions_def the_ctx_def nth_Cons split: nat.splits)

section \<open>Sequences of client calls\<close>

datatype sess_op = OpInit | OpCleanup nat

definition run_sess_op ::
  "('m, 'i, 'h, 'z) ext_scheme \<Rightarrow> sess_op \<Rightarrow> ('m, 'i, 'h, bf_status \<times> nat option) cmd" where
  "run_sess_op E op = (case op of
     OpInit \<Rightarrow> pipe_mgr_client_init E True
   | OpCleanup h \<Rightarrow> do { st \<leftarrow> pipe_mgr_client_cleanup E h; ret (st, None) })"

definition spec_sess_op :: "sess_op \<Rightarrow> nat set \<Rightarrow> (bf_status \<times> nat option) \<times> nat set" where
  "spec_sess_op op A = (case op of
     OpInit \<Rightarrow> spec_create A
   | OpCleanup h \<Rightarrow> (case spec_destroy h A of (st, B) \<Rightarrow> ((st, None), B)))"

primrec run_sess_ops ::
  "('m, 'i, 'h, 'z) ext_scheme \<Rightarrow> sess_op list \<Rightarrow> ('m, 'i, 'h, (bf_status \<times> nat option) list) cmd" where
  "run_sess_ops E [] = ret []"
| "run_sess_ops E (op # ops) = do {
     r \<leftarrow> run_sess_op E op;
     rs \<leftarrow> run_sess_ops E ops;
     ret (r # rs) }"

primrec spec_sess_ops :: "sess_op list \<Rightarrow> nat set \<Rightarrow> (bf_status \<times> nat option) list \<times> nat set" where
  "spec_sess_ops [] A = ([], A)"
| "spec_sess_ops (op # ops) A =
     (case spec_sess_op op A of (r, B) \<Rightarrow> (case spec_sess_ops ops B of (rs, C) \<Rightarrow> (r # rs, C)))"

lemma run_sess_op_spec:
  assumes "locks_ok E" "registry_idle s"
  shows "wp (run_sess_op E op) (\<lambda>r t. registry_idle t \<and> os_fault t = os_fault s \<and>
      spec_sess_op op (live_sessions s) = (r, live_sessions t)) s"
proof (cases op)
  case OpInit
  with assms show ?thesis
    by (auto simp: run_sess_op_def spec_sess_op_def
        intro: wp_conseq [OF client_init_spec [OF locks_ok_unlock]])
next
  case (OpCleanup h)
  with assms show ?thesis
    by (auto simp: run_sess_op_def spec_sess_op_def wp_simps
        intro: wp_conseq [OF client_cleanup_spec [OF locks_ok_unlock]])
qed

lemma run_sess_ops_spec:
  assumes "locks_ok E" "registry_idle s"
  shows "wp (run_sess_ops E ops) (\<lambda>rs t. registry_idle t \<and> os_fault t = os_fault s \<and>
      spec_sess_ops ops (live_sessions s) = (rs, live_sessions t)) s"
  using assms(2)
proof (induction ops arbitrary: s)
  case (Cons op ops)
  show ?case
    by (simp add: wp_simps, rule wp_conseq [OF run_sess_op_spec [OF assms(1) Cons.prems]])
      (auto simp: wp_bind wp_return intro!: wp_conseq [OF Cons.IH] split: prod.splits)
qed (simp add: wp_simps)

end
