(* ===== verification/Session_Conc.thy ===== *)
theory Session_Conc
  imports Session "HOL-Library.Transitive_Closure_Table"
begin

text \<open>
  Threads that call the pipeline manager at the same time. Each thread is at a point of the
  bracket that \<^verbatim>\<open>api_enter\<close>, \<^verbatim>\<open>pipe_mgr_api_exit\<close>, \<^verbatim>\<open>pipe_mgr_client_init\<close> and
  \<^verbatim>\<open>pipe_mgr_client_cleanup\<close> put around their work; a step is one lock operation of one
  thread. A thread whose next lock operation cannot succeed waits; a session whose mutex is
  not initialised is refused. Lock operations that report an error are left out: they
  leave the locks as they were. The sequential
  definitions of \<open>Session\<close> are runs of this relation (\<open>api_enter_steps\<close> and the lemmas
  after it).
\<close>

section \<open>Steps\<close>

text \<open>\<open>Entered x h\<close>: holds \<^verbatim>\<open>pipe_mgr_lock\<close> (exclusively if \<open>x\<close>), wants the mutex of
  session \<open>h\<close>. \<open>Inside x h\<close>: holds both. \<open>Leaving x\<close>: has given back the mutex.
  \<open>Admin\<close>: in \<^verbatim>\<open>client_init\<close> or \<^verbatim>\<open>client_cleanup\<close>.\<close>

datatype pc = Out | Entered bool nat | Inside bool nat | Leaving bool | Admin

record sys =
  locks :: "lock_id \<Rightarrow> lockst"
  pcs :: "nat \<Rightarrow> pc"

definition enter_mode :: "bool \<Rightarrow> lockst \<Rightarrow> lockst option" where
  "enter_mode x = (if x then take_excl else take_shared)"

definition goto :: "nat \<Rightarrow> pc \<Rightarrow> lock_id \<Rightarrow> lockst \<Rightarrow> sys \<Rightarrow> sys" where
  "goto t p l y \<sigma> = \<sigma>\<lparr>locks := (locks \<sigma>)(l := y), pcs := (pcs \<sigma>)(t := p)\<rparr>"

inductive step :: "sys \<Rightarrow> sys \<Rightarrow> bool" where
  enter: "pcs \<sigma> t = Out \<Longrightarrow> enter_mode x (locks \<sigma> PIPE_MGR_LOCK) = Some y \<Longrightarrow>
    step \<sigma> (goto t (Entered x h) PIPE_MGR_LOCK y \<sigma>)"
| refuse: "pcs \<sigma> t = Entered x h \<Longrightarrow> locks \<sigma> (SESS_LOCK h) = Dead \<Longrightarrow> release (locks \<sigma> PIPE_MGR_LOCK) = Some y \<Longrightarrow>
    step \<sigma> (goto t Out PIPE_MGR_LOCK y \<sigma>)"
| session: "pcs \<sigma> t = Entered x h \<Longrightarrow> take_excl (locks \<sigma> (SESS_LOCK h)) = Some y \<Longrightarrow>
    step \<sigma> (goto t (Inside x h) (SESS_LOCK h) y \<sigma>)"
| unlock: "pcs \<sigma> t = Inside x h \<Longrightarrow> release (locks \<sigma> (SESS_LOCK h)) = Some y \<Longrightarrow>
    step \<sigma> (goto t (Leaving x) (SESS_LOCK h) y \<sigma>)"
| leave: "pcs \<sigma> t = Leaving x \<Longrightarrow> release (locks \<sigma> PIPE_MGR_LOCK) = Some y \<Longrightarrow>
    step \<sigma> (goto t Out PIPE_MGR_LOCK y \<sigma>)"
| admin: "pcs \<sigma> t = Out \<Longrightarrow> take_excl (locks \<sigma> PIPE_MGR_LOCK) = Some y \<Longrightarrow>
    step \<sigma> (goto t Admin PIPE_MGR_LOCK y \<sigma>)"
| create: "pcs \<sigma> t = Admin \<Longrightarrow> locks \<sigma> (SESS_LOCK h) = Dead \<Longrightarrow>
    step \<sigma> (goto t Admin (SESS_LOCK h) Free \<sigma>)"
| destroy: "pcs \<sigma> t = Admin \<Longrightarrow> locks \<sigma> (SESS_LOCK h) \<noteq> Dead \<Longrightarrow>
    step \<sigma> (goto t Admin (SESS_LOCK h) Dead \<sigma>)"
| admin_done: "pcs \<sigma> t = Admin \<Longrightarrow> release (locks \<sigma> PIPE_MGR_LOCK) = Some y \<Longrightarrow>
    step \<sigma> (goto t Out PIPE_MGR_LOCK y \<sigma>)"

inductive_cases stepE: "step \<sigma> \<tau>"

text \<open>The state that \<^verbatim>\<open>pipe_mgr_shared_init\<close> leaves: nobody inside, no lock held.\<close>

definition sys_init :: "sys \<Rightarrow> bool" where
  "sys_init \<sigma> \<longleftrightarrow> (\<forall>t. pcs \<sigma> t = Out) \<and> locks \<sigma> PIPE_MGR_LOCK = Free \<and>
     (\<forall>h. locks \<sigma> (SESS_LOCK h) \<noteq> Held \<and> (\<forall>n. locks \<sigma> (SESS_LOCK h) \<noteq> Rd n))"

definition reachable :: "sys \<Rightarrow> bool" where
  "reachable \<sigma> \<longleftrightarrow> (\<exists>\<sigma>0. sys_init \<sigma>0 \<and> step\<^sup>*\<^sup>* \<sigma>0 \<sigma>)"

section \<open>Invariant\<close>

definition holders :: "sys \<Rightarrow> nat set" where
  "holders \<sigma> = {t. pcs \<sigma> t \<noteq> Out}"

fun exclusive :: "pc \<Rightarrow> bool" where
  "exclusive (Entered x _) = x"
| "exclusive (Inside x _) = x"
| "exclusive (Leaving x) = x"
| "exclusive Admin = True"
| "exclusive Out = False"

fun inside :: "pc \<Rightarrow> nat option" where
  "inside (Inside _ h) = Some h"
| "inside _ = None"

definition lock_of_holders :: "sys \<Rightarrow> bool" where
  "lock_of_holders \<sigma> \<longleftrightarrow> (case locks \<sigma> PIPE_MGR_LOCK of
     Dead \<Rightarrow> False
   | Free \<Rightarrow> holders \<sigma> = {}
   | Rd n \<Rightarrow> finite (holders \<sigma>) \<and> card (holders \<sigma>) = Suc n \<and> (\<forall>t. \<not> exclusive (pcs \<sigma> t))
   | Held \<Rightarrow> (\<exists>t. holders \<sigma> = {t} \<and> exclusive (pcs \<sigma> t)))"

definition insiders :: "sys \<Rightarrow> nat \<Rightarrow> nat set" where
  "insiders \<sigma> h = {t. inside (pcs \<sigma> t) = Some h}"

definition lock_of_sessions :: "sys \<Rightarrow> bool" where
  "lock_of_sessions \<sigma> \<longleftrightarrow> (\<forall>h. case locks \<sigma> (SESS_LOCK h) of
     Rd n \<Rightarrow> False
   | Held \<Rightarrow> (\<exists>t. insiders \<sigma> h = {t})
   | _ \<Rightarrow> insiders \<sigma> h = {})"

definition conc_inv :: "sys \<Rightarrow> bool" where
  "conc_inv \<sigma> \<longleftrightarrow> lock_of_holders \<sigma> \<and> lock_of_sessions \<sigma>"

lemma goto_simps [simp]:
  "locks (goto t p l y \<sigma>) = (locks \<sigma>)(l := y)" "pcs (goto t p l y \<sigma>) = (pcs \<sigma>)(t := p)"
  by (simp_all add: goto_def)

lemma holders_goto:
  "holders (goto t p l y \<sigma>) = (if p = Out then holders \<sigma> - {t} else insert t (holders \<sigma>))"
  by (auto simp: holders_def)

lemma take_shared_Some:
  "take_shared x = Some y \<longleftrightarrow> x = Free \<and> y = Rd 0 \<or> (\<exists>n. x = Rd n \<and> y = Rd (Suc n))"
  by (cases x) auto

lemma release_Some:
  "release x = Some y \<longleftrightarrow> x = Held \<and> y = Free \<or> x = Rd 0 \<and> y = Free \<or>
     (\<exists>n. x = Rd (Suc n) \<and> y = Rd n)"
  by (cases x rule: release.cases) auto

lemma holders_empty: "holders \<sigma> = {} \<longleftrightarrow> (\<forall>t. pcs \<sigma> t = Out)"
  by (auto simp: holders_def)

text \<open>Taking and giving back \<^verbatim>\<open>pipe_mgr_lock\<close>.\<close>

lemma holders_take:
  assumes inv: "lock_of_holders \<sigma>" and out: "pcs \<sigma> t = Out" and p: "p \<noteq> Out"
    and y: "enter_mode (exclusive p) (locks \<sigma> PIPE_MGR_LOCK) = Some y"
  shows "lock_of_holders (goto t p PIPE_MGR_LOCK y \<sigma>)"
proof -
  have t: "t \<notin> holders \<sigma>" using out by (simp add: holders_def)
  have none: "\<not> exclusive (pcs \<sigma> u)" if "holders \<sigma> = {}" for u
    using that by (simp add: holders_empty)
  show ?thesis
    using inv y p t none
    by (auto simp: lock_of_holders_def enter_mode_def take_shared_Some holders_goto
        split: if_splits lockst.splits)
qed

lemma holders_release:
  assumes inv: "lock_of_holders \<sigma>" and t: "t \<in> holders \<sigma>"
    and y: "release (locks \<sigma> PIPE_MGR_LOCK) = Some y"
  shows "lock_of_holders (goto t Out PIPE_MGR_LOCK y \<sigma>)"
  using inv y t
  by (auto simp: lock_of_holders_def release_Some holders_goto card_Diff_singleton card_Suc_eq
      split: lockst.splits)

lemma holders_move:
  assumes "lock_of_holders \<sigma>" "t \<in> holders \<sigma>" "p \<noteq> Out" "exclusive p = exclusive (pcs \<sigma> t)"
    "l \<noteq> PIPE_MGR_LOCK"
  shows "lock_of_holders (goto t p l y \<sigma>)"
  using assms
  by (auto simp: lock_of_holders_def holders_goto insert_absorb split: lockst.splits)

text \<open>An administrator is alone: no session mutex is held.\<close>

lemma admin_alone:
  assumes "conc_inv \<sigma>" "exclusive (pcs \<sigma> t)" "u \<noteq> t"
  shows "pcs \<sigma> u = Out"
proof -
  have "t \<in> holders \<sigma>" using assms(2) by (cases "pcs \<sigma> t") (auto simp: holders_def)
  with assms show ?thesis
    by (auto simp: conc_inv_def lock_of_holders_def holders_def set_eq_iff split: lockst.splits)
qed

lemma step_holders:
  assumes "step \<sigma> \<tau>" "lock_of_holders \<sigma>"
  shows "lock_of_holders \<tau>"
  using assms(1)
proof cases
  case (enter t x y h)
  with assms(2) show ?thesis by (auto intro!: holders_take)
next
  case (admin t y)
  with assms(2) show ?thesis by (auto intro!: holders_take simp: enter_mode_def)
qed (use assms(2) in \<open>auto intro!: holders_release holders_move simp: holders_def\<close>)

lemma insiders_goto:
  "insiders (goto t p l y \<sigma>) h =
   (if inside p = Some h then insert t (insiders \<sigma> h) else insiders \<sigma> h - {t})"
  by (auto simp: insiders_def)

lemma insiders_iff: "t \<in> insiders \<sigma> h \<longleftrightarrow> inside (pcs \<sigma> t) = Some h"
  by (simp add: insiders_def)

lemma sessionsD: "lock_of_sessions \<sigma> \<Longrightarrow> case locks \<sigma> (SESS_LOCK h) of
     Rd n \<Rightarrow> False
   | Held \<Rightarrow> (\<exists>t. insiders \<sigma> h = {t})
   | _ \<Rightarrow> insiders \<sigma> h = {}"
  by (simp add: lock_of_sessions_def)

lemma sessions_other:
  assumes "lock_of_sessions \<sigma>" "l \<noteq> SESS_LOCK h" "inside p = Some h \<longleftrightarrow> t \<in> insiders \<sigma> h"
  shows "case locks (goto t p l y \<sigma>) (SESS_LOCK h) of
     Rd n \<Rightarrow> False
   | Held \<Rightarrow> (\<exists>u. insiders (goto t p l y \<sigma>) h = {u})
   | _ \<Rightarrow> insiders (goto t p l y \<sigma>) h = {}"
proof -
  have "insiders (goto t p l y \<sigma>) h = insiders \<sigma> h"
    using assms(3) by (auto simp: insiders_goto)
  with assms(1,2) show ?thesis using sessionsD [of \<sigma> h] by (auto split: lockst.splits)
qed

lemma sessions_outer:
  assumes "lock_of_sessions \<sigma>" "inside p = inside (pcs \<sigma> t)"
  shows "lock_of_sessions (goto t p PIPE_MGR_LOCK y \<sigma>)"
  unfolding lock_of_sessions_def
  by (intro allI sessions_other assms(1)) (simp_all add: assms(2) insiders_iff)

lemma sessions_inner:
  assumes "lock_of_sessions \<sigma>" "\<And>h'. h' \<noteq> h \<Longrightarrow> inside p \<noteq> Some h' \<and> inside (pcs \<sigma> t) \<noteq> Some h'"
    and "case y of Rd n \<Rightarrow> False | Held \<Rightarrow> inside p = Some h \<and> insiders \<sigma> h = {}
      | _ \<Rightarrow> inside p = None \<and> insiders \<sigma> h \<subseteq> {t}"
  shows "lock_of_sessions (goto t p (SESS_LOCK h) y \<sigma>)"
  unfolding lock_of_sessions_def
proof
  fix h'
  show "case locks (goto t p (SESS_LOCK h) y \<sigma>) (SESS_LOCK h') of
     Rd n \<Rightarrow> False
   | Held \<Rightarrow> (\<exists>u. insiders (goto t p (SESS_LOCK h) y \<sigma>) h' = {u})
   | _ \<Rightarrow> insiders (goto t p (SESS_LOCK h) y \<sigma>) h' = {}"
  proof (cases "h' = h")
    case True
    with assms(3) show ?thesis by (auto simp: insiders_goto split: lockst.splits)
  next
    case False
    with assms show ?thesis by (intro sessions_other) (auto simp: insiders_iff)
  qed
qed

lemma admin_nobody_inside:
  assumes "conc_inv \<sigma>" "pcs \<sigma> t = Admin"
  shows "inside (pcs \<sigma> u) = None"
  using admin_alone [OF assms(1), of t u] assms(2) by (cases "u = t") auto

lemma step_sessions:
  assumes "step \<sigma> \<tau>" "conc_inv \<sigma>"
  shows "lock_of_sessions \<tau>"
  using assms(1)
proof cases
  case (session t x h y)
  with assms(2) sessionsD [of \<sigma> h] show ?thesis
    by (auto simp: conc_inv_def intro!: sessions_inner)
next
  case (unlock t x h y)
  then have t: "t \<in> insiders \<sigma> h" by (simp add: insiders_iff)
  with unlock assms(2) sessionsD [of \<sigma> h] show ?thesis
    by (auto simp: conc_inv_def release_Some intro!: sessions_inner split: lockst.splits)
next
  case (create t h)
  with admin_nobody_inside [OF assms(2), of t] assms(2) show ?thesis
    by (auto simp: conc_inv_def insiders_def intro!: sessions_inner)
next
  case (destroy t h)
  with admin_nobody_inside [OF assms(2), of t] assms(2) show ?thesis
    by (auto simp: conc_inv_def insiders_def intro!: sessions_inner)
qed (use assms(2) in \<open>auto simp: conc_inv_def intro!: sessions_outer\<close>)

lemma init_conc_inv: "sys_init \<sigma> \<Longrightarrow> conc_inv \<sigma>"
  by (auto simp: sys_init_def conc_inv_def lock_of_holders_def lock_of_sessions_def holders_def
      insiders_def split: lockst.split)

lemma reachable_inv: "reachable \<sigma> \<Longrightarrow> conc_inv \<sigma>"
proof -
  have "step\<^sup>*\<^sup>* \<sigma>0 \<sigma> \<Longrightarrow> conc_inv \<sigma>0 \<Longrightarrow> conc_inv \<sigma>" for \<sigma>0
    by (induction rule: rtranclp_induct)
      (auto dest: step_holders step_sessions simp: conc_inv_def)
  then show "reachable \<sigma> \<Longrightarrow> conc_inv \<sigma>"
    by (auto simp: reachable_def dest: init_conc_inv)
qed

section \<open>The sequential code runs these steps\<close>

lemma api_enter_locks:
  assumes "unlock_ok E"
  shows "wp (api_enter E h x) (\<lambda>st t. os_fault t \<or>
    (if st = BF_SUCCESS
     then \<exists>y. enter_mode x (os_locks s PIPE_MGR_LOCK) = Some y \<and> os_locks s (SESS_LOCK h) = Free \<and>
       os_locks t = (os_locks s)(PIPE_MGR_LOCK := y, SESS_LOCK h := Held)
     else os_locks t = os_locks s)) s"
  using assms
  by (cases x)
    (auto simp: api_enter_def get_pipe_mgr_ctx_def wp_simps wrlock_def rdlock_def mutex_lock_def
      rw_unlock_def wp_lock_op enter_mode_def unlock_ok_def Let_def
      dest: release_take_shared release_take_excl split: option.splits)

lemma api_enter_steps:
  assumes "unlock_ok E" "run_state (api_enter E h x) s = (st, s')" "\<not> os_fault s'"
    and "locks \<sigma> = os_locks s" "pcs \<sigma> t = Out"
  shows "\<exists>\<tau>. step\<^sup>*\<^sup>* \<sigma> \<tau> \<and> locks \<tau> = os_locks s' \<and>
    pcs \<tau> = (pcs \<sigma>)(t := if st = BF_SUCCESS then Inside x h else Out)"
proof (cases "st = BF_SUCCESS")
  case True
  then obtain y where y: "enter_mode x (locks \<sigma> PIPE_MGR_LOCK) = Some y" "locks \<sigma> (SESS_LOCK h) = Free"
      "os_locks s' = (locks \<sigma>)(PIPE_MGR_LOCK := y, SESS_LOCK h := Held)"
    using wp_run [OF assms(2) api_enter_locks [OF assms(1)]] assms(3,4) by auto
  let ?\<rho> = "goto t (Entered x h) PIPE_MGR_LOCK y \<sigma>"
  have "step \<sigma> ?\<rho>" by (rule step.enter) (use assms(5) y in auto)
  moreover have "step ?\<rho> (goto t (Inside x h) (SESS_LOCK h) Held ?\<rho>)"
    by (rule step.session [where x = x]) (use y in auto)
  ultimately have "step\<^sup>*\<^sup>* \<sigma> (goto t (Inside x h) (SESS_LOCK h) Held ?\<rho>)" by auto
  with True y show ?thesis by (intro exI conjI) auto
next
  case False
  with wp_run [OF assms(2) api_enter_locks [OF assms(1)]] assms(3,4,5) show ?thesis
    by (intro exI [of _ \<sigma>]) auto
qed

lemma api_exit_steps:
  assumes "unlock_ok E" "run_state (pipe_mgr_api_exit E h) s = (u, s')" "h \<in> live_sessions s"
    and "locks \<sigma> = os_locks s" "pcs \<sigma> t = Inside x h" "os_locks s (SESS_LOCK h) = Held"
      "release (os_locks s PIPE_MGR_LOCK) = Some y"
  shows "\<exists>\<tau>. step\<^sup>*\<^sup>* \<sigma> \<tau> \<and> locks \<tau> = os_locks s' \<and> pcs \<tau> = (pcs \<sigma>)(t := Out)"
proof -
  have s': "os_locks s' = (os_locks s)(SESS_LOCK h := Free, PIPE_MGR_LOCK := y)"
    using wp_run [OF assms(2) wp_api_exit [OF assms(1,3,6,7)]] by simp
  let ?\<rho> = "goto t (Leaving x) (SESS_LOCK h) Free \<sigma>"
  have "step \<sigma> ?\<rho>" by (rule step.unlock [where x = x]) (use assms in auto)
  moreover have "step ?\<rho> (goto t Out PIPE_MGR_LOCK y ?\<rho>)"
    by (rule step.leave [where x = x]) (use assms in auto)
  ultimately have "step\<^sup>*\<^sup>* \<sigma> (goto t Out PIPE_MGR_LOCK y ?\<rho>)" by auto
  with s' assms(4) show ?thesis by (intro exI conjI) auto
qed

section \<open>Progress\<close>

text \<open>Some thread that is inside the bracket can always move on: a thread that waits for the
  mutex of a session waits for a thread that can leave.\<close>

lemma progress:
  assumes "conc_inv \<sigma>" "t \<in> holders \<sigma>"
  shows "\<exists>u \<tau>. u \<in> holders \<sigma> \<and> pcs \<tau> u \<noteq> pcs \<sigma> u \<and> step \<sigma> \<tau>"
proof -
  obtain y where y: "release (locks \<sigma> PIPE_MGR_LOCK) = Some y"
    using assms by (cases "locks \<sigma> PIPE_MGR_LOCK" rule: release.cases)
      (auto simp: conc_inv_def lock_of_holders_def)
  have leave: ?thesis if "pcs \<sigma> u = Inside x h" for u x h
  proof -
    from that have "u \<in> insiders \<sigma> h" by (simp add: insiders_iff)
    with assms(1) sessionsD [of \<sigma> h] have "locks \<sigma> (SESS_LOCK h) = Held"
      by (auto simp: conc_inv_def split: lockst.splits)
    with that have "step \<sigma> (goto u (Leaving x) (SESS_LOCK h) Free \<sigma>)"
      by (intro step.unlock) auto
    with that show ?thesis by (intro exI [of _ u] exI conjI) (auto simp: holders_def)
  qed
  show ?thesis
  proof (cases "pcs \<sigma> t")
    case (Entered x h)
    show ?thesis
    proof (cases "locks \<sigma> (SESS_LOCK h)")
      case Dead
      with Entered y have "step \<sigma> (goto t Out PIPE_MGR_LOCK y \<sigma>)" by (intro step.refuse) auto
      with Entered assms(2) show ?thesis by (intro exI [of _ t] exI conjI) auto
    next
      case Free
      with Entered have "step \<sigma> (goto t (Inside x h) (SESS_LOCK h) Held \<sigma>)" by (intro step.session) auto
      with Entered assms(2) show ?thesis by (intro exI [of _ t] exI conjI) auto
    next
      case Held
      with assms(1) sessionsD [of \<sigma> h] obtain u where "insiders \<sigma> h = {u}" by (auto simp: conc_inv_def)
      then have "inside (pcs \<sigma> u) = Some h" by (auto simp: insiders_def)
      then obtain x' where "pcs \<sigma> u = Inside x' h" by (cases "pcs \<sigma> u") auto
      then show ?thesis by (rule leave)
    qed (use assms(1) sessionsD [of \<sigma> h] in \<open>auto simp: conc_inv_def\<close>)
  next
    case (Leaving x)
    with y have "step \<sigma> (goto t Out PIPE_MGR_LOCK y \<sigma>)" by (intro step.leave) auto
    with Leaving assms(2) show ?thesis by (intro exI [of _ t] exI conjI) auto
  next
    case Admin
    with y have "step \<sigma> (goto t Out PIPE_MGR_LOCK y \<sigma>)" by (intro step.admin_done) auto
    with Admin assms(2) show ?thesis by (intro exI [of _ t] exI conjI) auto
  qed (use assms(2) leave in \<open>auto simp: holders_def\<close>)
qed

end
