(* ===== verification/RefEnv.thy ===== *)
theory RefEnv
  imports World
begin

text \<open>
  A concrete environment: maps, id allocators and hash tables as lists, locks and
  allocations that always succeed, and a DPDK control library that accepts every call. It
  satisfies every contract of \<open>Osdep\<close>, so the properties that assume a contract are about
  something; their witnesses run on it.
\<close>

type_synonym lmap = "(u64 \<times> ptr) list"
type_synonym lids = "u32 list"
type_synonym lht = "(ptr \<times> u8 list) list"

fun least_key :: "lmap \<Rightarrow> (u64 \<times> ptr) option" where
  "least_key [] = None"
| "least_key ((k, p) # m) = (case least_key m of
     None \<Rightarrow> Some (k, p) | Some (k', p') \<Rightarrow> if k \<le> k' then Some (k, p) else Some (k', p'))"

definition list_first :: "lmap \<Rightarrow> map_sts \<times> u64 \<times> ptr" where
  "list_first m = (case least_key m of
     None \<Rightarrow> (BF_MAP_NO_KEY, 0, NULL) | Some (k, p) \<Rightarrow> (BF_MAP_OK, k, p))"

definition candidate_ids :: lids where
  "candidate_ids = map word_of_nat [1..<64]"

definition list_id_alloc :: "lids \<Rightarrow> u32 \<times> lids" where
  "list_id_alloc ids = (case filter (\<lambda>x. x \<notin> set ids) candidate_ids of
     [] \<Rightarrow> (ENTRY_HANDLE_ARRAY_SIZE, ids) | x # _ \<Rightarrow> (x, x # ids))"

definition ref_env :: "(lmap, lids, lht) dpdk" where
  "ref_env = \<lparr>
     x_mutex_init = (\<lambda>_. 0), x_mutex_lock = (\<lambda>_. 0), x_mutex_unlock = (\<lambda>_. 0),
     x_rw_init = (\<lambda>_. 0), x_rdlock = (\<lambda>_. 0), x_wrlock = (\<lambda>_. 0), x_rw_unlock = (\<lambda>_. 0),
     x_calloc = (\<lambda>_. True),
     x_map_init = (BF_MAP_OK, []),
     x_map_add = (\<lambda>m k p. if map_of m k = None then (BF_MAP_OK, (k, p) # m) else (BF_MAP_KEY_EXISTS, m)),
     x_map_get = (\<lambda>m k. case map_of m k of None \<Rightarrow> (BF_MAP_NO_KEY, NULL) | Some p \<Rightarrow> (BF_MAP_OK, p)),
     x_map_rmv = (\<lambda>m k. (if map_of m k = None then BF_MAP_NO_KEY else BF_MAP_OK, filter (\<lambda>e. fst e \<noteq> k) m)),
     x_map_get_first = list_first,
     x_map_get_next = (\<lambda>m k. list_first (filter (\<lambda>e. k < fst e) m)),
     x_id_alloc = list_id_alloc,
     x_id_free = (\<lambda>ids x. removeAll x ids),
     x_ht_init = (\<lambda>_. (0, [])),
     x_ht_insert = (\<lambda>h n k. (0, (n, k) # h)),
     x_ht_walk = (\<lambda>h k. map fst h),
     x_ht_unlink = (\<lambda>h n. filter (\<lambda>e. fst e \<noteq> n) h),
     map_abs = map_of, id_used = set, ht_keys = map_of,
     r_call = (\<lambda>_ _. 0), r_group_id = (\<lambda>_. 0), r_regarray_read = (\<lambda>_ _ _ _. (0, 7)),
     r_regarray_read_key = (\<lambda>_ _ _ _ _. (0, 7)),
     r_pipeline_info = (\<lambda>_. (0, \<lparr>pi_n_ports_in = 4, pi_n_ports_out = 4, pi_n_actions = 1, pi_n_tables = 1\<rparr>)),
     r_action_info = (\<lambda>_ _. (0, ''act'', 1)),
     r_table_info = (\<lambda>_ _. (0, ''t'', 1, 1)),
     r_match_field_info = (\<lambda>_ _ _. (0, \<lparr>mf_is_header = False, mf_n_bits = 16, mf_offset = 0\<rparr>)),
     r_action_arg_info = (\<lambda>_ _ _. (0, \<lparr>arg_name = ''port'', arg_n_bits = 8\<rparr>)) \<rparr>"

text \<open>The state before the pipeline manager is initialised.\<close>

definition world0 :: "('m, 'i, 'h) world" where
  "world0 = \<lparr> os_clk = 0, os_fault = False, os_next = 0, os_locks = (\<lambda>_. Dead),
     pipe_mgr_ctx_obj = NULL, pipe_mgr_int_sess_hndl = 0, w_ctxs = Map.empty, w_devs = Map.empty,
     w_mats = Map.empty, w_vls = Map.empty, w_mat_ents = Map.empty, w_vl_ents = Map.empty,
     w_adt_ents = Map.empty, w_sel_ents = Map.empty, w_nodes = Map.empty, w_pipes = [], w_rte = [] \<rparr>"

lemma map_of_filter_ne: "map_of (filter (\<lambda>e. fst e \<noteq> k) m) = (map_of m)(k := None)"
  by (induction m) auto

lemma least_key_None: "least_key m = None \<longleftrightarrow> m = []"
  by (cases m) (auto split: option.splits prod.splits)

lemma least_key_Some:
  "least_key m = Some (k, p) \<Longrightarrow> map_of m k = Some p \<and> (\<forall>k' \<in> fst ` set m. k \<le> k')"
  by (induction m arbitrary: k p)
    (force split: option.splits prod.splits if_splits simp: least_key_None)+

lemma map_of_filter_gt:
  "map_of (filter (\<lambda>e. k < fst e) m) k' = (if k < k' then map_of m k' else None)"
  by (induction m) auto

lemma list_first_ok:
  "list_first m = (sts, k, p) \<Longrightarrow>
   (if dom (map_of m) = {} then sts = BF_MAP_NO_KEY
    else sts = BF_MAP_OK \<and> map_of m k = Some p \<and> (\<forall>k' \<in> dom (map_of m). k \<le> k'))"
  by (auto simp: list_first_def least_key_None dom_map_of_conv_image_fst dest: least_key_Some
      split: option.splits prod.splits)

lemma ref_unlock_ok [simp]: "unlock_ok ref_env"
  by (simp add: unlock_ok_def ref_env_def)

lemma ref_locks_ok [simp]: "locks_ok ref_env"
  by (simp add: locks_ok_def) (simp add: ref_env_def)

lemma ref_calloc_ok [simp]: "calloc_ok ref_env"
  by (simp add: calloc_ok_def ref_env_def)

lemma ref_map_ok [simp]: "map_ok ref_env"
  by (auto simp: map_ok_def ref_env_def map_of_filter_ne split: option.split)

lemma ref_iter:
  "map_abs ref_env = map_of" "x_map_get_first ref_env = list_first"
  "x_map_get_next ref_env = (\<lambda>m k. list_first (filter (\<lambda>e. k < fst e) m))"
  by (simp_all add: ref_env_def)

lemma ref_map_iter_ok [simp]: "map_iter_ok ref_env"
proof -
  have nxt: "if {k' \<in> dom (map_of m). k0 < k'} = {} then sts = BF_MAP_NO_KEY
      else sts = BF_MAP_OK \<and> k0 < k \<and> map_of m k = Some p \<and> (\<forall>k' \<in> dom (map_of m). k0 < k' \<longrightarrow> k \<le> k')"
    if "list_first (filter (\<lambda>e. k0 < fst e) m) = (sts, k, p)" for m k0 sts k and p :: ptr
  proof -
    have "dom (map_of (filter (\<lambda>e. k0 < fst e) m)) = {k' \<in> dom (map_of m). k0 < k'}"
      by (auto simp: map_of_filter_gt split: if_splits)
    with list_first_ok [OF that] show ?thesis
      by (auto simp: map_of_filter_gt split: if_splits)
  qed
  show ?thesis
    unfolding map_iter_ok_def ref_iter by (intro conjI allI impI) (rule list_first_ok nxt, assumption)+
qed

lemma candidate_id: "x \<in> set candidate_ids \<Longrightarrow> x \<noteq> (0 :: u32) \<and> x \<noteq> ENTRY_HANDLE_ARRAY_SIZE"
  by (auto dest!: arg_cong [where f = unat] simp: candidate_ids_def unsigned_of_nat take_bit_nat_eq_self)

lemma list_id_alloc_cases:
  obtains "list_id_alloc ids = (ENTRY_HANDLE_ARRAY_SIZE, ids)"
  | x where "list_id_alloc ids = (x, x # ids)" "x \<noteq> 0" "x \<noteq> ENTRY_HANDLE_ARRAY_SIZE" "x \<notin> set ids"
proof (cases "filter (\<lambda>x. x \<notin> set ids) candidate_ids")
  case (Cons x xs)
  then have "x \<in> set (filter (\<lambda>x. x \<notin> set ids) candidate_ids)" by simp
  then have "x \<notin> set ids" "x \<noteq> 0" "x \<noteq> ENTRY_HANDLE_ARRAY_SIZE" using candidate_id [of x] by auto
  with Cons show ?thesis by (intro that(2) [of x]) (simp_all add: list_id_alloc_def)
qed (auto intro: that simp: list_id_alloc_def)

lemma ref_id_ok [simp]: "id_ok ref_env"
proof -
  have "(fst (list_id_alloc ids) = ENTRY_HANDLE_ARRAY_SIZE \<longrightarrow>
          set (snd (list_id_alloc ids)) = set ids) \<and>
        (fst (list_id_alloc ids) \<noteq> ENTRY_HANDLE_ARRAY_SIZE \<longrightarrow>
          fst (list_id_alloc ids) \<noteq> 0 \<and> fst (list_id_alloc ids) \<notin> set ids \<and>
          set (snd (list_id_alloc ids)) = insert (fst (list_id_alloc ids)) (set ids))" for ids
    by (rule list_id_alloc_cases [of ids]) auto
  then show ?thesis
    by (simp add: id_ok_def ref_env_def)
qed

lemma ref_ht_ok [simp]: "ht_ok ref_env"
  by (auto simp: ht_ok_def ref_env_def map_of_filter_ne dom_map_of_conv_image_fst
      dest: map_of_SomeD intro: rev_image_eqI)

lemma ref_env_ok [simp]: "env_ok ref_env"
  by (simp add: env_ok_def)

end
