(* ===== verification/Session_Props.thy ===== *)
theory Session_Props
  imports Session_Conc RefEnv
begin

text \<open>
  The properties of the session layer: the registry refines a set of handles, for whole
  sequences of client calls; the locks serialise the calls of one session and keep everybody
  else out while a client registers; nobody waits for ever inside the bracket.
\<close>

section \<open>Concrete states\<close>

text \<open>The state of the witnesses: \<^verbatim>\<open>pipe_mgr_shared_init\<close> has run on \<^const>\<open>world0\<close>.\<close>

definition inited :: "(lmap, lids, lht) world" where
  "inited = snd (run_state (pipe_mgr_shared_init ref_env) world0)"

text \<open>Thread 1 inside session 0, thread 2 waiting for the same session.\<close>

definition sys0 :: sys where
  "sys0 = \<lparr>locks = (\<lambda>l. Free), pcs = (\<lambda>t. Out)\<rparr>"

definition sys_busy :: sys where
  "sys_busy = goto 2 (Entered False 0) PIPE_MGR_LOCK (Rd 1)
     (goto 1 (Inside False 0) (SESS_LOCK 0) Held (goto 1 (Entered False 0) PIPE_MGR_LOCK (Rd 0) sys0))"

definition sys_admin :: sys where
  "sys_admin = goto 1 Admin PIPE_MGR_LOCK Held sys0"

lemma uninit_world0: "uninit world0"
  by (simp add: uninit_def world0_def)

lemma shared_init_succeeds:
  assumes "locks_ok E" "calloc_ok E" "fst (x_map_init E) = BF_MAP_OK" "uninit s"
  shows "wp (pipe_mgr_shared_init E) (\<lambda>r t. r = BF_SUCCESS) s"
  using assms locks_ok_unlock [OF assms(1)]
  by (auto simp: pipe_mgr_shared_init_def pipe_mgr_session_create_def session_defs wp_simps
      lock_destroy_def rwlock_init_def wrlock_def mutex_init_def wp_lock_op wp_rw_unlock_held Let_def
      calloc_ok_def calloc_def tick_def uninit_def numeral_eq_Suc locks_ok_def)

lemma ref_map_init: "fst (x_map_init ref_env) = BF_MAP_OK"
  by (simp add: ref_env_def)

lemma inited_idle: "registry_idle inited" "live_sessions inited = {0}"
proof -
  obtain r t where run: "run_state (pipe_mgr_shared_init ref_env) world0 = (r, t)" by force
  with wp_run [OF run shared_init_succeeds [OF ref_locks_ok ref_calloc_ok ref_map_init uninit_world0]]
    wp_run [OF run shared_init_spec [OF ref_unlock_ok uninit_world0]]
  show "registry_idle inited" "live_sessions inited = {0}" by (simp_all add: inited_def)
qed

lemma spec_create_cases:
  "spec_create A = ((BF_MAX_SESSIONS_EXCEEDED, None), A) \<and> {..<P4_SDE_MAX_SESSIONS} \<subseteq> A \<or>
   (\<exists>i < P4_SDE_MAX_SESSIONS. i \<notin> A \<and> spec_create A = ((BF_SUCCESS, Some i), insert i A))"
proof (cases "filter (\<lambda>i. i \<notin> A) [0..<P4_SDE_MAX_SESSIONS]")
  case Nil
  then have "\<forall>i < P4_SDE_MAX_SESSIONS. i \<in> A" by (auto simp: filter_empty_conv)
  with Nil show ?thesis by (auto simp: spec_create_def)
next
  case (Cons i js)
  then have "i \<in> set (filter (\<lambda>i. i \<notin> A) [0..<P4_SDE_MAX_SESSIONS])" by simp
  then have "i < P4_SDE_MAX_SESSIONS" "i \<notin> A" by simp_all
  with Cons show ?thesis by (simp add: spec_create_def)
qed

lemma spec_sess_ops_example:
  "spec_sess_ops [OpInit, OpInit, OpCleanup 2, OpInit, OpCleanup 9] {0} =
     ([(BF_SUCCESS, Some 1), (BF_SUCCESS, Some 2), (BF_SUCCESS, None), (BF_SUCCESS, Some 2),
       (BF_SESSION_NOT_FOUND, None)], {0, 1, 2})"
  by code_simp

lemma sys_init_sys0: "sys_init sys0"
  by (simp add: sys_init_def sys0_def)

lemma sys_busy_reachable: "reachable sys_busy"
proof -
  let ?a = "goto 1 (Entered False 0) PIPE_MGR_LOCK (Rd 0) sys0"
  let ?b = "goto 1 (Inside False 0) (SESS_LOCK 0) Held ?a"
  have a: "step sys0 ?a" by (rule step.enter) (simp_all add: sys0_def enter_mode_def)
  have b: "step ?a ?b" by (rule step.session [where x = False]) (simp_all add: sys0_def)
  have "step ?b sys_busy"
    unfolding sys_busy_def by (rule step.enter) (simp_all add: sys0_def enter_mode_def)
  from rtranclp.rtrancl_into_rtrancl [where r = step, OF rtranclp.rtrancl_into_rtrancl [OF r_into_rtranclp [of step, OF a] b] this]
  show ?thesis unfolding reachable_def using sys_init_sys0 by blast
qed

lemma sys_admin_reachable: "reachable sys_admin"
proof -
  have "step sys0 sys_admin" unfolding sys_admin_def by (rule step.admin) (simp_all add: sys0_def)
  then show ?thesis unfolding reachable_def using sys_init_sys0 by blast
qed

section \<open>The registry\<close>

text \<open>C1. After \<^verbatim>\<open>pipe_mgr_shared_init\<close>, any sequence of \<^verbatim>\<open>pipe_mgr_client_init\<close> and
  \<^verbatim>\<open>pipe_mgr_client_cleanup\<close> calls returns exactly what the abstract registry returns: a
  set of handles, at first the internal session 0 alone, that hands out the least unused handle
  below 16.\<close>

theorem session_registry_refines:
  assumes "locks_ok E" "calloc_ok E" "fst (x_map_init E) = BF_MAP_OK" "uninit s"
  shows "wp (do { st \<leftarrow> pipe_mgr_shared_init E; rs \<leftarrow> run_sess_ops E ops; ret (st, rs) })
    (\<lambda>(st, rs) t. st = BF_SUCCESS \<and> spec_sess_ops ops {0} = (rs, live_sessions t) \<and>
       os_fault t = os_fault s) s"
proof -
  note init = wp_conj [OF shared_init_succeeds [OF assms] shared_init_spec [OF locks_ok_unlock [OF assms(1)] assms(4)]]
  show ?thesis
    unfolding wp_bind wp_return
    by (rule wp_conseq [OF init], rule wp_conseq [OF run_sess_ops_spec [OF assms(1)]]) simp_all
qed

theorem session_registry_refines_witness:
  "locks_ok ref_env \<and> uninit world0 \<and>
   wp (do { st \<leftarrow> pipe_mgr_shared_init ref_env;
            rs \<leftarrow> run_sess_ops ref_env [OpInit, OpInit, OpCleanup 2, OpInit, OpCleanup 9]; ret (st, rs) })
     (\<lambda>(st, rs) t. rs = [(BF_SUCCESS, Some 1), (BF_SUCCESS, Some 2), (BF_SUCCESS, None),
        (BF_SUCCESS, Some 2), (BF_SESSION_NOT_FOUND, None)]) world0"
  by (intro conjI ref_locks_ok uninit_world0
      wp_conseq [OF session_registry_refines [OF ref_locks_ok ref_calloc_ok ref_map_init uninit_world0]])
    (simp add: spec_sess_ops_example split: prod.splits del: spec_sess_ops.simps)

text \<open>C2. \<^verbatim>\<open>pipe_mgr_client_init\<close> returns a handle that was not in use, or reports that all 16
  are; a lock that fails changes nothing. The registry stays well formed and unlocked.\<close>

theorem client_init_fresh:
  assumes "unlock_ok E" "registry_idle s"
  shows "wp (pipe_mgr_client_init E True) (\<lambda>(st, h) t. registry_idle t \<and>
    (case h of
       Some i \<Rightarrow> st = BF_SUCCESS \<and> i < 16 \<and> i \<notin> live_sessions s \<and> live_sessions t = insert i (live_sessions s)
     | None \<Rightarrow> live_sessions t = live_sessions s \<and>
         (st = BF_MAX_SESSIONS_EXCEEDED \<and> {..<16} \<subseteq> live_sessions s \<or> st = BF_UNEXPECTED \<and> \<not> locks_ok E))) s"
  by (rule wp_conseq [OF client_init_spec [OF assms]])
    (use spec_create_cases [of "live_sessions s"] in auto)

theorem client_init_fresh_witness:
  "registry_idle inited \<and> wp (pipe_mgr_client_init ref_env True) (\<lambda>(st, h) t. registry_idle t) inited"
  by (intro conjI inited_idle(1) wp_conseq [OF client_init_fresh [OF ref_unlock_ok inited_idle(1)]])
    (simp split: prod.splits)

section \<open>Threads\<close>

text \<open>C3. Mutual exclusion per session: two threads inside the bracket of the same session are the
  same thread.\<close>

theorem session_calls_serialised:
  assumes "reachable \<sigma>" "pcs \<sigma> t = Inside x h" "pcs \<sigma> u = Inside y h"
  shows "t = u"
proof -
  have "t \<in> insiders \<sigma> h" "u \<in> insiders \<sigma> h" using assms by (simp_all add: insiders_iff)
  moreover have "lock_of_sessions \<sigma>" using reachable_inv [OF assms(1)] by (simp add: conc_inv_def)
  ultimately show ?thesis using sessionsD [of \<sigma> h] by (auto split: lockst.splits)
qed

theorem session_calls_serialised_witness:
  "reachable sys_busy \<and> pcs sys_busy 1 = Inside False 0 \<and> pcs sys_busy 2 \<noteq> Inside False 0"
  using session_calls_serialised [OF sys_busy_reachable, of 1 False 0 2 False] sys_busy_reachable
  by (simp add: sys_busy_def)

text \<open>C4. A thread that registers or removes a client, or has entered exclusively, is alone: every
  other thread is outside the pipeline manager.\<close>

theorem exclusive_is_alone:
  assumes "reachable \<sigma>" "exclusive (pcs \<sigma> t)" "u \<noteq> t"
  shows "pcs \<sigma> u = Out"
  by (rule admin_alone [OF reachable_inv [OF assms(1)] assms(2,3)])

theorem exclusive_is_alone_witness:
  "reachable sys_admin \<and> exclusive (pcs sys_admin 1) \<and> pcs sys_admin 5 = Out"
  using exclusive_is_alone [OF sys_admin_reachable, of 1 5] sys_admin_reachable by (simp add: sys_admin_def)

text \<open>C5. No deadlock inside the bracket: whenever a thread holds \<^verbatim>\<open>pipe_mgr_lock\<close>, some thread
  that holds it can take its next lock operation.\<close>

theorem bracket_progress:
  assumes "reachable \<sigma>" "pcs \<sigma> t \<noteq> Out"
  shows "\<exists>u \<tau>. pcs \<sigma> u \<noteq> Out \<and> pcs \<tau> u \<noteq> pcs \<sigma> u \<and> step \<sigma> \<tau>"
  using progress [OF reachable_inv [OF assms(1)], of t] assms(2) by (auto simp: holders_def)

theorem bracket_progress_witness:
  "pcs sys_busy 2 = Entered False 0 \<and> (\<exists>u \<tau>. pcs sys_busy u \<noteq> Out \<and> step sys_busy \<tau>)"
proof -
  have at: "pcs sys_busy 2 = Entered False 0" by (simp add: sys_busy_def)
  then have "pcs sys_busy 2 \<noteq> Out" by simp
  from bracket_progress [OF sys_busy_reachable this] at show ?thesis by blast
qed




end
