(* ===== verification/Device.thy ===== *)
theory Device
  imports Session
begin

text \<open>
  Devices and their pipeline profiles, the bracket that every public call of the pipeline
  manager puts around its work, and the look-up of tables and actions:
  \<^verbatim>\<open>src/pipe_mgr/shared/infra/pipe_mgr_shared_init.c\<close>, \<^verbatim>\<open>pipe_mgr_ctx_util.c\<close>, and the
  device half of \<^verbatim>\<open>src/pipe_mgr/core/pipe_mgr_init.c\<close>.
\<close>

section \<open>Devices\<close>

definition pipe_mgr_get_dev :: "('m, 'i, 'h, 'z) ext_scheme \<Rightarrow> int \<Rightarrow> ('m, 'i, 'h, ptr) cmd" where
  "pipe_mgr_get_dev E dev_id = do {
     c \<leftarrow> get_pipe_mgr_ctx;
     if c = NULL then ret NULL
     else deref (\<lambda>s. w_ctxs s c) NULL (\<lambda>ctx.
       case x_map_get E (dev_map ctx) (word_of_int dev_id) of
         (s, d) \<Rightarrow> ret (if s = BF_MAP_OK then d else NULL)) }"

text \<open>\<^verbatim>\<open>bf_hashtbl_delete\<close> hands every node to \<^verbatim>\<open>pipe_mgr_free_key_htbl_node\<close>.\<close>

definition bf_hashtbl_delete ::
  "('m, 'i, 'h, 'z) ext_scheme \<Rightarrow> 'h option \<Rightarrow> ('m, 'i, 'h, unit) cmd" where
  "bf_hashtbl_delete E h = (case h of
     None \<Rightarrow> ret ()
   | Some h \<Rightarrow> modify (\<lambda>s. s\<lparr>w_nodes := w_nodes s |` (- dom (ht_keys E h))\<rparr>))"

primrec delete_htbls ::
  "('m, 'i, 'h, 'z) ext_scheme \<Rightarrow> 'h option list \<Rightarrow> ('m, 'i, 'h, unit) cmd" where
  "delete_htbls E [] = ret ()"
| "delete_htbls E (h # hs) = do { bf_hashtbl_delete E h; delete_htbls E hs }"

definition pipe_mgr_free_mat_state ::
  "('m, 'i, 'h, 'z) ext_scheme \<Rightarrow> ptr \<Rightarrow> ('m, 'i, 'h) pipe_mgr_mat_state option \<Rightarrow> ('m, 'i, 'h, unit) cmd" where
  "pipe_mgr_free_mat_state E mat st = (case st of
     None \<Rightarrow> ret ()
   | Some st \<Rightarrow> do {
       lock_destroy (TBL_LOCK mat);
       delete_htbls E (key_htbl st) })"

primrec free_mat_states :: "('m, 'i, 'h, 'z) ext_scheme \<Rightarrow> ptr list \<Rightarrow> ('m, 'i, 'h, unit) cmd" where
  "free_mat_states E [] = ret ()"
| "free_mat_states E (p # ps) =
     deref (\<lambda>s. w_mats s p) () (\<lambda>mat. do {
       pipe_mgr_free_mat_state E p (mat_state mat);
       free_mat_states E ps })"

definition pipe_mgr_free_mat_table ::
  "('m, 'i, 'h, 'z) ext_scheme \<Rightarrow> pipe_mgr_p4_pipeline \<Rightarrow> ('m, 'i, 'h, unit) cmd" where
  "pipe_mgr_free_mat_table E pipe_ctx = do {
     free_mat_states E (pc_mat_tables pipe_ctx);
     modify (\<lambda>s. s\<lparr>w_mats := w_mats s |` (- set (pc_mat_tables pipe_ctx))\<rparr>) }"

text \<open>\<^verbatim>\<open>pipe_mgr_free_pipe_ctx\<close>: the hash table of externs has no other owner, so freeing it
  has no effect that the model could show. The profile array is freed with the device, so
  the stores of \<^verbatim>\<open>NULL\<close> into it are dropped.\<close>

definition pipe_mgr_free_pipe_ctx ::
  "('m, 'i, 'h, 'z) ext_scheme \<Rightarrow> pipe_mgr_p4_pipeline \<Rightarrow> ('m, 'i, 'h, unit) cmd" where
  "pipe_mgr_free_pipe_ctx E pipe_ctx = pipe_mgr_free_mat_table E pipe_ctx"

primrec free_profiles ::
  "('m, 'i, 'h, 'z) ext_scheme \<Rightarrow> ptr \<Rightarrow> nat \<Rightarrow> pipe_mgr_profile list \<Rightarrow> ('m, 'i, 'h, unit) cmd" where
  "free_profiles E d i [] = ret ()"
| "free_profiles E d i (pf # pfs) = do {
     pipe_mgr_free_pipe_ctx E (pf_pipe_ctx pf);
     lock_destroy (PROF_LOCK d i);
     free_profiles E d (Suc i) pfs }"

definition free_dev :: "('m, 'i, 'h, 'z) ext_scheme \<Rightarrow> ptr \<Rightarrow> ('m, 'i, 'h, unit) cmd" where
  "free_dev E d = deref (\<lambda>s. w_devs s d) () (\<lambda>dev. do {
     free_profiles E d 0 (pd_profiles dev);
     modify (\<lambda>s. s\<lparr>w_devs := (w_devs s)(d := None)\<rparr>) })"

definition MAX_CT_TIMER_PROFILES :: nat where "MAX_CT_TIMER_PROFILES = 8"

text \<open>A profile as \<^verbatim>\<open>P4_SDE_CALLOC\<close> leaves it, with its number.\<close>

definition empty_profile :: "nat \<Rightarrow> pipe_mgr_profile" where
  "empty_profile i = \<lparr> pf_profile_id = i, pf_core_id = 0, pf_fast_clone = 0, pf_prog_name = [],
     pf_pipeline_name = [], pf_cfg_file = [],
     pf_pipe_ctx = \<lparr> pc_arch_name = [], pc_mat_tables = [], pc_value_lookup_tables = [],
       pc_externs_htbl = None, pc_externs_tables_name = [] \<rparr>,
     pf_num_ct_timer_profiles = 0, pf_bf_ct_timeout = replicate MAX_CT_TIMER_PROFILES 0 \<rparr>"

primrec init_profile_locks ::
  "('m, 'i, 'h, 'z) ext_scheme \<Rightarrow> ptr \<Rightarrow> nat list \<Rightarrow> ('m, 'i, 'h, bool) cmd" where
  "init_profile_locks E d [] = ret True"
| "init_profile_locks E d (i # is) = do {
     rc \<leftarrow> rwlock_init E (PROF_LOCK d i);
     if rc \<noteq> 0 then ret False else init_profile_locks E d is }"

text \<open>\<^verbatim>\<open>profile\<close> is the list of the pipeline counts of its programs, or \<open>None\<close> for a \<open>NULL\<close>
  pointer. The result is the status and the new device.\<close>

definition pipe_mgr_set_dev ::
  "('m, 'i, 'h, 'z) ext_scheme \<Rightarrow> int \<Rightarrow> nat list option \<Rightarrow> ('m, 'i, 'h, bf_status \<times> ptr) cmd" where
  "pipe_mgr_set_dev E dev_id profile = do {
     d \<leftarrow> calloc E;
     if d = NULL then ret (BF_NO_SYS_RESOURCES, NULL)
     else do {
       let n = (case profile of None \<Rightarrow> 1 | Some ps \<Rightarrow> sum_list ps);
       modify (\<lambda>s. s\<lparr>w_devs := (w_devs s)(d \<mapsto>
         \<lparr>pd_dev_id = dev_id, pd_num_pipeline_profiles = n, pd_profiles = []\<rparr>)\<rparr>);
       t \<leftarrow> tick;
       if \<not> x_calloc E t then do { free_dev E d; ret (BF_NO_SYS_RESOURCES, NULL) }
       else do {
         modify (\<lambda>s. s\<lparr>w_devs := (w_devs s)(d \<mapsto> \<lparr>pd_dev_id = dev_id,
           pd_num_pipeline_profiles = n, pd_profiles = map empty_profile [0..<n]\<rparr>)\<rparr>);
         ok \<leftarrow> init_profile_locks E d [0..<n];
         if \<not> ok then do { free_dev E d; ret (BF_UNEXPECTED, NULL) }
         else do {
           c \<leftarrow> gets pipe_mgr_ctx_obj;
           deref (\<lambda>s. w_ctxs s c) (BF_UNEXPECTED, NULL) (\<lambda>ctx.
             case x_map_add E (dev_map ctx) (word_of_int dev_id) d of (map_sts, m) \<Rightarrow> do {
               modify (\<lambda>s. s\<lparr>w_ctxs := (w_ctxs s)(c \<mapsto> ctx\<lparr>dev_map := m\<rparr>)\<rparr>);
               if map_sts \<noteq> BF_MAP_OK then do { free_dev E d; ret (BF_UNEXPECTED, NULL) }
               else ret (BF_SUCCESS, d) }) }}}}"

record bf_p4_pipeline =
  pp_p4_pipeline_name :: string
  pp_cfg_file :: string
  pp_core_id :: int
  pp_fast_clone :: int
  pp_num_ct_timer_profiles :: nat
  pp_bf_ct_timeout :: "int list"

abbreviation P4_SDE_PROG_NAME_LEN :: nat where "P4_SDE_PROG_NAME_LEN \<equiv> 50"
abbreviation PIPE_MGR_CFG_FILE_LEN :: nat where "PIPE_MGR_CFG_FILE_LEN \<equiv> 250"

definition upd_profile :: "ptr \<Rightarrow> nat \<Rightarrow> (pipe_mgr_profile \<Rightarrow> pipe_mgr_profile) \<Rightarrow> ('m, 'i, 'h, unit) cmd" where
  "upd_profile d i f = modify (\<lambda>s. s\<lparr>w_devs := (w_devs s)(d := map_option
     (\<lambda>dev. dev\<lparr>pd_profiles := (pd_profiles dev)[i := f (pd_profiles dev ! i)]\<rparr>) (w_devs s d))\<rparr>)"

definition pipe_mgr_set_profile ::
  "('m, 'i, 'h, 'z) ext_scheme \<Rightarrow> int \<Rightarrow> nat \<Rightarrow> string option \<Rightarrow> bf_p4_pipeline option \<Rightarrow>
   pipe_mgr_p4_pipeline option \<Rightarrow> ('m, 'i, 'h, bf_status) cmd" where
  "pipe_mgr_set_profile E dev_id profile_id p4_program p4_pipeline parsed_pipe_ctx = do {
     d \<leftarrow> pipe_mgr_get_dev E dev_id;
     if d = NULL then ret BF_NOT_READY
     else deref (\<lambda>s. w_devs s d) BF_UNEXPECTED (\<lambda>dev. do {
       guard_c (profile_id < length (pd_profiles dev));
       (case p4_program of None \<Rightarrow> ret ()
        | Some name \<Rightarrow> upd_profile d profile_id (\<lambda>pf. pf\<lparr>pf_prog_name := take (P4_SDE_PROG_NAME_LEN - 1) name\<rparr>));
       (case p4_pipeline of None \<Rightarrow> ret ()
        | Some pp \<Rightarrow> do {
            guard_c (pp_num_ct_timer_profiles pp \<le> MAX_CT_TIMER_PROFILES);
            upd_profile d profile_id (\<lambda>pf. pf\<lparr>
              pf_pipeline_name := take (P4_SDE_PROG_NAME_LEN - 1) (pp_p4_pipeline_name pp),
              pf_cfg_file := take (PIPE_MGR_CFG_FILE_LEN - 1) (pp_cfg_file pp),
              pf_core_id := pp_core_id pp,
              pf_fast_clone := pp_fast_clone pp,
              pf_num_ct_timer_profiles := pp_num_ct_timer_profiles pp,
              pf_bf_ct_timeout := take (pp_num_ct_timer_profiles pp) (pp_bf_ct_timeout pp) @
                drop (pp_num_ct_timer_profiles pp) (pf_bf_ct_timeout pf)\<rparr>) });
       (case parsed_pipe_ctx of None \<Rightarrow> ret ()
        | Some pc \<Rightarrow> upd_profile d profile_id (\<lambda>pf. pf\<lparr>pf_pipe_ctx := pc\<rparr>));
       ret BF_SUCCESS }) }"

definition pipe_mgr_get_num_profiles ::
  "('m, 'i, 'h, 'z) ext_scheme \<Rightarrow> int \<Rightarrow> ('m, 'i, 'h, bf_status \<times> nat) cmd" where
  "pipe_mgr_get_num_profiles E dev_id = do {
     d \<leftarrow> pipe_mgr_get_dev E dev_id;
     if d = NULL then ret (BF_NOT_READY, 0)
     else deref (\<lambda>s. w_devs s d) (BF_UNEXPECTED, 0) (\<lambda>dev.
       ret (BF_SUCCESS, pd_num_pipeline_profiles dev)) }"

definition pipe_mgr_is_pipe_valid ::
  "('m, 'i, 'h, 'z) ext_scheme \<Rightarrow> int \<Rightarrow> nat \<Rightarrow> ('m, 'i, 'h, bf_status) cmd" where
  "pipe_mgr_is_pipe_valid E dev_id pipe_id = do {
     d \<leftarrow> pipe_mgr_get_dev E dev_id;
     if d = NULL then ret BF_NOT_READY
     else deref (\<lambda>s. w_devs s d) BF_UNEXPECTED (\<lambda>dev.
       if pipe_id \<ge> pd_num_pipeline_profiles dev then ret BF_INVALID_ARG
       else ret BF_SUCCESS) }"

definition pipe_mgr_init_dev ::
  "('m, 'i, 'h, 'z) ext_scheme \<Rightarrow> int \<Rightarrow> nat list option \<Rightarrow> ('m, 'i, 'h, bf_status) cmd" where
  "pipe_mgr_init_dev E dev_id prof = do {
     d \<leftarrow> pipe_mgr_get_dev E dev_id;
     if d \<noteq> NULL then ret BF_ALREADY_EXISTS
     else do {
       (status, d) \<leftarrow> pipe_mgr_set_dev E dev_id prof;
       ret status }}"

definition dal_add_device :: "int \<Rightarrow> ('m, 'i, 'h, bf_status) cmd" where
  "dal_add_device dev_id = ret BF_SUCCESS"

definition dal_remove_device :: "int \<Rightarrow> ('m, 'i, 'h, bf_status) cmd" where
  "dal_remove_device dev_id = ret BF_SUCCESS"

definition pipe_mgr_shared_add_device :: "int \<Rightarrow> ('m, 'i, 'h, bf_status) cmd" where
  "pipe_mgr_shared_add_device dev_id = dal_add_device dev_id"

definition pipe_mgr_shared_remove_device ::
  "('m, 'i, 'h, 'z) ext_scheme \<Rightarrow> int \<Rightarrow> ('m, 'i, 'h, bf_status) cmd" where
  "pipe_mgr_shared_remove_device E dev_id = do {
     c \<leftarrow> gets pipe_mgr_ctx_obj;
     if c = NULL then ret BF_OBJECT_NOT_FOUND
     else do {
       d \<leftarrow> pipe_mgr_get_dev E dev_id;
       if d = NULL then ret BF_OBJECT_NOT_FOUND
       else do {
         status \<leftarrow> dal_remove_device dev_id;
         free_dev E d;
         deref (\<lambda>s. w_ctxs s c) BF_UNEXPECTED (\<lambda>ctx.
           case x_map_rmv E (dev_map ctx) (word_of_int dev_id) of (map_sts, m) \<Rightarrow> do {
             modify (\<lambda>s. s\<lparr>w_ctxs := (w_ctxs s)(c \<mapsto> ctx\<lparr>dev_map := m\<rparr>)\<rparr>);
             ret (if map_sts \<noteq> BF_MAP_OK then (if status \<noteq> BF_SUCCESS then status else BF_OBJECT_NOT_FOUND)
                  else status) }) }}}"

definition pipe_mgr_remove_device ::
  "('m, 'i, 'h, 'z) ext_scheme \<Rightarrow> int \<Rightarrow> ('m, 'i, 'h, bf_status) cmd" where
  "pipe_mgr_remove_device E dev_id = do {
     (status, sess_hdl) \<leftarrow> pipe_mgr_get_int_sess_hdl;
     case sess_hdl of
       None \<Rightarrow> ret status
     | Some h \<Rightarrow> do {
         status \<leftarrow> pipe_mgr_api_exclusive_enter E h;
         if status \<noteq> BF_SUCCESS then ret status
         else do {
           status \<leftarrow> pipe_mgr_shared_remove_device E dev_id;
           pipe_mgr_api_exclusive_exit E h;
           ret status }}}"

section \<open>Profiles, tables and actions\<close>

text \<open>A profile is named by its device and its index.\<close>

definition pipe_mgr_get_profile ::
  "('m, 'i, 'h, 'z) ext_scheme \<Rightarrow> int \<Rightarrow> nat \<Rightarrow> ('m, 'i, 'h, bf_status \<times> (ptr \<times> nat) option) cmd" where
  "pipe_mgr_get_profile E dev_id profile_id = do {
     d \<leftarrow> pipe_mgr_get_dev E dev_id;
     if d = NULL then ret (BF_NOT_READY, None)
     else ret (BF_SUCCESS, Some (d, profile_id)) }"

definition get_profile_obj :: "ptr \<times> nat \<Rightarrow> ('m, 'i, 'h) world \<Rightarrow> pipe_mgr_profile option" where
  "get_profile_obj pf s = (case pf of (d, i) \<Rightarrow> (case w_devs s d of
     None \<Rightarrow> None
   | Some dev \<Rightarrow> if i < length (pd_profiles dev) then Some (pd_profiles dev ! i) else None))"

definition pipe_mgr_get_profile_ctx ::
  "('m, 'i, 'h, 'z) ext_scheme \<Rightarrow> bf_dev_target \<Rightarrow> ('m, 'i, 'h, bf_status \<times> (ptr \<times> nat) option) cmd" where
  "pipe_mgr_get_profile_ctx E dev_tgt = do {
     (status, profile) \<leftarrow> pipe_mgr_get_profile E (device_id dev_tgt) (dev_pipe_id dev_tgt);
     ret (status, profile) }"

text \<open>The loop of \<^verbatim>\<open>GET_TABLE\<close>.\<close>

fun get_table ::
  "(ptr \<Rightarrow> ('m, 'i, 'h) world \<Rightarrow> u32 option) \<Rightarrow> u32 \<Rightarrow> ptr list \<Rightarrow> ('m, 'i, 'h, bf_status \<times> ptr) cmd" where
  "get_table hdl tbl_hdl [] = ret (BF_OBJECT_NOT_FOUND, NULL)"
| "get_table hdl tbl_hdl (p # ps) = deref (hdl p) (BF_UNEXPECTED, NULL) (\<lambda>h.
     if h = tbl_hdl then ret (BF_SUCCESS, p) else get_table hdl tbl_hdl ps)"

definition mat_handle :: "ptr \<Rightarrow> ('m, 'i, 'h) world \<Rightarrow> u32 option" where
  "mat_handle p s = map_option (\<lambda>m. mc_handle (mat_ctx m)) (w_mats s p)"

definition vl_handle :: "ptr \<Rightarrow> ('m, 'i, 'h) world \<Rightarrow> u32 option" where
  "vl_handle p s = map_option (\<lambda>v. vc_handle (vl_ctx v)) (w_vls s p)"

definition pipe_mgr_ctx_get_table ::
  "('m, 'i, 'h, 'z) ext_scheme \<Rightarrow> bf_dev_target \<Rightarrow> u32 \<Rightarrow> pipe_mgr_table_type \<Rightarrow>
   ('m, 'i, 'h, bf_status \<times> ptr) cmd" where
  "pipe_mgr_ctx_get_table E dev_tgt tbl_hdl tbl_type = do {
     (status, ctx_obj) \<leftarrow> pipe_mgr_get_profile_ctx E dev_tgt;
     case ctx_obj of
       None \<Rightarrow> ret (status, NULL)
     | Some c \<Rightarrow> deref (get_profile_obj c) (BF_UNEXPECTED, NULL) (\<lambda>pf.
         case tbl_type of
           PIPE_MGR_TABLE_TYPE_VALUE_LOOKUP \<Rightarrow>
             get_table vl_handle tbl_hdl (pc_value_lookup_tables (pf_pipe_ctx pf))
         | _ \<Rightarrow> get_table mat_handle tbl_hdl (pc_mat_tables (pf_pipe_ctx pf))) }"

text \<open>\<^verbatim>\<open>pipe_mgr_ctx_get_action\<close>: both pointers are never \<open>NULL\<close> at the call sites.\<close>

fun pipe_mgr_ctx_get_action ::
  "pipe_mgr_actions_list list \<Rightarrow> u32 \<Rightarrow> bf_status \<times> pipe_mgr_actions_list option" where
  "pipe_mgr_ctx_get_action [] act_fn_hdl = (BF_OBJECT_NOT_FOUND, None)"
| "pipe_mgr_ctx_get_action (a # as) act_fn_hdl =
     (if al_handle a = act_fn_hdl then (BF_SUCCESS, Some a)
      else pipe_mgr_ctx_get_action as act_fn_hdl)"

section \<open>The bracket of the public calls\<close>

definition pipe_mgr_api_prologue ::
  "('m, 'i, 'h, 'z) ext_scheme \<Rightarrow> nat \<Rightarrow> bf_dev_target \<Rightarrow> ('m, 'i, 'h, bf_status) cmd" where
  "pipe_mgr_api_prologue E sess_hdl dev_tgt = do {
     status \<leftarrow> pipe_mgr_api_enter E sess_hdl;
     if status \<noteq> BF_SUCCESS then ret status
     else do {
       c \<leftarrow> get_pipe_mgr_ctx;
       if c = NULL then do { pipe_mgr_api_exit E sess_hdl; ret BF_NOT_READY }
       else do {
         d \<leftarrow> pipe_mgr_get_dev E (device_id dev_tgt);
         if d = NULL then do { pipe_mgr_api_exit E sess_hdl; ret BF_NOT_READY }
         else deref (\<lambda>s. w_devs s d) BF_UNEXPECTED (\<lambda>dev. do {
           guard_c (dev_pipe_id dev_tgt < length (pd_profiles dev));
           rc \<leftarrow> rdlock E (PROF_LOCK d (dev_pipe_id dev_tgt));
           if rc \<noteq> 0 then do { pipe_mgr_api_exit E sess_hdl; ret BF_UNEXPECTED }
           else ret BF_SUCCESS }) }}}"

definition pipe_mgr_api_epilogue ::
  "('m, 'i, 'h, 'z) ext_scheme \<Rightarrow> nat \<Rightarrow> bf_dev_target \<Rightarrow> ('m, 'i, 'h, unit) cmd" where
  "pipe_mgr_api_epilogue E sess_hdl dev_tgt = do {
     c \<leftarrow> get_pipe_mgr_ctx;
     if c = NULL then ret ()
     else do {
       d \<leftarrow> pipe_mgr_get_dev E (device_id dev_tgt);
       if d = NULL then ret ()
       else deref (\<lambda>s. w_devs s d) () (\<lambda>dev. do {
         guard_c (dev_pipe_id dev_tgt < length (pd_profiles dev));
         rw_unlock E (PROF_LOCK d (dev_pipe_id dev_tgt));
         pipe_mgr_api_exit E sess_hdl }) }}"

text \<open>The shape of the public calls: the target is checked, the locks are taken, the call
  does its work, the locks are given back.\<close>

definition with_api ::
  "('m, 'i, 'h, 'z) ext_scheme \<Rightarrow> nat \<Rightarrow> bf_dev_target \<Rightarrow> (bf_status \<Rightarrow> 'r) \<Rightarrow>
   ('m, 'i, 'h, 'r) cmd \<Rightarrow> ('m, 'i, 'h, 'r) cmd" where
  "with_api E sess_hdl dev_tgt err body = do {
     status \<leftarrow> pipe_mgr_is_pipe_valid E (device_id dev_tgt) (dev_pipe_id dev_tgt);
     if status \<noteq> BF_SUCCESS then ret (err status)
     else do {
       status \<leftarrow> pipe_mgr_api_prologue E sess_hdl dev_tgt;
       if status \<noteq> BF_SUCCESS then ret (err status)
       else do {
         r \<leftarrow> body;
         pipe_mgr_api_epilogue E sess_hdl dev_tgt;
         ret r }}}"

section \<open>What the bracket guarantees\<close>

text \<open>The part of the state that the bracket reads.\<close>

definition api_frame ::
  "('m, 'i, 'h) world \<Rightarrow> ptr \<times> (ptr \<rightharpoonup> 'm pipe_mgr_ctx) \<times> (ptr \<rightharpoonup> pipe_mgr_dev)" where
  "api_frame s = (pipe_mgr_ctx_obj s, w_ctxs s, w_devs s)"

text \<open>The device that \<^verbatim>\<open>pipe_mgr_get_dev\<close> finds.\<close>

definition dev_of :: "('m, 'i, 'h, 'z) ext_scheme \<Rightarrow> ('m, 'i, 'h) world \<Rightarrow> int \<Rightarrow> ptr" where
  "dev_of E s dev_id = (case the_ctx s of
     None \<Rightarrow> NULL
   | Some ctx \<Rightarrow> (case x_map_get E (dev_map ctx) (word_of_int dev_id) of
       (sts, d) \<Rightarrow> if sts = BF_MAP_OK then d else NULL))"

lemma wp_get_dev [wp_simps]:
  "wp (pipe_mgr_get_dev E dev_id) Q s =
   (if pipe_mgr_ctx_obj s \<noteq> NULL \<and> w_ctxs s (pipe_mgr_ctx_obj s) = None
    then Q NULL (s\<lparr>os_fault := True\<rparr>) else Q (dev_of E s dev_id) s)"
  by (auto simp: pipe_mgr_get_dev_def get_pipe_mgr_ctx_def wp_simps dev_of_def the_ctx_def
      split: option.split prod.split)

lemma frame_eqD:
  assumes "api_frame t = api_frame s"
  shows "pipe_mgr_ctx_obj t = pipe_mgr_ctx_obj s" "w_ctxs t = w_ctxs s" "w_devs t = w_devs s"
    "the_ctx t = the_ctx s" "live_sessions t = live_sessions s" "dev_of E t dev_id = dev_of E s dev_id"
  using assms by (auto simp: api_frame_def the_ctx_def live_sessions_def dev_of_def)

lemma frame_os [simp]:
  "api_frame (s\<lparr>os_clk := n\<rparr>) = api_frame s" "api_frame (s\<lparr>os_fault := b\<rparr>) = api_frame s"
  "api_frame (s\<lparr>os_locks := L\<rparr>) = api_frame s" "api_frame (s\<lparr>os_next := k\<rparr>) = api_frame s"
  by (simp_all add: api_frame_def)

text \<open>The locks that a successful prologue adds.\<close>

definition entered ::
  "('m, 'i, 'h, 'z) ext_scheme \<Rightarrow> nat \<Rightarrow> bf_dev_target \<Rightarrow> ('m, 'i, 'h) world \<Rightarrow>
   (lock_id \<Rightarrow> lockst) \<Rightarrow> bool" where
  "entered E h tgt s L \<longleftrightarrow> (\<exists>dev y z. let d = dev_of E s (device_id tgt); p = PROF_LOCK d (dev_pipe_id tgt) in
     h \<in> live_sessions s \<and> d \<noteq> NULL \<and> w_devs s d = Some dev \<and>
     dev_pipe_id tgt < length (pd_profiles dev) \<and>
     take_shared (os_locks s PIPE_MGR_LOCK) = Some y \<and> os_locks s (SESS_LOCK h) = Free \<and>
     take_shared (os_locks s p) = Some z \<and>
     L = (os_locks s)(PIPE_MGR_LOCK := y, SESS_LOCK h := Held, p := z))"

lemma pres_fault_api [pres_intros]:
  "pres os_fault (pipe_mgr_get_dev E dev_id)"
  "pres os_fault (api_enter E h x)" "pres os_fault (pipe_mgr_api_enter E h)"
  "pres os_fault (pipe_mgr_api_exit E h)"
  "pres os_fault (pipe_mgr_is_pipe_valid E dev_id k)"
  by (auto simp: pipe_mgr_get_dev_def api_enter_def pipe_mgr_api_enter_def pipe_mgr_api_exit_def
      pipe_mgr_is_pipe_valid_def intro!: pres_intros)

lemma pres_fault_prologue [pres_intros]:
  "pres os_fault (pipe_mgr_api_prologue E h tgt)" "pres os_fault (pipe_mgr_api_epilogue E h tgt)"
  by (auto simp: pipe_mgr_api_prologue_def pipe_mgr_api_epilogue_def intro!: pres_intros)

lemma live_ctx:
  "h \<in> live_sessions s \<Longrightarrow> pipe_mgr_ctx_obj s \<noteq> NULL \<and> h < P4_SDE_MAX_SESSIONS \<and>
    (\<exists>ctx. w_ctxs s (pipe_mgr_ctx_obj s) = Some ctx \<and> sessions ctx ! h)"
  by (auto simp: live_sessions_def the_ctx_def split: option.splits if_splits)

lemma wp_api_enter_shared:
  assumes "unlock_ok E"
  shows "wp (pipe_mgr_api_enter E h) (\<lambda>st t. api_frame t = api_frame s \<and>
    (os_fault t \<or> os_fault t = os_fault s \<and> (if st = BF_SUCCESS
      then \<exists>y. h \<in> live_sessions s \<and> take_shared (os_locks s PIPE_MGR_LOCK) = Some y \<and>
        os_locks s (SESS_LOCK h) = Free \<and>
        os_locks t = (os_locks s)(PIPE_MGR_LOCK := y, SESS_LOCK h := Held)
      else os_locks t = os_locks s))) s"
  using assms
  by (auto simp: pipe_mgr_api_enter_def api_enter_def get_pipe_mgr_ctx_def wp_simps rdlock_def
      mutex_lock_def rw_unlock_def wp_lock_op unlock_ok_def Let_def live_sessions_def the_ctx_def
      dest: release_take_shared split: option.splits)

lemma wp_api_exit_restores:
  assumes "unlock_ok E" "h \<in> live_sessions s" "os_locks s = L(PIPE_MGR_LOCK := y, SESS_LOCK h := Held)"
    "take_shared (L PIPE_MGR_LOCK) = Some y" "L (SESS_LOCK h) = Free"
  shows "wp (pipe_mgr_api_exit E h) (\<lambda>_ t. api_frame t = api_frame s \<and> os_fault t = os_fault s \<and>
    os_locks t = L) s"
proof (rule wp_conseq)
  show "wp (pipe_mgr_api_exit E h) (\<lambda>_ t. t = s\<lparr>os_clk := Suc (Suc (os_clk s)),
      os_locks := (os_locks s)(SESS_LOCK h := Free, PIPE_MGR_LOCK := L PIPE_MGR_LOCK)\<rparr>) s"
    using assms by (intro wp_api_exit) (auto simp: release_take_shared)
qed (use assms in \<open>auto simp: fun_eq_iff\<close>)

lemma wp_faulted:
  "pres os_fault m \<Longrightarrow> os_fault s \<Longrightarrow> (\<And>a t. os_fault t \<Longrightarrow> Q a t) \<Longrightarrow> wp m Q s"
  by (rule wp_conseq [OF pres_wp])

lemma frame_ops [keeps_intros]:
  "keeps api_frame get_pipe_mgr_ctx" "keeps api_frame (pipe_mgr_session_valid h)"
  "keeps api_frame (pipe_mgr_get_dev E dev_id)"
  "keeps api_frame (pipe_mgr_is_pipe_valid E dev_id k)"
  "keeps api_frame (mutex_lock E l)" "keeps api_frame (mutex_unlock E l)"
  "keeps api_frame (rdlock E l)" "keeps api_frame (rw_unlock E l)" "keeps api_frame (wrlock E l)"
  by (auto simp: session_defs pipe_mgr_get_dev_def pipe_mgr_is_pipe_valid_def lock_defs
      intro!: keeps_intros)

lemma frame_enter_exit [keeps_intros]:
  "keeps api_frame (api_enter E h x)" "keeps api_frame (pipe_mgr_api_enter E h)"
  "keeps api_frame (pipe_mgr_api_exit E h)"
  by (auto simp: api_enter_def pipe_mgr_api_enter_def pipe_mgr_api_exit_def intro!: keeps_intros)

lemma frame_bracket [keeps_intros]:
  "keeps api_frame (pipe_mgr_api_prologue E h tgt)" "keeps api_frame (pipe_mgr_api_epilogue E h tgt)"
  by (auto simp: pipe_mgr_api_prologue_def pipe_mgr_api_epilogue_def intro!: keeps_intros)

text \<open>After \<^verbatim>\<open>pipe_mgr_api_enter\<close> has succeeded, the rest of the prologue either adds the
  profile lock or gives back what was taken.\<close>

lemma wp_prologue:
  assumes E: "unlock_ok E"
  shows "wp (pipe_mgr_api_prologue E h tgt) (\<lambda>st t. os_fault t \<or> os_fault t = os_fault s \<and>
    (if st = BF_SUCCESS then entered E h tgt s (os_locks t) else os_locks t = os_locks s)) s"
  unfolding pipe_mgr_api_prologue_def wp_bind
proof (rule wp_conseq [OF wp_api_enter_shared [OF E]], goal_cases)
  case (1 st t)
  show ?case
  proof (cases "st = BF_SUCCESS \<and> \<not> os_fault t")
    case False
    with 1 show ?thesis
      by (cases "st = BF_SUCCESS") (auto simp: wp_return intro!: wp_faulted pres_intros)
  next
    case True
    with 1 obtain y where y: "h \<in> live_sessions s" "take_shared (os_locks s PIPE_MGR_LOCK) = Some y"
        "os_locks s (SESS_LOCK h) = Free"
        "os_locks t = (os_locks s)(PIPE_MGR_LOCK := y, SESS_LOCK h := Held)"
        and fr: "api_frame t = api_frame s" and flt: "os_fault t = os_fault s" by auto
    note fr' = frame_eqD(1-5) [OF fr] frame_eqD(6) [OF fr, where E = E]
    have exit: "wp (pipe_mgr_api_exit E h) (\<lambda>_ u. os_fault u \<or> os_fault u = os_fault s \<and> os_locks u = os_locks s) u"
      if "api_frame u = api_frame t" "os_locks u = os_locks t" "os_fault u = os_fault s" for u
      using wp_api_exit_restores [OF E, of h u "os_locks s" y] y that frame_eqD(5) [OF that(1)] fr'
      by (auto elim!: wp_conseq)
    from live_ctx [OF y(1)] obtain ctx where ctx: "pipe_mgr_ctx_obj s \<noteq> NULL"
        "w_ctxs s (pipe_mgr_ctx_obj s) = Some ctx" by auto
    let ?d = "dev_of E s (device_id tgt)"
    have prof: "PROF_LOCK d i \<noteq> PIPE_MGR_LOCK" "PROF_LOCK d i \<noteq> SESS_LOCK h" for d i by auto
    show ?thesis
    proof (cases "?d = NULL")
      case True
      then show ?thesis
        using ctx fr' \<open>st = BF_SUCCESS \<and> \<not> os_fault t\<close> exit [of t] flt
        by (simp add: wp_simps get_pipe_mgr_ctx_def)
    next
      case False
      show ?thesis
      proof (cases "\<exists>dev. w_devs s ?d = Some dev \<and> dev_pipe_id tgt < length (pd_profiles dev)")
        case True
        with False ctx fr' \<open>st = BF_SUCCESS \<and> \<not> os_fault t\<close> y flt show ?thesis
          by (auto simp: wp_simps get_pipe_mgr_ctx_def rdlock_def wp_lock_op Let_def entered_def
              wp_return split: option.split intro!: wp_conseq [OF exit])
      next
        case nodev: False
        with False ctx fr' \<open>st = BF_SUCCESS \<and> \<not> os_fault t\<close> show ?thesis
          by (auto simp: wp_simps get_pipe_mgr_ctx_def split: option.split
              intro!: wp_faulted pres_intros)
      qed
    qed
  qed
qed

lemma wp_epilogue:
  assumes E: "unlock_ok E" and ent: "entered E h tgt s (os_locks t)" and fr: "api_frame t = api_frame s"
  shows "wp (pipe_mgr_api_epilogue E h tgt) (\<lambda>_ u. os_fault u = os_fault t \<and> os_locks u = os_locks s) t"
proof -
  let ?d = "dev_of E s (device_id tgt)" and ?i = "dev_pipe_id tgt"
  from ent obtain dev y z where dev: "h \<in> live_sessions s" "?d \<noteq> NULL" "w_devs s ?d = Some dev"
      "?i < length (pd_profiles dev)"
    and y: "take_shared (os_locks s PIPE_MGR_LOCK) = Some y" "os_locks s (SESS_LOCK h) = Free"
    and z: "take_shared (os_locks s (PROF_LOCK ?d ?i)) = Some z"
    and L: "os_locks t = (os_locks s)(PIPE_MGR_LOCK := y, SESS_LOCK h := Held, PROF_LOCK ?d ?i := z)"
    by (auto simp: entered_def Let_def)
  note fr' = frame_eqD(1-5) [OF fr] frame_eqD(6) [OF fr, where E = E]
  let ?t = "t\<lparr>os_clk := Suc (os_clk t), os_locks := (os_locks t)(PROF_LOCK ?d ?i := os_locks s (PROF_LOCK ?d ?i))\<rparr>"
  have "wp (pipe_mgr_api_exit E h) (\<lambda>_ u. api_frame u = api_frame ?t \<and> os_fault u = os_fault ?t \<and>
      os_locks u = os_locks s) ?t"
    using E dev y L fr' by (intro wp_api_exit_restores [where y = y]) (auto simp: fun_eq_iff)
  then have "wp (pipe_mgr_api_exit E h) (\<lambda>_ u. os_fault u = os_fault t \<and> os_locks u = os_locks s) ?t"
    by (rule wp_conseq) auto
  with live_ctx [OF dev(1)] dev fr' L release_take_shared [OF z] E show ?thesis
    by (auto simp: pipe_mgr_api_epilogue_def get_pipe_mgr_ctx_def wp_simps wp_rw_unlock_held)
qed

text \<open>A call in the bracket that is balanced inside is balanced as a whole.\<close>

lemma bracket_locks:
  assumes E: "unlock_ok E" and body: "bal body" "keeps api_frame body"
  shows "wp (do { st \<leftarrow> pipe_mgr_api_prologue E h tgt;
      if st \<noteq> BF_SUCCESS then ret (err st)
      else do { r \<leftarrow> body; pipe_mgr_api_epilogue E h tgt; ret r } })
    (\<lambda>_ u. os_fault u \<or> os_locks u = os_locks s) s"
  unfolding wp_bind
proof (rule wp_conseq [OF wp_conj [OF wp_prologue [OF E] keeps_wp [OF frame_bracket(1)]]], goal_cases)
  case (1 st t)
  show ?case
  proof (cases "st = BF_SUCCESS")
    case True
    have "wp body (\<lambda>_ u. api_frame u = api_frame t \<and> (os_fault t \<longrightarrow> os_fault u) \<and>
        (os_fault u \<or> os_locks u = os_locks t)) t"
      using body by (auto simp: bal_alt intro!: wp_runI dest: keepsD)
    then have "wp body (\<lambda>r. wp (pipe_mgr_api_epilogue E h tgt) (\<lambda>_ u. os_fault u \<or> os_locks u = os_locks s)) t"
    proof (rule wp_conseq, goal_cases)
      case (1 r u)
      show ?case
      proof (cases "os_fault u")
        case True
        then show ?thesis by (intro wp_faulted pres_intros) auto
      next
        case False
        with 1 \<open>st = BF_SUCCESS\<close> \<open>_ \<and> api_frame t = api_frame s\<close>
        have "entered E h tgt s (os_locks u)" "api_frame u = api_frame s" by auto
        from wp_epilogue [OF E this] show ?thesis by (rule wp_conseq) auto
      qed
    qed
    with True show ?thesis by (simp add: wp_simps)
  qed (use 1 in \<open>auto simp: wp_simps\<close>)
qed

lemma wp_is_pipe_valid:
  "wp (pipe_mgr_is_pipe_valid E dev_id k) (\<lambda>st t. os_locks t = os_locks s \<and> (os_fault s \<longrightarrow> os_fault t)) s"
  by (auto simp: pipe_mgr_is_pipe_valid_def wp_simps split: option.splits)

lemma bal_get_dev [bal_ops]: "bal (pipe_mgr_get_dev E dev_id)"
  by (auto simp: pipe_mgr_get_dev_def intro!: bal_intros bal_ops)

lemma bal_is_pipe_valid [bal_ops]: "bal (pipe_mgr_is_pipe_valid E dev_id k)"
  by (auto simp: pipe_mgr_is_pipe_valid_def intro!: bal_intros bal_ops)

lemma bal_bracket:
  assumes "unlock_ok E" "bal body" "keeps api_frame body"
  shows "bal (do { st \<leftarrow> pipe_mgr_api_prologue E h tgt;
      if st \<noteq> BF_SUCCESS then ret (err st)
      else do { r \<leftarrow> body; pipe_mgr_api_epilogue E h tgt; ret r } })" (is "bal ?m")
proof -
  have "pres os_fault ?m" using bal_fault [OF assms(2)] by (auto intro!: pres_intros)
  show ?thesis
    unfolding bal_alt
  proof (intro allI impI conjI)
    fix s r t assume run: "run_state ?m s = (r, t)"
    show "os_fault t" if "os_fault s" using presD [OF \<open>pres os_fault ?m\<close> that run] .
    show "os_fault t \<or> os_locks t = os_locks s" by (rule wp_run [OF run bracket_locks [OF assms]])
  qed
qed

lemma bal_with_api:
  assumes "unlock_ok E" "bal body" "keeps api_frame body"
  shows "bal (with_api E h tgt err body)"
  unfolding with_api_def by (intro bal_intros bal_ops bal_bracket assms)

text \<open>The contract between the bracket and the work of a public call.\<close>

locale api_call =
  fixes E :: "('m, 'i, 'h, 'z) ext_scheme" and body :: "('m, 'i, 'h, 'r) cmd"
  assumes body_bal: "unlock_ok E \<Longrightarrow> bal body"
    and body_frame: "keeps api_frame body"
begin

lemma locks_restored:
  assumes "unlock_ok E" "run_state (with_api E h tgt err body) s = (r, t)" "\<not> os_fault t"
  shows "os_locks t = os_locks s"
  using balD [OF bal_with_api [OF assms(1) body_bal [OF assms(1)] body_frame] assms(2)] assms(3) by simp

lemma frame_kept: "keeps api_frame (with_api E h tgt err body)"
  unfolding with_api_def by (intro keeps_intros body_frame)

end

end
