(* ===== verification/KeyTable.thy ===== *)
theory KeyTable
  imports Device
begin

text \<open>
  The store of table entries, \<^verbatim>\<open>src/pipe_mgr/shared/infra/pipe_mgr_tbl.c\<close>: every
  match-action table and every value-lookup table has an allocator of entry handles, a map
  from handles to entries and, per pipeline, a hash table from match keys to handles. The
  three are kept consistent under the mutex of the table.
\<close>

section \<open>Access to the tables by type\<close>

text \<open>What the macros \<^verbatim>\<open>GET_TBL_INFO_FOR_*\<close> and \<^verbatim>\<open>GET_TBL_HDL_LOCK\<close> read.\<close>

record ('m, 'i, 'h) tbl_info =
  ti_match_type :: pipe_mgr_match_type
  ti_dup_ent_chk :: bool
  ti_state :: "('m, 'i, 'h) pipe_mgr_mat_state"

definition tbl_known :: "pipe_mgr_table_type \<Rightarrow> bool" where
  "tbl_known tt \<longleftrightarrow> tt = PIPE_MGR_TABLE_TYPE_MAT \<or> tt = PIPE_MGR_TABLE_TYPE_VALUE_LOOKUP"

fun tbl_view ::
  "pipe_mgr_table_type \<Rightarrow> ptr \<Rightarrow> ('m, 'i, 'h) world \<Rightarrow> ('m, 'i, 'h) tbl_info option" where
  "tbl_view PIPE_MGR_TABLE_TYPE_MAT p s = (case w_mats s p of
     None \<Rightarrow> None
   | Some m \<Rightarrow> map_option (\<lambda>st. \<lparr>ti_match_type = mc_match_type (mat_ctx m),
       ti_dup_ent_chk = mc_duplicate_entry_check (mat_ctx m), ti_state = st\<rparr>) (mat_state m))"
| "tbl_view PIPE_MGR_TABLE_TYPE_VALUE_LOOKUP p s = (case w_vls s p of
     None \<Rightarrow> None
   | Some m \<Rightarrow> map_option (\<lambda>st. \<lparr>ti_match_type = vc_match_type (vl_ctx m),
       ti_dup_ent_chk = vc_duplicate_entry_check (vl_ctx m), ti_state = st\<rparr>) (vl_state m))"
| "tbl_view _ p s = None"

text \<open>A store into the state of a table.\<close>

fun st_upd ::
  "pipe_mgr_table_type \<Rightarrow> ptr \<Rightarrow> (('m, 'i, 'h) pipe_mgr_mat_state \<Rightarrow> ('m, 'i, 'h) pipe_mgr_mat_state) \<Rightarrow>
   ('m, 'i, 'h) world \<Rightarrow> ('m, 'i, 'h) world" where
  "st_upd PIPE_MGR_TABLE_TYPE_VALUE_LOOKUP p f s = s\<lparr>w_vls := (w_vls s)(p :=
     map_option (\<lambda>m. m\<lparr>vl_state := map_option f (vl_state m)\<rparr>) (w_vls s p))\<rparr>"
| "st_upd _ p f s = s\<lparr>w_mats := (w_mats s)(p :=
     map_option (\<lambda>m. m\<lparr>mat_state := map_option f (mat_state m)\<rparr>) (w_mats s p))\<rparr>"

definition set_state ::
  "pipe_mgr_table_type \<Rightarrow> ptr \<Rightarrow> (('m, 'i, 'h) pipe_mgr_mat_state \<Rightarrow> ('m, 'i, 'h) pipe_mgr_mat_state) \<Rightarrow>
   ('m, 'i, 'h, unit) cmd" where
  "set_state tt p f = modify (st_upd tt p f)"

fun tbl_lock :: "pipe_mgr_table_type \<Rightarrow> ptr \<Rightarrow> lock_id" where
  "tbl_lock PIPE_MGR_TABLE_TYPE_VALUE_LOOKUP p = VL_LOCK p"
| "tbl_lock _ p = TBL_LOCK p"

text \<open>The match specification and the handle of an entry (\<^verbatim>\<open>GET_TBL_DATA_INFO_FOR_INSERT\<close>).\<close>

fun ent_spec :: "pipe_mgr_table_type \<Rightarrow> ptr \<Rightarrow> ('m, 'i, 'h) world \<Rightarrow> pipe_tbl_match_spec option" where
  "ent_spec PIPE_MGR_TABLE_TYPE_VALUE_LOOKUP e s = map_option ve_match_spec (w_vl_ents s e)"
| "ent_spec _ e s = map_option me_match_spec (w_mat_ents s e)"

fun ent_hdl :: "pipe_mgr_table_type \<Rightarrow> ptr \<Rightarrow> ('m, 'i, 'h) world \<Rightarrow> u32 option" where
  "ent_hdl PIPE_MGR_TABLE_TYPE_VALUE_LOOKUP e s = map_option ve_mat_ent_hdl (w_vl_ents s e)"
| "ent_hdl _ e s = map_option me_mat_ent_hdl (w_mat_ents s e)"

fun hdl_upd :: "pipe_mgr_table_type \<Rightarrow> ptr \<Rightarrow> u32 \<Rightarrow> ('m, 'i, 'h) world \<Rightarrow> ('m, 'i, 'h) world" where
  "hdl_upd PIPE_MGR_TABLE_TYPE_VALUE_LOOKUP e h s = s\<lparr>w_vl_ents := (w_vl_ents s)(e :=
     map_option (\<lambda>x. x\<lparr>ve_mat_ent_hdl := h\<rparr>) (w_vl_ents s e))\<rparr>"
| "hdl_upd _ e h s = s\<lparr>w_mat_ents := (w_mat_ents s)(e :=
     map_option (\<lambda>x. x\<lparr>me_mat_ent_hdl := h\<rparr>) (w_mat_ents s e))\<rparr>"

definition set_ent_hdl :: "pipe_mgr_table_type \<Rightarrow> ptr \<Rightarrow> u32 \<Rightarrow> ('m, 'i, 'h, unit) cmd" where
  "set_ent_hdl tt e h = modify (hdl_upd tt e h)"

section \<open>Keys\<close>

definition pipe_mgr_form_htbl_key ::
  "('m, 'i, 'h, 'z) ext_scheme \<Rightarrow> nat \<Rightarrow> pipe_tbl_match_spec \<Rightarrow> ('m, 'i, 'h, u8 list option) cmd" where
  "pipe_mgr_form_htbl_key E key_sz match_spec = do {
     k \<leftarrow> calloc_bytes E key_sz;
     case k of
       None \<Rightarrow> ret None
     | Some key \<Rightarrow> do {
         let n = num_match_bytes match_spec;
         key \<leftarrow> memcpy key 0 (le_bytes 2 (match_field_validity match_spec)) 2;
         key \<leftarrow> (if n \<noteq> 0 then memcpy key 0 (match_value_bits match_spec) n else ret key);
         if key_sz = 2 * n + 4 then do {
           key \<leftarrow> memcpy key n (match_mask_bits match_spec) n;
           key \<leftarrow> memcpy key (2 * n) (le_bytes 4 (priority match_spec)) 4;
           ret (Some key) }
         else ret (Some key) }}"

text \<open>The size computation that the operations repeat.\<close>

definition htbl_key_sz :: "bool \<Rightarrow> pipe_tbl_match_spec \<Rightarrow> nat" where
  "htbl_key_sz is_tern match_spec =
     (if is_tern then 2 * num_match_bytes match_spec + 4 else num_match_bytes match_spec)"

definition pipe_mgr_cmp_match_value_bits ::
  "('m, 'i, 'h, 'z) ext_scheme \<Rightarrow> u8 list \<Rightarrow> pipe_tbl_match_spec \<Rightarrow> bool \<Rightarrow> ('m, 'i, 'h, int) cmd" where
  "pipe_mgr_cmp_match_value_bits E key1 match_spec2 is_tern = do {
     let key_sz = htbl_key_sz is_tern match_spec2;
     key2 \<leftarrow> pipe_mgr_form_htbl_key E key_sz match_spec2;
     case key2 of
       None \<Rightarrow> ret (-1)
     | Some key2 \<Rightarrow> do {
         guard_c (key_sz \<le> length key1);
         ret (if take key_sz key1 = key2 then 0 else -1) }}"

text \<open>\<^verbatim>\<open>pipe_mgr_mat_exm_key_cmp_fn\<close> and \<^verbatim>\<open>pipe_mgr_mat_tern_key_cmp_fn\<close>.\<close>

definition key_cmp_fn ::
  "('m, 'i, 'h, 'z) ext_scheme \<Rightarrow> pipe_mgr_table_type \<Rightarrow> bool \<Rightarrow> u8 list \<Rightarrow> ptr \<Rightarrow> ('m, 'i, 'h, int) cmd" where
  "key_cmp_fn E tt is_tern arg n =
     deref (\<lambda>s. w_nodes s n) (-1) (\<lambda>node.
     deref (ent_spec tt (kn_match_spec_of node)) (-1) (\<lambda>match_spec2.
       pipe_mgr_cmp_match_value_bits E arg match_spec2 is_tern))"

text \<open>\<^verbatim>\<open>bf_hashtbl_search\<close>: the library compares the key with each node at its hash
  location.\<close>

fun bf_hashtbl_search ::
  "('m, 'i, 'h, 'z) ext_scheme \<Rightarrow> pipe_mgr_table_type \<Rightarrow> bool \<Rightarrow> u8 list \<Rightarrow> ptr list \<Rightarrow> ('m, 'i, 'h, ptr) cmd" where
  "bf_hashtbl_search E tt is_tern key [] = ret NULL"
| "bf_hashtbl_search E tt is_tern key (n # ns) = do {
     r \<leftarrow> key_cmp_fn E tt is_tern key n;
     if r = 0 then ret n else bf_hashtbl_search E tt is_tern key ns }"

section \<open>Operations\<close>

definition tern :: "pipe_mgr_match_type \<Rightarrow> bool" where
  "tern mt \<longleftrightarrow> mt \<noteq> PIPE_MGR_MATCH_TYPE_EXACT"

definition alloc_key_htbl ::
  "('m, 'i, 'h, 'z) ext_scheme \<Rightarrow> pipe_mgr_table_type \<Rightarrow> ptr \<Rightarrow> nat \<Rightarrow> pipe_mgr_match_type \<Rightarrow>
   pipe_tbl_match_spec \<Rightarrow> ('m, 'i, 'h, bf_status) cmd" where
  "alloc_key_htbl E tt tbl pipe_idx match_type match_spec = do {
     t \<leftarrow> tick;
     if \<not> x_calloc E t then ret BF_NO_SYS_RESOURCES
     else do {
       let key_sz = htbl_key_sz (tern match_type) match_spec;
       let key_sz = (if key_sz = 0 then 4 else key_sz);
       case x_ht_init E key_sz of (htbl_sts, h) \<Rightarrow> do {
         set_state tt tbl (\<lambda>st. st\<lparr>key_htbl := (key_htbl st)[pipe_idx := Some h]\<rparr>);
         ret (if htbl_sts \<noteq> 0 then BF_UNEXPECTED else BF_SUCCESS) }}}"

text \<open>The second half of \<^verbatim>\<open>pipe_mgr_table_key_insert_internal\<close>: a node for the entry is
  allocated and inserted.\<close>

definition insert_htbl_node ::
  "('m, 'i, 'h, 'z) ext_scheme \<Rightarrow> ptr \<Rightarrow> pipe_mgr_table_type \<Rightarrow> ptr \<Rightarrow> u32 \<Rightarrow> nat \<Rightarrow>
   pipe_mgr_match_type \<Rightarrow> pipe_tbl_match_spec \<Rightarrow> ('m, 'i, 'h, bf_status) cmd" where
  "insert_htbl_node E tbl tbl_type ent mat_ent_hdl pipe_idx match_type match_spec = do {
     n \<leftarrow> calloc E;
     if n = NULL then ret BF_NO_SYS_RESOURCES
     else do {
       modify (\<lambda>s. s\<lparr>w_nodes := (w_nodes s)(n \<mapsto>
         \<lparr>kn_mat_ent_hdl = mat_ent_hdl, kn_match_spec_of = ent\<rparr>)\<rparr>);
       key_p \<leftarrow> pipe_mgr_form_htbl_key E (htbl_key_sz (tern match_type) match_spec) match_spec;
       case key_p of
         None \<Rightarrow> do {
           modify (\<lambda>s. s\<lparr>w_nodes := (w_nodes s)(n := None)\<rparr>);
           ret BF_NO_SYS_RESOURCES }
       | Some key \<Rightarrow> deref (tbl_view tbl_type tbl) BF_UNEXPECTED (\<lambda>ti.
           deref (\<lambda>_. key_htbl (ti_state ti) ! pipe_idx) BF_UNEXPECTED (\<lambda>h.
             case x_ht_insert E h n key of (htbl_sts, h') \<Rightarrow> do {
               set_state tbl_type tbl (\<lambda>st. st\<lparr>key_htbl := (key_htbl st)[pipe_idx := Some h']\<rparr>);
               if htbl_sts \<noteq> 0 then do {
                 modify (\<lambda>s. s\<lparr>w_nodes := (w_nodes s)(n := None)\<rparr>);
                 ret BF_UNEXPECTED }
               else ret BF_SUCCESS })) }}"

definition pipe_mgr_table_key_insert_internal ::
  "('m, 'i, 'h, 'z) ext_scheme \<Rightarrow> ptr \<Rightarrow> pipe_mgr_table_type \<Rightarrow> ptr \<Rightarrow> u32 \<Rightarrow> nat \<Rightarrow>
   ('m, 'i, 'h, bf_status) cmd" where
  "pipe_mgr_table_key_insert_internal E tbl tbl_type ent mat_ent_hdl pipe_id =
     (let pipe_idx = pipe_id mod 256 in
      if \<not> tbl_known tbl_type then ret BF_INVALID_ARG
      else deref (tbl_view tbl_type tbl) BF_UNEXPECTED (\<lambda>ti.
        deref (ent_spec tbl_type ent) BF_UNEXPECTED (\<lambda>match_spec. do {
          guard_c (pipe_idx < length (key_htbl (ti_state ti)));
          status \<leftarrow> (if key_htbl (ti_state ti) ! pipe_idx = None
            then alloc_key_htbl E tbl_type tbl pipe_idx (ti_match_type ti) match_spec
            else ret BF_SUCCESS);
          if status \<noteq> BF_SUCCESS then ret status
          else insert_htbl_node E tbl tbl_type ent mat_ent_hdl pipe_idx (ti_match_type ti) match_spec })))"

text \<open>The out parameters are the flag \<^verbatim>\<open>exists\<close>, the handle and the entry; the last argument
  says whether the caller wants the entry.\<close>

definition mat_tbl_key_exists ::
  "('m, 'i, 'h, 'z) ext_scheme \<Rightarrow> ptr \<Rightarrow> pipe_mgr_table_type \<Rightarrow> pipe_tbl_match_spec \<Rightarrow> nat \<Rightarrow> bool \<Rightarrow>
   ('m, 'i, 'h, bf_status \<times> bool \<times> u32 \<times> ptr) cmd" where
  "mat_tbl_key_exists E tbl tbl_type ms pipe_id want_entry =
     (let pipe_idx = pipe_id mod 256 in
      if \<not> tbl_known tbl_type then ret (BF_INVALID_ARG, False, 0, NULL)
      else deref (tbl_view tbl_type tbl) (BF_UNEXPECTED, False, 0, NULL) (\<lambda>ti. do {
        guard_c (pipe_idx < length (key_htbl (ti_state ti)));
        case key_htbl (ti_state ti) ! pipe_idx of
          None \<Rightarrow> ret (BF_SUCCESS, False, 0, NULL)
        | Some h \<Rightarrow>
            if \<not> ti_dup_ent_chk ti then ret (BF_SUCCESS, False, 0, NULL)
            else do {
              let is_tern = tern (ti_match_type ti);
              key_p \<leftarrow> pipe_mgr_form_htbl_key E (htbl_key_sz is_tern ms) ms;
              case key_p of
                None \<Rightarrow> ret (BF_NO_SYS_RESOURCES, False, 0, NULL)
              | Some key \<Rightarrow> do {
                  n \<leftarrow> bf_hashtbl_search E tbl_type is_tern key (x_ht_walk E h key);
                  if n = NULL then ret (BF_SUCCESS, False, 0, NULL)
                  else deref (\<lambda>s. w_nodes s n) (BF_UNEXPECTED, False, 0, NULL) (\<lambda>node.
                    let hdl = kn_mat_ent_hdl node in
                    if \<not> want_entry then ret (BF_SUCCESS, True, hdl, NULL)
                    else case x_map_get E (entry_info_htbl (ti_state ti)) (ucast hdl) of
                      (map_sts, e) \<Rightarrow>
                        if map_sts \<noteq> BF_MAP_OK then ret (BF_UNEXPECTED, True, hdl, NULL)
                        else ret (BF_SUCCESS, True, hdl, e)) }}}))"

definition pipe_mgr_table_key_exists ::
  "('m, 'i, 'h, 'z) ext_scheme \<Rightarrow> ptr \<Rightarrow> pipe_mgr_table_type \<Rightarrow> pipe_tbl_match_spec \<Rightarrow> nat \<Rightarrow> bool \<Rightarrow>
   ('m, 'i, 'h, bf_status \<times> bool \<times> u32 \<times> ptr) cmd" where
  "pipe_mgr_table_key_exists E tbl tbl_type ms pipe_id want_entry =
     (if \<not> tbl_known tbl_type then ret (BF_INVALID_ARG, False, 0, NULL)
      else do {
        rc \<leftarrow> mutex_lock E (tbl_lock tbl_type tbl);
        if rc \<noteq> 0 then ret (BF_UNEXPECTED, False, 0, NULL)
        else do {
          r \<leftarrow> mat_tbl_key_exists E tbl tbl_type ms pipe_id want_entry;
          mutex_unlock E (tbl_lock tbl_type tbl);
          ret r }})"

text \<open>The part of \<^verbatim>\<open>pipe_mgr_table_key_delete_internal\<close> that runs under the mutex; \<open>ti\<close> is
  what was read of the table before.\<close>

definition key_delete_locked ::
  "('m, 'i, 'h, 'z) ext_scheme \<Rightarrow> bf_dev_target \<Rightarrow> ptr \<Rightarrow> pipe_mgr_table_type \<Rightarrow> pipe_tbl_match_spec \<Rightarrow>
   ('m, 'i, 'h) tbl_info \<Rightarrow> u8 list \<Rightarrow> ('m, 'i, 'h, bf_status) cmd" where
  "key_delete_locked E dev_tgt tbl tbl_type match_spec ti key = do {
     let pipe_idx = dev_pipe_id dev_tgt mod 256;
     (status, exists, mat_ent_hdl, e) \<leftarrow>
       mat_tbl_key_exists E tbl tbl_type match_spec (dev_pipe_id dev_tgt) False;
     if status \<noteq> BF_SUCCESS then ret BF_UNEXPECTED
     else if \<not> exists then ret BF_SUCCESS
     else (case x_map_rmv E (entry_info_htbl (ti_state ti)) (ucast mat_ent_hdl) of (map_sts, m) \<Rightarrow> do {
       let status = (if map_sts \<noteq> BF_MAP_OK then BF_UNEXPECTED else BF_SUCCESS);
       set_state tbl_type tbl (\<lambda>st. st\<lparr>entry_info_htbl := m\<rparr>);
       set_state tbl_type tbl (\<lambda>st. st\<lparr>entry_handle_array :=
         x_id_free E (entry_handle_array st) mat_ent_hdl\<rparr>);
       deref (\<lambda>_. key_htbl (ti_state ti) ! pipe_idx) BF_UNEXPECTED (\<lambda>h. do {
         n \<leftarrow> bf_hashtbl_search E tbl_type (tern (ti_match_type ti)) key (x_ht_walk E h key);
         if n = NULL then ret (if status = BF_SUCCESS then BF_OBJECT_NOT_FOUND else status)
         else do {
           set_state tbl_type tbl (\<lambda>st. st\<lparr>key_htbl :=
             (key_htbl st)[pipe_idx := Some (x_ht_unlink E h n)]\<rparr>);
           ret status }}) }) }"

definition pipe_mgr_table_key_delete_internal ::
  "('m, 'i, 'h, 'z) ext_scheme \<Rightarrow> bf_dev_target \<Rightarrow> ptr \<Rightarrow> pipe_mgr_table_type \<Rightarrow> pipe_tbl_match_spec \<Rightarrow>
   ('m, 'i, 'h, bf_status) cmd" where
  "pipe_mgr_table_key_delete_internal E dev_tgt tbl tbl_type match_spec =
     (if \<not> tbl_known tbl_type then ret BF_INVALID_ARG
      else deref (tbl_view tbl_type tbl) BF_UNEXPECTED (\<lambda>ti. do {
        guard_c (dev_pipe_id dev_tgt mod 256 < length (key_htbl (ti_state ti)));
        key_p \<leftarrow> pipe_mgr_form_htbl_key E (htbl_key_sz (tern (ti_match_type ti)) match_spec) match_spec;
        case key_p of
          None \<Rightarrow> ret BF_NO_SYS_RESOURCES
        | Some key \<Rightarrow> do {
            rc \<leftarrow> mutex_lock E (tbl_lock tbl_type tbl);
            if rc \<noteq> 0 then ret BF_UNEXPECTED
            else do {
              status \<leftarrow> key_delete_locked E dev_tgt tbl tbl_type match_spec ti key;
              mutex_unlock E (tbl_lock tbl_type tbl);
              ret status }}}))"

definition pipe_mgr_table_key_delete ::
  "('m, 'i, 'h, 'z) ext_scheme \<Rightarrow> bf_dev_target \<Rightarrow> ptr \<Rightarrow> pipe_mgr_table_type \<Rightarrow> pipe_tbl_match_spec \<Rightarrow>
   ('m, 'i, 'h, bf_status) cmd" where
  "pipe_mgr_table_key_delete = pipe_mgr_table_key_delete_internal"

text \<open>The part of \<^verbatim>\<open>pipe_mgr_table_key_insert\<close> that runs under the mutex, with its clean-up.\<close>

definition key_insert_locked ::
  "('m, 'i, 'h, 'z) ext_scheme \<Rightarrow> bf_dev_target \<Rightarrow> ptr \<Rightarrow> pipe_mgr_table_type \<Rightarrow> ptr \<Rightarrow>
   ('m, 'i, 'h, bf_status \<times> u32) cmd" where
  "key_insert_locked E dev_tgt tbl tbl_type ent =
     deref (tbl_view tbl_type tbl) (BF_UNEXPECTED, 0) (\<lambda>ti.
       case x_id_alloc E (entry_handle_array (ti_state ti)) of (new_ent_hdl, ids) \<Rightarrow> do {
         set_state tbl_type tbl (\<lambda>st. st\<lparr>entry_handle_array := ids\<rparr>);
         if new_ent_hdl = ENTRY_HANDLE_ARRAY_SIZE then ret (BF_NO_SPACE, 0)
         else do {
           set_ent_hdl tbl_type ent new_ent_hdl;
           case x_map_add E (entry_info_htbl (ti_state ti)) (ucast new_ent_hdl) ent of (map_sts, m) \<Rightarrow> do {
             set_state tbl_type tbl (\<lambda>st. st\<lparr>entry_info_htbl := m\<rparr>);
             if map_sts \<noteq> BF_MAP_OK then do {
               set_state tbl_type tbl (\<lambda>st. st\<lparr>entry_handle_array :=
                 x_id_free E (entry_handle_array st) new_ent_hdl\<rparr>);
               ret (BF_NO_SYS_RESOURCES, 0) }
             else do {
               status \<leftarrow> pipe_mgr_table_key_insert_internal E tbl tbl_type ent new_ent_hdl
                 (dev_pipe_id dev_tgt);
               if status \<noteq> BF_SUCCESS then do {
                 set_state tbl_type tbl (\<lambda>st. st\<lparr>entry_info_htbl :=
                   snd (x_map_rmv E (entry_info_htbl st) (ucast new_ent_hdl))\<rparr>);
                 set_state tbl_type tbl (\<lambda>st. st\<lparr>entry_handle_array :=
                   x_id_free E (entry_handle_array st) new_ent_hdl\<rparr>);
                 ret (status, 0) }
               else ret (BF_SUCCESS, new_ent_hdl) }}}})"

definition pipe_mgr_table_key_insert ::
  "('m, 'i, 'h, 'z) ext_scheme \<Rightarrow> bf_dev_target \<Rightarrow> ptr \<Rightarrow> pipe_mgr_table_type \<Rightarrow> ptr \<Rightarrow>
   ('m, 'i, 'h, bf_status \<times> u32) cmd" where
  "pipe_mgr_table_key_insert E dev_tgt tbl tbl_type ent =
     (if \<not> tbl_known tbl_type then ret (BF_INVALID_ARG, 0)
      else do {
        rc \<leftarrow> mutex_lock E (tbl_lock tbl_type tbl);
        if rc \<noteq> 0 then ret (BF_UNEXPECTED, 0)
        else do {
          r \<leftarrow> key_insert_locked E dev_tgt tbl tbl_type ent;
          rc \<leftarrow> mutex_unlock E (tbl_lock tbl_type tbl);
          ret (if rc \<noteq> 0 \<and> fst r = BF_SUCCESS then (BF_UNEXPECTED, snd r) else r) }})"

text \<open>Iteration over the handles of a table. The caller passes pointers that are not
  \<open>NULL\<close>, or \<open>False\<close>.\<close>

definition pipe_mgr_table_get_first ::
  "('m, 'i, 'h, 'z) ext_scheme \<Rightarrow> ptr \<Rightarrow> pipe_mgr_table_type \<Rightarrow> bool \<Rightarrow> ('m, 'i, 'h, bf_status \<times> u32) cmd" where
  "pipe_mgr_table_get_first E tbl tbl_type ent_hdl_p =
     (if \<not> ent_hdl_p then ret (BF_INVALID_ARG, 0)
      else if \<not> tbl_known tbl_type then ret (BF_INVALID_ARG, 0)
      else do {
        rc \<leftarrow> mutex_lock E (tbl_lock tbl_type tbl);
        if rc \<noteq> 0 then ret (BF_UNEXPECTED, 0)
        else do {
          r \<leftarrow> deref (tbl_view tbl_type tbl) (BF_UNEXPECTED, 0) (\<lambda>ti.
            case x_map_get_first E (entry_info_htbl (ti_state ti)) of (map_sts, key, e) \<Rightarrow>
              ret (if map_sts = BF_MAP_NO_KEY then (BF_OBJECT_NOT_FOUND, -1)
                   else if map_sts \<noteq> BF_MAP_OK then (BF_UNEXPECTED, ucast key)
                   else (BF_SUCCESS, ucast key)));
          mutex_unlock E (tbl_lock tbl_type tbl);
          ret r }})"

primrec get_next_loop ::
  "('m, 'i, 'h, 'z) ext_scheme \<Rightarrow> 'm \<Rightarrow> nat \<Rightarrow> u64 \<Rightarrow> map_sts \<times> u32 list" where
  "get_next_loop E m 0 key = (BF_MAP_OK, [])"
| "get_next_loop E m (Suc n) key = (case x_map_get_next E m key of (map_sts, key', e) \<Rightarrow>
     if map_sts \<noteq> BF_MAP_OK then (map_sts, [-1])
     else (case get_next_loop E m n key' of (sts, hs) \<Rightarrow> (sts, ucast key' # hs)))"

definition pipe_mgr_table_get_next_n ::
  "('m, 'i, 'h, 'z) ext_scheme \<Rightarrow> ptr \<Rightarrow> pipe_mgr_table_type \<Rightarrow> u32 \<Rightarrow> nat \<Rightarrow> bool \<Rightarrow>
   ('m, 'i, 'h, bf_status \<times> u32 list) cmd" where
  "pipe_mgr_table_get_next_n E tbl tbl_type hdl n next_ent_hdls =
     (if \<not> next_ent_hdls then ret (BF_INVALID_ARG, [])
      else if \<not> tbl_known tbl_type then ret (BF_INVALID_ARG, [])
      else do {
        rc \<leftarrow> mutex_lock E (tbl_lock tbl_type tbl);
        if rc \<noteq> 0 then ret (BF_UNEXPECTED, [])
        else do {
          r \<leftarrow> deref (tbl_view tbl_type tbl) (BF_UNEXPECTED, []) (\<lambda>ti.
            case get_next_loop E (entry_info_htbl (ti_state ti)) n (ucast hdl) of (map_sts, hs) \<Rightarrow>
              ret (if map_sts = BF_MAP_OK then BF_SUCCESS
                   else if map_sts = BF_MAP_NO_KEY
                     then (if length hs = 1 then BF_OBJECT_NOT_FOUND else BF_SUCCESS)
                   else BF_UNEXPECTED, hs));
          mutex_unlock E (tbl_lock tbl_type tbl);
          ret r }})"

definition pipe_mgr_table_get ::
  "('m, 'i, 'h, 'z) ext_scheme \<Rightarrow> ptr \<Rightarrow> pipe_mgr_table_type \<Rightarrow> u32 \<Rightarrow> bool \<Rightarrow>
   ('m, 'i, 'h, bf_status \<times> ptr) cmd" where
  "pipe_mgr_table_get E tbl tbl_type hdl entry_p =
     (if \<not> entry_p then ret (BF_INVALID_ARG, NULL)
      else if \<not> tbl_known tbl_type then ret (BF_INVALID_ARG, NULL)
      else do {
        rc \<leftarrow> mutex_lock E (tbl_lock tbl_type tbl);
        if rc \<noteq> 0 then ret (BF_UNEXPECTED, NULL)
        else do {
          r \<leftarrow> deref (tbl_view tbl_type tbl) (BF_UNEXPECTED, NULL) (\<lambda>ti.
            case x_map_get E (entry_info_htbl (ti_state ti)) (ucast hdl) of (map_sts, e) \<Rightarrow>
              ret (if map_sts = BF_MAP_OK then (BF_SUCCESS, e)
                   else if map_sts = BF_MAP_NO_KEY then (BF_OBJECT_NOT_FOUND, NULL)
                   else (BF_UNEXPECTED, NULL)));
          mutex_unlock E (tbl_lock tbl_type tbl);
          ret r }})"

section \<open>Locks and frame\<close>

lemma st_upd_os [simp]:
  "os_clk (st_upd tt p f s) = os_clk s" "os_fault (st_upd tt p f s) = os_fault s"
  "os_locks (st_upd tt p f s) = os_locks s" "os_next (st_upd tt p f s) = os_next s"
  "w_nodes (st_upd tt p f s) = w_nodes s" "api_frame (st_upd tt p f s) = api_frame s"
  "ent_spec tt' e (st_upd tt p f s) = ent_spec tt' e s" "ent_hdl tt' e (st_upd tt p f s) = ent_hdl tt' e s"
  "w_mat_ents (st_upd tt p f s) = w_mat_ents s" "w_vl_ents (st_upd tt p f s) = w_vl_ents s"
  "w_adt_ents (st_upd tt p f s) = w_adt_ents s" "w_sel_ents (st_upd tt p f s) = w_sel_ents s"
  "w_rte (st_upd tt p f s) = w_rte s" "w_pipes (st_upd tt p f s) = w_pipes s"
  by (cases tt; cases tt'; simp add: api_frame_def)+

lemma hdl_upd_os [simp]:
  "os_clk (hdl_upd tt e h s) = os_clk s" "os_fault (hdl_upd tt e h s) = os_fault s"
  "os_locks (hdl_upd tt e h s) = os_locks s" "os_next (hdl_upd tt e h s) = os_next s"
  "w_nodes (hdl_upd tt e h s) = w_nodes s" "api_frame (hdl_upd tt e h s) = api_frame s"
  "tbl_view tt' p (hdl_upd tt e h s) = tbl_view tt' p s"
  by (cases tt; cases tt'; simp add: api_frame_def)+

lemma tbl_view_st_upd [simp]:
  "tbl_known tt \<Longrightarrow> tbl_view tt p (st_upd tt p f s) =
     map_option (\<lambda>ti. ti\<lparr>ti_state := f (ti_state ti)\<rparr>) (tbl_view tt p s)"
  by (cases tt) (auto simp: tbl_known_def option.map_comp comp_def split: option.split)

lemma ent_spec_hdl_upd [simp]: "ent_spec tt e' (hdl_upd tt e h s) = ent_spec tt e' s"
  by (cases tt) (auto simp: option.map_comp comp_def)

lemma ent_hdl_hdl_upd:
  "ent_hdl tt e' (hdl_upd tt e h s) =
   (if e' = e then map_option (\<lambda>_. h) (ent_spec tt e s) else ent_hdl tt e' s)"
  by (cases tt) (auto simp: option.map_comp comp_def)

lemma wp_set_state [wp_simps]: "wp (set_state tt p f) Q s = Q () (st_upd tt p f s)"
  by (simp add: set_state_def wp_simps)

lemma wp_set_ent_hdl [wp_simps]: "wp (set_ent_hdl tt e h) Q s = Q () (hdl_upd tt e h s)"
  by (simp add: set_ent_hdl_def wp_simps)

lemma fault_set_state [pres_intros]: "pres os_fault (set_state tt p f)"
  by (auto simp: set_state_def intro!: pres_intros)

lemma fault_set_ent_hdl [pres_intros]: "pres os_fault (set_ent_hdl tt e h)"
  by (auto simp: set_ent_hdl_def intro!: pres_intros)

lemma bal_set_state [bal_ops]: "bal (set_state tt p f)"
  by (auto simp: set_state_def intro!: bal_ops)

lemma bal_set_ent_hdl [bal_ops]: "bal (set_ent_hdl tt e h)"
  by (auto simp: set_ent_hdl_def intro!: bal_ops)

lemma frame_set_state [keeps_intros]: "keeps api_frame (set_state tt p f)"
  by (auto simp: set_state_def intro!: keeps_intros)

lemma frame_set_ent_hdl [keeps_intros]: "keeps api_frame (set_ent_hdl tt e h)"
  by (auto simp: set_ent_hdl_def intro!: keeps_intros)

lemma bal_form_htbl_key [bal_ops]: "bal (pipe_mgr_form_htbl_key E key_sz ms)"
  by (auto simp: pipe_mgr_form_htbl_key_def intro!: bal_intros bal_ops)

lemma bal_key_cmp_fn [bal_ops]: "bal (key_cmp_fn E tt is_tern key n)"
  by (auto simp: key_cmp_fn_def pipe_mgr_cmp_match_value_bits_def intro!: bal_intros bal_ops)

lemma bal_hashtbl_search [bal_ops]: "bal (bf_hashtbl_search E tt is_tern key ns)"
  by (induction ns) (auto intro!: bal_intros bal_ops)

lemma bal_key_exists_inner [bal_ops]: "bal (mat_tbl_key_exists E tbl tt ms pipe_id want)"
  by (auto simp: mat_tbl_key_exists_def Let_def intro!: bal_intros bal_ops)

lemma bal_insert_internal [bal_ops]: "bal (pipe_mgr_table_key_insert_internal E tbl tt ent hdl pipe_id)"
  by (auto simp: pipe_mgr_table_key_insert_internal_def alloc_key_htbl_def insert_htbl_node_def Let_def
      intro!: bal_intros bal_ops)

lemma bal_insert_delete_locked [bal_ops]:
  "bal (key_insert_locked E tgt tbl tt ent)" "bal (key_delete_locked E tgt tbl tt ms ti key)"
  unfolding key_insert_locked_def key_delete_locked_def
  by (rule bal_intros bal_ops | simp)+

lemmas key_table_bal_faults [pres_intros] =
  bal_form_htbl_key [THEN bal_fault] bal_hashtbl_search [THEN bal_fault]
  bal_key_exists_inner [THEN bal_fault] bal_insert_internal [THEN bal_fault]

lemmas key_table_defs = pipe_mgr_table_key_exists_def pipe_mgr_table_key_delete_def
  pipe_mgr_table_key_delete_internal_def
  pipe_mgr_table_key_insert_def pipe_mgr_table_get_first_def pipe_mgr_table_get_next_n_def
  pipe_mgr_table_get_def

text \<open>Every operation gives back the mutex of the table, on every path.\<close>

lemma bal_key_table:
  assumes "unlock_ok E"
  shows "bal (pipe_mgr_table_key_exists E tbl tt ms pipe_id want)"
    "bal (pipe_mgr_table_get_first E tbl tt nn)" "bal (pipe_mgr_table_get_next_n E tbl tt hdl n nn)"
    "bal (pipe_mgr_table_get E tbl tt hdl nn)" "bal (pipe_mgr_table_key_delete E tgt tbl tt ms)"
    "bal (pipe_mgr_table_key_insert E tgt tbl tt ent)"
  unfolding key_table_defs
  by (rule bal_mutex_section [OF assms] bal_intros bal_ops | simp)+

end
