(* ===== verification/KeyTable_Spec.thy ===== *)
theory KeyTable_Spec
  imports KeyTable RefEnv
begin

text \<open>
  What the entry store promises: a table is a partial function \<open>A\<close> from match keys to
  (handle, entry). \<open>kt_rel\<close> relates the handle allocator, the handle map and the hash table of a
  table to \<open>A\<close>; the operations of \<open>KeyTable\<close> implement look-up, insertion with roll-back on
  every failure, and deletion on \<open>A\<close>.
\<close>

section \<open>Keys\<close>

text \<open>The key of a specification: its value bytes, and for the types other than exact match
  also its mask bytes and its priority.\<close>

definition key_of :: "bool \<Rightarrow> pipe_tbl_match_spec \<Rightarrow> u8 list" where
  "key_of is_tern ms = (let n = num_match_bytes ms in
     if is_tern then take n (match_value_bits ms) @ take n (match_mask_bits ms) @ le_bytes 4 (priority ms)
     else take n (match_value_bits ms))"

text \<open>A specification whose buffers have the announced size. An exact-match key needs two bytes:
  the code first copies the two bytes of \<^verbatim>\<open>match_field_validity\<close> into the key.\<close>

definition spec_ok :: "bool \<Rightarrow> pipe_tbl_match_spec \<Rightarrow> bool" where
  "spec_ok is_tern ms \<longleftrightarrow> num_match_bytes ms \<le> length (match_value_bits ms) \<and>
     (if is_tern then num_match_bytes ms \<le> length (match_mask_bits ms) else 2 \<le> num_match_bytes ms)"

lemma length_key_of: "spec_ok t ms \<Longrightarrow> length (key_of t ms) = htbl_key_sz t ms"
  by (auto simp: key_of_def spec_ok_def htbl_key_sz_def Let_def)

lemma mem_write_same: "length src = length dst \<Longrightarrow> mem_write dst 0 src = src"
  by (simp add: mem_write_def)

lemma wp_form_htbl_key:
  assumes "spec_ok t ms"
  shows "wp (pipe_mgr_form_htbl_key E (htbl_key_sz t ms) ms) Q s =
    Q (if x_calloc E (os_clk s) then Some (key_of t ms) else None) (s\<lparr>os_clk := Suc (os_clk s)\<rparr>)"
proof (cases t)
  case False
  with assms have "2 \<le> num_match_bytes ms" "num_match_bytes ms \<le> length (match_value_bits ms)"
    by (auto simp: spec_ok_def)
  moreover from this have "Suc (Suc (num_match_bytes ms - 2)) = num_match_bytes ms" by simp
  ultimately show ?thesis using False
    by (auto simp: pipe_mgr_form_htbl_key_def htbl_key_sz_def wp_simps key_of_def mem_write_def)
next
  case True
  with assms have "num_match_bytes ms \<le> length (match_value_bits ms)"
      "num_match_bytes ms \<le> length (match_mask_bits ms)"
    by (auto simp: spec_ok_def)
  with True show ?thesis
    by (auto simp: pipe_mgr_form_htbl_key_def htbl_key_sz_def wp_simps key_of_def mem_write_def Let_def)
qed

text \<open>Two specifications with the same key agree on what the key is made of.\<close>

lemma le_bytes_inj:
  assumes "le_bytes 4 w = le_bytes 4 (w' :: u32)"
  shows "w = w'"
proof (rule bit_word_eqI)
  fix n assume n: "n < LENGTH(32)"
  from assms have "ucast (drop_bit (8 * i) w) = (ucast (drop_bit (8 * i) w') :: u8)" if "i < 4" for i
    using that by (auto simp: le_bytes_def map_eq_conv)
  then have "bit (ucast (drop_bit (8 * (n div 8)) w) :: u8) (n mod 8) =
      bit (ucast (drop_bit (8 * (n div 8)) w') :: u8) (n mod 8)"
    using n by simp
  moreover have "n mod 8 < 8" by simp
  ultimately show "bit w n \<longleftrightarrow> bit w' n"
    using n by (simp add: bit_simps mult_div_mod_eq add.commute)
qed

lemma key_of_inj:
  assumes "spec_ok t a" "spec_ok t b" "num_match_bytes a = num_match_bytes b" "key_of t a = key_of t b"
  shows "take (num_match_bytes a) (match_value_bits a) = take (num_match_bytes a) (match_value_bits b)"
    and "t \<Longrightarrow> take (num_match_bytes a) (match_mask_bits a) = take (num_match_bytes a) (match_mask_bits b)"
    and "t \<Longrightarrow> priority a = priority b"
  using assms by (auto simp: key_of_def spec_ok_def Let_def le_bytes_inj split: if_splits)

section \<open>Searching\<close>

text \<open>The key of a node of the hash table.\<close>

definition node_key ::
  "pipe_mgr_table_type \<Rightarrow> bool \<Rightarrow> nat \<Rightarrow> ('m, 'i, 'h) world \<Rightarrow> ptr \<Rightarrow> u8 list option" where
  "node_key tt t N s n = (case w_nodes s n of
     None \<Rightarrow> None
   | Some node \<Rightarrow> (case ent_spec tt (kn_match_spec_of node) s of
       None \<Rightarrow> None
     | Some ms \<Rightarrow> if spec_ok t ms \<and> num_match_bytes ms = N then Some (key_of t ms) else None))"

lemma ent_spec_clk [simp]: "ent_spec tt e (s\<lparr>os_clk := n\<rparr>) = ent_spec tt e s"
  by (cases tt) auto

lemma ent_spec_os [simp]:
  "ent_spec tt e (s\<lparr>os_locks := L\<rparr>) = ent_spec tt e s"
  "ent_spec tt e (s\<lparr>os_next := x\<rparr>) = ent_spec tt e s"
  "ent_spec tt e (s\<lparr>w_nodes := ns\<rparr>) = ent_spec tt e s"
  by (cases tt; simp)+

lemma ent_hdl_os [simp]:
  "ent_hdl tt e (s\<lparr>os_clk := n\<rparr>) = ent_hdl tt e s" "ent_hdl tt e (s\<lparr>os_locks := L\<rparr>) = ent_hdl tt e s"
  "ent_hdl tt e (s\<lparr>os_next := x\<rparr>) = ent_hdl tt e s" "ent_hdl tt e (s\<lparr>w_nodes := ns\<rparr>) = ent_hdl tt e s"
  by (cases tt; simp)+

lemma tbl_view_os [simp]:
  "tbl_view tt p (s\<lparr>os_clk := n\<rparr>) = tbl_view tt p s" "tbl_view tt p (s\<lparr>os_locks := L\<rparr>) = tbl_view tt p s"
  "tbl_view tt p (s\<lparr>os_next := x\<rparr>) = tbl_view tt p s" "tbl_view tt p (s\<lparr>w_nodes := ns\<rparr>) = tbl_view tt p s"
  by (cases tt; simp)+

lemma node_key_clk [simp]: "node_key tt t N (s\<lparr>os_clk := k\<rparr>) n = node_key tt t N s n"
  by (simp add: node_key_def split: option.split)

lemma wp_key_cmp_fn:
  assumes "calloc_ok E" "node_key tt t N s n = Some k" "length key = length k"
  shows "wp (key_cmp_fn E tt t key n) Q s = Q (if key = k then 0 else -1) (s\<lparr>os_clk := Suc (os_clk s)\<rparr>)"
  using assms
  by (auto simp: key_cmp_fn_def pipe_mgr_cmp_match_value_bits_def wp_simps wp_form_htbl_key node_key_def
      calloc_ok_def length_key_of Let_def split: option.splits if_splits)

text \<open>A search returns the first node with the key.\<close>

lemma wp_hashtbl_search:
  assumes "calloc_ok E" "\<And>n. n \<in> set ns \<Longrightarrow> \<exists>k. node_key tt t N s n = Some k \<and> length k = length key"
  shows "wp (bf_hashtbl_search E tt t key ns) (\<lambda>r u. (\<exists>c. u = s\<lparr>os_clk := c\<rparr>) \<and>
    r = (case find (\<lambda>n. node_key tt t N s n = Some key) ns of None \<Rightarrow> NULL | Some n \<Rightarrow> n)) s"
  using assms(2)
proof (induction ns arbitrary: s)
  case Nil
  show ?case by (auto simp: wp_simps intro: exI [of _ "os_clk s"])
next
  case (Cons n ns)
  then obtain k where k: "node_key tt t N s n = Some k" "length k = length key" by auto
  let ?s = "s\<lparr>os_clk := Suc (os_clk s)\<rparr>"
  have "wp (bf_hashtbl_search E tt t key ns) (\<lambda>r u. (\<exists>c. u = ?s\<lparr>os_clk := c\<rparr>) \<and>
    r = (case find (\<lambda>n. node_key tt t N ?s n = Some key) ns of None \<Rightarrow> NULL | Some n \<Rightarrow> n)) ?s"
    by (rule Cons.IH) (use Cons.prems in auto)
  with k show ?case
    by (auto simp: wp_simps wp_key_cmp_fn [OF assms(1) k(1)] elim!: wp_conseq)
qed

section \<open>The abstraction relation\<close>

type_synonym ktable = "u8 list \<rightharpoonup> u32 \<times> ptr"

definition handles :: "ktable \<Rightarrow> u32 set" where
  "handles A = fst ` ran A"

text \<open>The entries: each is stored under its key, with its handle; no handle is used twice.\<close>

definition kt_ents ::
  "pipe_mgr_table_type \<Rightarrow> bool \<Rightarrow> nat \<Rightarrow> ('m, 'i, 'h) world \<Rightarrow> ktable \<Rightarrow> bool" where
  "kt_ents tt t N s A \<longleftrightarrow>
     (\<forall>k ehd e. A k = Some (ehd, e) \<longrightarrow> ent_hdl tt e s = Some ehd \<and>
        (\<exists>ms. ent_spec tt e s = Some ms \<and> spec_ok t ms \<and> num_match_bytes ms = N \<and> key_of t ms = k)) \<and>
     (\<forall>k k' ehd ehd' e e'. k \<noteq> k' \<longrightarrow> A k = Some (ehd, e) \<longrightarrow> A k' = Some (ehd', e') \<longrightarrow> ehd \<noteq> ehd')"

text \<open>The handle map holds exactly the entries.\<close>

definition kt_map :: "(u64 \<rightharpoonup> ptr) \<Rightarrow> ktable \<Rightarrow> bool" where
  "kt_map M A \<longleftrightarrow> (\<forall>x e. M x = Some e \<longleftrightarrow> (\<exists>k ehd. A k = Some (ehd, e) \<and> x = ucast ehd))"

text \<open>The hash table has exactly one node per key.\<close>

definition kt_nodes ::
  "(ptr \<rightharpoonup> u8 list) \<Rightarrow> (ptr \<rightharpoonup> pipe_mgr_mat_key_htbl_node) \<Rightarrow> ptr \<Rightarrow> ktable \<Rightarrow> bool" where
  "kt_nodes H nodes mx A \<longleftrightarrow>
     (\<forall>n k. H n = Some k \<longrightarrow> n \<noteq> NULL \<and> n \<le> mx \<and> (\<exists>ehd e. A k = Some (ehd, e) \<and>
        nodes n = Some \<lparr>kn_mat_ent_hdl = ehd, kn_match_spec_of = e\<rparr>)) \<and>
     (\<forall>k ehd e. A k = Some (ehd, e) \<longrightarrow> (\<exists>n. H n = Some k)) \<and>
     (\<forall>n n' k. n \<noteq> n' \<longrightarrow> H n = Some k \<longrightarrow> H n' \<noteq> Some k)"

definition ht_abs :: "('m, 'i, 'h, 'z) ext_scheme \<Rightarrow> 'h option \<Rightarrow> ptr \<rightharpoonup> u8 list" where
  "ht_abs E h = (case h of None \<Rightarrow> Map.empty | Some h \<Rightarrow> ht_keys E h)"

definition kt_state ::
  "('m, 'i, 'h, 'z) ext_scheme \<Rightarrow> pipe_mgr_table_type \<Rightarrow> nat \<Rightarrow> nat \<Rightarrow> ('m, 'i, 'h) tbl_info \<Rightarrow>
   ('m, 'i, 'h) world \<Rightarrow> ktable \<Rightarrow> bool" where
  "kt_state E tt i N ti s A \<longleftrightarrow> i < length (key_htbl (ti_state ti)) \<and> ti_dup_ent_chk ti \<and>
     kt_ents tt (tern (ti_match_type ti)) N s A \<and>
     id_used E (entry_handle_array (ti_state ti)) = handles A \<and>
     kt_map (map_abs E (entry_info_htbl (ti_state ti))) A \<and>
     kt_nodes (ht_abs E (key_htbl (ti_state ti) ! i)) (w_nodes s) (os_next s) A"

definition kt_rel ::
  "('m, 'i, 'h, 'z) ext_scheme \<Rightarrow> pipe_mgr_table_type \<Rightarrow> ptr \<Rightarrow> nat \<Rightarrow> nat \<Rightarrow>
   ('m, 'i, 'h) world \<Rightarrow> ktable \<Rightarrow> bool" where
  "kt_rel E tt tbl pipe_id N s A \<longleftrightarrow> env_ok E \<and> tbl_known tt \<and>
     (\<exists>ti. tbl_view tt tbl s = Some ti \<and> kt_state E tt (pipe_id mod 256) N ti s A)"

text \<open>Whether the table uses keys with mask and priority.\<close>

definition tbl_tern :: "pipe_mgr_table_type \<Rightarrow> ptr \<Rightarrow> ('m, 'i, 'h) world \<Rightarrow> bool" where
  "tbl_tern tt tbl s = (case tbl_view tt tbl s of None \<Rightarrow> False | Some ti \<Rightarrow> tern (ti_match_type ti))"

lemma kt_nodes_empty: "kt_nodes Map.empty nodes mx A \<Longrightarrow> A = Map.empty"
  by (auto simp: kt_nodes_def fun_eq_iff) (metis not_None_eq surj_pair)

lemma kt_ents_os [simp]:
  "kt_ents tt t N (s\<lparr>os_clk := c\<rparr>) A = kt_ents tt t N s A"
  "kt_ents tt t N (s\<lparr>os_locks := L\<rparr>) A = kt_ents tt t N s A"
  "kt_ents tt t N (s\<lparr>os_next := x\<rparr>) A = kt_ents tt t N s A"
  "kt_ents tt t N (s\<lparr>w_nodes := ns\<rparr>) A = kt_ents tt t N s A"
  "kt_ents tt t N (st_upd tt' p f s) A = kt_ents tt t N s A"
  by (simp_all add: kt_ents_def)

lemma kt_state_os [simp]:
  "kt_state E tt i N ti (s\<lparr>os_clk := c\<rparr>) A = kt_state E tt i N ti s A"
  "kt_state E tt i N ti (s\<lparr>os_locks := L\<rparr>) A = kt_state E tt i N ti s A"
  by (simp_all add: kt_state_def)

lemma kt_rel_os [simp]:
  "kt_rel E tt tbl pid N (s\<lparr>os_clk := c\<rparr>) A = kt_rel E tt tbl pid N s A"
  "kt_rel E tt tbl pid N (s\<lparr>os_locks := L\<rparr>) A = kt_rel E tt tbl pid N s A"
  by (simp_all add: kt_rel_def)

lemma kt_node_key:
  assumes "kt_ents tt t N s A" "kt_nodes H (w_nodes s) mx A" "H n = Some k"
  shows "node_key tt t N s n = Some k"
  using assms by (fastforce simp: kt_ents_def kt_nodes_def node_key_def)

text \<open>What the search for a key finds, given the relation.\<close>

lemma kt_find:
  assumes ht: "ht_ok E" and ents: "kt_ents tt t N s A" and nodes: "kt_nodes (ht_keys E h) (w_nodes s) mx A"
  shows "(case find (\<lambda>n. node_key tt t N s n = Some key) (x_ht_walk E h key) of
      None \<Rightarrow> A key = None
    | Some n \<Rightarrow> n \<noteq> NULL \<and> ht_keys E h n = Some key \<and> (\<exists>ehd e. A key = Some (ehd, e) \<and>
        w_nodes s n = Some \<lparr>kn_mat_ent_hdl = ehd, kn_match_spec_of = e\<rparr>))"
proof (cases "find (\<lambda>n. node_key tt t N s n = Some key) (x_ht_walk E h key)")
  case None
  have "A key = None"
  proof (rule ccontr)
    assume "A key \<noteq> None"
    with nodes obtain n where n: "ht_keys E h n = Some key" by (force simp: kt_nodes_def)
    with ht have "n \<in> set (x_ht_walk E h key)" by (rule ht_walk_mem)
    with None kt_node_key [OF ents nodes n] show False by (auto simp: find_None_iff)
  qed
  with None show ?thesis by simp
next
  case (Some n)
  then have n: "n \<in> set (x_ht_walk E h key)" "node_key tt t N s n = Some key"
    by (auto simp: find_Some_iff)
  with ht_walk_dom [OF ht] obtain k where k: "ht_keys E h n = Some k" by blast
  with kt_node_key [OF ents nodes k] n have "k = key" by simp
  with Some k nodes show ?thesis by (auto simp: kt_nodes_def)
qed

lemma kt_walk_keys:
  assumes "ht_ok E" "kt_ents tt t N s A" "kt_nodes (ht_keys E h) (w_nodes s) mx A"
    "n \<in> set (x_ht_walk E h key)" "spec_ok t ms" "num_match_bytes ms = N" "key = key_of t ms"
  shows "\<exists>k. node_key tt t N s n = Some k \<and> length k = length key"
proof -
  from ht_walk_dom [OF assms(1,4)] obtain k where "ht_keys E h n = Some k" ..
  from kt_node_key [OF assms(2,3) this] show ?thesis
    using assms(5-7) by (auto simp: node_key_def length_key_of htbl_key_sz_def split: option.splits if_splits)
qed

section \<open>Look-up\<close>

definition lookup_result :: "bool \<Rightarrow> (u32 \<times> ptr) option \<Rightarrow> bf_status \<times> bool \<times> u32 \<times> ptr" where
  "lookup_result want r = (case r of
     None \<Rightarrow> (BF_SUCCESS, False, 0, NULL)
   | Some (ehd, e) \<Rightarrow> (BF_SUCCESS, True, ehd, if want then e else NULL))"

lemma key_exists_locked_spec:
  assumes rel: "kt_rel E tt tbl pid N s A" and E: "calloc_ok E"
    and ms: "spec_ok (tbl_tern tt tbl s) ms" "num_match_bytes ms = N"
  shows "wp (mat_tbl_key_exists E tbl tt ms pid want) (\<lambda>r u. (\<exists>c. u = s\<lparr>os_clk := c\<rparr>) \<and>
    r = lookup_result want (A (key_of (tbl_tern tt tbl s) ms))) s"
proof -
  from rel obtain ti where ti: "tbl_view tt tbl s = Some ti" "kt_state E tt (pid mod 256) N ti s A"
      and env: "env_ok E" "tbl_known tt" by (auto simp: kt_rel_def)
  let ?t = "tern (ti_match_type ti)" and ?key = "key_of (tern (ti_match_type ti)) ms"
  have t: "tbl_tern tt tbl s = ?t" using ti by (simp add: tbl_tern_def)
  from ti(2) have st: "pid mod 256 < length (key_htbl (ti_state ti))" "ti_dup_ent_chk ti"
      "kt_ents tt ?t N s A" "kt_map (map_abs E (entry_info_htbl (ti_state ti))) A"
    by (auto simp: kt_state_def)
  note hto = env_okD(4) [OF env(1)]
  show ?thesis
  proof (cases "key_htbl (ti_state ti) ! (pid mod 256)")
    case None
    with ti(2) have "A = Map.empty" by (auto simp: kt_state_def ht_abs_def dest: kt_nodes_empty)
    with None ti st env show ?thesis
      by (auto simp: mat_tbl_key_exists_def wp_simps lookup_result_def intro: exI [of _ "os_clk s"])
  next
    case (Some h)
    with ti have nodes: "kt_nodes (ht_keys E h) (w_nodes s) (os_next s) A" by (simp add: kt_state_def ht_abs_def)
    let ?s = "s\<lparr>os_clk := Suc (os_clk s)\<rparr>"
    have "wp (bf_hashtbl_search E tt ?t ?key (x_ht_walk E h ?key)) (\<lambda>r u. (\<exists>c. u = ?s\<lparr>os_clk := c\<rparr>) \<and>
      r = (case find (\<lambda>n. node_key tt ?t N ?s n = Some ?key) (x_ht_walk E h ?key) of
        None \<Rightarrow> NULL | Some n \<Rightarrow> n)) ?s"
      by (rule wp_hashtbl_search [OF E]) (use kt_walk_keys [OF hto st(3) nodes] ms t in auto)
    moreover have get: "x_map_get E (entry_info_htbl (ti_state ti)) (ucast ehd) = (BF_MAP_OK, e)"
      if "A ?key = Some (ehd, e)" for ehd e
    proof -
      from that st(4) have "map_abs E (entry_info_htbl (ti_state ti)) (ucast ehd) = Some e"
        by (auto simp: kt_map_def)
      with env_okD(1) [OF env(1)] show ?thesis by (rule map_get_Some)
    qed
    ultimately show ?thesis
      using kt_find [OF hto st(3) nodes, of ?key] ti(1) st(1,2) env Some ms E t
      by (auto simp: mat_tbl_key_exists_def wp_simps wp_form_htbl_key calloc_ok_def lookup_result_def Let_def
          elim!: wp_conseq split: option.splits)
  qed
qed

lemma wp_mutex_lock_free:
  "os_locks s l = Free \<Longrightarrow>
   wp (mutex_lock E l) Q s =
   (let s' = s\<lparr>os_clk := Suc (os_clk s)\<rparr>; rc = x_mutex_lock E (os_clk s) in
    if rc \<noteq> 0 then Q rc s' else Q 0 (s'\<lparr>os_locks := (os_locks s)(l := Held)\<rparr>))"
  by (simp add: mutex_lock_def wp_lock_op Let_def)

text \<open>\<^verbatim>\<open>pipe_mgr_table_key_exists\<close> is look-up in \<open>A\<close>; it fails only when the mutex cannot be
  taken, and changes nothing.\<close>

lemma key_exists_spec:
  assumes rel: "kt_rel E tt tbl pid N s A" and E: "calloc_ok E"
    and ms: "spec_ok (tbl_tern tt tbl s) ms" "num_match_bytes ms = N"
    and lock: "os_locks s (tbl_lock tt tbl) = Free"
  shows "wp (pipe_mgr_table_key_exists E tbl tt ms pid want) (\<lambda>r u. (\<exists>c. u = s\<lparr>os_clk := c\<rparr>) \<and>
    (r = lookup_result want (A (key_of (tbl_tern tt tbl s) ms)) \<or>
     r = (BF_UNEXPECTED, False, 0, NULL) \<and> \<not> locks_ok E)) s"
proof -
  let ?s = "s\<lparr>os_clk := Suc (os_clk s), os_locks := (os_locks s)(tbl_lock tt tbl := Held)\<rparr>"
  have "wp (mat_tbl_key_exists E tbl tt ms pid want) (\<lambda>r u. (\<exists>c. u = ?s\<lparr>os_clk := c\<rparr>) \<and>
      r = lookup_result want (A (key_of (tbl_tern tt tbl ?s) ms))) ?s"
    by (rule key_exists_locked_spec) (use assms in \<open>auto simp: tbl_tern_def\<close>)
  moreover have "unlock_ok E" "tbl_known tt" using rel by (auto simp: kt_rel_def env_ok_def)
  moreover have "s\<lparr>os_locks := os_locks s\<rparr> = s" by simp
  ultimately show ?thesis
    using lock
    by (auto simp: pipe_mgr_table_key_exists_def wp_simps wp_mutex_lock_free Let_def tbl_tern_def
        wp_mutex_unlock_held locks_ok_def fun_upd_idem elim!: wp_conseq)
qed

section \<open>Insertion\<close>

text \<open>What the insertion of a node changes: the hash table of the pipeline and the heap of
  nodes above the old bound.\<close>

definition node_step ::
  "pipe_mgr_table_type \<Rightarrow> ptr \<Rightarrow> nat \<Rightarrow> ('m, 'i, 'h) tbl_info \<Rightarrow> 'h option \<Rightarrow>
   ('m, 'i, 'h) world \<Rightarrow> ('m, 'i, 'h) world \<Rightarrow> bool" where
  "node_step tt tbl i ti kh s u \<longleftrightarrow>
     os_fault u = os_fault s \<and> os_locks u = os_locks s \<and> os_next s \<le> os_next u \<and>
     (\<forall>e. ent_spec tt e u = ent_spec tt e s \<and> ent_hdl tt e u = ent_hdl tt e s) \<and>
     (\<forall>n \<le> os_next s. w_nodes u n = w_nodes s n) \<and>
     tbl_view tt tbl u =
       Some (ti\<lparr>ti_state := (ti_state ti)\<lparr>key_htbl := (key_htbl (ti_state ti))[i := kh]\<rparr>\<rparr>)"

definition node_added ::
  "(ptr \<rightharpoonup> u8 list) \<Rightarrow> u8 list \<Rightarrow> u32 \<Rightarrow> ptr \<Rightarrow> ('m, 'i, 'h) world \<Rightarrow> ('m, 'i, 'h) world \<Rightarrow>
   (ptr \<rightharpoonup> u8 list) \<Rightarrow> bool" where
  "node_added H key ehd ent s u H' \<longleftrightarrow> (\<exists>n. os_next s < n \<and> n \<le> os_next u \<and> H' = H(n \<mapsto> key) \<and>
     w_nodes u n = Some \<lparr>kn_mat_ent_hdl = ehd, kn_match_spec_of = ent\<rparr>)"

definition node_result ::
  "('m, 'i, 'h, 'z) ext_scheme \<Rightarrow> pipe_mgr_table_type \<Rightarrow> ptr \<Rightarrow> nat \<Rightarrow> ('m, 'i, 'h) tbl_info \<Rightarrow>
   u8 list \<Rightarrow> u32 \<Rightarrow> ptr \<Rightarrow> ('m, 'i, 'h) world \<Rightarrow> bf_status \<Rightarrow> ('m, 'i, 'h) world \<Rightarrow> bool" where
  "node_result E tt tbl i ti key ehd ent s st u \<longleftrightarrow>
     (\<exists>kh. node_step tt tbl i ti kh s u \<and>
       (if st = BF_SUCCESS
        then node_added (ht_abs E (key_htbl (ti_state ti) ! i)) key ehd ent s u (ht_abs E kh)
        else ht_abs E kh = ht_abs E (key_htbl (ti_state ti) ! i)))"

lemma insert_htbl_node_spec:
  assumes view: "tbl_view tt tbl s = Some ti" "tbl_known tt" "i < length (key_htbl (ti_state ti))"
      "key_htbl (ti_state ti) ! i = Some h"
    and ms: "spec_ok (tern (ti_match_type ti)) ms" and hto: "ht_ok E"
  shows "wp (insert_htbl_node E tbl tt ent ehd i (ti_match_type ti) ms)
    (node_result E tt tbl i ti (key_of (tern (ti_match_type ti)) ms) ehd ent s) s"
proof -
  let ?key = "key_of (tern (ti_match_type ti)) ms" and ?n = "Suc (os_next s)"
  obtain sts h' where ins: "x_ht_insert E h ?n ?key = (sts, h')" by force
  have noop: "ti\<lparr>ti_state := (ti_state ti)\<lparr>key_htbl := (key_htbl (ti_state ti))[i := Some h]\<rparr>\<rparr> = ti"
    using view by (simp add: list_update_same_conv)
  show ?thesis
  proof (cases "x_calloc E (os_clk s) \<and> x_calloc E (Suc (os_clk s))")
    case True
    with view ms ins ht_insert_abs [OF hto ins] show ?thesis
      by (auto simp: insert_htbl_node_def wp_simps wp_form_htbl_key node_result_def node_step_def
          node_added_def ht_abs_def intro!: exI [of _ "Some h'"] exI [of _ ?n])
  next
    case False
    with view ms show ?thesis
      by (auto simp: insert_htbl_node_def wp_simps Let_def wp_form_htbl_key node_result_def node_step_def
          ht_abs_def noop intro!: exI [of _ "Some h"])
  qed
qed

lemma insert_internal_spec:
  assumes view: "tbl_view tt tbl s = Some ti" "tbl_known tt" "pid mod 256 < length (key_htbl (ti_state ti))"
    and ms: "ent_spec tt ent s = Some ms" "spec_ok (tern (ti_match_type ti)) ms" and hto: "ht_ok E"
  shows "wp (pipe_mgr_table_key_insert_internal E tbl tt ent ehd pid)
    (node_result E tt tbl (pid mod 256) ti (key_of (tern (ti_match_type ti)) ms) ehd ent s) s"
proof (cases "key_htbl (ti_state ti) ! (pid mod 256)")
  case (Some h)
  with insert_htbl_node_spec [OF view Some ms(2) hto] view ms show ?thesis
    by (simp add: pipe_mgr_table_key_insert_internal_def wp_simps Let_def)
next
  case None
  let ?i = "pid mod 256"
  obtain sts h where init: "\<And>n. x_ht_init E (if htbl_key_sz (tern (ti_match_type ti)) ms = 0 then 4
      else htbl_key_sz (tern (ti_match_type ti)) ms) = (sts, h)" by (metis prod.collapse)
  have h: "sts = 0" "ht_keys E h = Map.empty" using ht_init_abs [OF hto init] by auto
  have noop: "ti\<lparr>ti_state := (ti_state ti)\<lparr>key_htbl := (key_htbl (ti_state ti))[?i := None]\<rparr>\<rparr> = ti"
    using view None by (simp add: list_update_same_conv)
  let ?s = "st_upd tt tbl (\<lambda>st. st\<lparr>key_htbl := (key_htbl st)[?i := Some h]\<rparr>) (s\<lparr>os_clk := Suc (os_clk s)\<rparr>)"
  let ?ti = "ti\<lparr>ti_state := (ti_state ti)\<lparr>key_htbl := (key_htbl (ti_state ti))[?i := Some h]\<rparr>\<rparr>"
  have "wp (insert_htbl_node E tbl tt ent ehd ?i (ti_match_type ?ti) ms)
    (node_result E tt tbl ?i ?ti (key_of (tern (ti_match_type ?ti)) ms) ehd ent ?s) ?s"
    by (rule insert_htbl_node_spec [where h = h]) (use view ms hto in auto)
  then have "wp (insert_htbl_node E tbl tt ent ehd ?i (ti_match_type ti) ms)
    (node_result E tt tbl ?i ti (key_of (tern (ti_match_type ti)) ms) ehd ent s) ?s"
  proof (simp, elim wp_conseq)
    fix st u assume "node_result E tt tbl ?i ?ti (key_of (tern (ti_match_type ti)) ms) ehd ent ?s st u"
    then obtain kh where "node_step tt tbl ?i ?ti kh ?s u"
      "if st = BF_SUCCESS then node_added (ht_abs E (Some h)) (key_of (tern (ti_match_type ti)) ms) ehd ent ?s u (ht_abs E kh)
       else ht_abs E kh = ht_abs E (Some h)"
      using view by (auto simp: node_result_def cong: if_cong)
    with h None view show "node_result E tt tbl ?i ti (key_of (tern (ti_match_type ti)) ms) ehd ent s st u"
      unfolding node_result_def
      by (intro exI [of _ kh]) (auto simp: node_step_def node_added_def ht_abs_def split: if_splits)
  qed
  with None view ms init h show ?thesis
    by (auto simp: pipe_mgr_table_key_insert_internal_def alloc_key_htbl_def wp_simps Let_def
        node_result_def node_step_def noop intro!: exI [of _ None])
qed

text \<open>Adding an entry to the abstract table keeps every part of the relation.\<close>

lemma ucast_u32_u64_inj [simp]: "(ucast (a :: u32) :: u64) = ucast b \<longleftrightarrow> a = b"
proof
  assume "(ucast a :: u64) = ucast b"
  then have "(ucast (ucast a :: u64) :: u32) = ucast (ucast b :: u64)" by simp
  then show "a = b" by (simp add: unsigned_ucast_eq take_bit_word_eq_self)
qed simp

lemma handles_iff: "x \<in> handles A \<longleftrightarrow> (\<exists>k e. A k = Some (x, e))"
  by (force simp: handles_def ran_def)

lemma handles_insert: "A k = None \<Longrightarrow> handles (A(k \<mapsto> (ehd, e))) = insert ehd (handles A)"
  by (auto simp: handles_iff split: if_splits) (metis option.distinct(1))+

lemma kt_ents_insert:
  assumes A: "kt_ents tt t N s A" and spec: "\<And>e. ent_spec tt e u = ent_spec tt e s"
    and hdl: "\<And>e. ent_hdl tt e u = (if e = ent then Some ehd else ent_hdl tt e s)"
    and ms: "ent_spec tt ent s = Some ms" "spec_ok t ms" "num_match_bytes ms = N" "A (key_of t ms) = None"
    and fresh: "ehd \<notin> handles A"
  shows "kt_ents tt t N u (A(key_of t ms \<mapsto> (ehd, ent)))"
proof -
  have other: "e \<noteq> ent" if "A k = Some (x, e)" for k x e
    using A ms that unfolding kt_ents_def by (metis option.distinct(1) option.inject)
  have "x \<noteq> ehd" if "A k = Some (x, e)" for k x e
    using fresh that by (auto simp: handles_iff)
  with A other ms show ?thesis
    unfolding kt_ents_def spec hdl
    by (intro conjI allI impI) (fastforce split: if_splits)+
qed

lemma kt_ents_same:
  assumes A: "kt_ents tt t N s A" and spec: "\<And>e. ent_spec tt e u = ent_spec tt e s"
    and hdl: "\<And>e. e \<noteq> ent \<Longrightarrow> ent_hdl tt e u = ent_hdl tt e s"
    and ms: "ent_spec tt ent s = Some ms" "A (key_of t ms) = None"
  shows "kt_ents tt t N u A"
proof -
  have "e \<noteq> ent" if "A k = Some (x, e)" for k x e
    using A ms that unfolding kt_ents_def by (metis option.distinct(1) option.inject)
  with A hdl show ?thesis unfolding kt_ents_def spec by metis
qed

lemma kt_map_fresh: "kt_map M A \<Longrightarrow> ehd \<notin> handles A \<Longrightarrow> M (ucast (ehd :: u32)) = None"
  unfolding kt_map_def handles_iff by (metis not_None_eq ucast_u32_u64_inj)

lemma kt_map_insert:
  assumes "kt_map M A" "A k = None" "ehd \<notin> handles A"
  shows "kt_map (M(ucast ehd \<mapsto> e)) (A(k \<mapsto> (ehd, e)))"
  unfolding kt_map_def
proof (intro allI)
  fix x e'
  show "((M(ucast ehd \<mapsto> e)) x = Some e') = (\<exists>k' h. (A(k \<mapsto> (ehd, e))) k' = Some (h, e') \<and> x = ucast h)"
  proof (cases "x = ucast ehd")
    case True
    then show ?thesis using assms(3) by (auto simp: handles_iff)
  next
    case False
    moreover have "(\<exists>k' h. (A(k \<mapsto> (ehd, e))) k' = Some (h, e') \<and> x = ucast h) =
        (\<exists>k' h. A k' = Some (h, e') \<and> x = ucast h)"
      using False assms(2) by (metis (no_types) fun_upd_apply option.distinct(1) option.inject prod.inject)
    ultimately show ?thesis using assms(1) by (simp add: kt_map_def)
  qed
qed

lemma kt_nodes_insert:
  assumes A: "kt_nodes H (w_nodes s) (os_next s) A" "A k = None" and add: "node_added H k ehd ent s u H'"
    and frame: "os_next s \<le> os_next u" "\<And>n. n \<le> os_next s \<Longrightarrow> w_nodes u n = w_nodes s n"
  shows "kt_nodes H' (w_nodes u) (os_next u) (A(k \<mapsto> (ehd, ent)))"
proof -
  from add obtain n where n: "os_next s < n" "n \<le> os_next u" "H' = H(n \<mapsto> k)"
      "w_nodes u n = Some \<lparr>kn_mat_ent_hdl = ehd, kn_match_spec_of = ent\<rparr>"
    by (auto simp: node_added_def)
  have old: "m \<noteq> NULL \<and> m \<le> os_next s \<and> j \<noteq> k \<and> (\<exists>x e. A j = Some (x, e) \<and>
      w_nodes u m = Some \<lparr>kn_mat_ent_hdl = x, kn_match_spec_of = e\<rparr>)" if "H m = Some j" for m j
    using A that frame(2) unfolding kt_nodes_def by (metis option.distinct(1))
  have nH: "H n = None" using old [of n] n(1) by (cases "H n") auto
  show ?thesis
    unfolding kt_nodes_def
  proof (intro conjI allI impI)
    fix m j assume "H' m = Some j"
    then show "m \<noteq> NULL" "m \<le> os_next u" "\<exists>x e. (A(k \<mapsto> (ehd, ent))) j = Some (x, e) \<and>
        w_nodes u m = Some \<lparr>kn_mat_ent_hdl = x, kn_match_spec_of = e\<rparr>"
      using n frame(1) old [of m j] by (auto split: if_splits)
  next
    fix j x e assume "(A(k \<mapsto> (ehd, ent))) j = Some (x, e)"
    then show "\<exists>m. H' m = Some j"
      using n nH A(1) unfolding kt_nodes_def by (metis fun_upd_apply option.distinct(1))
  next
    fix m m' j assume "m \<noteq> m'" "H' m = Some j"
    then show "H' m' \<noteq> Some j"
      using n old [of m j] old [of m' j] A(1) unfolding kt_nodes_def
      by (metis fun_upd_apply option.inject)
  qed
qed

lemma kt_nodes_mono:
  assumes "kt_nodes H (w_nodes s) (os_next s) A"
    "os_next s \<le> os_next u" "\<And>n. n \<le> os_next s \<Longrightarrow> w_nodes u n = w_nodes s n"
  shows "kt_nodes H (w_nodes u) (os_next u) A"
proof -
  have "n \<le> os_next u \<and> w_nodes u n = w_nodes s n" if "H n = Some k" for n k
    using assms that by (force simp: kt_nodes_def)
  with assms(1) show ?thesis by (simp add: kt_nodes_def)
qed

definition insert_post ::
  "('m, 'i, 'h, 'z) ext_scheme \<Rightarrow> pipe_mgr_table_type \<Rightarrow> ptr \<Rightarrow> nat \<Rightarrow> nat \<Rightarrow> ktable \<Rightarrow> u8 list \<Rightarrow> ptr \<Rightarrow>
   ('m, 'i, 'h) world \<Rightarrow> bf_status \<times> u32 \<Rightarrow> ('m, 'i, 'h) world \<Rightarrow> bool" where
  "insert_post E tt tbl pid N A key ent s r u \<longleftrightarrow> os_fault u = os_fault s \<and> os_locks u = os_locks s \<and>
     (if fst r = BF_SUCCESS
      then snd r \<noteq> 0 \<and> snd r \<notin> handles A \<and> kt_rel E tt tbl pid N u (A(key \<mapsto> (snd r, ent)))
      else kt_rel E tt tbl pid N u A)"

text \<open>The step after the handle map has been extended, with the roll-back.\<close>

lemma insert_hash_step:
  assumes env: "env_ok E" "tbl_known tt" and view: "tbl_view tt tbl s = Some ti"
    and st: "pid mod 256 < length (key_htbl (ti_state ti))" "ti_dup_ent_chk ti"
      "kt_nodes (ht_abs E (key_htbl (ti_state ti) ! (pid mod 256))) (w_nodes s) (os_next s) A"
      "id_used E (entry_handle_array (ti_state ti)) = insert x (handles A)"
      "map_abs E (entry_info_htbl (ti_state ti)) = M(ucast x \<mapsto> ent)" "kt_map M A"
    and fresh: "x \<noteq> 0" "x \<notin> handles A"
    and ents: "kt_ents tt t N old A" "\<And>e. ent_spec tt e s = ent_spec tt e old"
      "\<And>e. ent_hdl tt e s = (if e = ent then Some x else ent_hdl tt e old)"
    and ms: "ent_spec tt ent old = Some ms" "spec_ok t ms" "num_match_bytes ms = N" "A (key_of t ms) = None"
    and t: "t = tern (ti_match_type ti)"
  shows "wp (do {
      status \<leftarrow> pipe_mgr_table_key_insert_internal E tbl tt ent x pid;
      if status \<noteq> BF_SUCCESS then do {
        set_state tt tbl (\<lambda>st. st\<lparr>entry_info_htbl := snd (x_map_rmv E (entry_info_htbl st) (ucast x))\<rparr>);
        set_state tt tbl (\<lambda>st. st\<lparr>entry_handle_array := x_id_free E (entry_handle_array st) x\<rparr>);
        ret (status, 0) }
      else ret (BF_SUCCESS, x) }) (insert_post E tt tbl pid N A (key_of t ms) ent s) s"
proof -
  note map_ok = env_okD(1) [OF env(1)] and id_ok = env_okD(3) [OF env(1)] and hto = env_okD(4) [OF env(1)]
  have msS: "ent_spec tt ent s = Some ms" "spec_ok (tern (ti_match_type ti)) ms" using ents ms t by auto
  have Mx: "M (ucast x) = None" by (rule kt_map_fresh [OF st(6) fresh(2)])
  have rmv: "map_abs E (snd (x_map_rmv E m (ucast x))) = M" if "map_abs E m = M(ucast x \<mapsto> ent)" for m
    using map_rmv_abs [OF map_ok, of m "ucast x"] that Mx by (metis fun_upd_upd fun_upd_triv prod.collapse)
  show ?thesis
    unfolding wp_bind
  proof (rule wp_conseq [OF insert_internal_spec [OF view env(2) st(1) msS hto]], goal_cases)
    case (1 status u)
    then obtain kh where kh: "node_step tt tbl (pid mod 256) ti kh s u"
        "if status = BF_SUCCESS then node_added (ht_abs E (key_htbl (ti_state ti) ! (pid mod 256)))
           (key_of t ms) x ent s u (ht_abs E kh)
         else ht_abs E kh = ht_abs E (key_htbl (ti_state ti) ! (pid mod 256))"
      by (auto simp: node_result_def t)
    then have frame: "os_fault u = os_fault s" "os_locks u = os_locks s" "os_next s \<le> os_next u"
        "\<And>n. n \<le> os_next s \<Longrightarrow> w_nodes u n = w_nodes s n" "\<And>e. ent_spec tt e u = ent_spec tt e old"
        "\<And>e. ent_hdl tt e u = (if e = ent then Some x else ent_hdl tt e old)"
        and viewu: "tbl_view tt tbl u = Some (ti\<lparr>ti_state := (ti_state ti)
          \<lparr>key_htbl := (key_htbl (ti_state ti))[pid mod 256 := kh]\<rparr>\<rparr>)"
      using ents by (auto simp: node_step_def)
    show ?case
    proof (cases "status = BF_SUCCESS")
      case True
      have "kt_ents tt t N u (A(key_of t ms \<mapsto> (x, ent)))"
        by (rule kt_ents_insert [OF ents(1) frame(5,6) ms fresh(2)])
      moreover have "kt_nodes (ht_abs E kh) (w_nodes u) (os_next u) (A(key_of t ms \<mapsto> (x, ent)))"
        using kh(2) True frame by (intro kt_nodes_insert [OF st(3) ms(4)]) auto
      ultimately show ?thesis
        using True env frame viewu st fresh ms t
        by (auto simp: wp_simps insert_post_def kt_rel_def kt_state_def handles_insert kt_map_insert)
    next
      case False
      have "kt_ents tt t N u A" using frame by (intro kt_ents_same [OF ents(1) _ _ ms(1,4)]) auto
      moreover have "kt_nodes (ht_abs E kh) (w_nodes u) (os_next u) A"
        using kh(2) False kt_nodes_mono [OF st(3) frame(3,4)] by simp
      ultimately show ?thesis
        using False env frame viewu st fresh t
        by (auto simp: wp_simps insert_post_def kt_rel_def kt_state_def id_free_used [OF id_ok] rmv)
    qed
  qed
qed

lemma key_insert_locked_spec:
  assumes rel: "kt_rel E tt tbl (dev_pipe_id tgt) N s A" and t: "t = tbl_tern tt tbl s"
    and ms: "ent_spec tt ent s = Some ms" "spec_ok t ms" "num_match_bytes ms = N" "A (key_of t ms) = None"
  shows "wp (key_insert_locked E tgt tbl tt ent)
    (insert_post E tt tbl (dev_pipe_id tgt) N A (key_of t ms) ent s) s"
proof -
  let ?pid = "dev_pipe_id tgt"
  from rel obtain ti where ti: "tbl_view tt tbl s = Some ti" "kt_state E tt (?pid mod 256) N ti s A"
      and env: "env_ok E" "tbl_known tt" by (auto simp: kt_rel_def)
  note map_ok = env_okD(1) [OF env(1)] and id_ok = env_okD(3) [OF env(1)]
  from ti(2) t have st: "?pid mod 256 < length (key_htbl (ti_state ti))" "ti_dup_ent_chk ti"
      "kt_ents tt t N s A" "id_used E (entry_handle_array (ti_state ti)) = handles A"
      "kt_map (map_abs E (entry_info_htbl (ti_state ti))) A"
      "kt_nodes (ht_abs E (key_htbl (ti_state ti) ! (?pid mod 256))) (w_nodes s) (os_next s) A"
      and tt: "t = tern (ti_match_type ti)"
    using ti(1) by (auto simp: kt_state_def tbl_tern_def)
  obtain x ids where alloc: "x_id_alloc E (entry_handle_array (ti_state ti)) = (x, ids)" by force
  obtain sts m where add: "x_map_add E (entry_info_htbl (ti_state ti)) (ucast x) ent = (sts, m)" by force
  show ?thesis
  proof (rule id_alloc_cases [OF id_ok alloc], goal_cases)
    case 1
    with alloc ti st env tt show ?thesis
      by (simp add: key_insert_locked_def wp_simps insert_post_def kt_rel_def kt_state_def)
  next
    case 2
    with st have fresh: "x \<noteq> 0" "x \<notin> handles A" "id_used E ids = insert x (handles A)" by auto
    note M = map_add_new [OF map_ok kt_map_fresh [OF st(5) fresh(2)] add]
    let ?s = "hdl_upd tt ent x (st_upd tt tbl (\<lambda>st. st\<lparr>entry_handle_array := ids\<rparr>) s)"
    let ?ti = "ti\<lparr>ti_state := (ti_state ti)\<lparr>entry_handle_array := ids, entry_info_htbl := m\<rparr>\<rparr>"
    have ents: "ent_spec tt e ?s = ent_spec tt e s" "ent_hdl tt e ?s = (if e = ent then Some x else ent_hdl tt e s)" for e
      using ms by (auto simp: ent_hdl_hdl_upd)
    show ?thesis
    proof (cases "sts = BF_MAP_OK")
      case False
      have "kt_ents tt t N ?s A" using ents by (intro kt_ents_same [OF st(3) _ _ ms(1,4)]) auto
      with False 2 alloc add M ti st env tt fresh show ?thesis
        by (simp add: key_insert_locked_def wp_simps insert_post_def kt_rel_def kt_state_def
            id_free_used [OF id_ok])
    next
      case True
      let ?u = "st_upd tt tbl (\<lambda>st. st\<lparr>entry_info_htbl := m\<rparr>) ?s"
      have "wp (do {
          status \<leftarrow> pipe_mgr_table_key_insert_internal E tbl tt ent x ?pid;
          if status \<noteq> BF_SUCCESS then do {
            set_state tt tbl (\<lambda>st. st\<lparr>entry_info_htbl := snd (x_map_rmv E (entry_info_htbl st) (ucast x))\<rparr>);
            set_state tt tbl (\<lambda>st. st\<lparr>entry_handle_array := x_id_free E (entry_handle_array st) x\<rparr>);
            ret (status, 0) }
          else ret (BF_SUCCESS, x) }) (insert_post E tt tbl ?pid N A (key_of t ms) ent ?u) ?u"
        by (rule insert_hash_step [OF env, where ti = ?ti and M = "map_abs E (entry_info_htbl (ti_state ti))" and old = s])
          (use ti st env fresh M True ents ms tt in simp_all)
      moreover have "insert_post E tt tbl ?pid N A (key_of t ms) ent ?u =
          insert_post E tt tbl ?pid N A (key_of t ms) ent s"
        by (simp add: insert_post_def fun_eq_iff)
      ultimately show ?thesis
        using True 2 alloc add ti env by (simp add: key_insert_locked_def wp_simps)
    qed
  qed
qed

text \<open>\<^verbatim>\<open>pipe_mgr_table_key_insert\<close> adds the entry under a handle that was not in use, or fails and
  leaves the table as it was, whichever of its allocations failed.\<close>

lemma key_insert_spec:
  assumes rel: "kt_rel E tt tbl (dev_pipe_id tgt) N s A" and t: "t = tbl_tern tt tbl s"
    and ms: "ent_spec tt ent s = Some ms" "spec_ok t ms" "num_match_bytes ms = N" "A (key_of t ms) = None"
    and lock: "os_locks s (tbl_lock tt tbl) = Free"
  shows "wp (pipe_mgr_table_key_insert E tgt tbl tt ent)
    (insert_post E tt tbl (dev_pipe_id tgt) N A (key_of t ms) ent s) s"
proof -
  let ?l = "tbl_lock tt tbl"
  let ?s = "s\<lparr>os_clk := Suc (os_clk s), os_locks := (os_locks s)(?l := Held)\<rparr>"
  have E: "unlock_ok E" "tbl_known tt" using rel by (auto simp: kt_rel_def env_ok_def)
  have "wp (key_insert_locked E tgt tbl tt ent)
      (insert_post E tt tbl (dev_pipe_id tgt) N A (key_of t ms) ent ?s) ?s"
    by (rule key_insert_locked_spec) (use rel t ms in \<open>simp_all add: tbl_tern_def\<close>)
  then have "wp (key_insert_locked E tgt tbl tt ent) (\<lambda>r. wp (mutex_unlock E ?l)
      (\<lambda>rc u. insert_post E tt tbl (dev_pipe_id tgt) N A (key_of t ms) ent s
        (if rc \<noteq> 0 \<and> fst r = BF_SUCCESS then (BF_UNEXPECTED, snd r) else r) u)) ?s"
    using E lock
    by (elim wp_conseq) (auto simp: insert_post_def wp_mutex_unlock_held fun_upd_idem split: if_splits)
  with E lock rel show ?thesis
    by (auto simp: pipe_mgr_table_key_insert_def wp_simps wp_mutex_lock_free Let_def insert_post_def)
qed

end
