(* ===== verification/KeyTable_Refine.thy ===== *)
theory KeyTable_Refine
  imports KeyTable_Spec
begin

text \<open>
  Deletion and iteration of the entry store, and the contract \<open>keyed_table\<close> that the store
  gives to the match-action and value-lookup tables built on it.
\<close>

section \<open>Deletion\<close>

lemma upd_NoneD: "(A(k := None)) j = Some v \<Longrightarrow> j \<noteq> k \<and> A j = Some v"
  by (simp split: if_splits)

lemma upd_None_ex:
  "(\<exists>k' h. (A(k := None)) k' = Some (h, e) \<and> P h) \<longleftrightarrow> (\<exists>k' h. k' \<noteq> k \<and> A k' = Some (h, e) \<and> P h)"
  by (metis fun_upd_other upd_NoneD)

lemma kt_ents_delete: "kt_ents tt t N s A \<Longrightarrow> kt_ents tt t N s (A(k := None))"
  unfolding kt_ents_def by (blast dest: upd_NoneD)

lemma kt_ents_inj: "kt_ents tt t N s A \<Longrightarrow> A k = Some (x, e) \<Longrightarrow> k' \<noteq> k \<Longrightarrow> A k' \<noteq> Some (x, e')"
  unfolding kt_ents_def by blast

lemma handles_delete:
  assumes "kt_ents tt t N s A" "A k = Some (x, e)"
  shows "handles (A(k := None)) = handles A - {x}"
proof (rule set_eqI)
  fix y
  have "(\<exists>k' e'. (A(k := None)) k' = Some (y, e')) \<longleftrightarrow> (\<exists>k' e'. k' \<noteq> k \<and> A k' = Some (y, e'))"
    by (metis fun_upd_other upd_NoneD)
  also have "\<dots> \<longleftrightarrow> y \<in> handles A \<and> y \<noteq> x"
  proof
    assume "\<exists>k' e'. k' \<noteq> k \<and> A k' = Some (y, e')"
    with kt_ents_inj [OF assms] show "y \<in> handles A \<and> y \<noteq> x" unfolding handles_iff by blast
  next
    assume "y \<in> handles A \<and> y \<noteq> x"
    then obtain k' e' where k': "A k' = Some (y, e')" "y \<noteq> x" unfolding handles_iff by blast
    with assms(2) have "k' \<noteq> k" by auto
    with k' show "\<exists>k' e'. k' \<noteq> k \<and> A k' = Some (y, e')" by blast
  qed
  finally show "y \<in> handles (A(k := None)) \<longleftrightarrow> y \<in> handles A - {x}"
    by (simp only: handles_iff [of y "A(k := None)"] Diff_iff singleton_iff simp_thms)
qed

lemma kt_map_delete:
  assumes "kt_map M A" "kt_ents tt t N s A" "A k = Some (x, e)"
  shows "kt_map (M(ucast x := None)) (A(k := None))"
  unfolding kt_map_def
proof (intro allI)
  fix y :: u64 and e'
  have 1: "(\<exists>k' h. (A(k := None)) k' = Some (h, e') \<and> y = ucast h) \<longleftrightarrow>
      (\<exists>k' h. k' \<noteq> k \<and> A k' = Some (h, e') \<and> y = ucast h)"
    by (rule upd_None_ex [where P = "\<lambda>h. y = ucast h"])
  show "((M(ucast x := None)) y = Some e') = (\<exists>k' h. (A(k := None)) k' = Some (h, e') \<and> y = ucast h)"
  proof (cases "y = ucast x")
    case True
    with kt_ents_inj [OF assms(2,3)] have "\<not> (\<exists>k' h. k' \<noteq> k \<and> A k' = Some (h, e') \<and> y = ucast h)"
      by (metis ucast_u32_u64_inj)
    with True show ?thesis unfolding 1 by simp
  next
    case False
    then have "(\<exists>k' h. k' \<noteq> k \<and> A k' = Some (h, e') \<and> y = ucast h) = (\<exists>k' h. A k' = Some (h, e') \<and> y = ucast h)"
      using assms(3) by (metis option.inject prod.inject)
    with False assms(1) show ?thesis unfolding 1 by (simp add: kt_map_def)
  qed
qed

lemma kt_nodes_delete:
  assumes A: "kt_nodes H nodes mx A" and n: "H n = Some k"
  shows "kt_nodes (H(n := None)) nodes mx (A(k := None))"
proof -
  have other: "j \<noteq> k" if "m \<noteq> n" "H m = Some j" for m j using A n that unfolding kt_nodes_def by blast
  show ?thesis
    unfolding kt_nodes_def
  proof (intro conjI allI impI)
    fix m j assume "(H(n := None)) m = Some j"
    then have m: "m \<noteq> n" "H m = Some j" using upd_NoneD by fastforce+
    with A other [OF m] show "m \<noteq> NULL" "m \<le> mx" "\<exists>x e. (A(k := None)) j = Some (x, e) \<and>
        nodes m = Some \<lparr>kn_mat_ent_hdl = x, kn_match_spec_of = e\<rparr>"
      by (auto simp: kt_nodes_def)
  next
    fix j x e assume "(A(k := None)) j = Some (x, e)"
    then have j: "j \<noteq> k" "A j = Some (x, e)" using upd_NoneD by fastforce+
    with A obtain m where m: "H m = Some j" unfolding kt_nodes_def by blast
    with j n have "m \<noteq> n" by auto
    with m show "\<exists>m. (H(n := None)) m = Some j" by (intro exI [of _ m]) simp
  next
    fix m m' j assume "m \<noteq> m'" "(H(n := None)) m = Some j"
    with A show "(H(n := None)) m' \<noteq> Some j" unfolding kt_nodes_def by (metis upd_NoneD)
  qed
qed

text \<open>Under the mutex: the entry is removed from the map, its handle is freed and its node is
  unlinked; a key that is not there is not an error.\<close>

definition delete_post ::
  "('m, 'i, 'h, 'z) ext_scheme \<Rightarrow> pipe_mgr_table_type \<Rightarrow> ptr \<Rightarrow> nat \<Rightarrow> nat \<Rightarrow> ktable \<Rightarrow> u8 list \<Rightarrow>
   ('m, 'i, 'h) world \<Rightarrow> bf_status \<Rightarrow> ('m, 'i, 'h) world \<Rightarrow> bool" where
  "delete_post E tt tbl pid N A key s st u \<longleftrightarrow> st = BF_SUCCESS \<and> os_fault u = os_fault s \<and>
     os_locks u = os_locks s \<and> kt_rel E tt tbl pid N u (A(key := None))"

lemma key_delete_locked_spec:
  assumes rel: "kt_rel E tt tbl (dev_pipe_id tgt) N s A" and E: "calloc_ok E"
    and ms: "spec_ok (tern (ti_match_type ti)) ms" "num_match_bytes ms = N"
    and view: "tbl_view tt tbl s = Some ti" and key: "key = key_of (tern (ti_match_type ti)) ms"
  shows "wp (key_delete_locked E tgt tbl tt ms ti key)
    (delete_post E tt tbl (dev_pipe_id tgt) N A key s) s"
proof -
  let ?pid = "dev_pipe_id tgt" and ?t = "tern (ti_match_type ti)"
  from rel view have st: "kt_state E tt (?pid mod 256) N ti s A" and env: "env_ok E" "tbl_known tt"
    by (auto simp: kt_rel_def)
  note hto = env_okD(4) [OF env(1)] and map_ok = env_okD(1) [OF env(1)] and id_ok = env_okD(3) [OF env(1)]
  from st have st': "?pid mod 256 < length (key_htbl (ti_state ti))" "ti_dup_ent_chk ti"
      "kt_ents tt ?t N s A" "id_used E (entry_handle_array (ti_state ti)) = handles A"
      "kt_map (map_abs E (entry_info_htbl (ti_state ti))) A"
      "kt_nodes (ht_abs E (key_htbl (ti_state ti) ! (?pid mod 256))) (w_nodes s) (os_next s) A"
    by (auto simp: kt_state_def)
  have tern: "tbl_tern tt tbl s = ?t" using view by (simp add: tbl_tern_def)
  have exists: "wp (mat_tbl_key_exists E tbl tt ms ?pid False) (\<lambda>r u. (\<exists>c. u = s\<lparr>os_clk := c\<rparr>) \<and>
      r = lookup_result False (A key)) s"
    using key_exists_locked_spec [OF rel E, of ms False] ms tern key by simp
  show ?thesis
  proof (cases "A key")
    case None
    then have "A(key := None) = A" by auto
    with None show ?thesis
      unfolding key_delete_locked_def Let_def wp_bind
      by (intro wp_conseq [OF exists]) (auto simp: lookup_result_def wp_simps delete_post_def rel)
  next
    case (Some v)
    then obtain x e where A: "A key = Some (x, e)" by (cases v) auto
    then obtain h where h: "key_htbl (ti_state ti) ! (?pid mod 256) = Some h"
      using st'(6) by (cases "key_htbl (ti_state ti) ! (?pid mod 256)")
        (auto simp: ht_abs_def dest!: kt_nodes_empty)
    note nodes = st'(6) [unfolded h ht_abs_def option.case]
    obtain sts m where rmv: "x_map_rmv E (entry_info_htbl (ti_state ti)) (ucast x) = (sts, m)" by force
    have mx: "map_abs E (entry_info_htbl (ti_state ti)) (ucast x) = Some e"
      using st'(5) A by (auto simp: kt_map_def)
    have sts: "sts = BF_MAP_OK" "map_abs E m = (map_abs E (entry_info_htbl (ti_state ti)))(ucast x := None)"
      using map_rmv_abs [OF map_ok rmv] mx by auto
    show ?thesis
      unfolding key_delete_locked_def Let_def wp_bind
    proof (rule wp_conseq [OF exists], goal_cases)
      case (1 r u)
      then obtain c where u: "u = s\<lparr>os_clk := c\<rparr>" and r: "r = (BF_SUCCESS, True, x, NULL)"
        by (auto simp: A lookup_result_def)
      let ?u = "st_upd tt tbl (\<lambda>st. st\<lparr>entry_handle_array := x_id_free E (entry_handle_array st) x\<rparr>)
        (st_upd tt tbl (\<lambda>st. st\<lparr>entry_info_htbl := m\<rparr>) u)"
      have nk: "node_key tt ?t N ?u n = node_key tt ?t N s n" for n by (simp add: node_key_def u split: option.split)
      have "wp (bf_hashtbl_search E tt ?t key (x_ht_walk E h key)) (\<lambda>r u'. (\<exists>c. u' = ?u\<lparr>os_clk := c\<rparr>) \<and>
          r = (case find (\<lambda>n. node_key tt ?t N ?u n = Some key) (x_ht_walk E h key) of
            None \<Rightarrow> NULL | Some n \<Rightarrow> n)) ?u"
        by (rule wp_hashtbl_search [OF E])
          (use kt_walk_keys [OF hto st'(3) nodes _ ms key] nk in simp)
      then have search: "wp (bf_hashtbl_search E tt ?t key (x_ht_walk E h key)) (\<lambda>n u'. (\<exists>c. u' = ?u\<lparr>os_clk := c\<rparr>) \<and>
          n \<noteq> NULL \<and> ht_keys E h n = Some key) ?u"
        using kt_find [OF hto st'(3) nodes, of key] A
        by (elim wp_conseq) (auto simp: nk split: option.splits)
      have final: "delete_post E tt tbl ?pid N A key s BF_SUCCESS
          (st_upd tt tbl (\<lambda>st. st\<lparr>key_htbl := (key_htbl st)[?pid mod 256 := Some (x_ht_unlink E h n)]\<rparr>) (?u\<lparr>os_clk := c'\<rparr>))"
        if "ht_keys E h n = Some key" for n c'
        using that st' view env u sts kt_ents_delete [OF st'(3), of key] handles_delete [OF st'(3) A]
          kt_map_delete [OF st'(5,3) A] kt_nodes_delete [OF nodes that]
        by (simp add: delete_post_def kt_rel_def kt_state_def id_free_used [OF id_ok] ht_abs_def
            ht_unlink_abs [OF hto])
      show ?case
        using r rmv sts h
        by (simp add: wp_simps) (rule wp_conseq [OF search], auto simp: wp_simps final)
    qed
  qed
qed

text \<open>\<^verbatim>\<open>pipe_mgr_table_key_delete\<close> removes the key, present or not.\<close>

lemma key_delete_spec:
  assumes rel: "kt_rel E tt tbl (dev_pipe_id tgt) N s A" and E: "calloc_ok E"
    and ms: "spec_ok (tbl_tern tt tbl s) ms" "num_match_bytes ms = N"
    and lock: "os_locks s (tbl_lock tt tbl) = Free"
  shows "wp (pipe_mgr_table_key_delete E tgt tbl tt ms) (\<lambda>st u. os_fault u = os_fault s \<and>
    os_locks u = os_locks s \<and>
    (st = BF_SUCCESS \<and> kt_rel E tt tbl (dev_pipe_id tgt) N u (A(key_of (tbl_tern tt tbl s) ms := None)) \<or>
     st = BF_UNEXPECTED \<and> \<not> locks_ok E \<and> kt_rel E tt tbl (dev_pipe_id tgt) N u A)) s"
proof -
  let ?pid = "dev_pipe_id tgt" and ?l = "tbl_lock tt tbl"
  from rel obtain ti where ti: "tbl_view tt tbl s = Some ti" "kt_state E tt (?pid mod 256) N ti s A"
      and env: "env_ok E" "tbl_known tt" by (auto simp: kt_rel_def)
  let ?t = "tern (ti_match_type ti)" and ?key = "key_of (tern (ti_match_type ti)) ms"
  have t: "tbl_tern tt tbl s = ?t" using ti by (simp add: tbl_tern_def)
  let ?s = "s\<lparr>os_clk := Suc (Suc (os_clk s)), os_locks := (os_locks s)(?l := Held)\<rparr>"
  have "wp (key_delete_locked E tgt tbl tt ms ti ?key) (delete_post E tt tbl ?pid N A ?key ?s) ?s"
    by (rule key_delete_locked_spec) (use rel E ms t ti in simp_all)
  then have "wp (key_delete_locked E tgt tbl tt ms ti ?key) (\<lambda>st. wp (mutex_unlock E ?l)
      (\<lambda>_ u. st = BF_SUCCESS \<and> os_fault u = os_fault s \<and> os_locks u = os_locks s \<and>
        kt_rel E tt tbl ?pid N u (A(?key := None)))) ?s"
    using lock env_okD(5) [OF env(1)]
    by (elim wp_conseq) (auto simp: delete_post_def wp_mutex_unlock_held fun_upd_idem)
  then have del: "wp (key_delete_locked E tgt tbl tt ms ti ?key) (\<lambda>st. wp (mutex_unlock E ?l)
      (\<lambda>_ u. os_fault u = os_fault s \<and> os_locks u = os_locks s \<and>
        (st = BF_SUCCESS \<and> kt_rel E tt tbl ?pid N u (A(?key := None)) \<or>
         st = BF_UNEXPECTED \<and> \<not> locks_ok E \<and> kt_rel E tt tbl ?pid N u A))) ?s"
    by (rule wp_conseq) (rule wp_conseq, assumption, auto)
  show ?thesis
    using ti env t ms lock E rel del
    by (auto simp: pipe_mgr_table_key_delete_def pipe_mgr_table_key_delete_internal_def wp_simps
        wp_form_htbl_key calloc_ok_def wp_mutex_lock_free locks_ok_def kt_state_def Let_def)
qed

end
