(* ===== verification/KeyTable_Iter.thy ===== *)
theory KeyTable_Iter
  imports KeyTable_Refine
begin

text \<open>
  Iteration over a key table: \<^verbatim>\<open>pipe_mgr_table_get_first\<close> and
  \<^verbatim>\<open>pipe_mgr_table_get_next_n\<close> of \<^verbatim>\<open>pipe_mgr_tbl.c\<close> enumerate the handles of the
  stored entries in ascending order.
\<close>

section \<open>Iteration\<close>

text \<open>The handles above a given one, in ascending order.\<close>

definition handles_above :: "ktable \<Rightarrow> u32 \<Rightarrow> u32 list" where
  "handles_above A h = sorted_list_of_set {x \<in> handles A. h < x}"

lemma ucast_less [simp]: "(ucast (a :: u32) :: u64) < ucast b \<longleftrightarrow> a < b"
  by transfer (simp add: take_bit_take_bit)

lemma ucast_le [simp]: "(ucast (a :: u32) :: u64) \<le> ucast b \<longleftrightarrow> a \<le> b"
  by transfer (simp add: take_bit_take_bit)

lemma ucast_back [simp]: "(ucast (ucast (a :: u32) :: u64) :: u32) = a"
  by transfer (simp add: take_bit_take_bit)

lemma kt_map_dom: "kt_map M A \<Longrightarrow> dom M = ucast ` handles A"
  unfolding kt_map_def dom_def image_def by (auto simp: handles_iff; blast)

lemma handles_above_Cons:
  assumes "m \<in> handles A" "h < m" "\<And>x. x \<in> handles A \<Longrightarrow> h < x \<Longrightarrow> m \<le> x"
  shows "handles_above A h = m # handles_above A m"
proof -
  let ?S = "{x \<in> handles A. h < x}"
  have "Min ?S = m" using assms by (intro Min_eqI) auto
  moreover have "?S - {m} = {x \<in> handles A. m < x}" using assms by force
  ultimately show ?thesis
    unfolding handles_above_def using assms(1,2) by (subst sorted_list_of_set_nonempty) auto
qed

lemma get_next_step:
  assumes "map_iter_ok E" "kt_map (map_abs E m) A" "x_map_get_next E m (ucast h) = (sts, k, p)"
  shows "if handles_above A h = [] then sts = BF_MAP_NO_KEY
    else sts = BF_MAP_OK \<and> k = ucast (hd (handles_above A h)) \<and>
      handles_above A h = hd (handles_above A h) # handles_above A (hd (handles_above A h))"
proof -
  note dom = kt_map_dom [OF assms(2)]
  have S: "{k' \<in> dom (map_abs E m). ucast h < k'} = ucast ` {x \<in> handles A. h < x}"
    unfolding dom by auto
  have nil: "handles_above A h = [] \<longleftrightarrow> {x \<in> handles A. h < x} = {}"
    by (simp add: handles_above_def)
  have spec: "if {k' \<in> dom (map_abs E m). ucast h < k'} = {} then sts = BF_MAP_NO_KEY
      else sts = BF_MAP_OK \<and> ucast h < k \<and> map_abs E m k = Some p \<and>
        (\<forall>k' \<in> dom (map_abs E m). ucast h < k' \<longrightarrow> k \<le> k')"
    using assms(1,3) unfolding map_iter_ok_def by blast
  show ?thesis
  proof (cases "handles_above A h = []")
    case True
    with spec S nil show ?thesis by simp
  next
    case False
    with spec S nil have k: "sts = BF_MAP_OK" "ucast h < k" "map_abs E m k = Some p"
        "\<And>k'. k' \<in> dom (map_abs E m) \<Longrightarrow> ucast h < k' \<Longrightarrow> k \<le> k'" by (auto split: if_splits)
    then obtain x where x: "k = ucast x" "x \<in> handles A" using dom by blast
    have "handles_above A h = x # handles_above A x"
      using k(2) k(4) [unfolded dom, OF imageI] x by (intro handles_above_Cons) auto
    with k x False show ?thesis by simp
  qed
qed

lemma get_next_loop_spec:
  assumes "map_iter_ok E" "kt_map (map_abs E m) A"
  shows "get_next_loop E m n (ucast h) =
    (if n \<le> length (handles_above A h) then (BF_MAP_OK, take n (handles_above A h))
     else (BF_MAP_NO_KEY, handles_above A h @ [-1]))"
proof (induction n arbitrary: h)
  case (Suc n)
  obtain sts k p where nxt: "x_map_get_next E m (ucast h) = (sts, k, p)" by (metis prod_cases3)
  note step = get_next_step [OF assms nxt]
  show ?case
  proof (cases "handles_above A h = []")
    case False
    with step obtain x where "sts = BF_MAP_OK" "k = ucast x" "handles_above A h = x # handles_above A x"
      by auto
    with nxt Suc.IH [of x] show ?thesis by simp
  qed (use step nxt in simp)
qed simp

text \<open>\<^verbatim>\<open>pipe_mgr_table_get_next_n\<close> lists the next handles in ascending order and marks the end
  with -1.\<close>

lemma get_next_n_spec:
  assumes rel: "kt_rel E tt tbl pid N s A" and lock: "os_locks s (tbl_lock tt tbl) = Free" and E: "locks_ok E"
  shows "wp (pipe_mgr_table_get_next_n E tbl tt h n True) (\<lambda>r u. (\<exists>c. u = s\<lparr>os_clk := c\<rparr>) \<and>
    r = (if n \<le> length (handles_above A h) then (BF_SUCCESS, take n (handles_above A h))
         else (if handles_above A h = [] then BF_OBJECT_NOT_FOUND else BF_SUCCESS, handles_above A h @ [-1]))) s"
proof -
  from rel obtain ti where ti: "tbl_view tt tbl s = Some ti" "kt_map (map_abs E (entry_info_htbl (ti_state ti))) A"
      and env: "env_ok E" "tbl_known tt" by (auto simp: kt_rel_def kt_state_def)
  show ?thesis
    using ti lock E env env_okD(5) [OF env(1)]
    by (auto simp: pipe_mgr_table_get_next_n_def wp_simps fun_upd_idem wp_mutex_lock_free Let_def locks_ok_def
        wp_mutex_unlock_held get_next_loop_spec [OF env_okD(2) [OF env(1)] ti(2)])
qed

lemma get_first_spec:
  assumes rel: "kt_rel E tt tbl pid N s A" and lock: "os_locks s (tbl_lock tt tbl) = Free" and E: "locks_ok E"
  shows "wp (pipe_mgr_table_get_first E tbl tt True) (\<lambda>r u. (\<exists>c. u = s\<lparr>os_clk := c\<rparr>) \<and>
    (if handles A = {} then r = (BF_OBJECT_NOT_FOUND, -1) else r = (BF_SUCCESS, Min (handles A)))) s"
proof -
  from rel obtain ti where ti: "tbl_view tt tbl s = Some ti" "kt_map (map_abs E (entry_info_htbl (ti_state ti))) A"
      and env: "env_ok E" "tbl_known tt" by (auto simp: kt_rel_def kt_state_def)
  note dom = kt_map_dom [OF ti(2)]
  obtain sts k p where fst: "x_map_get_first E (entry_info_htbl (ti_state ti)) = (sts, k, p)"
    by (metis prod_cases3)
  let ?M = "map_abs E (entry_info_htbl (ti_state ti))"
  have iter: "if dom ?M = {} then sts = BF_MAP_NO_KEY
      else sts = BF_MAP_OK \<and> ?M k = Some p \<and> (\<forall>k' \<in> dom ?M. k \<le> k')"
    using env_okD(2) [OF env(1)] fst unfolding map_iter_ok_def by blast
  have spec: "if handles A = {} then sts = BF_MAP_NO_KEY else sts = BF_MAP_OK \<and> ucast k = Min (handles A)"
  proof (cases "handles A = {}")
    case False
    with iter dom have k: "sts = BF_MAP_OK" "k \<in> dom ?M" "\<forall>k' \<in> dom ?M. k \<le> k'" by auto
    then obtain x where "k = ucast x" "x \<in> handles A" unfolding dom by blast
    with k False show ?thesis unfolding dom by (auto intro!: Min_eqI [symmetric])
  qed (use iter dom in simp)
  show ?thesis
    using ti lock E env env_okD(5) [OF env(1)] fst spec
    by (auto simp: pipe_mgr_table_get_first_def wp_simps fun_upd_idem wp_mutex_lock_free Let_def locks_ok_def
        wp_mutex_unlock_held)
qed

end
