(* ===== verification/KeyTable_Iface.thy ===== *)
theory KeyTable_Iface
  imports KeyTable_Iter
begin

text \<open>
  What the features rely on when they use the store of \<^verbatim>\<open>pipe_mgr_tbl.c\<close>, as a contract: a
  finite map from match keys to handles and entries, with lookup, insertion and deletion. The
  contract is discharged by the three operations of the store, for match-action and for
  value-lookup tables alike, and what a client observes is proved from the contract alone.
\<close>

section \<open>The contract\<close>

locale keyed_table =
  fixes rel :: "'s \<Rightarrow> ktable \<Rightarrow> bool"
    and spec_key :: "'q \<Rightarrow> u8 list option"
    and ent_key :: "'s \<Rightarrow> ptr \<Rightarrow> u8 list option"
    and lookup :: "'q \<Rightarrow> ('s, bf_status \<times> bool \<times> u32 \<times> ptr) state"
    and put :: "ptr \<Rightarrow> ('s, bf_status \<times> u32) state"
    and del :: "'q \<Rightarrow> ('s, bf_status) state"
  assumes lookup_ok: "rel s A \<Longrightarrow> spec_key q = Some k \<Longrightarrow>
      wp (lookup q) (\<lambda>r t. rel t A \<and> r = lookup_result True (A k)) s"
    and put_ok: "rel s A \<Longrightarrow> ent_key s e = Some k \<Longrightarrow> A k = None \<Longrightarrow>
      wp (put e) (\<lambda>r t. if fst r = BF_SUCCESS
        then snd r \<noteq> 0 \<and> snd r \<notin> handles A \<and> rel t (A(k \<mapsto> (snd r, e))) else rel t A) s"
    and del_ok: "rel s A \<Longrightarrow> spec_key q = Some k \<Longrightarrow>
      wp (del q) (\<lambda>st t. st = BF_SUCCESS \<and> rel t (A(k := None))) s"
begin

text \<open>An inserted entry is found, with its handle; every other key answers as before.\<close>

lemma lookup_after_put:
  assumes "rel s A" "ent_key s e = Some k" "A k = None" "spec_key q = Some k'"
  shows "wp (do { r \<leftarrow> put e; l \<leftarrow> lookup q; ret (r, l) })
    (\<lambda>(r, l) t. l = lookup_result True (if k' = k \<and> fst r = BF_SUCCESS then Some (snd r, e) else A k')) s"
  unfolding wp_bind wp_return
  by (rule wp_conseq [OF put_ok [OF assms(1-3)]])
    (auto split: if_splits elim!: wp_conseq dest!: lookup_ok [OF _ assms(4)] simp: assms(3))

text \<open>A deleted key is absent; every other key answers as before.\<close>

lemma lookup_after_del:
  assumes "rel s A" "spec_key q = Some k" "spec_key q' = Some k'"
  shows "wp (do { del q; lookup q' }) (\<lambda>l t. l = lookup_result True (if k' = k then None else A k')) s"
  unfolding wp_bind
  by (rule wp_conseq [OF del_ok [OF assms(1,2)]])
    (auto elim!: wp_conseq dest!: lookup_ok [OF _ assms(3)])

text \<open>Deleting what was inserted gives the table back.\<close>

lemma del_after_put:
  assumes "rel s A" "ent_key s e = Some k" "A k = None" "spec_key q = Some k"
  shows "wp (do { put e; del q }) (\<lambda>st t. st = BF_SUCCESS \<and> rel t A) s"
proof -
  have "A(k := None) = A" "(A(k \<mapsto> v))(k := None) = A" for v using assms(3) by auto
  then show ?thesis
    unfolding wp_bind
    by (intro wp_conseq [OF put_ok [OF assms(1-3)]])
      (auto split: if_splits dest!: del_ok [OF _ assms(4)])
qed

end

section \<open>The store satisfies the contract\<close>

definition spec_key :: "bool \<Rightarrow> nat \<Rightarrow> pipe_tbl_match_spec \<Rightarrow> u8 list option" where
  "spec_key is_tern N ms =
     (if spec_ok is_tern ms \<and> num_match_bytes ms = N then Some (key_of is_tern ms) else None)"

definition ent_key ::
  "pipe_mgr_table_type \<Rightarrow> bool \<Rightarrow> nat \<Rightarrow> ('m, 'i, 'h) world \<Rightarrow> ptr \<Rightarrow> u8 list option" where
  "ent_key tt is_tern N s e = Option.bind (ent_spec tt e s) (spec_key is_tern N)"

text \<open>The table holds \<open>A\<close>, nobody holds its mutex, and the platform has memory.\<close>

definition kt_ready ::
  "('m, 'i, 'h, 'z) ext_scheme \<Rightarrow> pipe_mgr_table_type \<Rightarrow> ptr \<Rightarrow> nat \<Rightarrow> nat \<Rightarrow> bool \<Rightarrow>
   ('m, 'i, 'h) world \<Rightarrow> ktable \<Rightarrow> bool" where
  "kt_ready E tt tbl pid N is_tern s A \<longleftrightarrow> kt_rel E tt tbl pid N s A \<and> tbl_tern tt tbl s = is_tern \<and>
     os_locks s (tbl_lock tt tbl) = Free \<and> locks_ok E \<and> calloc_ok E"

lemma tbl_tern_st_upd [simp]: "tbl_tern tt p (st_upd tt' p' f s) = tbl_tern tt p s"
  by (cases tt; cases tt')
    (auto simp: tbl_tern_def option.map_comp comp_def split: option.split)

lemma tbl_tern_hdl_upd [simp]: "tbl_tern tt p (hdl_upd tt' e h s) = tbl_tern tt p s"
  by (cases tt; cases tt') (auto simp: tbl_tern_def)

lemma tbl_tern_os [simp]:
  "tbl_tern tt p (s\<lparr>os_clk := c\<rparr>) = tbl_tern tt p s" "tbl_tern tt p (s\<lparr>os_fault := b\<rparr>) = tbl_tern tt p s"
  "tbl_tern tt p (s\<lparr>os_next := n\<rparr>) = tbl_tern tt p s" "tbl_tern tt p (s\<lparr>os_locks := l\<rparr>) = tbl_tern tt p s"
  "tbl_tern tt p (s\<lparr>w_nodes := ns\<rparr>) = tbl_tern tt p s"
  by (cases tt; simp add: tbl_tern_def)+

lemma keeps_tbl_tern [keeps_intros]:
  "keeps (tbl_tern tt p) (set_state tt' p' f)" "keeps (tbl_tern tt p) (set_ent_hdl tt' e h)"
  by (simp_all add: set_state_def set_ent_hdl_def keeps_modify)

lemma keeps_tern_search [keeps_intros]: "keeps (tbl_tern tt p) (bf_hashtbl_search E tt' t key ns)"
  by (induction ns) (auto simp: key_cmp_fn_def pipe_mgr_cmp_match_value_bits_def
      pipe_mgr_form_htbl_key_def intro!: keeps_intros)

lemmas key_table_unfold = key_table_defs mutex_lock_def mutex_unlock_def key_insert_locked_def
  key_delete_locked_def pipe_mgr_table_key_insert_internal_def alloc_key_htbl_def insert_htbl_node_def
  mat_tbl_key_exists_def pipe_mgr_form_htbl_key_def

lemma keeps_tern_insert: "keeps (tbl_tern tt p) (pipe_mgr_table_key_insert E tgt tbl tt' ent)"
  unfolding key_table_unfold by (rule keeps_intros | simp)+

lemma keeps_tern_delete: "keeps (tbl_tern tt p) (pipe_mgr_table_key_delete E tgt tbl tt' ms)"
  unfolding key_table_unfold by (rule keeps_intros | simp)+

interpretation kt: keyed_table "kt_ready E tt tbl (dev_pipe_id tgt) N is_tern" "spec_key is_tern N"
  "ent_key tt is_tern N" "\<lambda>ms. pipe_mgr_table_key_exists E tbl tt ms (dev_pipe_id tgt) True"
  "pipe_mgr_table_key_insert E tgt tbl tt" "pipe_mgr_table_key_delete E tgt tbl tt"
  for E tt tbl tgt N is_tern
proof (unfold_locales, goal_cases)
  case (1 s A q k)
  then show ?case
    by (intro wp_conseq [OF key_exists_spec [of E tt tbl "dev_pipe_id tgt" N s A]])
      (auto simp: kt_ready_def spec_key_def split: if_splits)
next
  case (2 s A e k)
  then obtain ms where "ent_spec tt e s = Some ms" "spec_key is_tern N ms = Some k"
    by (auto simp: ent_key_def bind_eq_Some_conv)
  with 2 show ?case
    by (intro wp_conseq [OF wp_conj [OF key_insert_spec [of E tt tbl tgt N s A is_tern e ms]
            keeps_wp [OF keeps_tern_insert [of tt tbl]]]])
      (auto simp: kt_ready_def spec_key_def insert_post_def split: if_splits)
next
  case (3 s A q k)
  then show ?case
    by (intro wp_conseq [OF wp_conj [OF key_delete_spec [of E tt tbl tgt N s A q]
            keeps_wp [OF keeps_tern_delete [of tt tbl]]]])
      (auto simp: kt_ready_def spec_key_def split: if_splits)
qed

end
