(* ===== verification/KeyTable_Props.thy ===== *)
theory KeyTable_Props
  imports KeyTable_Iface
begin

text \<open>
  The properties of the store of table entries, over the operations of
  \<^verbatim>\<open>pipe_mgr_tbl.c\<close>, and a concrete table on which they apply.
\<close>

section \<open>A concrete table\<close>

definition ex_spec :: "u8 list \<Rightarrow> pipe_tbl_match_spec" where
  "ex_spec bs = \<lparr>num_valid_match_bits = 8 * length bs, num_match_bytes = length bs, match_value_bits = bs,
     match_mask_bits = replicate (length bs) 255, match_field_validity = 0, priority = 0\<rparr>"

definition ex_mat_ctx :: pipe_mgr_mat_ctx where
  "ex_mat_ctx = \<lparr>mc_handle = 1, mc_name = ''t'', mc_target_table_name = ''t'', mc_add_on_miss = False,
     mc_mat_key_fields_count = 1,
     mc_mat_key_fields = [\<lparr>kf_name = ''k'', kf_match_type = PIPE_MGR_MATCH_TYPE_EXACT\<rparr>],
     mc_actions = [], mc_match_type = PIPE_MGR_MATCH_TYPE_EXACT, mc_match_stage_table_count = 0,
     mc_match_stage_table = None, mc_store_entries = True, mc_duplicate_entry_check = True,
     mc_adt_count = 0, mc_sel_tbl_count = 0, mc_adt_handle = 0, mc_stage_table_count = 0,
     mc_stage_table = None\<rparr>"

definition ex_mat :: "(lmap, lids, lht) pipe_mgr_mat" where
  "ex_mat = \<lparr>mat_ctx = ex_mat_ctx, mat_state = Some \<lparr>entry_handle_array = [], entry_info_htbl = [],
     mbr_id_htbl = [], key_htbl = [None]\<rparr>\<rparr>"

definition ex_entry :: "u8 list \<Rightarrow> pipe_mgr_mat_entry_info" where
  "ex_entry bs = \<lparr>me_mat_ent_hdl = 0, me_act_fn_hdl = 0, me_match_spec = ex_spec bs,
     me_act_data_spec = \<lparr>pipe_action_datatype_bmap = 0,
       act_data = \<lparr>num_valid_action_data_bits = 0, num_action_data_bytes = 0, action_data_bits = []\<rparr>,
       as_adt_ent_hdl = 0, as_sel_grp_hdl = 0, resources = [], resource_count = 0\<rparr>\<rparr>"

definition ex_tgt :: bf_dev_target where
  "ex_tgt = \<lparr>device_id = 0, dev_pipe_id = 0\<rparr>"

text \<open>An empty table at address 1 and an entry with the key 10.1 at address 2.\<close>

definition ex_world :: "(lmap, lids, lht) world" where
  "ex_world = world0\<lparr>os_next := 2, os_locks := (\<lambda>_. Free), w_mats := [1 \<mapsto> ex_mat],
     w_mat_ents := [2 \<mapsto> ex_entry [10, 1]]\<rparr>"

lemmas ex_table_defs = ex_world_def ex_mat_def ex_mat_ctx_def ex_entry_def ex_spec_def ex_tgt_def

lemma handles_empty [simp]: "handles Map.empty = {}"
  by (auto simp: handles_iff)

lemma ex_kt_rel: "kt_rel ref_env PIPE_MGR_TABLE_TYPE_MAT 1 (dev_pipe_id ex_tgt) 2 ex_world Map.empty"
  by (auto simp: kt_rel_def tbl_known_def kt_state_def ex_table_defs kt_ents_def kt_map_def kt_nodes_def ht_abs_def)
    (simp_all add: ref_env_def)

lemma ex_ready:
  "kt_ready ref_env PIPE_MGR_TABLE_TYPE_MAT 1 (dev_pipe_id ex_tgt) 2 False ex_world Map.empty"
  using ex_kt_rel by (simp add: kt_ready_def tbl_tern_def) (simp add: ex_table_defs tern_def)

lemma ex_keys [simp]:
  "ent_key PIPE_MGR_TABLE_TYPE_MAT False 2 ex_world 2 = Some [10, 1]"
  "spec_key False 2 (ex_spec [a, b]) = Some [a, b]"
  by (simp_all add: ent_key_def spec_key_def spec_ok_def key_of_def ex_table_defs)

section \<open>Properties\<close>

text \<open>C7. Insert, then look up: an entry inserted under a key that was absent is found under that key
  with the handle that the insertion returned, and every other key answers as before. When the
  insertion fails, every key answers as before.\<close>

theorem table_insert_lookup:
  assumes "kt_ready E tt tbl (dev_pipe_id tgt) N is_tern s A"
    and "ent_key tt is_tern N s ent = Some k" "A k = None" "spec_key is_tern N ms = Some k'"
  shows "wp (do { r \<leftarrow> pipe_mgr_table_key_insert E tgt tbl tt ent;
                  l \<leftarrow> pipe_mgr_table_key_exists E tbl tt ms (dev_pipe_id tgt) True; ret (r, l) })
    (\<lambda>(r, l) t. l = lookup_result True
       (if k' = k \<and> fst r = BF_SUCCESS then Some (snd r, ent) else A k')) s"
  by (rule kt.lookup_after_put [OF assms])

theorem table_insert_lookup_witness:
  "wp (do { r \<leftarrow> pipe_mgr_table_key_insert ref_env ex_tgt 1 PIPE_MGR_TABLE_TYPE_MAT 2;
            l \<leftarrow> pipe_mgr_table_key_exists ref_env 1 PIPE_MGR_TABLE_TYPE_MAT (ex_spec [10, 1])
              (dev_pipe_id ex_tgt) True; ret (r, l) })
    (\<lambda>(r, l) t. l = (if fst r = BF_SUCCESS then (BF_SUCCESS, True, snd r, 2)
       else (BF_SUCCESS, False, 0, NULL))) ex_world"
  by (rule wp_conseq [OF table_insert_lookup [OF ex_ready ex_keys(1) _ ex_keys(2)]])
    (auto simp: lookup_result_def)

text \<open>C8. Delete, then look up: the deleted key is absent, whether or not it was there, and every other
  key answers as before.\<close>

theorem table_delete_lookup:
  assumes "kt_ready E tt tbl (dev_pipe_id tgt) N is_tern s A"
    and "spec_key is_tern N ms = Some k" "spec_key is_tern N ms' = Some k'"
  shows "wp (do { pipe_mgr_table_key_delete E tgt tbl tt ms;
                  pipe_mgr_table_key_exists E tbl tt ms' (dev_pipe_id tgt) True })
    (\<lambda>l t. l = lookup_result True (if k' = k then None else A k')) s"
  by (rule kt.lookup_after_del [OF assms])

theorem table_delete_lookup_witness:
  "wp (do { pipe_mgr_table_key_delete ref_env ex_tgt 1 PIPE_MGR_TABLE_TYPE_MAT (ex_spec [10, 1]);
            pipe_mgr_table_key_exists ref_env 1 PIPE_MGR_TABLE_TYPE_MAT (ex_spec [10, 1]) (dev_pipe_id ex_tgt) True })
    (\<lambda>l t. l = (BF_SUCCESS, False, 0, NULL)) ex_world"
  by (rule wp_conseq [OF table_delete_lookup [OF ex_ready ex_keys(2) ex_keys(2)]])
    (simp add: lookup_result_def)



text \<open>C10. \<^verbatim>\<open>pipe_mgr_table_get_next_n\<close> enumerates the table: it returns the first \<open>n\<close> handles above
  the given one in ascending order, and ends the list with -1 when there are fewer; with no handle
  left it reports \<^verbatim>\<open>BF_OBJECT_NOT_FOUND\<close>.\<close>

theorem table_iteration_ascending:
  assumes "kt_rel E tt tbl pid N s A" "os_locks s (tbl_lock tt tbl) = Free" "locks_ok E"
  shows "wp (pipe_mgr_table_get_next_n E tbl tt h n True) (\<lambda>(st, hdls) u. (\<exists>c. u = s\<lparr>os_clk := c\<rparr>) \<and>
    (let next_hdls = sorted_list_of_set {x \<in> handles A. h < x} in
     if n \<le> length next_hdls then st = BF_SUCCESS \<and> hdls = take n next_hdls
     else st = (if next_hdls = [] then BF_OBJECT_NOT_FOUND else BF_SUCCESS) \<and> hdls = next_hdls @ [-1])) s"
  by (rule wp_conseq [OF get_next_n_spec [OF assms]]) (simp add: handles_above_def split: prod.splits)

theorem table_iteration_ascending_witness:
  "wp (pipe_mgr_table_get_next_n ref_env 1 PIPE_MGR_TABLE_TYPE_MAT 0 3 True)
    (\<lambda>(st, hdls) u. st = BF_OBJECT_NOT_FOUND \<and> hdls = [-1]) ex_world"
  by (rule wp_conseq [OF table_iteration_ascending [OF ex_kt_rel _ ref_locks_ok]])
    (simp_all add: Let_def ex_world_def split: prod.splits)

end
