(* ===== verification/Pipeline.thy ===== *)
theory Pipeline
  imports Discipline
begin

text \<open>
  The pipeline objects of \<^verbatim>\<open>src/lld/dpdk/infra/dpdk_obj.c\<close>: their creation, the search by
  name, and the search of a built pipeline for an action or a table by name. The queries of the
  DPDK control library are parameters (\<open>r_pipeline_info\<close>, \<open>r_action_info\<close>, \<open>r_table_info\<close>).
\<close>

abbreviation (input) NAME_SIZE :: nat where "NAME_SIZE \<equiv> 64"
abbreviation (input) RTE_SWX_CTL_NAME_SIZE :: nat where "RTE_SWX_CTL_NAME_SIZE \<equiv> 64"
abbreviation UINT64_MAX :: u64 where "UINT64_MAX \<equiv> - 1"
abbreviation UINT32_MAX :: u32 where "UINT32_MAX \<equiv> - 1"

text \<open>\<^verbatim>\<open>strlcpy(dst, src, n)\<close> into a zeroed buffer, and \<^verbatim>\<open>strncmp(a, b, n) == 0\<close>, on C strings
  without their terminator.\<close>

definition strlcpy :: "string \<Rightarrow> nat \<Rightarrow> string" where
  "strlcpy src n = take (n - 1) src"

definition strneq :: "string \<Rightarrow> string \<Rightarrow> nat \<Rightarrow> bool" where
  "strneq a b n \<longleftrightarrow> take n a = take n b"

definition pipe_obj :: "ptr \<Rightarrow> ('m, 'i, 'h) world \<Rightarrow> pipeline option" where
  "pipe_obj p s = map_of (w_pipes s) p"

definition pipeline_find :: "string \<Rightarrow> ('m, 'i, 'h, ptr) cmd" where
  "pipeline_find name = gets (\<lambda>s. case find (\<lambda>x. pl_name (snd x) = name) (w_pipes s) of
     None \<Rightarrow> NULL | Some x \<Rightarrow> fst x)"

definition pipeline_create ::
  "('m, 'i, 'h, 'z) ext_scheme \<Rightarrow> string option \<Rightarrow> u32 \<Rightarrow> ('m, 'i, 'h, ptr) cmd" where
  "pipeline_create E name numa = (case name of
     None \<Rightarrow> ret NULL
   | Some nm \<Rightarrow> do {
       q \<leftarrow> pipeline_find nm;
       if q \<noteq> NULL then ret NULL
       else do {
         p \<leftarrow> calloc E;
         if p = NULL then ret NULL
         else do {
           modify (\<lambda>s. s\<lparr>w_pipes := w_pipes s @ [(p, \<lparr>pl_name = strlcpy nm NAME_SIZE, pl_p = NULL,
             pl_ctl = NULL, pl_timer_period_ms = 10, pl_enabled = False, pl_thread_id = 0,
             pl_numa_node = numa, pl_net_port_mask = replicate 4 0\<rparr>)]\<rparr>);
           ret p }}})"

text \<open>\<^verbatim>\<open>rte_is_power_of_2\<close> of the DPDK headers: exactly one bit is set.\<close>

fun is_power_of_2 :: "nat \<Rightarrow> bool" where
  "is_power_of_2 0 = False"
| "is_power_of_2 (Suc 0) = True"
| "is_power_of_2 n = (even n \<and> is_power_of_2 (n div 2))"

definition pipeline_port_is_valid ::
  "('m, 'i, 'h, 'z) dpdk_scheme \<Rightarrow> ptr \<Rightarrow> ('m, 'i, 'h, bool) cmd" where
  "pipeline_port_is_valid E pipe = deref (pipe_obj pipe) False (\<lambda>pl.
     case r_pipeline_info E (pl_p pl) of (rc, pipe_info) \<Rightarrow>
       if rc < 0 then ret False
       else if pi_n_ports_in pipe_info = 0 \<or> \<not> is_power_of_2 (pi_n_ports_in pipe_info) then ret False
       else if pi_n_ports_out pipe_info = 0 then ret False
       else ret True)"

text \<open>The search loops of \<^verbatim>\<open>get_action_id\<close> and \<^verbatim>\<open>get_table_id\<close>: a failing query ends the
  search.\<close>

fun find_id :: "(nat \<Rightarrow> int \<times> string) \<Rightarrow> string \<Rightarrow> nat list \<Rightarrow> nat option" where
  "find_id info name [] = None"
| "find_id info name (i # is) = (case info i of (rc, nm) \<Rightarrow>
     if rc < 0 then None
     else if strneq name nm RTE_SWX_CTL_NAME_SIZE then Some i
     else find_id info name is)"

definition get_action_id ::
  "('m, 'i, 'h, 'z) dpdk_scheme \<Rightarrow> ptr \<Rightarrow> string \<Rightarrow> ('m, 'i, 'h, u64) cmd" where
  "get_action_id E pipe action_name =
     (if pipe = NULL then ret UINT64_MAX
      else deref (pipe_obj pipe) UINT64_MAX (\<lambda>pl.
        if pl_p pl = NULL then ret UINT64_MAX
        else case r_pipeline_info E (pl_p pl) of (rc, pipe_info) \<Rightarrow>
          if rc < 0 then ret UINT64_MAX
          else (case find_id (\<lambda>i. case r_action_info E (pl_p pl) i of (rc, nm, _) \<Rightarrow> (rc, nm))
                  action_name [0..<pi_n_actions pipe_info] of
              None \<Rightarrow> ret UINT64_MAX
            | Some i \<Rightarrow> ret (word_of_nat i))))"

definition get_table_id ::
  "('m, 'i, 'h, 'z) dpdk_scheme \<Rightarrow> ptr \<Rightarrow> string \<Rightarrow> ('m, 'i, 'h, u32) cmd" where
  "get_table_id E pipe table_name =
     (if pipe = NULL then ret UINT32_MAX
      else deref (pipe_obj pipe) UINT32_MAX (\<lambda>pl.
        if pl_p pl = NULL then ret UINT32_MAX
        else case r_pipeline_info E (pl_p pl) of (rc, pipe_info) \<Rightarrow>
          if rc < 0 then ret UINT32_MAX
          else (case find_id (\<lambda>i. case r_table_info E (pl_p pl) i of (rc, nm, _) \<Rightarrow> (rc, nm))
                  table_name [0..<pi_n_tables pipe_info] of
              None \<Rightarrow> ret UINT32_MAX
            | Some i \<Rightarrow> ret (word_of_nat i))))"

section \<open>Names\<close>

text \<open>Addresses of pipelines are allocated, and names are unique and short enough to be stored
  whole.\<close>

definition pipes_wf :: "('m, 'i, 'h) world \<Rightarrow> bool" where
  "pipes_wf s \<longleftrightarrow> distinct (map fst (w_pipes s)) \<and> distinct (map (\<lambda>x. pl_name (snd x)) (w_pipes s)) \<and>
     (\<forall>x \<in> set (w_pipes s). 0 < fst x \<and> fst x \<le> os_next s)"

lemma wp_pipeline_find [wp_simps]:
  "wp (pipeline_find name) Q s =
   Q (case find (\<lambda>x. pl_name (snd x) = name) (w_pipes s) of None \<Rightarrow> NULL | Some x \<Rightarrow> fst x) s"
  by (simp add: pipeline_find_def wp_simps)

lemma find_name: "find (\<lambda>x. pl_name (snd x) = nm) ps = Some x \<Longrightarrow> x \<in> set ps \<and> pl_name (snd x) = nm"
  by (induction ps) (auto split: if_splits)

lemma find_no_name: "find (\<lambda>x. pl_name (snd x) = nm) ps = None \<Longrightarrow> \<forall>x \<in> set ps. pl_name (snd x) \<noteq> nm"
  by (induction ps) (auto split: if_splits)

lemma find_name_unique:
  assumes "distinct (map (\<lambda>x. pl_name (snd x)) ps)" "x \<in> set ps"
  shows "find (\<lambda>y. pl_name (snd y) = pl_name (snd x)) ps = Some x"
  using assms by (induction ps) (auto simp: image_iff)

lemma pipeline_find_spec:
  assumes "pipes_wf s"
  shows "wp (pipeline_find name) (\<lambda>p t. t = s \<and>
    (if p = NULL then \<forall>x \<in> set (w_pipes s). pl_name (snd x) \<noteq> name
     else \<exists>pl. pipe_obj p s = Some pl \<and> pl_name pl = name)) s"
proof (cases "find (\<lambda>x. pl_name (snd x) = name) (w_pipes s)")
  case None
  with find_no_name [OF None] show ?thesis by (simp add: wp_simps)
next
  case (Some x)
  then have "x \<in> set (w_pipes s)" "pl_name (snd x) = name" by (auto dest: find_name)
  with assms have "fst x \<noteq> NULL" "pipe_obj (fst x) s = Some (snd x)"
    by (auto simp: pipes_wf_def pipe_obj_def map_of_eq_Some_iff)
  with Some \<open>pl_name (snd x) = name\<close> show ?thesis by (simp add: wp_simps)
qed

text \<open>Creation keeps the names unique when the new name fits into the buffer; the new pipeline is
  then found under its name.\<close>

lemma pipeline_create_spec:
  assumes "pipes_wf s" "length nm < NAME_SIZE"
  shows "wp (pipeline_create E (Some nm) numa) (\<lambda>p t. pipes_wf t \<and> os_fault t = os_fault s \<and>
    (if p = NULL then w_pipes t = w_pipes s
     else (\<exists>pl. w_pipes t = w_pipes s @ [(p, pl)] \<and> pl_name pl = nm) \<and>
          (\<forall>x \<in> set (w_pipes s). pl_name (snd x) \<noteq> nm))) s"
proof (cases "find (\<lambda>x. pl_name (snd x) = nm) (w_pipes s)")
  case None
  with find_no_name [OF None] assms show ?thesis
    by (auto simp: pipeline_create_def wp_simps Let_def strlcpy_def pipes_wf_def image_iff)
next
  case (Some x)
  with assms(1) have "fst x \<noteq> NULL" by (auto simp: pipes_wf_def dest!: find_name)
  with Some assms show ?thesis by (simp add: pipeline_create_def wp_simps)
qed

lemma find_id_Some:
  "find_id info name is = Some i \<Longrightarrow>
   i \<in> set is \<and> 0 \<le> fst (info i) \<and> strneq name (snd (info i)) RTE_SWX_CTL_NAME_SIZE"
  by (induction "is") (auto split: if_splits prod.splits)

end
