(* ===== verification/Encode.thy ===== *)
theory Encode
  imports Pipeline
begin

text \<open>
  The encoding of match keys and action data for the data plane,
  \<^verbatim>\<open>src/pipe_mgr/shared/dal/dpdk/pipe_mgr_dpdk_ctx_util.c\<close>. The host is little-endian. A field
  is read as a 64-bit integer, converted to network order unless it lies in a header, and its
  bytes are copied to the offset that the data plane announced.
\<close>

section \<open>Integers in memory\<close>

text \<open>The integer that a copy of its bytes into a variable gives.\<close>

definition le_word :: "u8 list \<Rightarrow> 'a::len word" where
  "le_word bs = word_of_int (horner_sum uint 256 bs)"

definition dpdk_field_hton :: "u64 \<Rightarrow> nat \<Rightarrow> u64" where
  "dpdk_field_hton val n_bits = le_word (rev (le_bytes 8 (push_bit (64 - n_bits) val)))"

text \<open>The shift is undefined for a width of 0 or above 64.\<close>

definition field_hton :: "u64 \<Rightarrow> nat \<Rightarrow> ('a os_scheme, u64) state" where
  "field_hton val n_bits = do {
     guard_c (0 < n_bits \<and> n_bits \<le> 64);
     ret (dpdk_field_hton val n_bits) }"

definition nbytes :: "nat \<Rightarrow> nat" where
  "nbytes n_bits = n_bits div 8 + (if n_bits mod 8 \<noteq> 0 then 1 else 0)"

section \<open>Match keys\<close>

text \<open>A 32-bit difference.\<close>

definition u32_diff :: "nat \<Rightarrow> nat \<Rightarrow> nat" where
  "u32_diff a b = (if b \<le> a then a - b else a + 2 ^ 32 - b)"

text \<open>A field value: eight bytes are read, in network order unless the field is in a header.\<close>

definition read_field ::
  "rte_swx_ctl_table_match_field_info \<Rightarrow> u8 list \<Rightarrow> nat \<Rightarrow> ('a os_scheme, u64) state" where
  "read_field mf bits index = do {
     val \<leftarrow> memcpy (replicate 8 0) 0 (drop index bits) 8;
     if \<not> mf_is_header mf then field_hton (le_word val) (mf_n_bits mf) else ret (le_word val) }"

text \<open>The copy of the mask of one field into the entry.\<close>

definition encode_mask ::
  "pipe_mgr_match_type \<Rightarrow> rte_swx_ctl_table_match_field_info \<Rightarrow> u8 list \<Rightarrow> nat \<Rightarrow> nat \<Rightarrow>
   rte_swx_table_entry \<Rightarrow> ('a os_scheme, rte_swx_table_entry) state" where
  "encode_mask mt mf mask_bits index_2 offset entry =
     (let match_bytes = nbytes (mf_n_bits mf) in
      if mt \<noteq> PIPE_MGR_MATCH_TYPE_EXACT then do {
        val \<leftarrow> read_field mf mask_bits index_2;
        case te_key_mask entry of
          None \<Rightarrow> do { fault; ret entry }
        | Some m \<Rightarrow> do {
            m \<leftarrow> memcpy m offset (le_bytes 8 val) match_bytes;
            ret (entry\<lparr>te_key_mask := Some m\<rparr>) }}
      else (case te_key_mask entry of
          None \<Rightarrow> ret entry
        | Some m \<Rightarrow> do {
            m \<leftarrow> memcpy m offset (replicate 8 255) match_bytes;
            ret (entry\<lparr>te_key_mask := Some m\<rparr>) }))"

text \<open>The loop over the fields of the key. \<^verbatim>\<open>index\<close> and \<^verbatim>\<open>index_2\<close> have the same value at the
  start of every round.\<close>

fun encode_fields ::
  "nat \<Rightarrow> pipe_tbl_match_spec \<Rightarrow> nat \<Rightarrow> rte_swx_ctl_table_match_field_info list \<Rightarrow>
   pipe_mgr_match_key_fields list \<Rightarrow> rte_swx_table_entry \<Rightarrow>
   ('a os_scheme, bf_status \<times> rte_swx_table_entry) state" where
  "encode_fields first_offset match_spec index [] match_fields entry = ret (BF_SUCCESS, entry)"
| "encode_fields first_offset match_spec index (mf # mfs) [] entry = ret (BF_UNEXPECTED, entry)"
| "encode_fields first_offset match_spec index (mf # mfs) (kf # match_fields) entry = do {
     let offset = u32_diff (mf_offset mf) first_offset div 8;
     let match_bytes = nbytes (mf_n_bits mf);
     val \<leftarrow> read_field mf (match_value_bits match_spec) index;
     k \<leftarrow> memcpy (te_key entry) offset (le_bytes 8 val) match_bytes;
     entry \<leftarrow> encode_mask (kf_match_type kf) mf (match_mask_bits match_spec) index offset
       (entry\<lparr>te_key := k\<rparr>);
     encode_fields first_offset match_spec (index + match_bytes) mfs match_fields entry }"

definition pipe_mgr_dpdk_encode_match_key_and_mask ::
  "pipe_mgr_mat_ctx \<Rightarrow> pipe_tbl_match_spec \<Rightarrow> rte_swx_table_entry \<Rightarrow>
   ('a os_scheme, bf_status \<times> rte_swx_table_entry) state" where
  "pipe_mgr_dpdk_encode_match_key_and_mask ctx match_spec entry =
     (case mc_match_stage_table ctx of
        None \<Rightarrow> ret (BF_UNEXPECTED, entry)
      | Some stage_table \<Rightarrow> (case st_table_meta stage_table of
          None \<Rightarrow> ret (BF_UNEXPECTED, entry)
        | Some meta \<Rightarrow>
            if tm_n_match_fields meta \<noteq> mc_mat_key_fields_count ctx then ret (BF_UNEXPECTED, entry)
            else do {
              guard_c (tm_n_match_fields meta \<le> length (tm_mf meta));
              (status, entry) \<leftarrow> encode_fields (tm_first_offset meta) match_spec 0
                (take (tm_n_match_fields meta) (tm_mf meta)) (mc_mat_key_fields ctx) entry;
              if status \<noteq> BF_SUCCESS then ret (status, entry)
              else ret (BF_SUCCESS, entry\<lparr>te_key_priority := priority match_spec\<rparr>) }))"

section \<open>Action data\<close>

text \<open>One argument: its bytes are read into a cleared integer, converted and copied.\<close>

definition encode_arg ::
  "u8 list \<Rightarrow> nat \<Rightarrow> nat \<Rightarrow> nat \<Rightarrow> nat \<Rightarrow> rte_swx_table_entry \<Rightarrow> ('a os_scheme, rte_swx_table_entry) state" where
  "encode_arg bits src_off n_bits num_bytes arg_offset entry = do {
     val \<leftarrow> memcpy (replicate 8 0) 0 (drop src_off bits) num_bytes;
     val \<leftarrow> field_hton (le_word val) n_bits;
     d \<leftarrow> memcpy (te_action_data entry) arg_offset (le_bytes 8 val) num_bytes;
     ret (entry\<lparr>te_action_data := d\<rparr>) }"

fun encode_adt_args ::
  "u8 list \<Rightarrow> nat \<Rightarrow> rte_swx_ctl_action_arg_info list \<Rightarrow> rte_swx_table_entry \<Rightarrow>
   ('a os_scheme, rte_swx_table_entry) state" where
  "encode_adt_args bits arg_offset [] entry = ret entry"
| "encode_adt_args bits arg_offset (arg # args) entry = do {
     entry \<leftarrow> encode_arg bits arg_offset (arg_n_bits arg) (nbytes (arg_n_bits arg)) arg_offset entry;
     encode_adt_args bits (arg_offset + nbytes (arg_n_bits arg)) args entry }"

definition pipe_mgr_dpdk_encode_adt_action_data ::
  "pipe_mgr_dpdk_action_format \<Rightarrow> u8 list \<Rightarrow> rte_swx_table_entry \<Rightarrow>
   ('a os_scheme, bf_status \<times> rte_swx_table_entry) state" where
  "pipe_mgr_dpdk_encode_adt_action_data act_fmt bits entry =
     deref (\<lambda>_. cbuf_list (af_arg_info act_fmt)) (BF_UNEXPECTED, entry) (\<lambda>args. do {
       guard_c (af_n_args act_fmt \<le> length args);
       entry \<leftarrow> encode_adt_args bits 0 (take (af_n_args act_fmt) args)
         (entry\<lparr>te_action_id := ucast (af_action_id act_fmt)\<rparr>);
       ret (BF_SUCCESS, entry) })"

abbreviation (input) P4_SDE_NAME_LEN :: nat where "P4_SDE_NAME_LEN \<equiv> 64"
abbreviation (input) P4_SDE_NAME_SUFFIX :: nat where "P4_SDE_NAME_SUFFIX \<equiv> 16"

text \<open>The name of the action that sets a group or member: the \<^verbatim>\<open>strncat\<close> leaves room for the
  suffix.\<close>

definition suffixed_name :: "string \<Rightarrow> string \<Rightarrow> string" where
  "suffixed_name table_name suffix =
     take (P4_SDE_NAME_LEN + P4_SDE_NAME_SUFFIX - 1 - length suffix) table_name @ suffix"

definition encode_hdl_action ::
  "('m, 'i, 'h, 'z) dpdk_scheme \<Rightarrow> string \<Rightarrow> ptr \<Rightarrow> u32 \<Rightarrow> rte_swx_table_entry \<Rightarrow>
   ('m, 'i, 'h, bf_status \<times> rte_swx_table_entry) cmd" where
  "encode_hdl_action E action_name pipe hdl entry = do {
     action_id \<leftarrow> get_action_id E pipe action_name;
     let entry = entry\<lparr>te_action_id := action_id\<rparr>;
     if action_id = UINT64_MAX then ret (BF_UNEXPECTED, entry)
     else do {
       d \<leftarrow> memcpy (te_action_data entry) 0 (le_bytes 4 hdl) 4;
       ret (BF_SUCCESS, entry\<lparr>te_action_data := d\<rparr>) }}"

definition pipe_mgr_dpdk_encode_sel_action ::
  "('m, 'i, 'h, 'z) dpdk_scheme \<Rightarrow> string \<Rightarrow> ptr \<Rightarrow> pipe_action_spec \<Rightarrow> rte_swx_table_entry \<Rightarrow>
   ('m, 'i, 'h, bf_status \<times> rte_swx_table_entry) cmd" where
  "pipe_mgr_dpdk_encode_sel_action E table_name pipe act_data_spec entry =
     encode_hdl_action E (suffixed_name table_name ''_set_group_id'') pipe (as_sel_grp_hdl act_data_spec) entry"

definition pipe_mgr_dpdk_encode_member_id ::
  "('m, 'i, 'h, 'z) dpdk_scheme \<Rightarrow> string \<Rightarrow> ptr \<Rightarrow> pipe_action_spec \<Rightarrow> rte_swx_table_entry \<Rightarrow>
   ('m, 'i, 'h, bf_status \<times> rte_swx_table_entry) cmd" where
  "pipe_mgr_dpdk_encode_member_id E table_name pipe act_data_spec entry =
     encode_hdl_action E (suffixed_name table_name ''_set_member_id'') pipe (as_adt_ent_hdl act_data_spec) entry"

text \<open>The arguments of a direct action are found in the action data by name.\<close>

fun encode_args ::
  "pipe_mgr_dpdk_immediate_fields list \<Rightarrow> u8 list \<Rightarrow> nat \<Rightarrow> rte_swx_ctl_action_arg_info list \<Rightarrow>
   rte_swx_table_entry \<Rightarrow> ('a os_scheme, bf_status \<times> rte_swx_table_entry) state" where
  "encode_args imms bits arg_offset [] entry = ret (BF_SUCCESS, entry)"
| "encode_args imms bits arg_offset (arg # args) entry =
     (case find (\<lambda>im. param_name im = arg_name arg) imms of
        None \<Rightarrow> ret (BF_UNEXPECTED, entry)
      | Some im \<Rightarrow>
          if nbytes (dest_width im) \<noteq> nbytes (arg_n_bits arg) then ret (BF_UNEXPECTED, entry)
          else do {
            entry \<leftarrow> encode_arg bits (dest_start im) (arg_n_bits arg) (nbytes (dest_width im)) arg_offset entry;
            encode_args imms bits (arg_offset + nbytes (dest_width im)) args entry })"

definition pipe_mgr_dpdk_encode_action_data ::
  "pipe_mgr_dpdk_action_format \<Rightarrow> u8 list \<Rightarrow> rte_swx_table_entry \<Rightarrow>
   ('a os_scheme, bf_status \<times> rte_swx_table_entry) state" where
  "pipe_mgr_dpdk_encode_action_data act_fmt bits entry =
     deref (\<lambda>_. cbuf_list (af_arg_info act_fmt)) (BF_UNEXPECTED, entry) (\<lambda>args. do {
       guard_c (af_n_args act_fmt \<le> length args);
       encode_args (af_immediate_field act_fmt) bits 0 (take (af_n_args act_fmt) args)
         (entry\<lparr>te_action_id := ucast (af_action_id act_fmt)\<rparr>) })"

definition pipe_mgr_ctx_dpdk_get_act_fmt ::
  "pipe_mgr_dpdk_stage_table \<Rightarrow> u32 \<Rightarrow> ('a os_scheme, bf_status \<times> pipe_mgr_dpdk_action_format option) state" where
  "pipe_mgr_ctx_dpdk_get_act_fmt stage_tbl act_fn_hdl =
     deref (\<lambda>_. cbuf_list (st_act_fmt stage_tbl)) (BF_UNEXPECTED, None) (\<lambda>fmts.
       case find (\<lambda>f. af_action_handle f = act_fn_hdl) fmts of
         None \<Rightarrow> ret (BF_OBJECT_NOT_FOUND, None)
       | Some f \<Rightarrow> ret (BF_SUCCESS, Some f))"

section \<open>Value-lookup parameters\<close>

definition pipe_mgr_dpdk_encode_param_from_data_spec ::
  "('m, 'i, 'h, 'z) ext_scheme \<Rightarrow> pipe_mgr_dpdk_immediate_fields \<Rightarrow> pipe_data_spec \<Rightarrow>
   ('a os_scheme, bf_status \<times> u8 list) state" where
  "pipe_mgr_dpdk_encode_param_from_data_spec E immediate_field data_spec =
     (let num_bytes = nbytes (dest_width immediate_field) in
      if num_data_bytes data_spec < num_bytes then ret (BF_INVALID_ARG, [])
      else do {
        p \<leftarrow> calloc_bytes E num_bytes;
        case p of
          None \<Rightarrow> ret (BF_NO_SYS_RESOURCES, [])
        | Some p \<Rightarrow> do {
            p \<leftarrow> memcpy p 0 (drop (dest_start immediate_field) (data_bytes data_spec)) num_bytes;
            ret (BF_SUCCESS, p) }})"

definition pipe_mgr_dpdk_encode_key_from_match_spec ::
  "('m, 'i, 'h, 'z) ext_scheme \<Rightarrow> pipe_tbl_match_spec \<Rightarrow> ('a os_scheme, bf_status \<times> u8 list) state" where
  "pipe_mgr_dpdk_encode_key_from_match_spec E match_spec =
     (let num_bytes = num_valid_match_bits match_spec div 8 in
      if num_match_bytes match_spec > num_bytes then ret (BF_INVALID_ARG, [])
      else do {
        p \<leftarrow> calloc_bytes E num_bytes;
        case p of
          None \<Rightarrow> ret (BF_NO_SYS_RESOURCES, [])
        | Some p \<Rightarrow> do {
            p \<leftarrow> memcpy p 0 (match_value_bits match_spec) num_bytes;
            ret (BF_SUCCESS, p) }})"

section \<open>What the encodings compute\<close>

lemma horner_byte:
  "i < length bs \<Longrightarrow> take_bit 8 (drop_bit (8 * i) (horner_sum uint 256 (bs :: u8 list))) = uint (bs ! i)"
proof (induction bs arbitrary: i)
  case (Cons b bs)
  have low: "(uint b + 256 * h) mod 256 = uint b" "(uint b + 256 * h) div 256 = h" for h :: int
    using uint_lt2p [of b] uint_ge_0 [of b] by simp_all
  show ?case
  proof (cases i)
    case 0
    then show ?thesis using low(1) [of 0] by (simp add: take_bit_eq_mod low)
  next
    case (Suc j)
    have "drop_bit (8 + 8 * j) (uint b + 256 * h) = drop_bit (8 * j) h" for h :: int
      by (simp add: drop_bit_eq_div power_add zdiv_zmult2_eq low)
    with Suc Cons show ?thesis by simp
  qed
qed simp

lemma le_bytes_le_word: "length bs = 8 \<Longrightarrow> le_bytes 8 (le_word bs :: u64) = bs"
proof (rule nth_equalityI)
  fix i assume "length bs = 8" "i < length (le_bytes 8 (le_word bs :: u64))"
  then have i: "i < 8" "i < length bs" by simp_all
  then have "le_bytes 8 (le_word bs :: u64) ! i = ucast (drop_bit (8 * i) (le_word bs :: u64))"
    by (simp add: le_bytes_def)
  moreover have "uint (ucast (drop_bit (8 * i) (le_word bs :: u64)) :: u8) = uint (bs ! i)"
    using i horner_byte [OF i(2)] le_diff_conv2 [of "8 * i" 64 8]
    by (simp add: le_word_def unsigned_ucast_eq unsigned_drop_bit_eq uint_word_of_int_eq
        drop_bit_take_bit take_bit_take_bit min_def)
  ultimately show "le_bytes 8 (le_word bs :: u64) ! i = bs ! i" by (simp add: word_uint_eqI)
qed simp

text \<open>The eight bytes from which those of a field are taken.\<close>

definition field_word :: "rte_swx_ctl_table_match_field_info \<Rightarrow> u8 list \<Rightarrow> u64" where
  "field_word mf bs = (if mf_is_header mf then le_word (take 8 bs)
     else dpdk_field_hton (le_word (take 8 bs)) (mf_n_bits mf))"

definition field_bytes :: "rte_swx_ctl_table_match_field_info \<Rightarrow> u8 list \<Rightarrow> u8 list" where
  "field_bytes mf bs = take (nbytes (mf_n_bits mf)) (le_bytes 8 (field_word mf bs))"

text \<open>A field that the code can convert.\<close>

definition field_ok :: "rte_swx_ctl_table_match_field_info \<Rightarrow> bool" where
  "field_ok mf \<longleftrightarrow> 0 < mf_n_bits mf \<and> mf_n_bits mf \<le> 64"

lemma nbytes_le: "n \<le> 64 \<Longrightarrow> nbytes n \<le> 8"
  by (auto simp: nbytes_def; presburger)

lemma nbytes_bits: "n \<le> 8 * nbytes n"
  by (auto simp: nbytes_def; presburger)

lemma nbytes_tight: "8 * nbytes n < n + 8"
  by (auto simp: nbytes_def; presburger)

lemma length_field_bytes: "field_ok mf \<Longrightarrow> length (field_bytes mf bs) = nbytes (mf_n_bits mf)"
  using nbytes_le by (simp add: field_bytes_def field_ok_def)

lemma wp_read_field:
  "field_ok mf \<Longrightarrow> index + 8 \<le> length bits \<Longrightarrow>
   wp (read_field mf bits index) Q s = Q (field_word mf (drop index bits)) s"
  by (auto simp: read_field_def field_hton_def memcpy_def guard_c_def wp_simps mem_write_def
      field_word_def field_ok_def)

text \<open>A header field is copied as it is.\<close>

lemma field_bytes_header:
  "mf_is_header mf \<Longrightarrow> field_ok mf \<Longrightarrow> 8 \<le> length bs \<Longrightarrow> field_bytes mf bs = take (nbytes (mf_n_bits mf)) bs"
  by (simp add: field_bytes_def field_word_def le_bytes_le_word field_ok_def nbytes_le min_def)

lemma horner_le_bytes:
  "m \<le> 8 \<Longrightarrow> horner_sum uint 256 (map (\<lambda>i. ucast (drop_bit (8 * i) w) :: u8) [m..<8]) =
     drop_bit (8 * m) (uint (w :: u64))"
proof (induction "8 - m" arbitrary: m)
  case 0
  then have "m = 8" by simp
  moreover have "drop_bit 64 (uint w) = 0" using uint_lt2p [of w] by (simp add: drop_bit_eq_div)
  ultimately show ?case by simp
next
  case (Suc k)
  then have m: "m < 8" and IH: "horner_sum uint 256 (map (\<lambda>i. ucast (drop_bit (8 * i) w) :: u8) [Suc m..<8]) =
     drop_bit (8 * Suc m) (uint w)" by auto
  have "take_bit 8 (drop_bit (8 * m) (uint w)) + 256 * drop_bit (8 * m + 8) (uint w) = drop_bit (8 * m) (uint w)"
    using div_mult_mod_eq [of "drop_bit (8 * m) (uint w)" 256]
    by (simp add: take_bit_eq_mod drop_bit_eq_div power_add zdiv_zmult2_eq)
  moreover have "take_bit 64 (uint w) = uint w" using uint_lt2p [of w] by (simp add: take_bit_eq_mod)
  then have "uint (ucast (drop_bit (8 * m) w) :: u8) = take_bit 8 (drop_bit (8 * m) (uint w))"
    by (simp add: unsigned_ucast_eq unsigned_drop_bit_eq)
  moreover have "[m..<8] = m # [Suc m..<8]" using m by (simp add: upt_conv_Cons)
  ultimately show ?case using IH by (simp add: add.commute)
qed

text \<open>A field in network order: its bytes are, most significant first, the value of the field, shifted
  left to fill whole bytes.\<close>

lemma field_bytes_network:
  assumes "\<not> mf_is_header mf" "field_ok mf"
  shows "horner_sum uint 256 (rev (field_bytes mf bs)) =
    take_bit (mf_n_bits mf) (uint (le_word (take 8 bs) :: u64)) *
      2 ^ (8 * nbytes (mf_n_bits mf) - mf_n_bits mf)"
proof -
  let ?n = "mf_n_bits mf" and ?v = "le_word (take 8 bs) :: u64"
  let ?b = "nbytes ?n" and ?w = "push_bit (64 - ?n) ?v"
  have n: "?n \<le> 64" "?b \<le> 8" "?n \<le> 8 * ?b" using assms nbytes_le nbytes_bits [of ?n] by (auto simp: field_ok_def)
  have "field_bytes mf bs = take ?b (rev (le_bytes 8 ?w))"
    using assms(1) by (simp add: field_bytes_def field_word_def dpdk_field_hton_def le_bytes_le_word)
  then have "rev (field_bytes mf bs) = drop (8 - ?b) (le_bytes 8 ?w)" by (simp add: rev_take)
  also have "\<dots> = map (\<lambda>i. ucast (drop_bit (8 * i) ?w)) [8 - ?b..<8]" by (simp add: le_bytes_def drop_map)
  finally have "horner_sum uint 256 (rev (field_bytes mf bs)) = drop_bit (8 * (8 - ?b)) (uint ?w)"
    by (simp add: horner_le_bytes)
  also have "uint ?w = take_bit ?n (uint ?v) * 2 ^ (64 - ?n)"
    using n by (simp add: unsigned_push_bit_eq take_bit_push_bit) (simp add: push_bit_eq_mult)
  also have "8 * (8 - ?b) = 64 - 8 * ?b" using n by simp
  also have "drop_bit (64 - 8 * ?b) (take_bit ?n (uint ?v) * 2 ^ (64 - ?n)) =
      take_bit ?n (uint ?v) * 2 ^ (8 * ?b - ?n)"
  proof -
    have "64 - ?n = (8 * ?b - ?n) + (64 - 8 * ?b)" using n by simp
    then show ?thesis by (simp add: power_add drop_bit_eq_div mult.assoc [symmetric])
  qed
  finally show ?thesis .
qed

section \<open>The key buffer\<close>

definition field_offset :: "nat \<Rightarrow> rte_swx_ctl_table_match_field_info \<Rightarrow> nat" where
  "field_offset first_offset mf = (mf_offset mf - first_offset) div 8"

text \<open>The stores of the loop, as offsets and bytes.\<close>

fun key_writes ::
  "nat \<Rightarrow> u8 list \<Rightarrow> nat \<Rightarrow> rte_swx_ctl_table_match_field_info list \<Rightarrow> (nat \<times> u8 list) list" where
  "key_writes fo bits index [] = []"
| "key_writes fo bits index (mf # mfs) =
     (field_offset fo mf, field_bytes mf (drop index bits)) #
     key_writes fo bits (index + nbytes (mf_n_bits mf)) mfs"

fun mask_writes ::
  "nat \<Rightarrow> u8 list \<Rightarrow> nat \<Rightarrow> rte_swx_ctl_table_match_field_info list \<Rightarrow> pipe_mgr_match_key_fields list \<Rightarrow>
   (nat \<times> u8 list) list" where
  "mask_writes fo bits index (mf # mfs) (kf # kfs) =
     (field_offset fo mf, if kf_match_type kf = PIPE_MGR_MATCH_TYPE_EXACT then replicate (nbytes (mf_n_bits mf)) 255
        else field_bytes mf (drop index bits)) #
     mask_writes fo bits (index + nbytes (mf_n_bits mf)) mfs kfs"
| "mask_writes fo bits index _ _ = []"

definition apply_writes :: "(nat \<times> u8 list) list \<Rightarrow> u8 list \<Rightarrow> u8 list" where
  "apply_writes ws d = fold (\<lambda>(off, bs) d. mem_write d off bs) ws d"

text \<open>Every field fits into a key of \<open>K\<close> bytes, and the eight bytes that are read for it are among
  the \<open>B\<close> bytes of the specification.\<close>

fun fields_fit ::
  "nat \<Rightarrow> nat \<Rightarrow> nat \<Rightarrow> nat \<Rightarrow> rte_swx_ctl_table_match_field_info list \<Rightarrow> bool" where
  "fields_fit fo K B index [] = True"
| "fields_fit fo K B index (mf # mfs) = (field_ok mf \<and> fo \<le> mf_offset mf \<and>
     field_offset fo mf + nbytes (mf_n_bits mf) \<le> K \<and> index + 8 \<le> B \<and>
     fields_fit fo K B (index + nbytes (mf_n_bits mf)) mfs)"

definition mask_fits :: "rte_swx_table_entry \<Rightarrow> pipe_tbl_match_spec \<Rightarrow> pipe_mgr_match_key_fields list \<Rightarrow> bool" where
  "mask_fits entry ms kfs \<longleftrightarrow> (case te_key_mask entry of
     None \<Rightarrow> \<forall>kf \<in> set kfs. kf_match_type kf = PIPE_MGR_MATCH_TYPE_EXACT
   | Some m \<Rightarrow> length m = length (te_key entry) \<and> length (match_value_bits ms) \<le> length (match_mask_bits ms))"

lemma wp_memcpy_ok:
  "off + n \<le> length d \<Longrightarrow> n \<le> length src \<Longrightarrow> wp (memcpy d off src n) Q s = Q (mem_write d off (take n src)) s"
  by (simp add: memcpy_def guard_c_def wp_simps)

lemma take_replicate_min [simp]: "n \<le> m \<Longrightarrow> take n (replicate m x) = replicate n x"
  by (simp add: min_def)

lemma mask_absent: "te_key_mask e = None \<Longrightarrow> e\<lparr>te_key_mask := None\<rparr> = (e :: rte_swx_table_entry)"
  by (cases e) simp

text \<open>What one round leaves in the mask.\<close>

lemma wp_encode_mask:
  assumes "field_ok mf" "off + nbytes (mf_n_bits mf) \<le> length (te_key e)" "index + 8 \<le> length (match_value_bits ms)"
    "mask_fits e ms (kf # kfs)"
  shows "wp (encode_mask (kf_match_type kf) mf (match_mask_bits ms) index off e) Q s =
    Q (e\<lparr>te_key_mask := map_option (\<lambda>m. mem_write m off
        (if kf_match_type kf = PIPE_MGR_MATCH_TYPE_EXACT then replicate (nbytes (mf_n_bits mf)) 255
         else field_bytes mf (drop index (match_mask_bits ms)))) (te_key_mask e)\<rparr>) s"
proof -
  have "nbytes (mf_n_bits mf) \<le> 8" using assms(1) nbytes_le by (simp add: field_ok_def)
  with assms show ?thesis
    by (cases "te_key_mask e")
      (auto simp: encode_mask_def Let_def mask_fits_def wp_read_field wp_simps wp_memcpy_ok field_bytes_def
        mask_absent)
qed

lemma mask_fits_step:
  "mask_fits e ms (kf # kfs) \<Longrightarrow> off + nbytes (mf_n_bits mf) \<le> length (te_key e) \<Longrightarrow> field_ok mf \<Longrightarrow>
   length k = length (te_key e) \<Longrightarrow> length bs = nbytes (mf_n_bits mf) \<Longrightarrow>
   mask_fits (e\<lparr>te_key := k, te_key_mask := map_option (\<lambda>m. mem_write m off bs) (te_key_mask e)\<rparr>) ms kfs"
  by (auto simp: mask_fits_def split: option.splits)

lemma encode_fields_spec:
  assumes "fields_fit fo (length (te_key e)) (length (match_value_bits ms)) index mfs"
    "length mfs \<le> length kfs" "mask_fits e ms kfs"
  shows "wp (encode_fields fo ms index mfs kfs e) (\<lambda>r t. t = s \<and> r = (BF_SUCCESS,
    e\<lparr>te_key := apply_writes (key_writes fo (match_value_bits ms) index mfs) (te_key e),
      te_key_mask := map_option (apply_writes (mask_writes fo (match_mask_bits ms) index mfs kfs)) (te_key_mask e)\<rparr>)) s"
  using assms
proof (induction mfs arbitrary: index kfs e)
  case Nil
  then show ?case by (simp add: wp_simps apply_writes_def option.map_ident)
next
  case (Cons mf mfs)
  then obtain kf kfs' where kfs: "kfs = kf # kfs'" by (cases kfs) auto
  let ?nb = "nbytes (mf_n_bits mf)" and ?off = "field_offset fo mf"
  let ?vb = "field_bytes mf (drop index (match_value_bits ms))"
  let ?mb = "if kf_match_type kf = PIPE_MGR_MATCH_TYPE_EXACT then replicate ?nb 255
    else field_bytes mf (drop index (match_mask_bits ms))"
  let ?e = "e\<lparr>te_key := mem_write (te_key e) ?off ?vb,
    te_key_mask := map_option (\<lambda>m. mem_write m ?off ?mb) (te_key_mask e)\<rparr>"
  from Cons.prems kfs have fit: "field_ok mf" "fo \<le> mf_offset mf" "?off + ?nb \<le> length (te_key e)"
      "index + 8 \<le> length (match_value_bits ms)"
    and rest: "fields_fit fo (length (te_key e)) (length (match_value_bits ms)) (index + ?nb) mfs" by auto
  have len: "length ?vb = ?nb" "length ?mb = ?nb" "?nb \<le> 8"
    using fit(1) nbytes_le by (auto simp: length_field_bytes field_ok_def)
  then have key: "length (mem_write (te_key e) ?off ?vb) = length (te_key e)" using fit(3) by simp
  have mask: "mask_fits ?e ms kfs'"
    by (rule mask_fits_step) (use Cons.prems(3) kfs fit len key in auto)
  have IH: "wp (encode_fields fo ms (index + ?nb) mfs kfs' ?e) (\<lambda>r t. t = s \<and> r = (BF_SUCCESS,
    ?e\<lparr>te_key := apply_writes (key_writes fo (match_value_bits ms) (index + ?nb) mfs) (te_key ?e),
      te_key_mask := map_option (apply_writes (mask_writes fo (match_mask_bits ms) (index + ?nb) mfs kfs'))
        (te_key_mask ?e)\<rparr>)) s"
    by (rule Cons.IH) (use rest key mask Cons.prems(2) kfs in auto)
  have mask0: "mask_fits (e\<lparr>te_key := mem_write (te_key e) ?off ?vb\<rparr>) ms (kf # kfs')"
    using Cons.prems(3) kfs key by (simp add: mask_fits_def split: option.splits)
  have off: "u32_diff (mf_offset mf) fo div 8 = ?off" using fit(2) by (simp add: u32_diff_def field_offset_def)
  show ?case
    using IH fit len key mask0
    by (simp add: kfs Let_def wp_simps off wp_read_field wp_memcpy_ok field_bytes_def [symmetric]
        wp_encode_mask [where kfs = kfs'] apply_writes_def option.map_comp comp_def split del: if_split)
qed

text \<open>Stores that do not overlap are all there at the end.\<close>

fun disjoint_writes :: "(nat \<times> u8 list) list \<Rightarrow> bool" where
  "disjoint_writes [] = True"
| "disjoint_writes (w # ws) = ((\<forall>v \<in> set ws. fst w + length (snd w) \<le> fst v \<or> fst v + length (snd v) \<le> fst w) \<and>
     disjoint_writes ws)"

lemma mem_write_nth:
  "off + length bs \<le> length d \<Longrightarrow> i < length d \<Longrightarrow>
   mem_write d off bs ! i = (if off \<le> i \<and> i < off + length bs then bs ! (i - off) else d ! i)"
  by (auto simp: mem_write_in nth_append)

lemma length_apply_writes:
  "\<forall>w \<in> set ws. fst w + length (snd w) \<le> length d \<Longrightarrow> length (apply_writes ws d) = length d"
  by (induction ws arbitrary: d) (auto simp: apply_writes_def split: prod.splits)

lemma apply_writes_other:
  "\<forall>w \<in> set ws. fst w + length (snd w) \<le> length d \<Longrightarrow>
   \<forall>w \<in> set ws. \<not> (fst w \<le> i \<and> i < fst w + length (snd w)) \<Longrightarrow> i < length d \<Longrightarrow>
   apply_writes ws d ! i = d ! i"
proof (induction ws arbitrary: d)
  case (Cons w ws)
  then have "apply_writes ws (mem_write d (fst w) (snd w)) ! i = mem_write d (fst w) (snd w) ! i" by simp
  with Cons.prems show ?case by (auto simp: apply_writes_def mem_write_nth split: prod.splits)
qed (simp add: apply_writes_def)

lemma apply_writes_slice:
  assumes "disjoint_writes ws" "\<forall>w \<in> set ws. fst w + length (snd w) \<le> length d" "w \<in> set ws"
  shows "take (length (snd w)) (drop (fst w) (apply_writes ws d)) = snd w"
  using assms
proof (induction ws arbitrary: d)
  case (Cons v ws)
  let ?d = "mem_write d (fst v) (snd v)"
  have step: "apply_writes (v # ws) d = apply_writes ws ?d"
    by (cases v) (simp add: apply_writes_def)
  have len: "length ?d = length d" using Cons.prems(2) by simp
  show ?case
  proof (cases "w \<in> set ws")
    case True
    with Cons.IH [of ?d] Cons.prems step len show ?thesis by simp
  next
    case False
    with Cons.prems have w: "w = v" by simp
    have "take (length (snd v)) (drop (fst v) (apply_writes ws ?d)) = snd v"
    proof (rule nth_equalityI)
      show "length (take (length (snd v)) (drop (fst v) (apply_writes ws ?d))) = length (snd v)"
        using Cons.prems(2) by (auto simp: length_apply_writes min_def)
      fix i assume "i < length (take (length (snd v)) (drop (fst v) (apply_writes ws ?d)))"
      then have i: "i < length (snd v)" by simp
      have "apply_writes ws ?d ! (fst v + i) = ?d ! (fst v + i)"
        by (rule apply_writes_other) (use Cons.prems i in fastforce)+
      with i Cons.prems show "take (length (snd v)) (drop (fst v) (apply_writes ws ?d)) ! i = snd v ! i"
        by (simp add: length_apply_writes mem_write_nth)
    qed
    with w step show ?thesis by simp
  qed
qed simp

end
