(* ===== verification/Dal_Tbl.thy ===== *)
theory Dal_Tbl
  imports Encode Device
begin

text \<open>
  Table metadata and table entries of the data plane,
  \<^verbatim>\<open>src/pipe_mgr/shared/dal/dpdk/dal_tbl.c\<close>. The metadata of a table (its match fields, their
  span, the size of the action data) is queried from the built pipeline on the first use of the
  table and kept in its stage table.
\<close>

section \<open>Match fields\<close>

text \<open>\<^verbatim>\<open>P4_SDE_CALLOC\<close> of an object whose address nobody sees.\<close>

definition allocate :: "('m, 'i, 'h, 'z) ext_scheme \<Rightarrow> ('a os_scheme, bool) state" where
  "allocate E = do { t \<leftarrow> tick; ret (x_calloc E t) }"

text \<open>The loop of \<^verbatim>\<open>table_match_field_info\<close>: the accumulator has \<^verbatim>\<open>offset_min\<close>, \<^verbatim>\<open>max_offset\<close>,
  \<^verbatim>\<open>add_bits\<close> and the fields.\<close>

fun field_loop ::
  "(nat \<Rightarrow> int \<times> rte_swx_ctl_table_match_field_info) \<Rightarrow> nat list \<Rightarrow>
   nat \<times> nat \<times> nat \<times> rte_swx_ctl_table_match_field_info list \<Rightarrow>
   (nat \<times> nat \<times> nat \<times> rte_swx_ctl_table_match_field_info list) option" where
  "field_loop info [] acc = Some acc"
| "field_loop info (i # is) (offset_min, max_offset, add_bits, mfs) = (case info i of (status, mf) \<Rightarrow>
     if status \<noteq> 0 then None
     else if i = 0 then field_loop info is (mf_offset mf, mf_offset mf, mf_n_bits mf, mfs @ [mf])
     else field_loop info is
       (if offset_min > mf_offset mf then mf_offset mf else offset_min,
        if max_offset < mf_offset mf then mf_offset mf else max_offset,
        if max_offset < mf_offset mf then mf_n_bits mf else add_bits,
        mfs @ [mf]))"

definition table_match_field_info ::
  "('m, 'i, 'h, 'z) dpdk_scheme \<Rightarrow> ptr \<Rightarrow> dal_dpdk_table_metadata \<Rightarrow>
   ('a os_scheme, bf_status \<times> dal_dpdk_table_metadata) state" where
  "table_match_field_info E p meta = do {
     ok \<leftarrow> allocate E;
     if \<not> ok then ret (BF_NO_SPACE, meta)
     else (case field_loop (r_match_field_info E p (unat (tm_table_id meta)))
             [0..<tm_n_match_fields meta] (0, 0, 0, []) of
         None \<Rightarrow> ret (BF_UNEXPECTED, meta)
       | Some (offset_min, max_offset, add_bits, mfs) \<Rightarrow>
           ret (BF_SUCCESS, meta\<lparr>tm_mf := mfs, tm_first_offset := offset_min,
             tm_match_field_nbits := (max_offset - offset_min) + add_bits\<rparr>)) }"

section \<open>Action arguments\<close>

fun arg_loop ::
  "(nat \<Rightarrow> int \<times> rte_swx_ctl_action_arg_info) \<Rightarrow> nat list \<Rightarrow> rte_swx_ctl_action_arg_info list option" where
  "arg_loop info [] = Some []"
| "arg_loop info (i # is) = (case info i of (status, a) \<Rightarrow>
     if status \<noteq> 0 then None else map_option ((#) a) (arg_loop info is))"

text \<open>Releasing an argument array. Releasing it twice is a fault.\<close>

fun free_buf :: "'b cbuf \<Rightarrow> ('a os_scheme, 'b cbuf) state" where
  "free_buf Null = ret Null"
| "free_buf (Live x) = ret Freed"
| "free_buf Freed = do { fault; ret Freed }"

fun free_arg_infos ::
  "pipe_mgr_dpdk_action_format list \<Rightarrow> ('a os_scheme, pipe_mgr_dpdk_action_format list) state" where
  "free_arg_infos [] = ret []"
| "free_arg_infos (f # fs) = do {
     b \<leftarrow> free_buf (af_arg_info f);
     fs \<leftarrow> free_arg_infos fs;
     ret (f\<lparr>af_arg_info := b\<rparr> # fs) }"

text \<open>The part that the two loops over the actions share: the identifier of the action, its number of
  arguments and the arguments. The flag says whether the argument array was allocated.\<close>

definition fill_act_fmt ::
  "('m, 'i, 'h, 'z) dpdk_scheme \<Rightarrow> ptr \<Rightarrow> ptr \<Rightarrow> pipe_mgr_actions_list \<Rightarrow> pipe_mgr_dpdk_action_format \<Rightarrow>
   ('m, 'i, 'h, bf_status \<times> bool \<times> pipe_mgr_dpdk_action_format) cmd" where
  "fill_act_fmt E pipe p action act_fmt = do {
     action_id \<leftarrow> get_action_id E pipe (al_target_action_name action);
     if action_id = UINT64_MAX then ret (BF_UNEXPECTED, False, act_fmt)
     else do {
       let act_fmt = act_fmt\<lparr>af_action_id := ucast action_id\<rparr>;
       case r_action_info E p (unat action_id) of (status, nm, n_args) \<Rightarrow>
         if status \<noteq> 0 then ret (BF_UNEXPECTED, False, act_fmt)
         else do {
           let act_fmt = act_fmt\<lparr>af_n_args := n_args\<rparr>;
           ok \<leftarrow> allocate E;
           if \<not> ok then ret (BF_NO_SPACE, False, act_fmt)
           else (case arg_loop (r_action_arg_info E p (unat action_id)) [0..<n_args] of
               None \<Rightarrow> ret (BF_UNEXPECTED, True, act_fmt\<lparr>af_arg_info := Live []\<rparr>)
             | Some args \<Rightarrow> ret (BF_SUCCESS, True,
                 act_fmt\<lparr>af_arg_info := Live args, af_arg_nbits := sum_list (map arg_n_bits args)\<rparr>)) }}}"

text \<open>\<^verbatim>\<open>mat_action_args_info\<close> fills the formats that the context file has announced, in step with
  the list of actions. The formats already filled come first. When a query for an argument fails, the
  argument arrays of all formats are released.\<close>

fun mat_args_loop ::
  "('m, 'i, 'h, 'z) dpdk_scheme \<Rightarrow> ptr \<Rightarrow> ptr \<Rightarrow> nat \<Rightarrow> pipe_mgr_dpdk_action_format list \<Rightarrow>
   pipe_mgr_dpdk_action_format list \<Rightarrow> pipe_mgr_actions_list list \<Rightarrow> nat \<Rightarrow>
   ('m, 'i, 'h, bf_status \<times> nat \<times> pipe_mgr_dpdk_action_format list) cmd" where
  "mat_args_loop E pipe p 0 filled fmts actions sz = ret (BF_SUCCESS, sz, filled @ fmts)"
| "mat_args_loop E pipe p (Suc n) filled [] actions sz = ret (BF_UNEXPECTED, sz, filled)"
| "mat_args_loop E pipe p (Suc n) filled (f # fmts) [] sz = ret (BF_UNEXPECTED, sz, filled @ f # fmts)"
| "mat_args_loop E pipe p (Suc n) filled (f # fmts) (action # actions) sz = do {
     (status, allocated, f) \<leftarrow> fill_act_fmt E pipe p action f;
     if status \<noteq> BF_SUCCESS then
       (if allocated then do {
          fs \<leftarrow> free_arg_infos (filled @ f # fmts);
          ret (status, sz, fs) }
        else ret (status, sz, filled @ f # fmts))
     else mat_args_loop E pipe p n (filled @ [f]) fmts actions
       (if af_arg_nbits f > sz then af_arg_nbits f else sz) }"

definition mat_action_args_info ::
  "('m, 'i, 'h, 'z) dpdk_scheme \<Rightarrow> ptr \<Rightarrow> dal_dpdk_table_metadata \<Rightarrow> pipe_mgr_mat_ctx \<Rightarrow>
   pipe_mgr_dpdk_stage_table \<Rightarrow>
   ('m, 'i, 'h, bf_status \<times> dal_dpdk_table_metadata \<times> pipe_mgr_dpdk_stage_table) cmd" where
  "mat_action_args_info E p meta ctx stage_table =
     (if mc_adt_count ctx \<noteq> 0 \<or> mc_sel_tbl_count ctx \<noteq> 0
      then ret (BF_SUCCESS, meta\<lparr>tm_action_data_size := 32\<rparr>, stage_table)
      else deref (\<lambda>_. cbuf_list (st_act_fmt stage_table)) (BF_UNEXPECTED, meta, stage_table) (\<lambda>fmts. do {
        (status, sz, fmts') \<leftarrow> mat_args_loop E (tm_pipe meta) p (tm_n_actions meta) [] fmts (mc_actions ctx) 0;
        ret (status, meta\<lparr>tm_action_data_size := sz\<rparr>,
          stage_table\<lparr>st_act_fmt := (if fmts' = [] then Null else Live fmts')\<rparr>) }))"

text \<open>The clean-up of \<^verbatim>\<open>adt_action_args_info\<close> releases the formats of the stage table and leaves the
  pointer to them. \<open>linked\<close> says that \<^verbatim>\<open>act_fmt\<close> is still the format of the round before, which is
  the head of that list: it is released first and then read again.\<close>

definition adt_args_cleanup ::
  "bool \<Rightarrow> pipe_mgr_dpdk_action_format list cbuf \<Rightarrow>
   ('a os_scheme, pipe_mgr_dpdk_action_format list cbuf) state" where
  "adt_args_cleanup linked fmts = do {
     guard_c (\<not> linked);
     deref (\<lambda>_. cbuf_list fmts) Freed (\<lambda>fs. do {
       free_arg_infos fs;
       ret (if fs = [] then fmts else Freed) }) }"

definition new_act_fmt :: "u32 \<Rightarrow> pipe_mgr_dpdk_action_format" where
  "new_act_fmt hdl = \<lparr>af_action_name = [], af_action_handle = hdl, af_immediate_field = [], af_action_id = 0,
     af_n_args = 0, af_arg_info = Null, af_arg_nbits = 0\<rparr>"

fun adt_args_loop ::
  "('m, 'i, 'h, 'z) dpdk_scheme \<Rightarrow> ptr \<Rightarrow> ptr \<Rightarrow> nat \<Rightarrow> bool \<Rightarrow> pipe_mgr_actions_list list \<Rightarrow> nat \<Rightarrow>
   pipe_mgr_dpdk_action_format list cbuf \<Rightarrow>
   ('m, 'i, 'h, bf_status \<times> nat \<times> pipe_mgr_dpdk_action_format list cbuf) cmd" where
  "adt_args_loop E pipe p 0 linked actions sz fmts = ret (BF_SUCCESS, sz, fmts)"
| "adt_args_loop E pipe p (Suc n) linked [] sz fmts = do {
     fmts \<leftarrow> adt_args_cleanup linked fmts;
     ret (BF_UNEXPECTED, sz, fmts) }"
| "adt_args_loop E pipe p (Suc n) linked (action # actions) sz fmts = do {
     ok \<leftarrow> allocate E;
     if \<not> ok then do {
       fmts \<leftarrow> adt_args_cleanup False fmts;
       ret (BF_NO_SPACE, sz, fmts) }
     else do {
       (status, allocated, f) \<leftarrow> fill_act_fmt E pipe p action (new_act_fmt (al_handle action));
       if status \<noteq> BF_SUCCESS then do {
         fmts \<leftarrow> adt_args_cleanup False fmts;
         ret (status, sz, fmts) }
       else deref (\<lambda>_. cbuf_list fmts) (BF_UNEXPECTED, sz, fmts) (\<lambda>fs.
         adt_args_loop E pipe p n True actions (if af_arg_nbits f > sz then af_arg_nbits f else sz)
           (Live (f # fs))) }}"

definition adt_action_args_info ::
  "('m, 'i, 'h, 'z) dpdk_scheme \<Rightarrow> ptr \<Rightarrow> dal_dpdk_table_metadata \<Rightarrow> pipe_mgr_mat_ctx \<Rightarrow>
   pipe_mgr_dpdk_stage_table \<Rightarrow>
   ('m, 'i, 'h, bf_status \<times> dal_dpdk_table_metadata \<times> pipe_mgr_dpdk_stage_table) cmd" where
  "adt_action_args_info E p meta ctx stage_table = do {
     (status, sz, fmts) \<leftarrow> adt_args_loop E (tm_pipe meta) p (tm_n_actions meta) False (mc_actions ctx) 0
       (st_act_fmt stage_table);
     ret (status, meta\<lparr>tm_action_data_size := sz\<rparr>, stage_table\<lparr>st_act_fmt := fmts\<rparr>) }"

section \<open>Entries\<close>

definition empty_entry :: rte_swx_table_entry where
  "empty_entry = \<lparr>te_key = [], te_key_mask = None, te_key_priority = 0, te_action_id = 0, te_action_data = []\<rparr>"

text \<open>The three optional buffers of an entry: each is allocated when its size is not 0.\<close>

definition alloc_if ::
  "('m, 'i, 'h, 'z) ext_scheme \<Rightarrow> bool \<Rightarrow> nat \<Rightarrow> ('a os_scheme, u8 list option option) state" where
  "alloc_if E b n = (if b then do { p \<leftarrow> calloc_bytes E n; ret (map_option Some p) } else ret (Some None))"

definition dal_dpdk_table_entry_alloc ::
  "('m, 'i, 'h, 'z) ext_scheme \<Rightarrow> dal_dpdk_table_metadata \<Rightarrow> pipe_mgr_match_type \<Rightarrow>
   ('a os_scheme, bf_status \<times> rte_swx_table_entry) state" where
  "dal_dpdk_table_entry_alloc E meta match_type = do {
     ok \<leftarrow> allocate E;
     if \<not> ok then ret (BF_NO_SPACE, empty_entry)
     else do {
       let mf_bytes = nbytes (tm_match_field_nbits meta);
       k \<leftarrow> alloc_if E (tm_match_field_nbits meta \<noteq> 0) mf_bytes;
       case k of
         None \<Rightarrow> ret (BF_NO_SPACE, empty_entry)
       | Some k \<Rightarrow> do {
           m \<leftarrow> alloc_if E (tm_match_field_nbits meta \<noteq> 0 \<and> match_type \<noteq> PIPE_MGR_MATCH_TYPE_EXACT) mf_bytes;
           case m of
             None \<Rightarrow> ret (BF_NO_SPACE, empty_entry)
           | Some m \<Rightarrow> do {
               d \<leftarrow> alloc_if E (tm_action_data_size meta \<noteq> 0) (nbytes (tm_action_data_size meta));
               case d of
                 None \<Rightarrow> ret (BF_NO_SPACE, empty_entry)
               | Some d \<Rightarrow> ret (BF_SUCCESS, empty_entry\<lparr>te_key := (case k of None \<Rightarrow> [] | Some b \<Rightarrow> b),
                   te_key_mask := m, te_action_data := (case d of None \<Rightarrow> [] | Some b \<Rightarrow> b)\<rparr>) }}}}"

section \<open>Metadata\<close>

definition upd_ctx :: "ptr \<Rightarrow> (pipe_mgr_mat_ctx \<Rightarrow> pipe_mgr_mat_ctx) \<Rightarrow> ('m, 'i, 'h, unit) cmd" where
  "upd_ctx tbl f = modify (\<lambda>s. s\<lparr>w_mats := (w_mats s)(tbl :=
     map_option (\<lambda>m. m\<lparr>mat_ctx := f (mat_ctx m)\<rparr>) (w_mats s tbl))\<rparr>)"

definition upd_vl_stage ::
  "ptr \<Rightarrow> (pipe_mgr_dpdk_stage_table \<Rightarrow> pipe_mgr_dpdk_stage_table) \<Rightarrow> ('m, 'i, 'h, unit) cmd" where
  "upd_vl_stage tbl f = modify (\<lambda>s. s\<lparr>w_vls := (w_vls s)(tbl := map_option (\<lambda>v. v\<lparr>vl_ctx :=
     (vl_ctx v)\<lparr>vc_match_stage_table := map_option f (vc_match_stage_table (vl_ctx v))\<rparr>\<rparr>) (w_vls s tbl))\<rparr>)"

definition vl_stage :: "ptr \<Rightarrow> ('m, 'i, 'h) world \<Rightarrow> pipe_mgr_dpdk_stage_table option" where
  "vl_stage tbl s = (case w_vls s tbl of None \<Rightarrow> None | Some v \<Rightarrow> vc_match_stage_table (vl_ctx v))"

text \<open>On failure the metadata is released and the pointer to it stays.\<close>

definition dal_dpdk_value_lookup_metadata_get ::
  "('m, 'i, 'h, 'z) ext_scheme \<Rightarrow> ptr \<Rightarrow> string \<Rightarrow> ('m, 'i, 'h, bf_status) cmd" where
  "dal_dpdk_value_lookup_metadata_get E tbl pipeline_name = deref (vl_stage tbl) BF_UNEXPECTED (\<lambda>stage_table.
     if st_val_lookup_meta stage_table \<noteq> Null then ret BF_UNEXPECTED
     else do {
       ok \<leftarrow> allocate E;
       if \<not> ok then ret BF_NO_SPACE
       else do {
         pipe \<leftarrow> pipeline_find pipeline_name;
         if pipe = NULL then do {
           upd_vl_stage tbl (\<lambda>st. st\<lparr>st_val_lookup_meta := Freed\<rparr>);
           ret BF_OBJECT_NOT_FOUND }
         else do {
           upd_vl_stage tbl (\<lambda>st. st\<lparr>st_val_lookup_meta := Live pipe\<rparr>);
           ret BF_SUCCESS }}})"

text \<open>The match type of a table: the first ternary or longest-prefix field, or else the type of the
  first field. An empty list of fields is read through a \<open>NULL\<close> pointer.\<close>

fun meta_match_type :: "pipe_mgr_match_key_fields list \<Rightarrow> pipe_mgr_match_type option" where
  "meta_match_type [] = None"
| "meta_match_type (kf # kfs) = Some (case find (\<lambda>k. kf_match_type k = PIPE_MGR_MATCH_TYPE_LPM \<or>
       kf_match_type k = PIPE_MGR_MATCH_TYPE_TERNARY) (kf # kfs) of
     None \<Rightarrow> kf_match_type kf | Some k \<Rightarrow> kf_match_type k)"

definition stage_of :: "pipe_mgr_table_type \<Rightarrow> pipe_mgr_mat_ctx \<Rightarrow> pipe_mgr_dpdk_stage_table option" where
  "stage_of tt ctx = (if tt = PIPE_MGR_TABLE_TYPE_ADT then mc_stage_table ctx else mc_match_stage_table ctx)"

definition set_stage ::
  "pipe_mgr_table_type \<Rightarrow> ptr \<Rightarrow> pipe_mgr_dpdk_stage_table \<Rightarrow> ('m, 'i, 'h, unit) cmd" where
  "set_stage tt tbl st = upd_ctx tbl (\<lambda>ctx. if tt = PIPE_MGR_TABLE_TYPE_ADT then ctx\<lparr>mc_stage_table := Some st\<rparr>
     else ctx\<lparr>mc_match_stage_table := Some st\<rparr>)"

definition mat_ctx_of :: "ptr \<Rightarrow> ('m, 'i, 'h) world \<Rightarrow> pipe_mgr_mat_ctx option" where
  "mat_ctx_of tbl s = map_option mat_ctx (w_mats s tbl)"

text \<open>The queries up to the match fields: a status, or the metadata without the action data size.\<close>

definition metadata_query ::
  "('m, 'i, 'h, 'z) dpdk_scheme \<Rightarrow> string \<Rightarrow> string \<Rightarrow>
   ('m, 'i, 'h, bf_status \<times> (ptr \<times> dal_dpdk_table_metadata) option) cmd" where
  "metadata_query E pipeline_name table_name = do {
     ok \<leftarrow> allocate E;
     if \<not> ok then ret (BF_NO_SPACE, None)
     else do {
       pipe \<leftarrow> pipeline_find pipeline_name;
       if pipe = NULL then ret (BF_OBJECT_NOT_FOUND, None)
       else do {
         table_id \<leftarrow> get_table_id E pipe table_name;
         if table_id = UINT32_MAX then ret (BF_OBJECT_NOT_FOUND, None)
         else deref (pipe_obj pipe) (BF_UNEXPECTED, None) (\<lambda>pl.
           case r_table_info E (pl_p pl) (unat table_id) of (status, nm, n_match, n_actions) \<Rightarrow>
             if status \<noteq> 0 then ret (BF_OBJECT_NOT_FOUND, None)
             else do {
               (status, meta) \<leftarrow> table_match_field_info E (pl_p pl)
                 \<lparr>tm_pipe = pipe, tm_table_id = table_id, tm_n_match_fields = n_match, tm_n_actions = n_actions,
                  tm_mf = [], tm_match_type = PIPE_MGR_MATCH_TYPE_EXACT, tm_match_field_nbits = 0,
                  tm_action_data_size = 0, tm_first_offset = 0\<rparr>;
               ret (status, if status = BF_SUCCESS then Some (pl_p pl, meta) else None) }) }}}"

definition dal_dpdk_table_metadata_get ::
  "('m, 'i, 'h, 'z) dpdk_scheme \<Rightarrow> ptr \<Rightarrow> pipe_mgr_table_type \<Rightarrow> string \<Rightarrow> string \<Rightarrow>
   ('m, 'i, 'h, bf_status) cmd" where
  "dal_dpdk_table_metadata_get E tbl tbl_type pipeline_name table_name =
     (if tbl_type = PIPE_MGR_TABLE_TYPE_VALUE_LOOKUP
      then dal_dpdk_value_lookup_metadata_get E tbl pipeline_name
      else if tbl_type = PIPE_MGR_TABLE_TYPE_SEL then ret BF_INVALID_ARG
      else deref (mat_ctx_of tbl) BF_UNEXPECTED (\<lambda>ctx.
        deref (\<lambda>_. stage_of tbl_type ctx) BF_UNEXPECTED (\<lambda>stage_table.
          if st_table_meta stage_table \<noteq> None then ret BF_UNEXPECTED
          else do {
            (status, q) \<leftarrow> metadata_query E pipeline_name table_name;
            case q of
              None \<Rightarrow> ret status
            | Some (p, meta) \<Rightarrow>
                if tbl_type = PIPE_MGR_TABLE_TYPE_ADT then do {
                  (status, meta, stage_table) \<leftarrow> adt_action_args_info E p meta ctx stage_table;
                  set_stage tbl_type tbl (if status \<noteq> BF_SUCCESS then stage_table
                    else stage_table\<lparr>st_table_meta := Some meta\<rparr>);
                  ret status }
                else if tm_n_match_fields meta \<noteq> mc_mat_key_fields_count ctx then ret BF_UNEXPECTED
                else deref (\<lambda>_. meta_match_type (mc_mat_key_fields ctx)) BF_UNEXPECTED (\<lambda>mt. do {
                  (status, meta, stage_table) \<leftarrow>
                    mat_action_args_info E p (meta\<lparr>tm_match_type := mt\<rparr>) ctx stage_table;
                  set_stage tbl_type tbl (if status \<noteq> BF_SUCCESS then stage_table
                    else stage_table\<lparr>st_table_meta := Some meta\<rparr>);
                  ret status }) })))"

section \<open>The span of the match fields\<close>

text \<open>What the loop over the fields knows after \<open>k\<close> rounds.\<close>

definition span_inv ::
  "(nat \<Rightarrow> int \<times> rte_swx_ctl_table_match_field_info) \<Rightarrow> nat \<Rightarrow>
   nat \<times> nat \<times> nat \<times> rte_swx_ctl_table_match_field_info list \<Rightarrow> bool" where
  "span_inv info k acc \<longleftrightarrow> (case acc of (mn, mx, ab, mfs) \<Rightarrow>
     length mfs = k \<and> (\<forall>i < k. info i = (0, mfs ! i)) \<and>
     (\<forall>mf \<in> set mfs. mn \<le> mf_offset mf \<and> mf_offset mf \<le> mx) \<and>
     (if k = 0 then mn = 0 \<and> mx = 0 \<and> ab = 0
      else \<exists>mf \<in> set mfs. mf_offset mf = mx \<and> mf_n_bits mf = ab))"

lemma span_step:
  assumes "span_inv info k (mn, mx, ab, mfs)" "info k = (0, mf)"
  shows "span_inv info (Suc k) (if k = 0 then (mf_offset mf, mf_offset mf, mf_n_bits mf, mfs @ [mf])
    else (if mn > mf_offset mf then mf_offset mf else mn, if mx < mf_offset mf then mf_offset mf else mx,
      if mx < mf_offset mf then mf_n_bits mf else ab, mfs @ [mf]))"
  using assms by (force simp: span_inv_def nth_append less_Suc_eq)

lemma field_loop_inv:
  "field_loop info [k..<n] acc = Some acc' \<Longrightarrow> span_inv info k acc \<Longrightarrow> k \<le> n \<Longrightarrow> span_inv info n acc'"
proof (induction "n - k" arbitrary: k acc)
  case (Suc d)
  obtain mn mx ab mfs where acc: "acc = (mn, mx, ab, mfs)" by (cases acc) auto
  have upt: "[k..<n] = k # [Suc k..<n]" using Suc.hyps(2) by (simp add: upt_conv_Cons)
  obtain st mf where info: "info k = (st, mf)" by (cases "info k") auto
  have st: "st = 0" using Suc.prems(1) upt acc info by (auto split: if_splits)
  let ?acc = "if k = 0 then (mf_offset mf, mf_offset mf, mf_n_bits mf, mfs @ [mf])
    else (if mn > mf_offset mf then mf_offset mf else mn, if mx < mf_offset mf then mf_offset mf else mx,
      if mx < mf_offset mf then mf_n_bits mf else ab, mfs @ [mf])"
  have "field_loop info [Suc k..<n] ?acc = Some acc'"
    using Suc.prems(1) upt acc info st by (simp split: if_splits)
  moreover have "span_inv info (Suc k) ?acc"
    using span_step [of info k mn mx ab mfs mf] Suc.prems(2) acc info st by simp
  ultimately show ?case using Suc.hyps by (intro Suc.hyps(1) [of "Suc k" ?acc]) auto
qed (auto)

lemma field_loop_span:
  "field_loop info [0..<n] (0, 0, 0, []) = Some acc \<Longrightarrow> span_inv info n acc"
  by (erule field_loop_inv) (simp_all add: span_inv_def)

text \<open>A layout that the data plane announces: fields of whole bytes at byte offsets that do not
  overlap.\<close>

definition fields_disjoint ::
  "rte_swx_ctl_table_match_field_info \<Rightarrow> rte_swx_ctl_table_match_field_info \<Rightarrow> bool" where
  "fields_disjoint f g \<longleftrightarrow> mf_offset f + mf_n_bits f \<le> mf_offset g \<or> mf_offset g + mf_n_bits g \<le> mf_offset f"

definition layout_ok :: "rte_swx_ctl_table_match_field_info list \<Rightarrow> bool" where
  "layout_ok mfs \<longleftrightarrow> (\<forall>mf \<in> set mfs. field_ok mf \<and> 8 dvd mf_offset mf \<and> 8 dvd mf_n_bits mf) \<and>
     sorted_wrt fields_disjoint mfs"

lemma layout_cases:
  assumes "layout_ok mfs" "f \<in> set mfs" "g \<in> set mfs"
  shows "f = g \<or> fields_disjoint f g"
proof -
  obtain i j where "f = mfs ! i" "g = mfs ! j" "i < length mfs" "j < length mfs"
    using assms(2,3) by (metis in_set_conv_nth)
  with assms(1) show ?thesis
    by (cases i j rule: linorder_cases)
      (auto simp: layout_ok_def fields_disjoint_def dest: sorted_wrt_nth_less)
qed

text \<open>The buffer that \<^verbatim>\<open>dal_dpdk_table_entry_alloc\<close> sizes from the span holds every field.\<close>

lemma span_fits:
  assumes "span_inv info n (mn, mx, ab, mfs)" "layout_ok mfs" "mf \<in> set mfs"
  shows "mn \<le> mf_offset mf" "field_offset mn mf + nbytes (mf_n_bits mf) \<le> nbytes ((mx - mn) + ab)"
proof -
  from assms(1,3) have bnd: "mn \<le> mf_offset mf" "mf_offset mf \<le> mx" and "n \<noteq> 0"
    by (auto simp: span_inv_def)
  then obtain g where g: "g \<in> set mfs" "mf_offset g = mx" "mf_n_bits g = ab"
    using assms(1) by (auto simp: span_inv_def)
  have pos: "0 < mf_n_bits g" using assms(2) g(1) by (auto simp: layout_ok_def field_ok_def)
  have "mf_offset mf + mf_n_bits mf \<le> mx + ab"
    using layout_cases [OF assms(2,3) g(1)] g bnd pos by (auto simp: fields_disjoint_def)
  then have "(mf_offset mf - mn) + mf_n_bits mf \<le> (mx - mn) + ab" using bnd by simp
  moreover have "8 dvd mf_n_bits mf" using assms(2,3) by (auto simp: layout_ok_def)
  ultimately show "field_offset mn mf + nbytes (mf_n_bits mf) \<le> nbytes ((mx - mn) + ab)"
    by (auto simp: field_offset_def nbytes_def; presburger)
  show "mn \<le> mf_offset mf" by (rule bnd)
qed

text \<open>The stores of the fields do not overlap.\<close>

lemma key_writes_disjoint:
  "layout_ok mfs \<Longrightarrow> \<forall>mf \<in> set mfs. mn \<le> mf_offset mf \<Longrightarrow> disjoint_writes (key_writes mn bits index mfs)"
proof (induction mfs arbitrary: index)
  case (Cons f fs)
  have mem: "w \<in> set (key_writes mn bits i gs) \<Longrightarrow>
      \<exists>g \<in> set gs. fst w = field_offset mn g \<and> (\<exists>bs. snd w = field_bytes g bs)" for w i gs
    by (induction gs arbitrary: i) auto
  have "layout_ok fs" using Cons.prems(1) by (auto simp: layout_ok_def)
  moreover have "field_offset mn f + nbytes (mf_n_bits f) \<le> field_offset mn g \<or>
      field_offset mn g + nbytes (mf_n_bits g) \<le> field_offset mn f" if "g \<in> set fs" for g
  proof -
    have "fields_disjoint f g" "8 dvd mf_n_bits f" "8 dvd mf_n_bits g" "mn \<le> mf_offset f" "mn \<le> mf_offset g"
      using Cons.prems that by (auto simp: layout_ok_def)
    then show ?thesis by (auto simp: fields_disjoint_def field_offset_def nbytes_def)
  qed
  ultimately show ?case
    using Cons by (auto simp: layout_ok_def length_field_bytes dest!: mem; blast)
qed simp

section \<open>Frames\<close>

text \<open>The device abstraction layer changes stage tables and calls the data plane. It leaves alone: the
  locks, the objects that the bracket of a public call reads, and the store of entries.\<close>

definition mat_store ::
  "('m, 'i, 'h) pipe_mgr_mat \<Rightarrow> ('m, 'i, 'h) pipe_mgr_mat_state option \<times> u32 \<times> pipe_mgr_match_type \<times> bool \<times> bool" where
  "mat_store m = (mat_state m, mc_handle (mat_ctx m), mc_match_type (mat_ctx m),
     mc_duplicate_entry_check (mat_ctx m), mc_store_entries (mat_ctx m))"

definition vl_store ::
  "('m, 'i, 'h) pipe_mgr_value_lookup \<Rightarrow> ('m, 'i, 'h) pipe_mgr_mat_state option \<times> u32 \<times> pipe_mgr_match_type \<times> bool \<times> bool" where
  "vl_store v = (vl_state v, vc_handle (vl_ctx v), vc_match_type (vl_ctx v),
     vc_duplicate_entry_check (vl_ctx v), vc_store_entries (vl_ctx v))"

definition dal_frame where
  "dal_frame s = (os_locks s, api_frame s,
     (\<lambda>p. map_option mat_store (w_mats s p), \<lambda>p. map_option vl_store (w_vls s p)),
     (w_mat_ents s, w_vl_ents s, w_adt_ents s, w_sel_ents s, w_nodes s, os_next s))"

lemma dal_frame_simps [simp]:
  "dal_frame (s\<lparr>os_clk := n\<rparr>) = dal_frame s" "dal_frame (s\<lparr>os_fault := b\<rparr>) = dal_frame s"
  "dal_frame (s\<lparr>w_rte := x\<rparr>) = dal_frame s"
  by (simp_all add: dal_frame_def api_frame_def)

lemma dal_frameD:
  assumes "dal_frame t = dal_frame s"
  shows "os_locks t = os_locks s" "api_frame t = api_frame s" "w_mat_ents t = w_mat_ents s"
    "w_vl_ents t = w_vl_ents s" "w_adt_ents t = w_adt_ents s" "w_sel_ents t = w_sel_ents s" "w_nodes t = w_nodes s" "os_next t = os_next s"
    "map_option mat_store (w_mats t p) = map_option mat_store (w_mats s p)"
    "map_option vl_store (w_vls t p) = map_option vl_store (w_vls s p)"
  using assms by (auto simp: dal_frame_def dest: fun_cong)

lemma dal_locks_frame:
  assumes "keeps dal_frame m"
  shows "keeps os_locks m" "keeps api_frame m"
  using keeps_comp [OF assms, of fst] keeps_comp [OF assms, of "fst \<circ> snd"] by (simp_all add: dal_frame_def)

text \<open>An operation of the layer: it keeps the frame and never clears a fault.\<close>

definition dal_op :: "('m, 'i, 'h, 'r) cmd \<Rightarrow> bool" where
  "dal_op m \<longleftrightarrow> keeps dal_frame m \<and> pres os_fault m"

named_theorems dal_intros \<open>operations of the device abstraction layer\<close>

lemma dal_opD: "dal_op m \<Longrightarrow> keeps dal_frame m" "dal_op m \<Longrightarrow> pres os_fault m"
  by (simp_all add: dal_op_def)

lemma dal_bal: "dal_op m \<Longrightarrow> bal m"
  by (rule bal_keeps [OF dal_locks_frame(1)]) (simp_all add: dal_op_def)

lemma dal_atoms [dal_intros]:
  "dal_op (ret x)" "dal_op (gets g)" "dal_op tick" "dal_op fault" "dal_op (guard_c b)"
  "dal_op (calloc_bytes E n)" "dal_op (memcpy d off src n)" "dal_op (rte_do E' c)"
  by (simp_all add: dal_op_def keeps_intros pres_intros)

lemma dal_bind [dal_intros]: "dal_op m \<Longrightarrow> (\<And>x. dal_op (f x)) \<Longrightarrow> dal_op (State_Monad.bind m f)"
  by (auto simp: dal_op_def intro!: keeps_intros pres_intros)

lemma dal_if [dal_intros]: "dal_op m \<Longrightarrow> dal_op n \<Longrightarrow> dal_op (if b then m else n)"
  by simp

lemma dal_Let [dal_intros]: "dal_op (g x) \<Longrightarrow> dal_op (Let x g)"
  by simp

lemma dal_case_option [dal_intros]:
  "dal_op m \<Longrightarrow> (\<And>y. dal_op (f y)) \<Longrightarrow> dal_op (case x of None \<Rightarrow> m | Some y \<Rightarrow> f y)"
  by (cases x) auto

lemma dal_case_prod [dal_intros]: "(\<And>a b. dal_op (f a b)) \<Longrightarrow> dal_op (case x of (a, b) \<Rightarrow> f a b)"
  by (cases x) auto

lemma dal_deref [dal_intros]: "(\<And>v. dal_op (k v)) \<Longrightarrow> dal_op (deref g d k)"
  by (auto simp: dal_op_def intro!: keeps_intros pres_intros)

lemma dal_set_stage [dal_intros]: "dal_op (set_stage tt tbl st)" "dal_op (upd_vl_stage tbl f)"
  by (auto simp: dal_op_def set_stage_def upd_ctx_def upd_vl_stage_def dal_frame_def api_frame_def mat_store_def
      vl_store_def fun_eq_iff option.map_comp intro!: keeps_intros pres_intros option.map_cong)

lemma dal_encode [dal_intros]:
  "dal_op (read_field mf bits index)" "dal_op (encode_mask mt mf bits index off e)"
  "dal_op (encode_fields fo ms index mfs kfs e)" "dal_op (encode_arg bits off n nb aoff e)"
  "dal_op (encode_adt_args bits aoff args e)" "dal_op (encode_args imms bits aoff args e)"
proof -
  show rd: "dal_op (read_field mf bits index)" for mf bits index
    by (auto simp: read_field_def field_hton_def intro!: dal_intros)
  show mask: "dal_op (encode_mask mt mf bits index off e)" for mt mf bits index off e
    by (auto simp: encode_mask_def Let_def intro!: dal_intros rd)
  show "dal_op (encode_fields fo ms index mfs kfs e)"
    by (induction fo ms index mfs kfs e rule: encode_fields.induct) (auto intro!: dal_intros rd mask)
  show arg: "dal_op (encode_arg bits off n nb aoff e)" for bits off n nb aoff e
    by (auto simp: encode_arg_def field_hton_def intro!: dal_intros)
  show "dal_op (encode_adt_args bits aoff args e)"
    by (induction bits aoff args e rule: encode_adt_args.induct) (auto intro!: dal_intros arg)
  show "dal_op (encode_args imms bits aoff args e)"
    by (induction imms bits aoff args e rule: encode_args.induct) (auto intro!: dal_intros arg split: option.split)
qed

lemma dal_find [dal_intros]:
  "dal_op (pipeline_find name)" "dal_op (get_action_id E pipe name)" "dal_op (get_table_id E pipe name)"
  by (auto simp: pipeline_find_def get_action_id_def get_table_id_def intro!: dal_intros)

lemma dal_encode_ops [dal_intros]:
  "dal_op (pipe_mgr_dpdk_encode_match_key_and_mask ctx ms e)"
  "dal_op (pipe_mgr_dpdk_encode_adt_action_data fmt bits e)"
  "dal_op (pipe_mgr_dpdk_encode_sel_action E nm pipe spec e)"
  "dal_op (pipe_mgr_dpdk_encode_member_id E nm pipe spec e)"
  "dal_op (pipe_mgr_dpdk_encode_action_data fmt bits e)"
  "dal_op (pipe_mgr_ctx_dpdk_get_act_fmt st hdl)"
  "dal_op (pipe_mgr_dpdk_encode_param_from_data_spec E im ds)"
  "dal_op (pipe_mgr_dpdk_encode_key_from_match_spec E ms)"
  by (auto simp: pipe_mgr_dpdk_encode_match_key_and_mask_def pipe_mgr_dpdk_encode_adt_action_data_def
      pipe_mgr_dpdk_encode_sel_action_def pipe_mgr_dpdk_encode_member_id_def encode_hdl_action_def
      pipe_mgr_dpdk_encode_action_data_def pipe_mgr_ctx_dpdk_get_act_fmt_def Let_def
      pipe_mgr_dpdk_encode_param_from_data_spec_def pipe_mgr_dpdk_encode_key_from_match_spec_def
      intro!: dal_intros)

lemma dal_allocate [dal_intros]: "dal_op (allocate E)"
  by (auto simp: allocate_def intro!: dal_intros)

lemma dal_free_buf [dal_intros]: "dal_op (free_buf b)"
  by (cases b) (auto intro!: dal_intros)

lemma dal_free_arg_infos [dal_intros]: "dal_op (free_arg_infos fs)"
  by (induction fs) (auto intro!: dal_intros)

lemma dal_fill_act_fmt [dal_intros]: "dal_op (fill_act_fmt E pipe p action f)"
  by (auto simp: fill_act_fmt_def intro!: dal_intros)

lemma dal_mat_args_loop [dal_intros]: "dal_op (mat_args_loop E pipe p n filled fmts actions sz)"
  by (induction E pipe p n filled fmts actions sz rule: mat_args_loop.induct) (auto intro!: dal_intros)

lemma dal_adt_args_cleanup [dal_intros]: "dal_op (adt_args_cleanup linked cb)"
  by (auto simp: adt_args_cleanup_def intro!: dal_intros)

lemma dal_adt_args_loop [dal_intros]: "dal_op (adt_args_loop E pipe p n linked actions sz cb)"
  by (induction E pipe p n linked actions sz cb rule: adt_args_loop.induct) (auto intro!: dal_intros)

lemma dal_tbl_ops [dal_intros]:
  "dal_op (dal_dpdk_table_entry_alloc E meta mt)" "dal_op (dal_dpdk_table_metadata_get D tbl tt pn tn)"
  by (auto simp: dal_dpdk_table_entry_alloc_def alloc_if_def Let_def dal_dpdk_table_metadata_get_def
      dal_dpdk_value_lookup_metadata_get_def metadata_query_def table_match_field_info_def
      mat_action_args_info_def adt_action_args_info_def intro!: dal_intros)

end
