(* ===== verification/Externs.thy ===== *)
theory Externs
  imports Dal_Tbl
begin

text \<open>
  Counters and registers of a pipeline: \<^verbatim>\<open>dal_counters.c\<close>, \<^verbatim>\<open>dal_registers.c\<close> of the device
  abstraction layer and the public calls of \<^verbatim>\<open>pipe_mgr_counters.c\<close> and
  \<^verbatim>\<open>pipe_mgr_registers.c\<close>. An extern is found by the last component of its P4 name; its values
  are register arrays of the data plane.
\<close>

section \<open>Finding an extern\<close>

definition trim_classifier_str :: "string \<Rightarrow> string" where
  "trim_classifier_str str = rev (takeWhile (\<lambda>c. c \<noteq> CHR ''.'') (rev str))"

abbreviation (input) P4_SDE_TABLE_NAME_LEN :: nat where "P4_SDE_TABLE_NAME_LEN \<equiv> 64"
abbreviation (input) P4_SDE_COUNTER_TARGET_LEN :: nat where "P4_SDE_COUNTER_TARGET_LEN \<equiv> 72"

text \<open>The profile, the pipeline and the extern of a name, as four functions look them up: the data
  plane's pipeline and the extern, or a status.\<close>

definition externs_lookup ::
  "('m, 'i, 'h, 'z) dpdk_scheme \<Rightarrow> bf_dev_target \<Rightarrow> string \<Rightarrow>
   ('m, 'i, 'h, bf_status \<times> (ptr \<times> pipe_mgr_externs_ctx) option) cmd" where
  "externs_lookup E dev_tgt table_name = do {
     (status, profile) \<leftarrow> pipe_mgr_get_profile E (device_id dev_tgt) (dev_pipe_id dev_tgt);
     case profile of
       None \<Rightarrow> ret (BF_OBJECT_NOT_FOUND, None)
     | Some pf \<Rightarrow> deref (get_profile_obj pf) (BF_UNEXPECTED, None) (\<lambda>profile. do {
         pipe \<leftarrow> pipeline_find (pf_pipeline_name profile);
         if pipe = NULL then ret (BF_OBJECT_NOT_FOUND, None)
         else do {
           (status, ctx_obj) \<leftarrow> pipe_mgr_get_profile_ctx E dev_tgt;
           if status \<noteq> BF_SUCCESS then ret (BF_OBJECT_NOT_FOUND, None)
           else deref (\<lambda>_. pc_externs_htbl (pf_pipe_ctx profile)) (BF_UNEXPECTED, None) (\<lambda>htbl.
             case htbl (take (P4_SDE_TABLE_NAME_LEN - 1) (trim_classifier_str table_name)) of
               None \<Rightarrow> ret (BF_OBJECT_NOT_FOUND, None)
             | Some x \<Rightarrow> deref (pipe_obj pipe) (BF_UNEXPECTED, None) (\<lambda>pl. ret (BF_SUCCESS, Some (pl_p pl, x)))) }}) }"

definition regarray_read ::
  "('m, 'i, 'h, 'z) dpdk_scheme \<Rightarrow> ptr \<Rightarrow> string \<Rightarrow> int \<Rightarrow> ('m, 'i, 'h, int \<times> u64) cmd" where
  "regarray_read E p name idx = do { t \<leftarrow> tick; ret (r_regarray_read E t p name idx) }"

section \<open>Counters\<close>

record pipe_stat_data =
  sd_packets :: u64
  sd_bytes :: u64

record pipe_res_get_data =
  rd_counter :: pipe_stat_data
  rd_has_counter :: bool

fun dal_cnt_set_value :: "externs_attr_type \<Rightarrow> u64 \<Rightarrow> pipe_stat_data \<Rightarrow> pipe_stat_data" where
  "dal_cnt_set_value EXTERNS_ATTR_TYPE_BYTES v stat = stat\<lparr>sd_bytes := v\<rparr>"
| "dal_cnt_set_value EXTERNS_ATTR_TYPE_PACKETS v stat = stat\<lparr>sd_packets := v\<rparr>"
| "dal_cnt_set_value EXTERNS_ATTR_TYPE_PACKETS_AND_BYTES v stat = stat"

definition suffixed_target :: "string \<Rightarrow> string \<Rightarrow> string" where
  "suffixed_target target_name suffix = take (P4_SDE_COUNTER_TARGET_LEN - 1) (target_name @ ''_'' @ suffix)"

definition dal_cnt_read_flow_indirect_counter_set ::
  "('m, 'i, 'h, 'z) dpdk_scheme \<Rightarrow> bf_dev_target \<Rightarrow> string \<Rightarrow> int \<Rightarrow> pipe_stat_data \<Rightarrow>
   ('m, 'i, 'h, bf_status \<times> pipe_stat_data) cmd" where
  "dal_cnt_read_flow_indirect_counter_set E dev_tgt table_name idx stats = do {
     (status, q) \<leftarrow> externs_lookup E dev_tgt table_name;
     case q of
       None \<Rightarrow> ret (status, stats)
     | Some (p, x) \<Rightarrow>
         if xc_attr_type x \<noteq> EXTERNS_ATTR_TYPE_PACKETS_AND_BYTES then do {
           (rc, v) \<leftarrow> regarray_read E p (xc_target_name x) idx;
           if rc \<noteq> 0 then ret (BF_OBJECT_NOT_FOUND, stats)
           else ret (BF_SUCCESS, dal_cnt_set_value (xc_attr_type x) v stats) }
         else do {
           (rc, v) \<leftarrow> regarray_read E p (suffixed_target (xc_target_name x) ''packets'') idx;
           if rc \<noteq> 0 then ret (BF_OBJECT_NOT_FOUND, stats)
           else do {
             let stats = dal_cnt_set_value EXTERNS_ATTR_TYPE_PACKETS v stats;
             (rc, v) \<leftarrow> regarray_read E p (suffixed_target (xc_target_name x) ''bytes'') idx;
             if rc \<noteq> 0 then ret (BF_OBJECT_NOT_FOUND, stats)
             else ret (BF_SUCCESS, dal_cnt_set_value EXTERNS_ATTR_TYPE_BYTES v stats) }}}"

text \<open>The value to write is never taken from the caller: it is always 0.\<close>

definition dal_cnt_write_assignable_counter_set ::
  "('m, 'i, 'h, 'z) dpdk_scheme \<Rightarrow> bf_dev_target \<Rightarrow> string \<Rightarrow> int \<Rightarrow> pipe_stat_data \<Rightarrow> ('m, 'i, 'h, bf_status) cmd" where
  "dal_cnt_write_assignable_counter_set E dev_tgt name idx stats = do {
     (status, q) \<leftarrow> externs_lookup E dev_tgt name;
     case q of
       None \<Rightarrow> ret status
     | Some (p, x) \<Rightarrow>
         if xc_attr_type x \<noteq> EXTERNS_ATTR_TYPE_PACKETS_AND_BYTES then do {
           rc \<leftarrow> rte_do E (RegarrayWrite p (xc_target_name x) idx 0);
           ret (if rc \<noteq> 0 then BF_OBJECT_NOT_FOUND else BF_SUCCESS) }
         else do {
           rc \<leftarrow> rte_do E (RegarrayWrite p (suffixed_target (xc_target_name x) ''packets'') idx 0);
           if rc \<noteq> 0 then ret BF_OBJECT_NOT_FOUND
           else do {
             rc \<leftarrow> rte_do E (RegarrayWrite p (suffixed_target (xc_target_name x) ''bytes'') idx 0);
             ret (if rc \<noteq> 0 then BF_OBJECT_NOT_FOUND else BF_SUCCESS) }}}"

text \<open>The search for the extern of a table entry: the last extern looked at, and whether it belongs to
  the table. The table is always the first one of the profile.\<close>

fun extern_scan ::
  "(string \<rightharpoonup> pipe_mgr_externs_ctx) \<Rightarrow> (('m, 'i, 'h) world \<Rightarrow> u32 option) \<Rightarrow> string list \<Rightarrow>
   pipe_mgr_externs_ctx option \<Rightarrow> ('m, 'i, 'h, pipe_mgr_externs_ctx option \<times> bool) cmd" where
  "extern_scan htbl tbl_hdl [] prev = ret (prev, False)"
| "extern_scan htbl tbl_hdl (n # ns) prev = (case htbl n of
     None \<Rightarrow> extern_scan htbl tbl_hdl ns None
   | Some x \<Rightarrow> deref tbl_hdl (None, False) (\<lambda>hdl.
       if xc_externs_attr_table_id x = hdl then ret (Some x, True)
       else extern_scan htbl tbl_hdl ns (Some x)))"

definition first_mat :: "pipe_mgr_profile \<Rightarrow> ('m, 'i, 'h) world \<Rightarrow> pipe_mgr_mat_ctx option" where
  "first_mat profile s = (case pc_mat_tables (pf_pipe_ctx profile) of [] \<Rightarrow> None | p # _ \<Rightarrow> mat_ctx_of p s)"

definition dal_cnt_read_flow_direct_counter_set ::
  "('m, 'i, 'h, 'z) dpdk_scheme \<Rightarrow> pipe_res_get_data \<Rightarrow> bf_dev_target \<Rightarrow> pipe_tbl_match_spec \<Rightarrow>
   ('m, 'i, 'h, bf_status \<times> pipe_res_get_data) cmd" where
  "dal_cnt_read_flow_direct_counter_set E res_data dev_tgt match_spec = do {
     (status, profile) \<leftarrow> pipe_mgr_get_profile E (device_id dev_tgt) (dev_pipe_id dev_tgt);
     case profile of
       None \<Rightarrow> ret (BF_OBJECT_NOT_FOUND, res_data)
     | Some pf \<Rightarrow> deref (get_profile_obj pf) (BF_UNEXPECTED, res_data) (\<lambda>profile. do {
         pipe \<leftarrow> pipeline_find (pf_pipeline_name profile);
         if pipe = NULL then ret (BF_OBJECT_NOT_FOUND, res_data)
         else do {
           (status, ctx_obj) \<leftarrow> pipe_mgr_get_profile_ctx E dev_tgt;
           if status \<noteq> BF_SUCCESS then ret (BF_OBJECT_NOT_FOUND, res_data)
           else if pc_externs_tables_name (pf_pipe_ctx profile) = [] then ret (BF_SUCCESS, res_data)
           else deref (\<lambda>_. pc_externs_htbl (pf_pipe_ctx profile)) (BF_UNEXPECTED, res_data) (\<lambda>htbl. do {
             (x, found) \<leftarrow> extern_scan htbl (\<lambda>s. map_option mc_handle (first_mat profile s))
               (pc_externs_tables_name (pf_pipe_ctx profile)) None;
             case x of
               None \<Rightarrow> ret (BF_OBJECT_NOT_FOUND, res_data)
             | Some x \<Rightarrow>
                 if \<not> found then ret (BF_SUCCESS, res_data)
                 else if xc_type x \<noteq> EXTERNS_COUNTER then ret (BF_SUCCESS, res_data)
                 else if xc_attr_type x = EXTERNS_ATTR_TYPE_PACKETS_AND_BYTES then ret (BF_INTERNAL_ERROR, res_data)
                 else deref (pipe_obj pipe) (BF_UNEXPECTED, res_data) (\<lambda>pl.
                   deref (first_mat profile) (BF_UNEXPECTED, res_data) (\<lambda>ctx. do {
                     t \<leftarrow> tick;
                     case r_regarray_read_key E t (pl_p pl) (xc_target_name x) (mc_name ctx)
                         (match_value_bits match_spec) of (rc, v) \<Rightarrow>
                       if rc \<noteq> 0 then ret (BF_OBJECT_NOT_FOUND, res_data)
                       else ret (BF_SUCCESS, \<lparr>rd_counter = dal_cnt_set_value (xc_attr_type x) v (rd_counter res_data),
                         rd_has_counter = True\<rparr>) })) }) }}) }"

definition pipe_mgr_cnt_read_flow_indirect_counter_set where
  "pipe_mgr_cnt_read_flow_indirect_counter_set E dev_tgt table_name idx stats =
     dal_cnt_read_flow_indirect_counter_set E dev_tgt table_name idx stats"

definition pipe_mgr_cnt_mod_assignable_counter_set where
  "pipe_mgr_cnt_mod_assignable_counter_set E dev_tgt name idx stats =
     dal_cnt_write_assignable_counter_set E dev_tgt name idx stats"

text \<open>The public calls on counters and registers take the locks without checking the target first.\<close>

definition pipe_mgr_stat_ent_query ::
  "('m, 'i, 'h, 'z) dpdk_scheme \<Rightarrow> nat \<Rightarrow> bf_dev_target \<Rightarrow> string \<Rightarrow> int \<Rightarrow> pipe_stat_data \<Rightarrow>
   ('m, 'i, 'h, bf_status \<times> pipe_stat_data) cmd" where
  "pipe_mgr_stat_ent_query E sess_hdl dev_tgt table_name idx stat_data = do {
     status \<leftarrow> pipe_mgr_api_prologue E sess_hdl dev_tgt;
     if status \<noteq> BF_SUCCESS then ret (status, stat_data)
     else do {
       r \<leftarrow> pipe_mgr_cnt_read_flow_indirect_counter_set E dev_tgt table_name idx stat_data;
       pipe_mgr_api_epilogue E sess_hdl dev_tgt;
       ret r }}"

definition pipe_mgr_stat_ent_set ::
  "('m, 'i, 'h, 'z) dpdk_scheme \<Rightarrow> nat \<Rightarrow> bf_dev_target \<Rightarrow> string \<Rightarrow> int \<Rightarrow> pipe_stat_data \<Rightarrow>
   ('m, 'i, 'h, bf_status) cmd" where
  "pipe_mgr_stat_ent_set E sess_hdl dev_tgt table_name idx stat_data = do {
     status \<leftarrow> pipe_mgr_api_prologue E sess_hdl dev_tgt;
     if status \<noteq> BF_SUCCESS then ret status
     else do {
       r \<leftarrow> pipe_mgr_cnt_mod_assignable_counter_set E dev_tgt table_name idx stat_data;
       pipe_mgr_api_epilogue E sess_hdl dev_tgt;
       ret r }}"

section \<open>Registers\<close>

definition dal_reg_read_indirect_register_set ::
  "('m, 'i, 'h, 'z) dpdk_scheme \<Rightarrow> bf_dev_target \<Rightarrow> string \<Rightarrow> int \<Rightarrow> u64 \<Rightarrow> ('m, 'i, 'h, bf_status \<times> u64) cmd" where
  "dal_reg_read_indirect_register_set E dev_tgt table_name idx dbl = do {
     (status, q) \<leftarrow> externs_lookup E dev_tgt table_name;
     case q of
       None \<Rightarrow> ret (status, dbl)
     | Some (p, x) \<Rightarrow> do {
         (rc, v) \<leftarrow> regarray_read E p (xc_target_name x) idx;
         if rc \<noteq> 0 then ret (BF_OBJECT_NOT_FOUND, dbl) else ret (BF_SUCCESS, v) }}"

definition dal_reg_write_assignable_register_set ::
  "('m, 'i, 'h, 'z) dpdk_scheme \<Rightarrow> bf_dev_target \<Rightarrow> string \<Rightarrow> int \<Rightarrow> u64 \<Rightarrow> ('m, 'i, 'h, bf_status) cmd" where
  "dal_reg_write_assignable_register_set E dev_tgt name idx dbl = do {
     (status, q) \<leftarrow> externs_lookup E dev_tgt name;
     case q of
       None \<Rightarrow> ret status
     | Some (p, x) \<Rightarrow> do {
         rc \<leftarrow> rte_do E (RegarrayWrite p (xc_target_name x) idx dbl);
         ret (if rc \<noteq> 0 then BF_OBJECT_NOT_FOUND else BF_SUCCESS) }}"

definition pipe_mgr_reg_read_indirect_register_set where
  "pipe_mgr_reg_read_indirect_register_set E dev_tgt name idx dbl =
     dal_reg_read_indirect_register_set E dev_tgt name idx dbl"

definition pipe_mgr_reg_mod_assignable_register_set where
  "pipe_mgr_reg_mod_assignable_register_set E dev_tgt name idx dbl =
     dal_reg_write_assignable_register_set E dev_tgt name idx dbl"

text \<open>When the access fails, the call returns without giving the locks back.\<close>

definition pipe_stful_ent_query ::
  "('m, 'i, 'h, 'z) dpdk_scheme \<Rightarrow> nat \<Rightarrow> bf_dev_target \<Rightarrow> string \<Rightarrow> int \<Rightarrow> u64 \<Rightarrow> ('m, 'i, 'h, bf_status \<times> u64) cmd" where
  "pipe_stful_ent_query E sess_hdl dev_tgt table_name idx dbl = do {
     status \<leftarrow> pipe_mgr_api_prologue E sess_hdl dev_tgt;
     if status \<noteq> BF_SUCCESS then ret (status, dbl)
     else do {
       (status, v) \<leftarrow> pipe_mgr_reg_read_indirect_register_set E dev_tgt table_name idx dbl;
       if status \<noteq> BF_SUCCESS then ret (status, v)
       else do {
         pipe_mgr_api_epilogue E sess_hdl dev_tgt;
         ret (status, v) }}}"

definition pipe_stful_ent_set ::
  "('m, 'i, 'h, 'z) dpdk_scheme \<Rightarrow> nat \<Rightarrow> bf_dev_target \<Rightarrow> string \<Rightarrow> int \<Rightarrow> u64 \<Rightarrow> ('m, 'i, 'h, bf_status) cmd" where
  "pipe_stful_ent_set E sess_hdl dev_tgt table_name idx dbl = do {
     status \<leftarrow> pipe_mgr_api_prologue E sess_hdl dev_tgt;
     if status \<noteq> BF_SUCCESS then ret status
     else do {
       status \<leftarrow> pipe_mgr_reg_mod_assignable_register_set E dev_tgt table_name idx dbl;
       if status \<noteq> BF_SUCCESS then ret status
       else do {
         pipe_mgr_api_epilogue E sess_hdl dev_tgt;
         ret status }}}"

section \<open>Frames\<close>

lemma dal_profile [dal_intros]:
  "dal_op (pipe_mgr_get_profile E d k)" "dal_op (pipe_mgr_get_profile_ctx E tgt)"
  "dal_op (pipe_mgr_get_dev E d)"
  by (auto simp: pipe_mgr_get_profile_def pipe_mgr_get_profile_ctx_def pipe_mgr_get_dev_def get_pipe_mgr_ctx_def
      intro!: dal_intros)

lemma dal_extern_scan [dal_intros]: "dal_op (extern_scan htbl h ns x)"
  by (induction ns arbitrary: x) (auto intro!: dal_intros split: option.split)

lemma dal_externs [dal_intros]:
  "dal_op (externs_lookup E tgt nm)" "dal_op (regarray_read E p nm idx)"
  "dal_op (dal_cnt_read_flow_indirect_counter_set E tgt nm idx stat)"
  "dal_op (dal_cnt_write_assignable_counter_set E tgt nm idx stat)"
  "dal_op (dal_cnt_read_flow_direct_counter_set E res tgt ms)"
  "dal_op (dal_reg_read_indirect_register_set E tgt nm idx v)"
  "dal_op (dal_reg_write_assignable_register_set E tgt nm idx v)"
  by (auto simp: externs_lookup_def regarray_read_def dal_cnt_read_flow_indirect_counter_set_def
      dal_cnt_write_assignable_counter_set_def dal_cnt_read_flow_direct_counter_set_def
      dal_reg_read_indirect_register_set_def dal_reg_write_assignable_register_set_def Let_def
      intro!: dal_intros)

end
