(* ===== verification/Dal_Mat.thy ===== *)
theory Dal_Mat
  imports Externs
begin

text \<open>
  Match-action tables in the device abstraction layer,
  \<^verbatim>\<open>src/pipe_mgr/shared/dal/dpdk/dal_mat.c\<close>: an entry of the data plane is allocated, the key, the
  mask and the action are encoded into it, and it is added to or deleted from the table of the pipeline,
  followed by a commit.
\<close>

section \<open>Adding\<close>

text \<open>The common first half of the two functions that add: the table has one stage, the action is
  known, the metadata is there (queried now when it is not), the pipeline has a control handle, and an
  entry could be allocated. \<^verbatim>\<open>act_fmt\<close> is a pointer into the stage table, which the query of the
  metadata fills in place: the format is read again after it.\<close>

definition dal_act_fmt ::
  "ptr \<Rightarrow> u32 \<Rightarrow> pipe_action_spec \<Rightarrow>
   ('m, 'i, 'h, bf_status \<times> pipe_mgr_dpdk_action_format option) cmd" where
  "dal_act_fmt tbl act_fn_hdl act_data_spec =
     (if pipe_action_datatype_bmap act_data_spec = PIPE_ACTION_DATA_TYPE
      then deref (\<lambda>s. Option.bind (mat_ctx_of tbl s) mc_match_stage_table) (BF_UNEXPECTED, None)
        (\<lambda>stage_table. pipe_mgr_ctx_dpdk_get_act_fmt stage_table act_fn_hdl)
      else ret (BF_SUCCESS, None))"

definition dal_table_meta ::
  "('m, 'i, 'h, 'z) dpdk_scheme \<Rightarrow> bf_dev_target \<Rightarrow> ptr \<Rightarrow> pipe_mgr_mat_ctx \<Rightarrow> ('m, 'i, 'h, bf_status) cmd" where
  "dal_table_meta E dev_tgt tbl ctx = do {
     (status, profile) \<leftarrow> pipe_mgr_get_profile E (device_id dev_tgt) (dev_pipe_id dev_tgt);
     case profile of
       None \<Rightarrow> ret BF_OBJECT_NOT_FOUND
     | Some pf \<Rightarrow> deref (\<lambda>_. mc_match_stage_table ctx) BF_UNEXPECTED (\<lambda>stage_table.
         if st_table_meta stage_table \<noteq> None then ret BF_SUCCESS
         else deref (get_profile_obj pf) BF_UNEXPECTED (\<lambda>profile. do {
           status \<leftarrow> dal_dpdk_table_metadata_get E tbl PIPE_MGR_TABLE_TYPE_MAT (pf_pipeline_name profile)
             (mc_target_table_name ctx);
           ret (if status \<noteq> BF_SUCCESS then BF_OBJECT_NOT_FOUND else BF_SUCCESS) })) }"

text \<open>The metadata that a context has.\<close>

definition ctx_meta :: "pipe_mgr_mat_ctx \<Rightarrow> dal_dpdk_table_metadata option" where
  "ctx_meta ctx = Option.bind (mc_match_stage_table ctx) st_table_meta"

type_synonym dal_entry =
  "pipe_mgr_mat_ctx \<times> pipeline \<times> pipe_mgr_dpdk_action_format option \<times> rte_swx_table_entry"

definition dal_entry_new ::
  "('m, 'i, 'h, 'z) dpdk_scheme \<Rightarrow> ptr \<Rightarrow> u32 \<Rightarrow> pipe_action_spec \<Rightarrow>
   ('m, 'i, 'h, bf_status \<times> dal_entry option) cmd" where
  "dal_entry_new E tbl act_fn_hdl act_data_spec =
     deref (mat_ctx_of tbl) (BF_UNEXPECTED, None) (\<lambda>ctx.
       deref (\<lambda>_. ctx_meta ctx) (BF_UNEXPECTED, None) (\<lambda>meta.
         deref (pipe_obj (tm_pipe meta)) (BF_UNEXPECTED, None) (\<lambda>pl.
           if pl_ctl pl = NULL then ret (BF_OBJECT_NOT_FOUND, None)
           else do {
             (status, entry) \<leftarrow> dal_dpdk_table_entry_alloc E meta (tm_match_type meta);
             if status \<noteq> BF_SUCCESS then ret (BF_NO_SPACE, None)
             else do {
               (status, act_fmt) \<leftarrow> dal_act_fmt tbl act_fn_hdl act_data_spec;
               ret (BF_SUCCESS, Some (ctx, pl, act_fmt, entry)) }})))"

definition dal_entry_prepare ::
  "('m, 'i, 'h, 'z) dpdk_scheme \<Rightarrow> bf_dev_target \<Rightarrow> ptr \<Rightarrow> u32 \<Rightarrow> pipe_action_spec \<Rightarrow>
   ('m, 'i, 'h, bf_status \<times> dal_entry option) cmd" where
  "dal_entry_prepare E dev_tgt tbl act_fn_hdl act_data_spec =
     deref (mat_ctx_of tbl) (BF_UNEXPECTED, None) (\<lambda>ctx.
       if mc_match_stage_table_count ctx > 1 then ret (BF_NOT_SUPPORTED, None)
       else do {
         (status, act_fmt) \<leftarrow> dal_act_fmt tbl act_fn_hdl act_data_spec;
         if status \<noteq> BF_SUCCESS then ret (BF_OBJECT_NOT_FOUND, None)
         else do {
           status \<leftarrow> dal_table_meta E dev_tgt tbl ctx;
           if status \<noteq> BF_SUCCESS then ret (status, None)
           else dal_entry_new E tbl act_fn_hdl act_data_spec }})"

text \<open>The action of an entry: a group, a member, or the parameters themselves.\<close>

definition dal_encode_action ::
  "('m, 'i, 'h, 'z) dpdk_scheme \<Rightarrow> pipe_mgr_mat_ctx \<Rightarrow> pipe_mgr_dpdk_action_format option \<Rightarrow>
   pipe_action_spec \<Rightarrow> rte_swx_table_entry \<Rightarrow> ('m, 'i, 'h, bf_status \<times> rte_swx_table_entry) cmd" where
  "dal_encode_action E ctx act_fmt act_data_spec entry =
     deref (\<lambda>_. map_option tm_pipe (ctx_meta ctx)) (BF_UNEXPECTED, entry) (\<lambda>pipe.
       if pipe_action_datatype_bmap act_data_spec = PIPE_SEL_GRP_HDL_TYPE
       then pipe_mgr_dpdk_encode_sel_action E (mc_name ctx) pipe act_data_spec entry
       else if pipe_action_datatype_bmap act_data_spec = PIPE_ACTION_DATA_HDL_TYPE
       then pipe_mgr_dpdk_encode_member_id E (mc_name ctx) pipe act_data_spec entry
       else if pipe_action_datatype_bmap act_data_spec = PIPE_ACTION_DATA_TYPE
       then deref (\<lambda>_. act_fmt) (BF_UNEXPECTED, entry) (\<lambda>fmt.
         pipe_mgr_dpdk_encode_action_data fmt (action_data_bits (act_data act_data_spec)) entry)
       else ret (BF_SUCCESS, entry))"

text \<open>A change of the data plane and its commit.\<close>

definition dal_commit :: "('m, 'i, 'h, 'z) dpdk_scheme \<Rightarrow> ptr \<Rightarrow> rte_call \<Rightarrow> ('m, 'i, 'h, bf_status) cmd" where
  "dal_commit E ctl call = do {
     rc \<leftarrow> rte_do E call;
     if rc \<noteq> 0 then ret BF_UNEXPECTED
     else do {
       rc \<leftarrow> rte_do E (Commit ctl);
       ret (if rc \<noteq> 0 then BF_UNEXPECTED else BF_SUCCESS) }}"

definition dal_table_ent_add ::
  "('m, 'i, 'h, 'z) dpdk_scheme \<Rightarrow> bf_dev_target \<Rightarrow> pipe_tbl_match_spec \<Rightarrow> u32 \<Rightarrow> pipe_action_spec \<Rightarrow> ptr \<Rightarrow>
   ('m, 'i, 'h, bf_status) cmd" where
  "dal_table_ent_add E dev_tgt match_spec act_fn_hdl act_data_spec tbl = do {
     (status, prep) \<leftarrow> dal_entry_prepare E dev_tgt tbl act_fn_hdl act_data_spec;
     case prep of
       None \<Rightarrow> ret status
     | Some (ctx, pl, act_fmt, entry) \<Rightarrow> do {
         (status, entry) \<leftarrow> pipe_mgr_dpdk_encode_match_key_and_mask ctx match_spec entry;
         if status \<noteq> BF_SUCCESS then ret BF_UNEXPECTED
         else do {
           (status, entry) \<leftarrow> dal_encode_action E ctx act_fmt act_data_spec entry;
           if status \<noteq> BF_SUCCESS then ret status
           else dal_commit E (pl_ctl pl) (TableEntryAdd (pl_ctl pl) (mc_target_table_name ctx) entry) }}}"

definition dal_table_default_ent_add ::
  "('m, 'i, 'h, 'z) dpdk_scheme \<Rightarrow> bf_dev_target \<Rightarrow> u32 \<Rightarrow> pipe_action_spec \<Rightarrow> ptr \<Rightarrow>
   ('m, 'i, 'h, bf_status) cmd" where
  "dal_table_default_ent_add E dev_tgt act_fn_hdl act_data_spec tbl = do {
     (status, prep) \<leftarrow> dal_entry_prepare E dev_tgt tbl act_fn_hdl act_data_spec;
     case prep of
       None \<Rightarrow> ret status
     | Some (ctx, pl, act_fmt, entry) \<Rightarrow> do {
         (status, entry) \<leftarrow> dal_encode_action E ctx act_fmt act_data_spec entry;
         if status \<noteq> BF_SUCCESS then ret status
         else dal_commit E (pl_ctl pl) (TableDefaultEntryAdd (pl_ctl pl) (mc_name ctx) entry) }}"

section \<open>Deleting\<close>

definition dal_table_ent_del_by_match_spec ::
  "('m, 'i, 'h, 'z) dpdk_scheme \<Rightarrow> pipe_tbl_match_spec \<Rightarrow> ptr \<Rightarrow> ('m, 'i, 'h, bf_status) cmd" where
  "dal_table_ent_del_by_match_spec E match_spec tbl =
     deref (mat_ctx_of tbl) BF_UNEXPECTED (\<lambda>ctx.
       if mc_match_stage_table_count ctx > 1 then ret BF_NOT_SUPPORTED
       else deref (\<lambda>_. mc_match_stage_table ctx) BF_UNEXPECTED (\<lambda>stage_table.
         case st_table_meta stage_table of
           None \<Rightarrow> ret BF_OBJECT_NOT_FOUND
         | Some meta \<Rightarrow> deref (pipe_obj (tm_pipe meta)) BF_UNEXPECTED (\<lambda>pl.
             if pl_ctl pl = NULL then ret BF_OBJECT_NOT_FOUND
             else do {
               (status, entry) \<leftarrow> dal_dpdk_table_entry_alloc E meta (tm_match_type meta);
               if status \<noteq> BF_SUCCESS then ret BF_NO_SPACE
               else do {
                 (status, entry) \<leftarrow> pipe_mgr_dpdk_encode_match_key_and_mask ctx match_spec entry;
                 if status \<noteq> BF_SUCCESS then ret BF_UNEXPECTED
                 else dal_commit E (pl_ctl pl) (TableEntryDelete (pl_ctl pl) (mc_name ctx) entry) }})))"

section \<open>The rest\<close>

definition dal_unpack_dal_data ::
  "('m, 'i, 'h, 'z) dpdk_scheme \<Rightarrow> pipe_res_get_data \<Rightarrow> bf_dev_target \<Rightarrow> pipe_tbl_match_spec \<Rightarrow>
   ('m, 'i, 'h, bf_status \<times> pipe_res_get_data) cmd" where
  "dal_unpack_dal_data E res_data dev_tgt match_spec =
     dal_cnt_read_flow_direct_counter_set E res_data dev_tgt match_spec"

definition dal_delete_table_entry_data :: "('m, 'i, 'h, unit) cmd" where
  "dal_delete_table_entry_data = ret ()"

definition dal_delete_adt_table_entry_data :: "('m, 'i, 'h, unit) cmd" where
  "dal_delete_adt_table_entry_data = ret ()"

definition dal_mat_store_entries :: "pipe_mgr_mat_ctx \<Rightarrow> bool" where
  "dal_mat_store_entries ctx =
     (if mc_match_type ctx = PIPE_MGR_MATCH_TYPE_EXACT \<and> mc_add_on_miss ctx then False else True)"

definition dal_mat_get_first_entry :: "('m, 'i, 'h, bf_status) cmd" where
  "dal_mat_get_first_entry = ret BF_NOT_SUPPORTED"

definition dal_mat_get_next_n_by_key :: "('m, 'i, 'h, bf_status) cmd" where
  "dal_mat_get_next_n_by_key = ret BF_NOT_SUPPORTED"

section \<open>Frames\<close>

lemma dal_prepare_ops [dal_intros]:
  "dal_op (dal_act_fmt tbl hdl spec)" "dal_op (dal_entry_prepare E tgt tbl hdl spec)"
  "dal_op (dal_encode_action E ctx fmt spec e)" "dal_op (dal_commit E ctl call)"
  by (auto simp: dal_act_fmt_def dal_entry_prepare_def dal_entry_new_def dal_table_meta_def dal_encode_action_def dal_commit_def
      intro!: dal_intros)

lemma dal_mat_ops [dal_intros]:
  "dal_op (dal_table_ent_add E tgt ms hdl spec tbl)" "dal_op (dal_table_default_ent_add E tgt hdl spec tbl)"
  "dal_op (dal_table_ent_del_by_match_spec E ms tbl)" "dal_op (dal_unpack_dal_data E res tgt ms)"
  "dal_op dal_delete_table_entry_data" "dal_op dal_delete_adt_table_entry_data"
  "dal_op dal_mat_get_first_entry" "dal_op dal_mat_get_next_n_by_key"
  by (auto simp: dal_table_ent_add_def dal_table_default_ent_add_def dal_table_ent_del_by_match_spec_def
      dal_unpack_dal_data_def dal_delete_table_entry_data_def dal_delete_adt_table_entry_data_def
      dal_mat_get_first_entry_def dal_mat_get_next_n_by_key_def intro!: dal_intros)

end
