(* ===== verification/Mat.thy ===== *)
theory Mat
  imports KeyTable_Iface Dal_Mat
begin

text \<open>
  The public calls on match-action tables, \<^verbatim>\<open>src/pipe_mgr/shared/features/pipe_mgr_mat.c\<close>: each runs
  inside the bracket of \<open>Device\<close>, keeps a copy of what the client passed in an entry, hands the work on
  the data plane to \<open>Dal_Mat\<close>, and files the entry in the store of \<open>KeyTable\<close>.
\<close>

section \<open>Packing and unpacking\<close>

definition pipe_mgr_mat_unpack_act_spec ::
  "pipe_action_spec \<Rightarrow> pipe_action_spec \<Rightarrow> ('a os_scheme, bf_status \<times> pipe_action_spec) state" where
  "pipe_mgr_mat_unpack_act_spec ads act_data_spec = do {
     bits \<leftarrow> memcpy (action_data_bits (act_data act_data_spec)) 0 (action_data_bits (act_data ads))
       (num_action_data_bytes (act_data ads));
     ret (BF_SUCCESS, act_data_spec\<lparr>pipe_action_datatype_bmap := pipe_action_datatype_bmap ads,
       as_adt_ent_hdl := as_adt_ent_hdl ads, as_sel_grp_hdl := as_sel_grp_hdl ads,
       act_data := \<lparr>num_valid_action_data_bits = num_valid_action_data_bits (act_data ads),
         num_action_data_bytes = num_action_data_bytes (act_data ads), action_data_bits = bits\<rparr>\<rparr>) }"

text \<open>The fields that the code does not copy are zero.\<close>

definition packed_act_spec :: "pipe_action_spec \<Rightarrow> u8 list \<Rightarrow> pipe_action_spec" where
  "packed_act_spec ads bits = \<lparr>pipe_action_datatype_bmap = pipe_action_datatype_bmap ads,
     act_data = \<lparr>num_valid_action_data_bits = num_valid_action_data_bits (act_data ads),
       num_action_data_bytes = num_action_data_bytes (act_data ads), action_data_bits = bits\<rparr>,
     as_adt_ent_hdl = as_adt_ent_hdl ads, as_sel_grp_hdl = as_sel_grp_hdl ads,
     resources = replicate PIPE_NUM_TBL_RESOURCES \<lparr>res_tbl_hdl = 0, res_tbl_idx = 0\<rparr>, resource_count = 0\<rparr>"

definition pipe_mgr_mat_pack_act_spec ::
  "('m, 'i, 'h, 'z) ext_scheme \<Rightarrow> pipe_action_spec \<Rightarrow>
   ('a os_scheme, bf_status \<times> pipe_action_spec option) state" where
  "pipe_mgr_mat_pack_act_spec E ads = do {
     ok \<leftarrow> allocate E;
     if \<not> ok then ret (BF_NO_SYS_RESOURCES, None)
     else do {
       bits \<leftarrow> calloc_bytes E (num_action_data_bytes (act_data ads));
       case bits of
         None \<Rightarrow> ret (BF_NO_SYS_RESOURCES, None)
       | Some bits \<Rightarrow> do {
           bits \<leftarrow> memcpy bits 0 (action_data_bits (act_data ads)) (num_action_data_bytes (act_data ads));
           ret (BF_SUCCESS, Some (packed_act_spec ads bits)) }}}"

definition pipe_mgr_mat_unpack_match_spec ::
  "pipe_tbl_match_spec \<Rightarrow> pipe_tbl_match_spec \<Rightarrow> ('a os_scheme, bf_status \<times> pipe_tbl_match_spec) state" where
  "pipe_mgr_mat_unpack_match_spec ms match_spec = do {
     v \<leftarrow> memcpy (match_value_bits match_spec) 0 (match_value_bits ms) (num_match_bytes ms);
     m \<leftarrow> memcpy (match_mask_bits match_spec) 0 (match_mask_bits ms) (num_match_bytes ms);
     ret (BF_SUCCESS, match_spec\<lparr>num_valid_match_bits := num_valid_match_bits ms,
       num_match_bytes := num_match_bytes ms, priority := priority ms, match_value_bits := v,
       match_mask_bits := m\<rparr>) }"

definition packed_match_spec :: "pipe_tbl_match_spec \<Rightarrow> u8 list \<Rightarrow> u8 list \<Rightarrow> pipe_tbl_match_spec" where
  "packed_match_spec ms v m = \<lparr>num_valid_match_bits = num_valid_match_bits ms,
     num_match_bytes = num_match_bytes ms, match_value_bits = v, match_mask_bits = m,
     match_field_validity = 0, priority = priority ms\<rparr>"

definition pipe_mgr_mat_pack_match_spec ::
  "('m, 'i, 'h, 'z) ext_scheme \<Rightarrow> pipe_tbl_match_spec \<Rightarrow>
   ('a os_scheme, bf_status \<times> pipe_tbl_match_spec option) state" where
  "pipe_mgr_mat_pack_match_spec E ms = do {
     ok \<leftarrow> allocate E;
     if \<not> ok then ret (BF_NO_SYS_RESOURCES, None)
     else do {
       v \<leftarrow> calloc_bytes E (num_match_bytes ms);
       case v of
         None \<Rightarrow> ret (BF_NO_SYS_RESOURCES, None)
       | Some v \<Rightarrow> do {
           v \<leftarrow> memcpy v 0 (match_value_bits ms) (num_match_bytes ms);
           m \<leftarrow> calloc_bytes E (num_match_bytes ms);
           case m of
             None \<Rightarrow> ret (BF_NO_SYS_RESOURCES, None)
           | Some m \<Rightarrow> do {
               m \<leftarrow> memcpy m 0 (match_mask_bits ms) (num_match_bytes ms);
               ret (BF_SUCCESS, Some (packed_match_spec ms v m)) }}}}"

text \<open>What a client gets back from \<^verbatim>\<open>pipe_mgr_get_entry\<close>.\<close>

record mat_out =
  mo_match_spec :: pipe_tbl_match_spec
  mo_act_data_spec :: pipe_action_spec
  mo_act_fn_hdl :: u32
  mo_res_data :: pipe_res_get_data

definition pipe_mgr_mat_unpack_entry_data ::
  "('m, 'i, 'h, 'z) dpdk_scheme \<Rightarrow> bf_dev_target \<Rightarrow> mat_out \<Rightarrow> u32 \<Rightarrow> ptr \<Rightarrow> u32 \<Rightarrow>
   ('m, 'i, 'h, bf_status \<times> mat_out) cmd" where
  "pipe_mgr_mat_unpack_entry_data E dev_tgt out hdl entry res_get_flags =
     deref (\<lambda>s. w_mat_ents s entry) (BF_UNEXPECTED, out) (\<lambda>e.
       if hdl \<noteq> me_mat_ent_hdl e then ret (BF_UNEXPECTED, out)
       else do {
         (status, ms) \<leftarrow> pipe_mgr_mat_unpack_match_spec (me_match_spec e) (mo_match_spec out);
         (status, ads) \<leftarrow> pipe_mgr_mat_unpack_act_spec (me_act_data_spec e) (mo_act_data_spec out);
         let out = out\<lparr>mo_match_spec := ms, mo_act_data_spec := ads, mo_act_fn_hdl := me_act_fn_hdl e\<rparr>;
         if bit res_get_flags 1 then do {
           (status, res) \<leftarrow> dal_unpack_dal_data E (mo_res_data out) dev_tgt (me_match_spec e);
           ret (status, out\<lparr>mo_res_data := res\<rparr>) }
         else ret (BF_SUCCESS, out) })"

definition put_mat_ent :: "ptr \<Rightarrow> pipe_mgr_mat_entry_info option \<Rightarrow> ('m, 'i, 'h, unit) cmd" where
  "put_mat_ent e x = modify (\<lambda>s. s\<lparr>w_mat_ents := (w_mat_ents s)(e := x)\<rparr>)"

definition pipe_mgr_mat_pack_entry_data ::
  "('m, 'i, 'h, 'z) ext_scheme \<Rightarrow> pipe_tbl_match_spec \<Rightarrow> u32 \<Rightarrow> pipe_action_spec \<Rightarrow>
   ('m, 'i, 'h, bf_status \<times> ptr) cmd" where
  "pipe_mgr_mat_pack_entry_data E match_spec act_fn_hdl act_data_spec = do {
     entry \<leftarrow> calloc E;
     if entry = NULL then ret (BF_NO_SYS_RESOURCES, NULL)
     else do {
       (status, ms) \<leftarrow> pipe_mgr_mat_pack_match_spec E match_spec;
       case ms of
         None \<Rightarrow> ret (status, NULL)
       | Some ms \<Rightarrow> do {
           (status, ads) \<leftarrow> pipe_mgr_mat_pack_act_spec E act_data_spec;
           case ads of
             None \<Rightarrow> ret (status, NULL)
           | Some ads \<Rightarrow> do {
               put_mat_ent entry (Some \<lparr>me_mat_ent_hdl = 0, me_act_fn_hdl = act_fn_hdl, me_match_spec = ms,
                 me_act_data_spec = ads\<rparr>);
               ret (BF_SUCCESS, entry) }}}}"

definition pipe_mgr_mat_delete_entry_data :: "ptr \<Rightarrow> ('m, 'i, 'h, unit) cmd" where
  "pipe_mgr_mat_delete_entry_data entry = deref (\<lambda>s. w_mat_ents s entry) () (\<lambda>e. do {
     dal_delete_table_entry_data;
     put_mat_ent entry None })"

section \<open>Looking up\<close>

text \<open>The look-up of a table at the start of every call: its failure is the result of the call.\<close>

definition with_table ::
  "('m, 'i, 'h, 'z) ext_scheme \<Rightarrow> bf_dev_target \<Rightarrow> u32 \<Rightarrow> pipe_mgr_table_type \<Rightarrow> (bf_status \<Rightarrow> 'r) \<Rightarrow>
   (ptr \<Rightarrow> ('m, 'i, 'h, 'r) cmd) \<Rightarrow> ('m, 'i, 'h, 'r) cmd" where
  "with_table E dev_tgt tbl_hdl tbl_type err k = do {
     (status, tbl) \<leftarrow> pipe_mgr_ctx_get_table E dev_tgt tbl_hdl tbl_type;
     if status \<noteq> BF_SUCCESS then ret (err status) else k tbl }"

definition match_spec_to_ent_hdl_body ::
  "('m, 'i, 'h, 'z) ext_scheme \<Rightarrow> bf_dev_target \<Rightarrow> u32 \<Rightarrow> pipe_tbl_match_spec \<Rightarrow>
   ('m, 'i, 'h, bf_status \<times> u32 option) cmd" where
  "match_spec_to_ent_hdl_body E dev_tgt mat_tbl_hdl match_spec =
     with_table E dev_tgt mat_tbl_hdl PIPE_MGR_TABLE_TYPE_MAT (\<lambda>st. (st, None)) (\<lambda>tbl.
       deref (mat_ctx_of tbl) (BF_UNEXPECTED, None) (\<lambda>ctx.
         if \<not> mc_store_entries ctx then ret (BF_NOT_SUPPORTED, None)
         else do {
           (status, exists, hdl, _) \<leftarrow> pipe_mgr_table_key_exists E tbl PIPE_MGR_TABLE_TYPE_MAT match_spec
             (dev_pipe_id dev_tgt) False;
           ret (if status \<noteq> BF_SUCCESS then (status, None)
             else if \<not> exists then (BF_OBJECT_NOT_FOUND, None) else (BF_SUCCESS, Some hdl)) }))"

definition pipe_mgr_match_spec_to_ent_hdl where
  "pipe_mgr_match_spec_to_ent_hdl E sess_hdl dev_tgt mat_tbl_hdl match_spec =
     with_api E sess_hdl dev_tgt (\<lambda>st. (st, None)) (match_spec_to_ent_hdl_body E dev_tgt mat_tbl_hdl match_spec)"

definition get_entry_body ::
  "('m, 'i, 'h, 'z) dpdk_scheme \<Rightarrow> u32 \<Rightarrow> bf_dev_target \<Rightarrow> u32 \<Rightarrow> mat_out \<Rightarrow> u32 \<Rightarrow>
   ('m, 'i, 'h, bf_status \<times> mat_out) cmd" where
  "get_entry_body E mat_tbl_hdl dev_tgt entry_hdl out res_get_flags =
     with_table E dev_tgt mat_tbl_hdl PIPE_MGR_TABLE_TYPE_MAT (\<lambda>st. (st, out)) (\<lambda>tbl.
       deref (mat_ctx_of tbl) (BF_UNEXPECTED, out) (\<lambda>ctx.
         if \<not> mc_store_entries ctx then ret (BF_NOT_SUPPORTED, out)
         else do {
           (status, entry) \<leftarrow> pipe_mgr_table_get E tbl PIPE_MGR_TABLE_TYPE_MAT entry_hdl True;
           if status \<noteq> BF_SUCCESS then ret (status, out)
           else pipe_mgr_mat_unpack_entry_data E dev_tgt out entry_hdl entry res_get_flags }))"

definition pipe_mgr_get_entry where
  "pipe_mgr_get_entry E sess_hdl mat_tbl_hdl dev_tgt entry_hdl out res_get_flags =
     with_api E sess_hdl dev_tgt (\<lambda>st. (st, out)) (get_entry_body E mat_tbl_hdl dev_tgt entry_hdl out res_get_flags)"

section \<open>Adding\<close>

text \<open>The body of the two functions that add. They differ in what they report for an entry that is
  there already and in what they ask of the data plane. When the table does not store its entries, the
  packed entry is nobody's afterwards.\<close>

definition mat_add_body ::
  "('m, 'i, 'h, 'z) dpdk_scheme \<Rightarrow> bf_dev_target \<Rightarrow> u32 \<Rightarrow> pipe_tbl_match_spec \<Rightarrow> u32 \<Rightarrow> pipe_action_spec \<Rightarrow>
   bf_status \<Rightarrow> (ptr \<Rightarrow> ('m, 'i, 'h, bf_status) cmd) \<Rightarrow> ('m, 'i, 'h, bf_status \<times> u32 option) cmd" where
  "mat_add_body E dev_tgt mat_tbl_hdl match_spec act_fn_hdl act_data_spec dup dal_add =
     with_table E dev_tgt mat_tbl_hdl PIPE_MGR_TABLE_TYPE_MAT (\<lambda>st. (st, None)) (\<lambda>tbl.
       deref (mat_ctx_of tbl) (BF_UNEXPECTED, None) (\<lambda>ctx. do {
         (status, exists, hdl, _) \<leftarrow>
           (if mc_store_entries ctx
            then pipe_mgr_table_key_exists E tbl PIPE_MGR_TABLE_TYPE_MAT match_spec (dev_pipe_id dev_tgt) False
            else ret (BF_SUCCESS, False, 0, NULL));
         if status \<noteq> BF_SUCCESS then ret (status, None)
         else if exists then ret (dup, Some hdl)
         else do {
           (status, entry) \<leftarrow> pipe_mgr_mat_pack_entry_data E match_spec act_fn_hdl act_data_spec;
           if status \<noteq> BF_SUCCESS then ret (status, None)
           else do {
             status \<leftarrow> dal_add tbl;
             if status \<noteq> BF_SUCCESS then do {
               pipe_mgr_mat_delete_entry_data entry;
               ret (status, None) }
             else if \<not> mc_store_entries ctx then ret (BF_SUCCESS, None)
             else do {
               (status, hdl) \<leftarrow> pipe_mgr_table_key_insert E dev_tgt tbl PIPE_MGR_TABLE_TYPE_MAT entry;
               if status \<noteq> BF_SUCCESS then do {
                 pipe_mgr_mat_delete_entry_data entry;
                 ret (status, None) }
               else ret (BF_SUCCESS, Some hdl) }}}}))"

definition pipe_mgr_mat_ent_add where
  "pipe_mgr_mat_ent_add E sess_hdl dev_tgt mat_tbl_hdl match_spec act_fn_hdl act_data_spec =
     with_api E sess_hdl dev_tgt (\<lambda>st. (st, None))
       (mat_add_body E dev_tgt mat_tbl_hdl match_spec act_fn_hdl act_data_spec BF_ALREADY_EXISTS
         (dal_table_ent_add E dev_tgt match_spec act_fn_hdl act_data_spec))"

definition pipe_mgr_mat_default_ent_add where
  "pipe_mgr_mat_default_ent_add E sess_hdl dev_tgt mat_tbl_hdl match_spec act_fn_hdl act_data_spec =
     with_api E sess_hdl dev_tgt (\<lambda>st. (st, None))
       (mat_add_body E dev_tgt mat_tbl_hdl match_spec act_fn_hdl act_data_spec BF_UNEXPECTED
         (dal_table_default_ent_add E dev_tgt act_fn_hdl act_data_spec))"

section \<open>Deleting\<close>

text \<open>The first component of the result says whether the function reaches its epilogue: it returns at
  once when the copy of the specification cannot be allocated. The copy replaces the pointer to what was
  allocated for it.\<close>

definition mat_del_body ::
  "('m, 'i, 'h, 'z) dpdk_scheme \<Rightarrow> bf_dev_target \<Rightarrow> u32 \<Rightarrow> pipe_tbl_match_spec \<Rightarrow>
   ('m, 'i, 'h, bool \<times> bf_status) cmd" where
  "mat_del_body E dev_tgt mat_tbl_hdl match_spec =
     with_table E dev_tgt mat_tbl_hdl PIPE_MGR_TABLE_TYPE_MAT (\<lambda>st. (True, st)) (\<lambda>tbl.
       deref (mat_ctx_of tbl) (True, BF_UNEXPECTED) (\<lambda>ctx. do {
         (status, exists, _, entry) \<leftarrow>
           (if mc_store_entries ctx
            then pipe_mgr_table_key_exists E tbl PIPE_MGR_TABLE_TYPE_MAT match_spec (dev_pipe_id dev_tgt) True
            else ret (BF_SUCCESS, True, 0, NULL));
         if status \<noteq> BF_SUCCESS then ret (True, status)
         else if \<not> exists then ret (True, BF_OBJECT_NOT_FOUND)
         else do {
           ok \<leftarrow> allocate E;
           if \<not> ok then ret (False, BF_NO_SYS_RESOURCES)
           else do {
             (status, temp) \<leftarrow> pipe_mgr_mat_pack_match_spec E match_spec;
             case temp of
               None \<Rightarrow> ret (True, status)
             | Some match_spec_temp \<Rightarrow> do {
                 status \<leftarrow> dal_table_ent_del_by_match_spec E match_spec_temp tbl;
                 if status \<noteq> BF_SUCCESS then ret (True, status)
                 else if \<not> mc_store_entries ctx then ret (True, BF_SUCCESS)
                 else do {
                   status \<leftarrow> pipe_mgr_table_key_delete E dev_tgt tbl PIPE_MGR_TABLE_TYPE_MAT match_spec;
                   if status \<noteq> BF_SUCCESS then ret (True, status)
                   else do {
                     pipe_mgr_mat_delete_entry_data entry;
                     ret (True, BF_SUCCESS) }}}}}}))"

definition pipe_mgr_mat_ent_del_by_match_spec where
  "pipe_mgr_mat_ent_del_by_match_spec E sess_hdl dev_tgt mat_tbl_hdl match_spec = do {
     status \<leftarrow> pipe_mgr_is_pipe_valid E (device_id dev_tgt) (dev_pipe_id dev_tgt);
     if status \<noteq> BF_SUCCESS then ret status
     else do {
       status \<leftarrow> pipe_mgr_api_prologue E sess_hdl dev_tgt;
       if status \<noteq> BF_SUCCESS then ret status
       else do {
         (epilogue, status) \<leftarrow> mat_del_body E dev_tgt mat_tbl_hdl match_spec;
         if \<not> epilogue then ret status
         else do {
           pipe_mgr_api_epilogue E sess_hdl dev_tgt;
           ret status }}}}"

section \<open>Iterating\<close>

definition get_first_entry_handle_body where
  "get_first_entry_handle_body E mat_tbl_hdl dev_tgt entry_handle =
     with_table E dev_tgt mat_tbl_hdl PIPE_MGR_TABLE_TYPE_MAT (\<lambda>st. (st, 0)) (\<lambda>tbl.
       deref (mat_ctx_of tbl) (BF_UNEXPECTED, 0) (\<lambda>ctx.
         if mc_store_entries ctx then pipe_mgr_table_get_first E tbl PIPE_MGR_TABLE_TYPE_MAT entry_handle
         else ret (BF_NOT_SUPPORTED, 0)))"

definition pipe_mgr_get_first_entry_handle where
  "pipe_mgr_get_first_entry_handle E sess_hdl mat_tbl_hdl dev_tgt entry_handle =
     with_api E sess_hdl dev_tgt (\<lambda>st. (st, 0)) (get_first_entry_handle_body E mat_tbl_hdl dev_tgt entry_handle)"

definition get_next_entry_handles_body where
  "get_next_entry_handles_body E mat_tbl_hdl dev_tgt entry_handle n next_entry_handles =
     with_table E dev_tgt mat_tbl_hdl PIPE_MGR_TABLE_TYPE_MAT (\<lambda>st. (st, [])) (\<lambda>tbl.
       deref (mat_ctx_of tbl) (BF_UNEXPECTED, []) (\<lambda>ctx.
         if mc_store_entries ctx
         then pipe_mgr_table_get_next_n E tbl PIPE_MGR_TABLE_TYPE_MAT (word_of_int entry_handle) (nat n)
           next_entry_handles
         else do { guard_c next_entry_handles; ret (BF_NOT_SUPPORTED, [-1]) }))"

definition pipe_mgr_get_next_entry_handles where
  "pipe_mgr_get_next_entry_handles E sess_hdl mat_tbl_hdl dev_tgt entry_handle n next_entry_handles =
     with_api E sess_hdl dev_tgt (\<lambda>st. (st, []))
       (get_next_entry_handles_body E mat_tbl_hdl dev_tgt entry_handle n next_entry_handles)"

text \<open>A failed prologue is reported as \<^verbatim>\<open>false\<close>, which is \<^verbatim>\<open>BF_SUCCESS\<close>.\<close>

definition store_entries_body where
  "store_entries_body E mat_tbl_hdl dev_tgt =
     with_table E dev_tgt mat_tbl_hdl PIPE_MGR_TABLE_TYPE_MAT (\<lambda>st. (st, None)) (\<lambda>tbl.
       deref (mat_ctx_of tbl) (BF_UNEXPECTED, None) (\<lambda>ctx. ret (BF_SUCCESS, Some (mc_store_entries ctx))))"

definition pipe_mgr_store_entries where
  "pipe_mgr_store_entries E sess_hdl mat_tbl_hdl dev_tgt = do {
     status \<leftarrow> pipe_mgr_is_pipe_valid E (device_id dev_tgt) (dev_pipe_id dev_tgt);
     if status \<noteq> BF_SUCCESS then ret (status, None)
     else do {
       status \<leftarrow> pipe_mgr_api_prologue E sess_hdl dev_tgt;
       if status \<noteq> BF_SUCCESS then ret (BF_SUCCESS, None)
       else do {
         r \<leftarrow> store_entries_body E mat_tbl_hdl dev_tgt;
         pipe_mgr_api_epilogue E sess_hdl dev_tgt;
         ret r }}}"

definition dal_iter_body where
  "dal_iter_body E mat_tbl_hdl dev_tgt dal_call =
     with_table E dev_tgt mat_tbl_hdl PIPE_MGR_TABLE_TYPE_MAT (\<lambda>st. st) (\<lambda>tbl. dal_call)"

definition pipe_mgr_get_first_entry where
  "pipe_mgr_get_first_entry E sess_hdl mat_tbl_hdl dev_tgt =
     with_api E sess_hdl dev_tgt (\<lambda>st. st) (dal_iter_body E mat_tbl_hdl dev_tgt dal_mat_get_first_entry)"

definition pipe_mgr_get_next_n_by_key where
  "pipe_mgr_get_next_n_by_key E sess_hdl mat_tbl_hdl dev_tgt =
     with_api E sess_hdl dev_tgt (\<lambda>st. st) (dal_iter_body E mat_tbl_hdl dev_tgt dal_mat_get_next_n_by_key)"

end
