(* ===== verification/Mat_Spec.thy ===== *)
theory Mat_Spec
  imports Mat
begin

text \<open>
  What the public calls on match-action tables do to the store of entries. The bracket of the public
  calls and the device abstraction layer leave the store alone; an entry that was just packed is a copy
  of what the client passed; so the body of an addition, deletion or look-up acts on the abstract table
  of \<open>KeyTable_Spec\<close>.
\<close>

section \<open>What the store depends on\<close>

lemma tbl_view_store:
  assumes "map_option mat_store (w_mats t p) = map_option mat_store (w_mats s p)"
    "map_option vl_store (w_vls t p) = map_option vl_store (w_vls s p)"
  shows "tbl_view tt p t = tbl_view tt p s"
  using assms
  by (cases tt; cases "w_mats s p"; cases "w_mats t p"; cases "w_vls s p"; cases "w_vls t p")
    (simp_all add: mat_store_def vl_store_def)

definition ktable_ents :: "ktable \<Rightarrow> ptr set" where
  "ktable_ents A = snd ` ran A"

lemma ktable_entsI: "A k = Some (h, e) \<Longrightarrow> e \<in> ktable_ents A"
  by (force simp: ktable_ents_def ran_def)

text \<open>The table holds the same entries when its own state, the nodes and the entries in it are as
  before.\<close>

lemma kt_rel_frame:
  assumes "kt_rel E tt tbl pid N s A" "tbl_view tt tbl t = tbl_view tt tbl s" "w_nodes t = w_nodes s"
    "os_next s \<le> os_next t"
    "\<And>e. e \<in> ktable_ents A \<Longrightarrow> ent_spec tt e t = ent_spec tt e s \<and> ent_hdl tt e t = ent_hdl tt e s"
  shows "kt_rel E tt tbl pid N t A"
proof -
  have same: "ent_spec tt e t = ent_spec tt e s" "ent_hdl tt e t = ent_hdl tt e s" if "A k = Some (h, e)" for k h e
    using assms(5) [of e] ktable_entsI [of A k h e] that by auto
  have ents: "kt_ents tt tr N t A = kt_ents tt tr N s A" for tr
    unfolding kt_ents_def by (simp add: same cong: imp_cong)
  have nodes: "kt_nodes H (w_nodes t) (os_next t) A" if "kt_nodes H (w_nodes s) (os_next s) A" for H
    by (rule kt_nodes_mono [OF that]) (use assms(3,4) in auto)
  from assms(1) obtain ti where "env_ok E" "tbl_known tt" "tbl_view tt tbl s = Some ti"
    "kt_state E tt (pid mod 256) N ti s A" by (auto simp: kt_rel_def)
  moreover from this have "kt_state E tt (pid mod 256) N ti t A"
    unfolding kt_state_def ents using nodes by blast
  ultimately show ?thesis unfolding kt_rel_def assms(2) by blast
qed

lemma ent_dal:
  "dal_frame t = dal_frame s \<Longrightarrow> ent_spec tt e t = ent_spec tt e s \<and> ent_hdl tt e t = ent_hdl tt e s"
  using dal_frameD [of t s] by (cases tt) simp_all

lemma tbl_view_dal: "dal_frame t = dal_frame s \<Longrightarrow> tbl_view tt tbl t = tbl_view tt tbl s"
  by (rule tbl_view_store) (rule dal_frameD; assumption)+

lemma kt_rel_dal:
  assumes "dal_frame t = dal_frame s" "kt_rel E tt tbl pid N s A"
  shows "kt_rel E tt tbl pid N t A"
  using dal_frameD(7,8) [OF assms(1)]
  by (intro kt_rel_frame [OF assms(2)] tbl_view_dal [OF assms(1)] ent_dal [OF assms(1)]) auto

lemma tbl_tern_dal: "dal_frame t = dal_frame s \<Longrightarrow> tbl_tern tt tbl t = tbl_tern tt tbl s"
  using tbl_view_dal [of t s tt tbl] by (simp add: tbl_tern_def)

lemma kt_ready_dal:
  assumes "dal_frame t = dal_frame s" "kt_ready E tt tbl pid N tr s A"
  shows "kt_ready E tt tbl pid N tr t A"
  using assms(2) kt_rel_dal [OF assms(1), of E tt tbl pid N A] tbl_tern_dal [OF assms(1)] dal_frameD(1) [OF assms(1)]
  by (simp add: kt_ready_def)

text \<open>The operations of the store leave alone what the bracket reads.\<close>

lemma frame_nodes [simp]: "api_frame (s\<lparr>w_nodes := ns\<rparr>) = api_frame s"
  "api_frame (s\<lparr>w_mat_ents := es\<rparr>) = api_frame s"
  by (simp_all add: api_frame_def)

lemma frame_search [keeps_intros]: "keeps api_frame (bf_hashtbl_search E tt t key ns)"
  by (induction ns) (auto simp: key_cmp_fn_def pipe_mgr_cmp_match_value_bits_def
      pipe_mgr_form_htbl_key_def intro!: keeps_intros)

lemma frame_key_table [keeps_intros]:
  "keeps api_frame (pipe_mgr_table_key_exists E tbl tt ms pipe_id want)"
  "keeps api_frame (pipe_mgr_table_get_first E tbl tt nn)"
  "keeps api_frame (pipe_mgr_table_get_next_n E tbl tt hdl n nn)"
  "keeps api_frame (pipe_mgr_table_get E tbl tt hdl nn)"
  "keeps api_frame (pipe_mgr_table_key_delete E tgt tbl tt ms)"
  "keeps api_frame (pipe_mgr_table_key_insert E tgt tbl tt ent)"
  unfolding key_table_unfold by (rule keeps_intros | simp)+

section \<open>Packing\<close>

text \<open>The entry that a call packs.\<close>

definition mat_entry :: "u32 \<Rightarrow> u32 \<Rightarrow> pipe_tbl_match_spec \<Rightarrow> pipe_action_spec \<Rightarrow> pipe_mgr_mat_entry_info" where
  "mat_entry hdl act ms ads = \<lparr>me_mat_ent_hdl = hdl, me_act_fn_hdl = act,
     me_match_spec = packed_match_spec ms (take (num_match_bytes ms) (match_value_bits ms))
       (take (num_match_bytes ms) (match_mask_bits ms)),
     me_act_data_spec = packed_act_spec ads
       (take (num_action_data_bytes (act_data ads)) (action_data_bits (act_data ads)))\<rparr>"

text \<open>Buffers of the announced size.\<close>

definition client_ok :: "pipe_tbl_match_spec \<Rightarrow> pipe_action_spec \<Rightarrow> bool" where
  "client_ok ms ads \<longleftrightarrow> num_match_bytes ms \<le> length (match_value_bits ms) \<and>
     num_match_bytes ms \<le> length (match_mask_bits ms) \<and>
     num_action_data_bytes (act_data ads) \<le> length (action_data_bits (act_data ads))"

lemma wp_allocate [wp_simps]: "wp (allocate E) Q s = Q (x_calloc E (os_clk s)) (s\<lparr>os_clk := Suc (os_clk s)\<rparr>)"
  by (simp add: allocate_def wp_simps)

lemma pack_match_spec_spec:
  assumes "num_match_bytes ms \<le> length (match_value_bits ms)" "num_match_bytes ms \<le> length (match_mask_bits ms)"
  shows "wp (pipe_mgr_mat_pack_match_spec E ms) (\<lambda>(st, r) t. t = s\<lparr>os_clk := os_clk t\<rparr> \<and>
    (if st = BF_SUCCESS then r = Some (packed_match_spec ms (take (num_match_bytes ms) (match_value_bits ms))
       (take (num_match_bytes ms) (match_mask_bits ms))) else r = None)) s"
  using assms
  by (auto simp: pipe_mgr_mat_pack_match_spec_def wp_simps mem_write_def)

lemma pack_act_spec_spec:
  assumes "num_action_data_bytes (act_data ads) \<le> length (action_data_bits (act_data ads))"
  shows "wp (pipe_mgr_mat_pack_act_spec E ads) (\<lambda>(st, r) t. t = s\<lparr>os_clk := os_clk t\<rparr> \<and>
    (if st = BF_SUCCESS then r = Some (packed_act_spec ads
       (take (num_action_data_bytes (act_data ads)) (action_data_bits (act_data ads)))) else r = None)) s"
  using assms
  by (auto simp: pipe_mgr_mat_pack_act_spec_def wp_simps mem_write_def)

lemma pack_entry_spec:
  assumes "client_ok ms ads"
  shows "wp (pipe_mgr_mat_pack_entry_data E ms act ads) (\<lambda>(st, e) t. os_next s \<le> os_next t \<and>
    (if st = BF_SUCCESS then e = Suc (os_next s) \<and>
       t = s\<lparr>os_clk := os_clk t, os_next := e, w_mat_ents := (w_mat_ents s)(e \<mapsto> mat_entry 0 act ms ads)\<rparr>
     else t = s\<lparr>os_clk := os_clk t, os_next := os_next t\<rparr>)) s"
  using assms
  by (auto simp: pipe_mgr_mat_pack_entry_data_def pipe_mgr_mat_pack_match_spec_def put_mat_ent_def
      pipe_mgr_mat_pack_act_spec_def wp_simps client_ok_def mem_write_def mat_entry_def Let_def)

text \<open>A packed specification has the key of the original.\<close>

lemma packed_key:
  assumes "spec_key tr N ms = Some k" "num_match_bytes ms \<le> length (match_mask_bits ms)"
  shows "spec_key tr N (packed_match_spec ms (take (num_match_bytes ms) (match_value_bits ms))
    (take (num_match_bytes ms) (match_mask_bits ms))) = Some k"
  using assms
  by (auto simp: spec_key_def spec_ok_def key_of_def packed_match_spec_def Let_def split: if_splits)

section \<open>Finding the table\<close>

fun find_table :: "(ptr \<Rightarrow> u32 option) \<Rightarrow> u32 \<Rightarrow> ptr list \<Rightarrow> ptr option" where
  "find_table hdl_of tbl_hdl [] = None"
| "find_table hdl_of tbl_hdl (p # ps) = (case hdl_of p of
     None \<Rightarrow> None
   | Some h \<Rightarrow> if h = tbl_hdl then Some p else find_table hdl_of tbl_hdl ps)"

text \<open>The table with a given handle in the profile of a target.\<close>

definition table_of ::
  "('m, 'i, 'h, 'z) ext_scheme \<Rightarrow> bf_dev_target \<Rightarrow> u32 \<Rightarrow> pipe_mgr_table_type \<Rightarrow> ('m, 'i, 'h) world \<Rightarrow> ptr option" where
  "table_of E tgt tbl_hdl tt s = (let d = dev_of E s (device_id tgt) in
     if d = NULL then None
     else Option.bind (get_profile_obj (d, dev_pipe_id tgt) s) (\<lambda>pf.
       if tt = PIPE_MGR_TABLE_TYPE_VALUE_LOOKUP
       then find_table (\<lambda>p. vl_handle p s) tbl_hdl (pc_value_lookup_tables (pf_pipe_ctx pf))
       else find_table (\<lambda>p. mat_handle p s) tbl_hdl (pc_mat_tables (pf_pipe_ctx pf))))"

lemma wp_get_table:
  "find_table (\<lambda>p. h p s) tbl_hdl ps = Some tbl \<Longrightarrow> wp (get_table h tbl_hdl ps) Q s = Q (BF_SUCCESS, tbl) s"
  by (induction ps) (auto simp: wp_simps split: option.splits if_splits)

lemma dev_of_ctx: "dev_of E s d \<noteq> NULL \<Longrightarrow> \<exists>ctx. w_ctxs s (pipe_mgr_ctx_obj s) = Some ctx"
  by (auto simp: dev_of_def the_ctx_def split: option.splits if_splits)

lemma wp_ctx_get_table:
  assumes "table_of E tgt tbl_hdl tt s = Some tbl"
  shows "wp (pipe_mgr_ctx_get_table E tgt tbl_hdl tt) Q s = Q (BF_SUCCESS, tbl) s"
  using assms dev_of_ctx [of E s "device_id tgt"]
  by (cases tt) (auto simp: table_of_def pipe_mgr_ctx_get_table_def pipe_mgr_get_profile_ctx_def
      pipe_mgr_get_profile_def wp_simps wp_get_table Let_def bind_eq_Some_conv split: if_splits)

lemma wp_with_table:
  "table_of E tgt tbl_hdl tt s = Some tbl \<Longrightarrow> wp (with_table E tgt tbl_hdl tt err k) Q s = wp (k tbl) Q s"
  by (simp add: with_table_def wp_simps wp_ctx_get_table)

section \<open>Adding\<close>

text \<open>What an addition needs from the device abstraction layer: it leaves the store alone, and what it
  does, \<open>did\<close>, relates the state before, its status and the state after, through what the layer reads and
  through the calls to the data plane and the faults.\<close>

definition dal_view where
  "dal_view s = (w_mats s, w_pipes s, api_frame s)"

definition dal_obs :: "('m, 'i, 'h) world \<Rightarrow> bool \<times> (rte_call \<times> int) list" where
  "dal_obs s = (os_fault s, w_rte s)"

lemma dal_obs_os [simp]:
  "dal_obs (s\<lparr>os_clk := c\<rparr>) = dal_obs s" "dal_obs (s\<lparr>os_locks := l\<rparr>) = dal_obs s"
  "dal_obs (s\<lparr>os_next := n\<rparr>) = dal_obs s" "dal_obs (s\<lparr>w_mat_ents := es\<rparr>) = dal_obs s"
  by (simp_all add: dal_obs_def)

locale dal_provider =
  fixes dal_add :: "ptr \<Rightarrow> ('m, 'i, 'h, bf_status) cmd"
    and did :: "ptr \<Rightarrow> ('m, 'i, 'h) world \<Rightarrow> bf_status \<Rightarrow> ('m, 'i, 'h) world \<Rightarrow> bool"
  assumes dal_ok: "dal_op (dal_add tbl)"
    and dal_does: "wp (dal_add tbl) (did tbl s) s"
    and did_view: "did tbl s st t \<Longrightarrow> dal_view u = dal_view s \<Longrightarrow> dal_obs u = dal_obs s \<Longrightarrow> dal_obs v = dal_obs t \<Longrightarrow>
      did tbl u st v"

text \<open>Either the layer was not called, or it did its work, with success if the whole call has succeeded.\<close>

definition dal_done where
  "dal_done did tbl s r t \<longleftrightarrow> fst r \<noteq> BF_SUCCESS \<and> dal_obs t = dal_obs s \<or>
     (\<exists>st. did tbl s st t \<and> (fst r = BF_SUCCESS \<longrightarrow> st = BF_SUCCESS))"

text \<open>After the insertion of an entry that was just packed only that entry has changed, in its handle.\<close>

definition but_hdl :: "ptr \<Rightarrow> ('m, 'i, 'h) world \<Rightarrow> ptr \<rightharpoonup> pipe_mgr_mat_entry_info" where
  "but_hdl e s = (w_mat_ents s)(e := map_option (\<lambda>x. x\<lparr>me_mat_ent_hdl := 0\<rparr>) (w_mat_ents s e))"

lemma but_hdl_os [simp]:
  "but_hdl e (s\<lparr>os_clk := c\<rparr>) = but_hdl e s" "but_hdl e (s\<lparr>os_fault := b\<rparr>) = but_hdl e s"
  "but_hdl e (s\<lparr>os_next := n\<rparr>) = but_hdl e s" "but_hdl e (s\<lparr>os_locks := l\<rparr>) = but_hdl e s"
  "but_hdl e (s\<lparr>w_nodes := ns\<rparr>) = but_hdl e s"
  by (simp_all add: but_hdl_def)

lemma but_hdl_at:
  assumes "but_hdl e t = but_hdl e s" "w_mat_ents s e = Some y"
  shows "\<exists>x. w_mat_ents t = (w_mat_ents s)(e \<mapsto> x) \<and> x\<lparr>me_mat_ent_hdl := 0\<rparr> = y\<lparr>me_mat_ent_hdl := 0\<rparr>"
proof -
  have *: "but_hdl e t p = but_hdl e s p" for p using assms(1) by simp
  from * [of e] assms(2) obtain x where "w_mat_ents t e = Some x"
    "x\<lparr>me_mat_ent_hdl := 0\<rparr> = y\<lparr>me_mat_ent_hdl := 0\<rparr>" by (auto simp: but_hdl_def)
  moreover have "w_mat_ents t p = w_mat_ents s p" if "p \<noteq> e" for p using * [of p] that by (simp add: but_hdl_def)
  ultimately show ?thesis by (intro exI [of _ x]) (auto simp: fun_eq_iff)
qed

lemma keeps_but_hdl [keeps_intros]:
  "keeps (but_hdl e) (set_state tt p f)" "keeps (but_hdl e) (set_ent_hdl tt e h)"
  by (cases tt; auto simp: set_state_def set_ent_hdl_def but_hdl_def option.map_comp comp_def
      intro!: keeps_modify)+

lemma keeps_but_hdl_search [keeps_intros]: "keeps (but_hdl e) (bf_hashtbl_search E tt t key ns)"
  by (induction ns) (auto simp: key_cmp_fn_def pipe_mgr_cmp_match_value_bits_def
      pipe_mgr_form_htbl_key_def intro!: keeps_intros)

lemma keeps_but_hdl_insert: "keeps (but_hdl e) (pipe_mgr_table_key_insert E tgt tbl tt e)"
  unfolding key_table_unfold by (rule keeps_intros | simp)+

text \<open>The store does not call the data plane.\<close>

lemma keeps_rte_store [keeps_intros]:
  "keeps w_rte (set_state tt p f)" "keeps w_rte (set_ent_hdl tt e h)"
  by (cases tt; auto simp: set_state_def set_ent_hdl_def intro!: keeps_modify)+

lemma keeps_rte_search [keeps_intros]: "keeps w_rte (bf_hashtbl_search E tt t key ns)"
  by (induction ns) (auto simp: key_cmp_fn_def pipe_mgr_cmp_match_value_bits_def
      pipe_mgr_form_htbl_key_def intro!: keeps_intros)

lemma keeps_rte_key_table:
  "keeps w_rte (pipe_mgr_table_key_insert E tgt tbl tt e)" "keeps w_rte (pipe_mgr_table_key_delete E tgt tbl tt ms)"
  unfolding key_table_unfold by (rule keeps_intros | simp)+

text \<open>Addresses are only ever handed out.\<close>

lemma pres_next_os [pres_intros]:
  "pres (\<lambda>s. n \<le> os_next s) (lock_op rcs f l)" "pres (\<lambda>s. n \<le> os_next s) tick" "pres (\<lambda>s. n \<le> os_next s) fault"
  "pres (\<lambda>s. n \<le> os_next s) (guard_c b)" "pres (\<lambda>s. n \<le> os_next s) (calloc_bytes E k)"
  "pres (\<lambda>s. n \<le> os_next s) (memcpy d off src k)"
  by (rule pres_keeps [where f = os_next]; auto intro!: keeps_intros)+

lemma pres_next_calloc [pres_intros]: "pres (\<lambda>s. n \<le> os_next s) (calloc E)"
  by (auto simp: pres_def calloc_def tick_def)

lemma pres_next_world [pres_intros]:
  "pres (\<lambda>s. n \<le> os_next s) (set_state tt p f)" "pres (\<lambda>s. n \<le> os_next s) (set_ent_hdl tt e h)"
  "pres (\<lambda>s. n \<le> os_next s) (modify (\<lambda>s. s\<lparr>w_nodes := g s\<rparr>))"
  "(\<And>v. pres (\<lambda>s. n \<le> os_next s) (k v)) \<Longrightarrow> pres (\<lambda>s. n \<le> os_next s) (deref get_obj d k)"
  by (auto simp: set_state_def set_ent_hdl_def deref_def intro!: pres_modify pres_intros)

lemma pres_next_search [pres_intros]: "pres (\<lambda>s. n \<le> os_next s) (bf_hashtbl_search E tt t key ns)"
  by (induction ns) (auto simp: key_cmp_fn_def pipe_mgr_cmp_match_value_bits_def
      pipe_mgr_form_htbl_key_def intro!: pres_intros)

lemma pres_next_insert: "pres (\<lambda>s. n \<le> os_next s) (pipe_mgr_table_key_insert E tgt tbl tt e)"
  unfolding key_table_unfold by (rule pres_intros | simp)+

text \<open>The outcome of an addition under the key \<open>k\<close>: on success a new entry that is a copy of what the
  client passed, under a new handle; else nothing has changed.\<close>

definition add_post where
  "add_post E tbl pid N tr A k act ms ads s r t \<longleftrightarrow> os_locks t = os_locks s \<and> api_frame t = api_frame s \<and>
     os_next s \<le> os_next t \<and>
     (case r of (st, hdl) \<Rightarrow>
       if st = BF_SUCCESS then \<exists>h e. hdl = Some h \<and> h \<noteq> 0 \<and> h \<notin> handles A \<and> w_mat_ents s e = None \<and> e \<le> os_next t \<and>
         w_mat_ents t = (w_mat_ents s)(e \<mapsto> mat_entry h act ms ads) \<and>
         kt_ready E PIPE_MGR_TABLE_TYPE_MAT tbl pid N tr t (A(k \<mapsto> (h, e)))
       else hdl = None \<and> w_mat_ents t = w_mat_ents s \<and> kt_ready E PIPE_MGR_TABLE_TYPE_MAT tbl pid N tr t A)"

text \<open>The heap of entries: every address in use was allocated.\<close>

definition heap_ok :: "('m, 'i, 'h) world \<Rightarrow> bool" where
  "heap_ok s \<longleftrightarrow> (\<forall>e. w_mat_ents s e \<noteq> None \<longrightarrow> e \<le> os_next s)"

lemma kt_rel_ent: "kt_rel E tt tbl pid N s A \<Longrightarrow> A k = Some (h, e) \<Longrightarrow> ent_hdl tt e s = Some h"
  by (auto simp: kt_rel_def kt_state_def kt_ents_def)

lemma kt_ents_live:
  assumes "kt_rel E PIPE_MGR_TABLE_TYPE_MAT tbl pid N s A" "e \<in> ktable_ents A"
  shows "w_mat_ents s e \<noteq> None"
  using assms(2) kt_rel_ent [OF assms(1)] by (fastforce simp: ktable_ents_def ran_def)

text \<open>A store to an entry that is not in the table.\<close>

lemma kt_rel_put:
  assumes "kt_rel E PIPE_MGR_TABLE_TYPE_MAT tbl pid N s A" "e \<notin> ktable_ents A"
    "tbl_view PIPE_MGR_TABLE_TYPE_MAT tbl t = tbl_view PIPE_MGR_TABLE_TYPE_MAT tbl s" "w_nodes t = w_nodes s"
    "os_next s \<le> os_next t" "w_mat_ents t = (w_mat_ents s)(e := x)"
  shows "kt_rel E PIPE_MGR_TABLE_TYPE_MAT tbl pid N t A"
  by (rule kt_rel_frame [OF assms(1)]) (use assms(2-6) in auto)

lemma insert_packed:
  assumes ready: "kt_ready E PIPE_MGR_TABLE_TYPE_MAT tbl (dev_pipe_id tgt) N tr s A" and k: "spec_key tr N ms = Some k"
    "num_match_bytes ms \<le> length (match_mask_bits ms)" "A k = None"
    and e: "w_mat_ents s e = Some (mat_entry 0 act ms ads)" "e \<notin> ktable_ents A"
  shows "wp (pipe_mgr_table_key_insert E tgt tbl PIPE_MGR_TABLE_TYPE_MAT e) (\<lambda>(st, h) t.
    os_locks t = os_locks s \<and> api_frame t = api_frame s \<and> dal_obs t = dal_obs s \<and> os_next s \<le> os_next t \<and>
    (if st = BF_SUCCESS then h \<noteq> 0 \<and> h \<notin> handles A \<and> w_mat_ents t = (w_mat_ents s)(e \<mapsto> mat_entry h act ms ads) \<and>
       kt_ready E PIPE_MGR_TABLE_TYPE_MAT tbl (dev_pipe_id tgt) N tr t (A(k \<mapsto> (h, e)))
     else (\<exists>x. w_mat_ents t = (w_mat_ents s)(e \<mapsto> x)) \<and>
       kt_ready E PIPE_MGR_TABLE_TYPE_MAT tbl (dev_pipe_id tgt) N tr t A)) s"
proof -
  let ?put = "pipe_mgr_table_key_insert E tgt tbl PIPE_MGR_TABLE_TYPE_MAT e"
    and ?ready = "kt_ready E PIPE_MGR_TABLE_TYPE_MAT tbl (dev_pipe_id tgt) N tr"
  let ?ms = "me_match_spec (mat_entry 0 act ms ads)"
  have key: "spec_key tr N ?ms = Some k" using packed_key [OF k(1,2)] by (simp add: mat_entry_def)
  have "wp ?put (insert_post E PIPE_MGR_TABLE_TYPE_MAT tbl (dev_pipe_id tgt) N A (key_of tr ?ms) e s) s"
    by (rule key_insert_spec) (use ready key k(3) e in \<open>auto simp: kt_ready_def spec_key_def split: if_splits\<close>)
  moreover have "key_of tr ?ms = k" using key by (simp add: spec_key_def split: if_splits)
  ultimately have "wp ?put (insert_post E PIPE_MGR_TABLE_TYPE_MAT tbl (dev_pipe_id tgt) N A k e s) s" by simp
  moreover have "wp ?put (\<lambda>_ t. api_frame t = api_frame s) s"
      "wp ?put (\<lambda>_ t. but_hdl e t = but_hdl e s) s" "wp ?put (\<lambda>_ t. w_rte t = w_rte s) s"
      "wp ?put (\<lambda>_ t. tbl_tern PIPE_MGR_TABLE_TYPE_MAT tbl t = tbl_tern PIPE_MGR_TABLE_TYPE_MAT tbl s) s"
    by (rule keeps_wp, rule frame_key_table keeps_but_hdl_insert keeps_tern_insert keeps_rte_key_table)+
  moreover have "wp ?put (\<lambda>_ t. os_next s \<le> os_next t) s" by (rule pres_wp [OF pres_next_insert]) simp
  ultimately have "wp ?put (\<lambda>r t. insert_post E PIPE_MGR_TABLE_TYPE_MAT tbl (dev_pipe_id tgt) N A k e s r t \<and>
      api_frame t = api_frame s \<and> but_hdl e t = but_hdl e s \<and> w_rte t = w_rte s \<and>
      tbl_tern PIPE_MGR_TABLE_TYPE_MAT tbl t = tbl_tern PIPE_MGR_TABLE_TYPE_MAT tbl s \<and> os_next s \<le> os_next t) s"
    by (intro wp_conj)
  then show ?thesis
  proof (rule wp_conseq, goal_cases)
    case (1 r t)
    obtain x where x: "w_mat_ents t = (w_mat_ents s)(e \<mapsto> x)" "x\<lparr>me_mat_ent_hdl := 0\<rparr> = mat_entry 0 act ms ads"
      using 1 but_hdl_at [of e t s] e(1) by (auto simp: mat_entry_def)
    have "me_mat_ent_hdl x = snd r" if "fst r = BF_SUCCESS"
      using 1 that x(1) kt_rel_ent [of E PIPE_MGR_TABLE_TYPE_MAT tbl "dev_pipe_id tgt" N t "A(k \<mapsto> (snd r, e))" k]
      by (auto simp: insert_post_def)
    then have "x = mat_entry (snd r) act ms ads" if "fst r = BF_SUCCESS"
      using that x(2) by (cases x) (auto simp: mat_entry_def)
    with 1 x ready show ?case by (auto simp: insert_post_def kt_ready_def dal_obs_def split: prod.splits if_splits)
  qed
qed

lemma key_exists_ready:
  assumes "kt_ready E tt tbl pid N tr s A" "spec_key tr N ms = Some k"
  shows "wp (pipe_mgr_table_key_exists E tbl tt ms pid want)
    (\<lambda>r t. t = s\<lparr>os_clk := os_clk t\<rparr> \<and> r = lookup_result want (A k)) s"
  using assms
  by (intro wp_conseq [OF key_exists_spec [of E tt tbl pid N s A ms want]])
    (auto simp: kt_ready_def spec_key_def split: if_splits)

lemma kt_ready_clk: "kt_ready E tt tbl pid N tr s A \<Longrightarrow> kt_ready E tt tbl pid N tr (s\<lparr>os_clk := c\<rparr>) A"
  by (simp add: kt_ready_def)

lemma kt_ready_alloc:
  assumes "kt_ready E PIPE_MGR_TABLE_TYPE_MAT tbl pid N tr s A" "os_next s \<le> n" "e \<notin> ktable_ents A"
  shows "kt_ready E PIPE_MGR_TABLE_TYPE_MAT tbl pid N tr
      (s\<lparr>os_clk := c, os_next := n, w_mat_ents := (w_mat_ents s)(e := x)\<rparr>) A"
    "kt_ready E PIPE_MGR_TABLE_TYPE_MAT tbl pid N tr (s\<lparr>os_clk := c, os_next := n\<rparr>) A"
proof -
  have rel: "kt_rel E PIPE_MGR_TABLE_TYPE_MAT tbl pid N s A" using assms(1) by (simp add: kt_ready_def)
  have "kt_rel E PIPE_MGR_TABLE_TYPE_MAT tbl pid N (s\<lparr>os_clk := c, os_next := n, w_mat_ents := (w_mat_ents s)(e := x)\<rparr>) A"
    by (rule kt_rel_put [OF rel assms(3), where x = x]) (use assms(2) in simp_all)
  moreover have "kt_rel E PIPE_MGR_TABLE_TYPE_MAT tbl pid N (s\<lparr>os_clk := c, os_next := n\<rparr>) A"
    by (rule kt_rel_put [OF rel assms(3), where x = "w_mat_ents s e"]) (use assms(2) in simp_all)
  ultimately show "kt_ready E PIPE_MGR_TABLE_TYPE_MAT tbl pid N tr
      (s\<lparr>os_clk := c, os_next := n, w_mat_ents := (w_mat_ents s)(e := x)\<rparr>) A"
    "kt_ready E PIPE_MGR_TABLE_TYPE_MAT tbl pid N tr (s\<lparr>os_clk := c, os_next := n\<rparr>) A"
    using assms(1) by (simp_all add: kt_ready_def tbl_tern_def)
qed

text \<open>Taking back a packed entry that was not stored.\<close>

lemma delete_packed:
  assumes ready: "kt_ready E PIPE_MGR_TABLE_TYPE_MAT tbl pid N tr t A" and e: "e \<notin> ktable_ents A"
      "w_mat_ents t = (w_mat_ents s)(e \<mapsto> x)" "w_mat_ents s e = None"
    and frame: "os_locks t = os_locks s" "api_frame t = api_frame s" "os_next s \<le> os_next t" and st: "st \<noteq> BF_SUCCESS"
  shows "wp (pipe_mgr_mat_delete_entry_data e) (\<lambda>_ u. dal_obs u = dal_obs t \<and>
    add_post E tbl pid N tr A k act ms ads s (st, None) u) t"
proof -
  let ?u = "t\<lparr>w_mat_ents := (w_mat_ents t)(e := None)\<rparr>"
  have "kt_rel E PIPE_MGR_TABLE_TYPE_MAT tbl pid N ?u A"
    by (rule kt_rel_put [where s = t and x = None, OF _ e(1)]) (use ready in \<open>simp_all add: kt_ready_def\<close>)
  then have "kt_ready E PIPE_MGR_TABLE_TYPE_MAT tbl pid N tr ?u A" using ready by (auto simp: kt_ready_def tbl_tern_def)
  moreover have "w_mat_ents ?u = w_mat_ents s" using e(2,3) by (auto simp: fun_eq_iff)
  ultimately show ?thesis using frame e(2) st
    by (simp add: pipe_mgr_mat_delete_entry_data_def wp_simps put_mat_ent_def dal_delete_table_entry_data_def
        add_post_def)
qed

context dal_provider
begin

lemma dal_keeps: "wp (dal_add tbl) (\<lambda>_ t. dal_frame t = dal_frame s) s"
  by (rule keeps_wp [OF dal_opD(1) [OF dal_ok]])

lemma dal_done_view:
  "did tbl s st t \<Longrightarrow> dal_view u = dal_view s \<Longrightarrow> dal_obs u = dal_obs s \<Longrightarrow> dal_obs v = dal_obs t \<Longrightarrow>
   (fst r = BF_SUCCESS \<Longrightarrow> st = BF_SUCCESS) \<Longrightarrow> dal_done did tbl u r v"
  using did_view by (fastforce simp: dal_done_def)

lemma dal_done_same:
  "dal_done did tbl s r t \<Longrightarrow> dal_view u = dal_view s \<Longrightarrow> dal_obs u = dal_obs s \<Longrightarrow> dal_obs v = dal_obs t \<Longrightarrow>
   dal_done did tbl u r v"
  using did_view by (fastforce simp: dal_done_def)

text \<open>From the packed entry on.\<close>

lemma add_packed:
  assumes ready: "kt_ready E PIPE_MGR_TABLE_TYPE_MAT tbl (dev_pipe_id tgt) N tr s A"
    and k: "spec_key tr N ms = Some k" "num_match_bytes ms \<le> length (match_mask_bits ms)" "A k = None"
    and e: "e \<notin> ktable_ents A" "w_mat_ents s = (w_mat_ents s0)(e \<mapsto> mat_entry 0 act ms ads)"
      "w_mat_ents s0 e = None" "os_locks s = os_locks s0" "api_frame s = api_frame s0"
      "os_next s0 \<le> os_next s" "e \<le> os_next s" "dal_view s0 = dal_view s" "dal_obs s0 = dal_obs s"
  shows "wp (do {
      status \<leftarrow> dal_add tbl;
      if status \<noteq> BF_SUCCESS then do { pipe_mgr_mat_delete_entry_data e; ret (status, None) }
      else do {
        (status, hdl) \<leftarrow> pipe_mgr_table_key_insert E tgt tbl PIPE_MGR_TABLE_TYPE_MAT e;
        if status \<noteq> BF_SUCCESS then do { pipe_mgr_mat_delete_entry_data e; ret (status, None) }
        else ret (BF_SUCCESS, Some hdl) }})
    (\<lambda>r t. dal_done did tbl s0 r t \<and>
      add_post E tbl (dev_pipe_id tgt) N tr A k act ms ads s0 r t) s"
proof -
  let ?ready = "\<lambda>s. kt_ready E PIPE_MGR_TABLE_TYPE_MAT tbl (dev_pipe_id tgt) N tr s A"
  show ?thesis
    unfolding wp_bind
  proof (rule wp_conseq [OF wp_conj [OF dal_keeps dal_does]], goal_cases)
    case (1 st t)
    then have fr: "dal_frame t = dal_frame s" and did: "did tbl s st t" by auto
    have t: "?ready t" "w_mat_ents t = (w_mat_ents s0)(e \<mapsto> mat_entry 0 act ms ads)"
        "os_locks t = os_locks s0" "api_frame t = api_frame s0" "os_next s0 \<le> os_next t" "e \<le> os_next t"
      using kt_ready_dal [OF fr ready] e(2,4-7) dal_frameD(1-3,8) [OF fr] by simp_all
    show ?case
    proof (cases "st = BF_SUCCESS")
      case True
      have at: "w_mat_ents t e = Some (mat_entry 0 act ms ads)" using t(2) by simp
      have "wp (pipe_mgr_table_key_insert E tgt tbl PIPE_MGR_TABLE_TYPE_MAT e) (\<lambda>(st, h). wp
          (if st \<noteq> BF_SUCCESS then do { pipe_mgr_mat_delete_entry_data e; ret (st, None) }
           else ret (BF_SUCCESS, Some h))
          (\<lambda>r u. dal_obs u = dal_obs t \<and> add_post E tbl (dev_pipe_id tgt) N tr A k act ms ads s0 r u)) t"
      proof (rule wp_conseq [OF insert_packed [OF t(1) k at e(1)]], goal_cases)
        case (1 r u)
        show ?case
        proof (cases "fst r = BF_SUCCESS")
          case True
          with 1 t e(3) show ?thesis
            by (auto simp: wp_simps add_post_def split: prod.splits)
        next
          case False
          with 1 t obtain x where "?ready u" "w_mat_ents u = (w_mat_ents s0)(e \<mapsto> x)" "os_locks u = os_locks s0"
            "api_frame u = api_frame s0" "os_next s0 \<le> os_next u" "dal_obs u = dal_obs t" by (auto split: prod.splits)
          with False show ?thesis
            by (simp add: wp_simps case_prod_beta) (rule wp_conseq [OF delete_packed [OF _ e(1) _ e(3), where k = k and act = act and ms = ms and ads = ads]], simp_all)
        qed
      qed
      with True show ?thesis
        by (auto simp: wp_simps case_prod_beta elim!: wp_conseq intro!: dal_done_view [OF did e(8,9)])
    next
      case False
      show ?thesis
        using False by (simp add: wp_simps) (rule wp_conseq [OF delete_packed [OF t(1) e(1) t(2) e(3) t(3-5) False, of k act ms ads]],
            auto intro!: dal_done_view [OF did e(8,9)])
    qed
  qed
qed

lemma add_body_spec:
  assumes ready: "kt_ready E PIPE_MGR_TABLE_TYPE_MAT tbl (dev_pipe_id tgt) N tr s A"
    and k: "spec_key tr N ms = Some k" "client_ok ms ads"
    and tbl: "table_of E tgt hdl PIPE_MGR_TABLE_TYPE_MAT s = Some tbl" "mat_ctx_of tbl s = Some ctx"
      "mc_store_entries ctx"
    and heap: "heap_ok s" and dup: "dup \<noteq> BF_SUCCESS"
  shows "wp (mat_add_body E tgt hdl ms act ads dup dal_add) (\<lambda>r t. dal_done did tbl s r t \<and>
    (case A k of
       Some (h, e) \<Rightarrow> r = (dup, Some h) \<and> t = s\<lparr>os_clk := os_clk t\<rparr>
     | None \<Rightarrow> add_post E tbl (dev_pipe_id tgt) N tr A k act ms ads s r t)) s"
  unfolding mat_add_body_def wp_with_table [OF tbl(1)] wp_deref
  apply (simp add: tbl(2,3) wp_bind)
proof (rule wp_conseq [OF key_exists_ready [OF ready k(1)]], goal_cases)
  case (1 r t)
  then obtain c where t: "t = s\<lparr>os_clk := c\<rparr>" "r = lookup_result False (A k)" by blast
  show ?case
  proof (cases "A k")
    case None
    have fresh: "w_mat_ents s (Suc (os_next s)) = None" using heap by (fastforce simp: heap_ok_def)
    then have new: "Suc (os_next s) \<notin> ktable_ents A"
      using kt_ents_live [of E tbl _ N s A "Suc (os_next s)"] ready by (auto simp: kt_ready_def)
    have r: "r = (BF_SUCCESS, False, 0, NULL)" using t None by (simp add: lookup_result_def)
    show ?thesis
      unfolding r prod.case
      apply (simp add: wp_bind None)
    proof (rule wp_conseq [OF pack_entry_spec [OF k(2)]], goal_cases)
      case (1 p u)
      show ?case
      proof (cases "fst p = BF_SUCCESS")
        case True
        with 1 t(1) obtain c' where u: "snd p = Suc (os_next s)" "u = s\<lparr>os_clk := c', os_next := Suc (os_next s),
            w_mat_ents := (w_mat_ents s)(Suc (os_next s) \<mapsto> mat_entry 0 act ms ads)\<rparr>"
          by (cases p) (auto intro!: that)
        have "kt_ready E PIPE_MGR_TABLE_TYPE_MAT tbl (dev_pipe_id tgt) N tr u A"
          unfolding u(2) by (rule kt_ready_alloc(1) [OF ready _ new]) simp
        note packed = add_packed [OF this k(1) _ None new _ fresh, of act ads]
        show ?thesis
          using True u k(2) tbl(3) packed
          by (cases p) (auto simp: wp_bind client_ok_def case_prod_beta dal_view_def)
      next
        case False
        with 1 t(1) obtain c' n where u: "u = s\<lparr>os_clk := c', os_next := n\<rparr>" "os_next s \<le> n"
          by (cases p) (auto intro!: that)
        show ?thesis using False kt_ready_alloc(2) [OF ready u(2) new, of c']
          by (cases p) (simp add: wp_simps u add_post_def dal_done_def)
      qed
    qed
  next
    case (Some he)
    with t dup show ?thesis by (cases he) (simp add: lookup_result_def wp_simps dal_done_def)
  qed
qed

end

end
