(* ===== verification/Dal_Mat_Spec.thy ===== *)
theory Dal_Mat_Spec
  imports Dal_Mat
begin

text \<open>
  What \<^verbatim>\<open>dal_mat.c\<close> sends to the data plane. A table whose metadata is well formed gets, for every
  addition, an entry whose key and mask hold each match field at its offset, and the calls are an
  addition followed by a commit. Nothing faults.
\<close>

section \<open>Well-formed metadata\<close>

definition meta_wf :: "pipe_mgr_mat_ctx \<Rightarrow> dal_dpdk_table_metadata \<Rightarrow> bool" where
  "meta_wf ctx meta \<longleftrightarrow> tm_n_match_fields meta = mc_mat_key_fields_count ctx \<and>
     length (tm_mf meta) = tm_n_match_fields meta \<and> tm_n_match_fields meta \<le> length (mc_mat_key_fields ctx) \<and>
     layout_ok (tm_mf meta) \<and>
     (\<forall>mf \<in> set (tm_mf meta). tm_first_offset meta \<le> mf_offset mf \<and>
        field_offset (tm_first_offset meta) mf + nbytes (mf_n_bits mf) \<le> nbytes (tm_match_field_nbits meta)) \<and>
     (tm_match_type meta = PIPE_MGR_MATCH_TYPE_EXACT \<longrightarrow>
        (\<forall>kf \<in> set (mc_mat_key_fields ctx). kf_match_type kf = PIPE_MGR_MATCH_TYPE_EXACT))"

text \<open>The eight bytes that are read for each field lie in a buffer of \<open>B\<close> bytes.\<close>

fun reads_fit :: "nat \<Rightarrow> nat \<Rightarrow> rte_swx_ctl_table_match_field_info list \<Rightarrow> bool" where
  "reads_fit B index [] = True"
| "reads_fit B index (mf # mfs) = (index + 8 \<le> B \<and> reads_fit B (index + nbytes (mf_n_bits mf)) mfs)"

lemma wf_fields_fit:
  "reads_fit B index mfs \<Longrightarrow> \<forall>mf \<in> set mfs. field_ok mf \<and> fo \<le> mf_offset mf \<and>
     field_offset fo mf + nbytes (mf_n_bits mf) \<le> K \<Longrightarrow> fields_fit fo K B index mfs"
  by (induction B index mfs rule: reads_fit.induct) auto

text \<open>The entry that is allocated, and the entry with its key.\<close>

definition zero_entry :: "dal_dpdk_table_metadata \<Rightarrow> pipe_mgr_match_type \<Rightarrow> rte_swx_table_entry" where
  "zero_entry meta mt = \<lparr>te_key = replicate (nbytes (tm_match_field_nbits meta)) 0,
     te_key_mask = (if tm_match_field_nbits meta \<noteq> 0 \<and> mt \<noteq> PIPE_MGR_MATCH_TYPE_EXACT
       then Some (replicate (nbytes (tm_match_field_nbits meta)) 0) else None),
     te_key_priority = 0, te_action_id = 0, te_action_data = replicate (nbytes (tm_action_data_size meta)) 0\<rparr>"

definition keyed_entry ::
  "pipe_mgr_mat_ctx \<Rightarrow> dal_dpdk_table_metadata \<Rightarrow> pipe_tbl_match_spec \<Rightarrow> rte_swx_table_entry" where
  "keyed_entry ctx meta ms = (let e = zero_entry meta (tm_match_type meta) in
     e\<lparr>te_key := apply_writes (key_writes (tm_first_offset meta) (match_value_bits ms) 0 (tm_mf meta)) (te_key e),
       te_key_mask := map_option (apply_writes (mask_writes (tm_first_offset meta) (match_mask_bits ms) 0
         (tm_mf meta) (mc_mat_key_fields ctx))) (te_key_mask e),
       te_key_priority := priority ms\<rparr>)"

lemma nbytes_0 [simp]: "nbytes 0 = 0"
  by (simp add: nbytes_def)

lemma wp_entry_alloc:
  "wp (dal_dpdk_table_entry_alloc E meta mt) (\<lambda>(st, e) t. (\<exists>c. t = s\<lparr>os_clk := c\<rparr>) \<and>
     (st = BF_SUCCESS \<and> e = zero_entry meta mt \<or> st = BF_NO_SPACE)) s"
  by (auto simp: dal_dpdk_table_entry_alloc_def alloc_if_def allocate_def wp_simps Let_def zero_entry_def
      empty_entry_def)

text \<open>A client specification with room for the reads.\<close>

definition spec_room :: "dal_dpdk_table_metadata \<Rightarrow> pipe_tbl_match_spec \<Rightarrow> bool" where
  "spec_room meta ms \<longleftrightarrow> reads_fit (length (match_value_bits ms)) 0 (tm_mf meta) \<and>
     length (match_value_bits ms) \<le> length (match_mask_bits ms)"

lemma encode_key_spec:
  assumes "ctx_meta ctx = Some meta" "meta_wf ctx meta" "spec_room meta ms"
  shows "wp (pipe_mgr_dpdk_encode_match_key_and_mask ctx ms (zero_entry meta (tm_match_type meta)))
    (\<lambda>r t. t = s \<and> r = (BF_SUCCESS, keyed_entry ctx meta ms)) s"
proof -
  let ?e = "zero_entry meta (tm_match_type meta)"
  obtain st where st: "mc_match_stage_table ctx = Some st" "st_table_meta st = Some meta"
    using assms(1) by (auto simp: ctx_meta_def bind_eq_Some_conv)
  have "\<forall>mf \<in> set (tm_mf meta). field_ok mf" using assms(2) by (auto simp: meta_wf_def layout_ok_def)
  then have fit: "fields_fit (tm_first_offset meta) (length (te_key ?e)) (length (match_value_bits ms)) 0 (tm_mf meta)"
    using assms(2,3) by (intro wf_fields_fit) (auto simp: meta_wf_def spec_room_def zero_entry_def)
  have "wp (encode_fields (tm_first_offset meta) ms 0 (tm_mf meta) (mc_mat_key_fields ctx) ?e)
      (\<lambda>r t. t = s \<and> r = (BF_SUCCESS,
        ?e\<lparr>te_key := apply_writes (key_writes (tm_first_offset meta) (match_value_bits ms) 0 (tm_mf meta)) (te_key ?e),
          te_key_mask := map_option (apply_writes (mask_writes (tm_first_offset meta) (match_mask_bits ms) 0
            (tm_mf meta) (mc_mat_key_fields ctx))) (te_key_mask ?e)\<rparr>)) s"
  proof (cases "tm_mf meta")
    case Nil
    then show ?thesis by (simp add: wp_simps apply_writes_def zero_entry_def split: option.split)
  next
    case (Cons mf mfs)
    then have "0 < mf_n_bits mf" "nbytes (mf_n_bits mf) \<le> nbytes (tm_match_field_nbits meta)"
      using assms(2) by (auto simp: meta_wf_def layout_ok_def field_ok_def)
    then have "tm_match_field_nbits meta \<noteq> 0" using nbytes_bits [of "mf_n_bits mf"] by (cases "tm_match_field_nbits meta") auto
    then have "mask_fits ?e ms (mc_mat_key_fields ctx)"
      using assms(2,3) by (auto simp: mask_fits_def zero_entry_def meta_wf_def spec_room_def)
    then show ?thesis
      by (rule encode_fields_spec [OF fit, rotated]) (use assms(2) in \<open>auto simp: meta_wf_def\<close>)
  qed
  with st assms(2) show ?thesis
    by (auto simp: pipe_mgr_dpdk_encode_match_key_and_mask_def wp_simps meta_wf_def keyed_entry_def Let_def
        elim!: wp_conseq)
qed

text \<open>Every match field of the key: the bytes at its offset are those of the client, in the order that
  the field needs, and so for the mask.\<close>

lemma key_writes_mem:
  "i < length mfs \<Longrightarrow> (field_offset fo (mfs ! i),
     field_bytes (mfs ! i) (drop (index + sum_list (map (\<lambda>m. nbytes (mf_n_bits m)) (take i mfs))) bits))
   \<in> set (key_writes fo bits index mfs)"
proof (induction mfs arbitrary: index i)
  case (Cons m mfs)
  show ?case
  proof (cases i)
    case (Suc j)
    with Cons.IH [of j "index + nbytes (mf_n_bits m)"] Cons.prems show ?thesis by (simp add: add.assoc)
  qed simp
qed simp

lemma key_writes_fit:
  "fields_fit fo K B index mfs \<Longrightarrow> w \<in> set (key_writes fo bits index mfs) \<Longrightarrow> fst w + length (snd w) \<le> K"
  by (induction mfs arbitrary: index) (auto simp: length_field_bytes)

lemma keyed_entry_field:
  assumes "meta_wf ctx meta" "spec_room meta ms" "i < length (tm_mf meta)"
  shows "take (nbytes (mf_n_bits (tm_mf meta ! i))) (drop (field_offset (tm_first_offset meta) (tm_mf meta ! i))
      (te_key (keyed_entry ctx meta ms))) =
    field_bytes (tm_mf meta ! i)
      (drop (sum_list (map (\<lambda>m. nbytes (mf_n_bits m)) (take i (tm_mf meta)))) (match_value_bits ms))"
proof -
  let ?fo = "tm_first_offset meta" and ?mfs = "tm_mf meta" and ?K = "nbytes (tm_match_field_nbits meta)"
  let ?ws = "key_writes ?fo (match_value_bits ms) 0 ?mfs"
  have ok: "\<forall>mf \<in> set ?mfs. field_ok mf" "\<forall>mf \<in> set ?mfs. ?fo \<le> mf_offset mf" "layout_ok ?mfs"
    using assms(1) by (auto simp: meta_wf_def layout_ok_def)
  have "fields_fit ?fo ?K (length (match_value_bits ms)) 0 ?mfs"
    using assms(1,2) ok by (intro wf_fields_fit) (auto simp: meta_wf_def spec_room_def)
  then have "\<forall>w \<in> set ?ws. fst w + length (snd w) \<le> length (replicate ?K (0 :: u8))"
    using key_writes_fit by fastforce
  from apply_writes_slice [OF key_writes_disjoint [OF ok(3,2)] this key_writes_mem [OF assms(3), where index = 0]]
  show ?thesis
    using ok(1) assms(3) by (simp add: keyed_entry_def Let_def zero_entry_def length_field_bytes)
qed

section \<open>Actions\<close>

text \<open>Action data that can be encoded: the arguments found by name lie inside both buffers.\<close>

fun args_fit ::
  "pipe_mgr_dpdk_immediate_fields list \<Rightarrow> nat \<Rightarrow> nat \<Rightarrow> nat \<Rightarrow> rte_swx_ctl_action_arg_info list \<Rightarrow> bool" where
  "args_fit imms B D off [] = True"
| "args_fit imms B D off (arg # args) = (case find (\<lambda>im. param_name im = arg_name arg) imms of
     None \<Rightarrow> True
   | Some im \<Rightarrow> nbytes (dest_width im) = nbytes (arg_n_bits arg) \<longrightarrow>
       0 < arg_n_bits arg \<and> arg_n_bits arg \<le> 64 \<and> dest_start im + nbytes (dest_width im) \<le> B \<and>
       off + nbytes (dest_width im) \<le> D \<and> args_fit imms B D (off + nbytes (dest_width im)) args)"

lemma wp_encode_arg:
  assumes "0 < n" "n \<le> 64" "nb = nbytes n" "off + nb \<le> length bits" "aoff + nb \<le> length (te_action_data e)"
  shows "wp (encode_arg bits off n nb aoff e) (\<lambda>e' t. t = s \<and> te_key e' = te_key e \<and> te_key_mask e' = te_key_mask e \<and>
    te_key_priority e' = te_key_priority e \<and> te_action_id e' = te_action_id e \<and>
    length (te_action_data e') = length (te_action_data e)) s"
  using assms nbytes_le [of n]
  by (simp add: encode_arg_def field_hton_def guard_c_def wp_simps memcpy_def)

text \<open>Entries with the same key.\<close>

definition same_key :: "rte_swx_table_entry \<Rightarrow> rte_swx_table_entry \<Rightarrow> bool" where
  "same_key e' e \<longleftrightarrow> te_key e' = te_key e \<and> te_key_mask e' = te_key_mask e \<and> te_key_priority e' = te_key_priority e"

lemma encode_args_spec:
  "args_fit imms (length bits) (length (te_action_data e)) off args \<Longrightarrow>
   wp (encode_args imms bits off args e) (\<lambda>(st, e') t. t = s \<and> same_key e' e \<and> te_action_id e' = te_action_id e) s"
proof (induction args arbitrary: off e)
  case (Cons a args)
  show ?case
  proof (cases "find (\<lambda>im. param_name im = arg_name a) imms")
    case (Some im)
    show ?thesis
    proof (cases "nbytes (dest_width im) = nbytes (arg_n_bits a)")
      case True
      with Cons.prems Some have fit: "0 < arg_n_bits a" "arg_n_bits a \<le> 64"
          "dest_start im + nbytes (dest_width im) \<le> length bits"
          "off + nbytes (dest_width im) \<le> length (te_action_data e)"
          "args_fit imms (length bits) (length (te_action_data e)) (off + nbytes (dest_width im)) args" by auto
      have "wp (encode_arg bits (dest_start im) (arg_n_bits a) (nbytes (dest_width im)) off e)
        (\<lambda>e'. wp (encode_args imms bits (off + nbytes (dest_width im)) args e')
          (\<lambda>(st, e') t. t = s \<and> same_key e' e \<and> te_action_id e' = te_action_id e)) s"
        by (rule wp_conseq [OF wp_encode_arg [OF fit(1,2) True fit(3,4)]])
          (use fit(5) in \<open>auto simp: same_key_def intro!: wp_conseq [OF Cons.IH]\<close>)
      with True Some show ?thesis by (simp add: wp_simps)
    qed (simp add: Some wp_simps same_key_def)
  qed (simp add: wp_simps same_key_def)
qed (simp add: wp_simps same_key_def)

text \<open>An action that can be encoded into an entry of a table.\<close>

definition act_room :: "pipe_mgr_mat_ctx \<Rightarrow> dal_dpdk_table_metadata \<Rightarrow> u32 \<Rightarrow> pipe_action_spec \<Rightarrow> bool" where
  "act_room ctx meta act ads \<longleftrightarrow>
     (if pipe_action_datatype_bmap ads = PIPE_ACTION_DATA_TYPE then
        (case Option.bind (mc_match_stage_table ctx) (\<lambda>st. cbuf_list (st_act_fmt st)) of
           None \<Rightarrow> False
         | Some fmts \<Rightarrow> (case find (\<lambda>f. af_action_handle f = act) fmts of
             None \<Rightarrow> True
           | Some f \<Rightarrow> (case cbuf_list (af_arg_info f) of
               None \<Rightarrow> False
             | Some args \<Rightarrow> af_n_args f \<le> length args \<and>
                 args_fit (af_immediate_field f) (length (action_data_bits (act_data ads)))
                   (nbytes (tm_action_data_size meta)) 0 (take (af_n_args f) args))))
      else if pipe_action_datatype_bmap ads = PIPE_SEL_GRP_HDL_TYPE \<or>
        pipe_action_datatype_bmap ads = PIPE_ACTION_DATA_HDL_TYPE
      then 4 \<le> nbytes (tm_action_data_size meta)
      else True)"

section \<open>The calls\<close>

text \<open>A table that is set up: its metadata is there and well formed, and its pipeline exists.\<close>

definition dal_table_ok ::
  "pipe_mgr_mat_ctx \<Rightarrow> dal_dpdk_table_metadata \<Rightarrow> pipeline \<Rightarrow> ptr \<Rightarrow> ('m, 'i, 'h) world \<Rightarrow> bool" where
  "dal_table_ok ctx meta pl tbl s \<longleftrightarrow> mat_ctx_of tbl s = Some ctx \<and> ctx_meta ctx = Some meta \<and> meta_wf ctx meta \<and>
     pipe_obj (tm_pipe meta) s = Some pl \<and>
     (pipe_mgr_ctx_obj s \<noteq> NULL \<longrightarrow> w_ctxs s (pipe_mgr_ctx_obj s) \<noteq> None)"

text \<open>The format that \<^verbatim>\<open>pipe_mgr_ctx_dpdk_get_act_fmt\<close> finds.\<close>

definition fmt_of :: "pipe_mgr_mat_ctx \<Rightarrow> u32 \<Rightarrow> pipe_action_spec \<Rightarrow> pipe_mgr_dpdk_action_format option" where
  "fmt_of ctx act ads = (if pipe_action_datatype_bmap ads = PIPE_ACTION_DATA_TYPE
     then Option.bind (mc_match_stage_table ctx) (\<lambda>st. Option.bind (cbuf_list (st_act_fmt st))
       (find (\<lambda>f. af_action_handle f = act))) else None)"

lemma wp_act_fmt:
  assumes "mat_ctx_of tbl s = Some ctx" "act_room ctx meta act ads"
  shows "wp (dal_act_fmt tbl act ads) Q s =
    Q (if pipe_action_datatype_bmap ads = PIPE_ACTION_DATA_TYPE \<and> fmt_of ctx act ads = None
       then (BF_OBJECT_NOT_FOUND, None) else (BF_SUCCESS, fmt_of ctx act ads)) s"
  using assms
  by (auto simp: dal_act_fmt_def act_room_def fmt_of_def pipe_mgr_ctx_dpdk_get_act_fmt_def wp_simps
      split: option.splits)

lemma wp_table_meta:
  assumes "dal_table_ok ctx meta pl tbl s"
  shows "wp (dal_table_meta E tgt tbl ctx) (\<lambda>st t. t = s \<and> st \<in> {BF_SUCCESS, BF_OBJECT_NOT_FOUND}) s"
  using assms
  by (auto simp: dal_table_ok_def dal_table_meta_def pipe_mgr_get_profile_def wp_simps ctx_meta_def bind_eq_Some_conv)

definition entry_ready where
  "entry_ready ctx meta pl act ads s = (\<lambda>(st, p) t. (\<exists>c. t = s\<lparr>os_clk := c\<rparr>) \<and>
     (case p of
        None \<Rightarrow> st \<noteq> BF_SUCCESS
      | Some (ctx', pl', fmt, e) \<Rightarrow> st = BF_SUCCESS \<and> ctx' = ctx \<and> pl' = pl \<and> fmt = fmt_of ctx act ads \<and>
          e = zero_entry meta (tm_match_type meta) \<and>
          (pipe_action_datatype_bmap ads = PIPE_ACTION_DATA_TYPE \<longrightarrow> fmt \<noteq> None)))"

lemma mat_ctx_of_clk [simp]: "mat_ctx_of tbl (s\<lparr>os_clk := c\<rparr>) = mat_ctx_of tbl s"
  by (simp add: mat_ctx_of_def)

lemma entry_new_spec:
  assumes ok: "dal_table_ok ctx meta pl tbl s" and act: "act_room ctx meta act ads"
    "pipe_action_datatype_bmap ads = PIPE_ACTION_DATA_TYPE \<longrightarrow> fmt_of ctx act ads \<noteq> None"
  shows "wp (dal_entry_new E tbl act ads) (entry_ready ctx meta pl act ads s) s"
proof -
  have ctx: "mat_ctx_of tbl s = Some ctx" "ctx_meta ctx = Some meta" "pipe_obj (tm_pipe meta) s = Some pl"
    using ok by (auto simp: dal_table_ok_def)
  then have clk: "mat_ctx_of tbl (s\<lparr>os_clk := c\<rparr>) = Some ctx" for c by simp
  have "wp (dal_dpdk_table_entry_alloc E meta (tm_match_type meta)) (\<lambda>r. wp
      (case r of (status, entry) \<Rightarrow>
         if status \<noteq> BF_SUCCESS then ret (BF_NO_SPACE, None)
         else do { (status, act_fmt) \<leftarrow> dal_act_fmt tbl act ads; ret (BF_SUCCESS, Some (ctx, pl, act_fmt, entry)) })
      (entry_ready ctx meta pl act ads s)) s"
    by (rule wp_conseq [OF wp_entry_alloc])
      (use act in \<open>auto simp: wp_simps wp_act_fmt [OF clk act(1)] entry_ready_def\<close>)
  with ctx show ?thesis
    by (auto simp: dal_entry_new_def wp_deref wp_bind wp_return entry_ready_def intro: exI [of _ "os_clk s"])
qed

lemma prepare_spec:
  assumes ok: "dal_table_ok ctx meta pl tbl s" and act: "act_room ctx meta act ads"
  shows "wp (dal_entry_prepare E tgt tbl act ads) (entry_ready ctx meta pl act ads s) s"
proof -
  have ctx: "mat_ctx_of tbl s = Some ctx" using ok by (auto simp: dal_table_ok_def)
  have meta: "wp (dal_table_meta E tgt tbl ctx) (\<lambda>st. wp
      (if st \<noteq> BF_SUCCESS then ret (st, None) else dal_entry_new E tbl act ads)
      (entry_ready ctx meta pl act ads s)) s"
    if "pipe_action_datatype_bmap ads = PIPE_ACTION_DATA_TYPE \<longrightarrow> fmt_of ctx act ads \<noteq> None"
    by (rule wp_conseq [OF wp_table_meta [OF ok]])
      (use entry_new_spec [OF ok act that] in \<open>auto simp: wp_return entry_ready_def intro: exI [of _ "os_clk s"]\<close>)
  then show ?thesis
    using ctx by (auto simp: dal_entry_prepare_def wp_deref wp_bind wp_return wp_act_fmt [OF ctx act]
        entry_ready_def intro: exI [of _ "os_clk s"])
qed

text \<open>The action goes into the entry without a fault, and the key stays.\<close>

lemma get_action_id_pure:
  "pipe_obj pipe s \<noteq> None \<Longrightarrow> wp (get_action_id E pipe nm) (\<lambda>_ t. t = s) s"
  by (auto simp: get_action_id_def wp_simps split: option.split prod.split)

lemma encode_hdl_spec:
  assumes "pipe_obj pipe s \<noteq> None" "4 \<le> length (te_action_data e)"
  shows "wp (encode_hdl_action E nm pipe hdl e) (\<lambda>(st, e') t. t = s \<and> same_key e' e) s"
  unfolding encode_hdl_action_def wp_bind
  by (rule wp_conseq [OF get_action_id_pure [OF assms(1)]])
    (use assms(2) in \<open>auto simp: wp_simps Let_def same_key_def memcpy_def guard_c_def\<close>)

lemma encode_action_spec:
  assumes ok: "dal_table_ok ctx meta pl tbl s" and act: "act_room ctx meta act ads"
    "pipe_action_datatype_bmap ads = PIPE_ACTION_DATA_TYPE \<longrightarrow> fmt_of ctx act ads \<noteq> None"
    and e: "length (te_action_data e) = nbytes (tm_action_data_size meta)"
  shows "wp (dal_encode_action E ctx (fmt_of ctx act ads) ads e) (\<lambda>(st, e') t. t = s \<and> same_key e' e) s"
proof -
  have meta: "ctx_meta ctx = Some meta" "pipe_obj (tm_pipe meta) s \<noteq> None"
    using ok by (auto simp: dal_table_ok_def)
  let ?post = "\<lambda>(st, e') t. t = s \<and> same_key e' e" and ?bmap = "pipe_action_datatype_bmap ads"
  have data: "wp (pipe_mgr_dpdk_encode_action_data f (action_data_bits (act_data ads)) e) ?post s"
    if "?bmap = PIPE_ACTION_DATA_TYPE" "fmt_of ctx act ads = Some f" for f
  proof -
    from that act(1) obtain args where args: "cbuf_list (af_arg_info f) = Some args" "af_n_args f \<le> length args"
      "args_fit (af_immediate_field f) (length (action_data_bits (act_data ads)))
         (nbytes (tm_action_data_size meta)) 0 (take (af_n_args f) args)"
      by (auto simp: act_room_def fmt_of_def bind_eq_Some_conv split: option.splits)
    show ?thesis
      using args e encode_args_spec [of "af_immediate_field f" "action_data_bits (act_data ads)"
          "e\<lparr>te_action_id := ucast (af_action_id f)\<rparr>" 0 "take (af_n_args f) args" s]
      by (auto simp: pipe_mgr_dpdk_encode_action_data_def wp_simps same_key_def elim!: wp_conseq)
  qed
  have hdl: "wp (encode_hdl_action E nm (tm_pipe meta) h e) ?post s"
    if "?bmap = PIPE_SEL_GRP_HDL_TYPE \<or> ?bmap = PIPE_ACTION_DATA_HDL_TYPE" for nm h
    by (rule encode_hdl_spec [OF meta(2)]) (use that act(1) e in \<open>auto simp: act_room_def split: if_splits\<close>)
  show ?thesis
    using meta(1) act(2) data hdl
    by (auto simp: dal_encode_action_def wp_deref wp_return same_key_def pipe_mgr_dpdk_encode_sel_action_def
        pipe_mgr_dpdk_encode_member_id_def split: option.split)
qed

text \<open>The trace of a change and its commit.\<close>

definition commit_trace :: "rte_call \<Rightarrow> ptr \<Rightarrow> bf_status \<Rightarrow> (rte_call \<times> int) list \<Rightarrow> bool" where
  "commit_trace call ctl st tr \<longleftrightarrow>
     (if st = BF_SUCCESS then tr = [(call, 0), (Commit ctl, 0)]
      else \<exists>rc. rc \<noteq> 0 \<and> (tr = [(call, rc)] \<or> tr = [(call, 0), (Commit ctl, rc)]))"

lemma commit_spec:
  "wp (dal_commit E ctl call) (\<lambda>st t. os_fault t = os_fault s \<and>
     (\<exists>tr. w_rte t = w_rte s @ tr \<and> commit_trace call ctl st tr)) s"
  by (auto simp: dal_commit_def wp_simps commit_trace_def)

text \<open>What a call that changes one entry sends: nothing when it fails early, else the change and the
  commit.\<close>

definition sends :: "(rte_swx_table_entry \<Rightarrow> rte_call) \<Rightarrow> ptr \<Rightarrow> (rte_swx_table_entry \<Rightarrow> bool) \<Rightarrow>
   ('m, 'i, 'h) world \<Rightarrow> bf_status \<Rightarrow> ('m, 'i, 'h) world \<Rightarrow> bool" where
  "sends call ctl P s st t \<longleftrightarrow> os_fault t = os_fault s \<and>
     (st \<noteq> BF_SUCCESS \<and> w_rte t = w_rte s \<or>
      (\<exists>e tr. P e \<and> w_rte t = w_rte s @ tr \<and> commit_trace (call e) ctl st tr))"

lemma sends_nothing:
  "st \<noteq> BF_SUCCESS \<Longrightarrow> w_rte t = w_rte s \<Longrightarrow> os_fault t = os_fault s \<Longrightarrow> sends call ctl P s st t"
  by (simp add: sends_def)

lemma sends_commit:
  assumes "P e" "w_rte s = w_rte u" "os_fault s = os_fault u"
  shows "wp (dal_commit E ctl (call e)) (sends call ctl P u) s"
  by (rule wp_conseq [OF commit_spec]) (use assms in \<open>auto simp: sends_def\<close>)

lemma dal_table_ok_clk [simp]: "dal_table_ok ctx meta pl tbl (s\<lparr>os_clk := c\<rparr>) = dal_table_ok ctx meta pl tbl s"
  by (simp add: dal_table_ok_def pipe_obj_def)

text \<open>From the encoded key on.\<close>

lemma action_then_commit:
  assumes ok: "dal_table_ok ctx meta pl tbl s" and act: "act_room ctx meta act ads"
    "pipe_action_datatype_bmap ads = PIPE_ACTION_DATA_TYPE \<longrightarrow> fmt_of ctx act ads \<noteq> None"
    and e: "length (te_action_data e) = nbytes (tm_action_data_size meta)"
    and s: "w_rte s = w_rte u" "os_fault s = os_fault u"
  shows "wp (dal_encode_action E ctx (fmt_of ctx act ads) ads e) (\<lambda>r. wp
      (case r of (st, e) \<Rightarrow> if st \<noteq> BF_SUCCESS then ret st else dal_commit E ctl (call e))
      (sends call ctl (\<lambda>e'. same_key e' e) u)) s"
  by (rule wp_conseq [OF encode_action_spec [OF ok act e]])
    (use s in \<open>auto simp: wp_return intro!: sends_nothing sends_commit\<close>)

lemma ent_add_spec:
  assumes ok: "dal_table_ok ctx meta pl tbl s" and act: "act_room ctx meta act ads" and ms: "spec_room meta ms"
  shows "wp (dal_table_ent_add E tgt ms act ads tbl)
    (sends (TableEntryAdd (pl_ctl pl) (mc_target_table_name ctx)) (pl_ctl pl)
      (\<lambda>e. same_key e (keyed_entry ctx meta ms)) s) s"
  unfolding dal_table_ent_add_def wp_bind
proof (rule wp_conseq [OF prepare_spec [OF ok act]], goal_cases)
  case (1 r t)
  then obtain c where t: "t = s\<lparr>os_clk := c\<rparr>" by (auto simp: entry_ready_def split: prod.splits)
  show ?case
  proof (cases "snd r")
    case None
    with 1 t show ?thesis
      by (auto simp: entry_ready_def wp_return intro!: sends_nothing split: prod.splits)
  next
    case (Some p)
    with 1 have r: "r = (BF_SUCCESS, Some (ctx, pl, fmt_of ctx act ads, zero_entry meta (tm_match_type meta)))"
      "pipe_action_datatype_bmap ads = PIPE_ACTION_DATA_TYPE \<longrightarrow> fmt_of ctx act ads \<noteq> None"
      by (auto simp: entry_ready_def split: prod.splits)
    have ok': "dal_table_ok ctx meta pl tbl t" using ok t by simp
    have wf: "ctx_meta ctx = Some meta" "meta_wf ctx meta" using ok by (auto simp: dal_table_ok_def)
    have len: "length (te_action_data (keyed_entry ctx meta ms)) = nbytes (tm_action_data_size meta)"
      by (simp add: keyed_entry_def zero_entry_def Let_def)
    show ?thesis
      unfolding r(1) prod.case option.case wp_bind
      by (rule wp_conseq [OF encode_key_spec [OF wf ms]])
        (use t in \<open>auto simp: wp_bind intro!: action_then_commit [OF ok' [unfolded t] act r(2) len, where u = s]\<close>)
  qed
qed

lemma default_ent_add_spec:
  assumes ok: "dal_table_ok ctx meta pl tbl s" and act: "act_room ctx meta act ads"
  shows "wp (dal_table_default_ent_add E tgt act ads tbl)
    (sends (TableDefaultEntryAdd (pl_ctl pl) (mc_name ctx)) (pl_ctl pl)
      (\<lambda>e. same_key e (zero_entry meta (tm_match_type meta))) s) s"
  unfolding dal_table_default_ent_add_def wp_bind
proof (rule wp_conseq [OF prepare_spec [OF ok act]], goal_cases)
  case (1 r t)
  then obtain c where t: "t = s\<lparr>os_clk := c\<rparr>" by (auto simp: entry_ready_def split: prod.splits)
  show ?case
  proof (cases "snd r")
    case None
    with 1 t show ?thesis
      by (auto simp: entry_ready_def wp_return intro!: sends_nothing split: prod.splits)
  next
    case (Some p)
    with 1 have r: "r = (BF_SUCCESS, Some (ctx, pl, fmt_of ctx act ads, zero_entry meta (tm_match_type meta)))"
      "pipe_action_datatype_bmap ads = PIPE_ACTION_DATA_TYPE \<longrightarrow> fmt_of ctx act ads \<noteq> None"
      by (auto simp: entry_ready_def split: prod.splits)
    have ok': "dal_table_ok ctx meta pl tbl t" using ok t by simp
    have len: "length (te_action_data (zero_entry meta (tm_match_type meta))) = nbytes (tm_action_data_size meta)"
      by (simp add: zero_entry_def)
    show ?thesis
      unfolding r(1) prod.case option.case wp_bind
      by (rule action_then_commit [OF ok' act r(2) len]) (simp_all add: t)
  qed
qed

lemma ent_del_spec:
  assumes ok: "dal_table_ok ctx meta pl tbl s" and ms: "spec_room meta ms"
  shows "wp (dal_table_ent_del_by_match_spec E ms tbl)
    (sends (TableEntryDelete (pl_ctl pl) (mc_name ctx)) (pl_ctl pl) (\<lambda>e. e = keyed_entry ctx meta ms) s) s"
proof -
  have ctx: "mat_ctx_of tbl s = Some ctx" "ctx_meta ctx = Some meta" "meta_wf ctx meta"
      "pipe_obj (tm_pipe meta) s = Some pl" using ok by (auto simp: dal_table_ok_def)
  from ctx(2) obtain st where st: "mc_match_stage_table ctx = Some st" "st_table_meta st = Some meta"
    by (auto simp: ctx_meta_def bind_eq_Some_conv)
  have "wp (dal_dpdk_table_entry_alloc E meta (tm_match_type meta)) (\<lambda>r. wp (case r of (st, e) \<Rightarrow>
        if st \<noteq> BF_SUCCESS then ret BF_NO_SPACE
        else do {
          (st, e) \<leftarrow> pipe_mgr_dpdk_encode_match_key_and_mask ctx ms e;
          if st \<noteq> BF_SUCCESS then ret BF_UNEXPECTED
          else dal_commit E (pl_ctl pl) (TableEntryDelete (pl_ctl pl) (mc_name ctx) e) })
      (sends (TableEntryDelete (pl_ctl pl) (mc_name ctx)) (pl_ctl pl) (\<lambda>e. e = keyed_entry ctx meta ms) s)) s"
    by (rule wp_conseq [OF wp_entry_alloc])
      (auto simp: wp_bind wp_return intro!: sends_nothing wp_conseq [OF encode_key_spec [OF ctx(2,3) ms]] sends_commit)
  with ctx st show ?thesis
    by (auto simp: dal_table_ent_del_by_match_spec_def wp_deref wp_bind wp_return intro!: sends_nothing)
qed

section \<open>Where the metadata comes from\<close>

text \<open>The documented layout of a table of the data plane: its match fields are whole bytes of at most
  eight bytes each, at byte offsets, and do not overlap.\<close>

definition swx_layout_ok :: "('m, 'i, 'h, 'z) dpdk_scheme \<Rightarrow> bool" where
  "swx_layout_ok E \<longleftrightarrow> (\<forall>p tid nm na mfs. r_table_info E p tid = (0, nm, length mfs, na) \<longrightarrow>
     (\<forall>i < length mfs. r_match_field_info E p tid i = (0, mfs ! i)) \<longrightarrow> layout_ok mfs)"

text \<open>The key fields that the context file announces.\<close>

definition key_fields_ok :: "pipe_mgr_mat_ctx \<Rightarrow> bool" where
  "key_fields_ok ctx \<longleftrightarrow> mc_mat_key_fields_count ctx \<le> length (mc_mat_key_fields ctx) \<and>
     (\<forall>kf \<in> set (mc_mat_key_fields ctx). kf_match_type kf = PIPE_MGR_MATCH_TYPE_EXACT \<or>
        kf_match_type kf = PIPE_MGR_MATCH_TYPE_LPM \<or> kf_match_type kf = PIPE_MGR_MATCH_TYPE_TERNARY)"

text \<open>Metadata that is well formed but for the match type and the size of the action data.\<close>

definition fields_wf :: "dal_dpdk_table_metadata \<Rightarrow> bool" where
  "fields_wf meta \<longleftrightarrow> length (tm_mf meta) = tm_n_match_fields meta \<and> layout_ok (tm_mf meta) \<and>
     (\<forall>mf \<in> set (tm_mf meta). tm_first_offset meta \<le> mf_offset mf \<and>
        field_offset (tm_first_offset meta) mf + nbytes (mf_n_bits mf) \<le> nbytes (tm_match_field_nbits meta))"

lemma match_type_exact:
  assumes "meta_match_type kfs = Some PIPE_MGR_MATCH_TYPE_EXACT"
    "\<forall>kf \<in> set kfs. kf_match_type kf = PIPE_MGR_MATCH_TYPE_EXACT \<or>
      kf_match_type kf = PIPE_MGR_MATCH_TYPE_LPM \<or> kf_match_type kf = PIPE_MGR_MATCH_TYPE_TERNARY"
    "kf \<in> set kfs"
  shows "kf_match_type kf = PIPE_MGR_MATCH_TYPE_EXACT"
proof (cases kfs)
  case (Cons k ks)
  let ?P = "\<lambda>k. kf_match_type k = PIPE_MGR_MATCH_TYPE_LPM \<or> kf_match_type k = PIPE_MGR_MATCH_TYPE_TERNARY"
  have "find ?P kfs = None"
  proof (cases "find ?P kfs")
    case (Some x)
    then have "?P x" by (auto simp: find_Some_iff)
    with assms(1) Some Cons show ?thesis by (auto split: option.splits)
  qed
  with assms(2,3) show ?thesis by (auto simp: find_None_iff)
qed (use assms in simp)

lemma fields_meta_wf:
  assumes "fields_wf meta" "key_fields_ok ctx" "tm_n_match_fields meta = mc_mat_key_fields_count ctx"
    "meta_match_type (mc_mat_key_fields ctx) = Some mt"
  shows "meta_wf ctx (meta\<lparr>tm_match_type := mt, tm_action_data_size := sz\<rparr>)"
  using assms match_type_exact [of "mc_mat_key_fields ctx"]
  by (auto simp: fields_wf_def meta_wf_def key_fields_ok_def)

lemma get_table_id_pure:
  "wp (get_table_id E pipe nm) (\<lambda>tid t. w_mats t = w_mats s \<and> w_pipes t = w_pipes s \<and>
    (tid \<noteq> UINT32_MAX \<longrightarrow> pipe_obj pipe s \<noteq> None \<and> t = s)) s"
  by (auto simp: get_table_id_def wp_simps split: option.split prod.split)

lemma query_wf:
  assumes "swx_layout_ok E"
  shows "wp (metadata_query E pn tn) (\<lambda>(st, q) t. w_mats t = w_mats s \<and> w_pipes t = w_pipes s \<and>
    (case q of None \<Rightarrow> st \<noteq> BF_SUCCESS
     | Some (p, meta) \<Rightarrow> st = BF_SUCCESS \<and> fields_wf meta \<and> pipe_obj (tm_pipe meta) s \<noteq> None)) s"
proof -
  have fl: "fields_wf meta"
    if "field_loop (r_match_field_info E p tid) [0..<n] (0, 0, 0, []) = Some (mn, mx, ab, mfs)"
      "r_table_info E p tid = (0, nm, n, na)" "tm_n_match_fields meta = n" "tm_mf meta = mfs"
      "tm_first_offset meta = mn" "tm_match_field_nbits meta = mx - mn + ab" for p tid nm n na mn mx ab mfs meta
  proof -
    note span = field_loop_span [OF that(1)]
    then have "length mfs = n" "\<forall>i < length mfs. r_match_field_info E p tid i = (0, mfs ! i)"
      by (auto simp: span_inv_def)
    with that(2) assms have "layout_ok mfs" by (auto simp: swx_layout_ok_def)
    with span_fits [OF span this] show ?thesis
      using \<open>length mfs = n\<close> that(3-6) by (auto simp: fields_wf_def)
  qed
  show ?thesis
    unfolding metadata_query_def wp_bind wp_if allocate_def wp_tick wp_return wp_pipeline_find
    by (auto intro!: wp_conseq [OF get_table_id_pure] split: option.split prod.split
        simp: wp_simps table_match_field_info_def allocate_def pipe_obj_def) (erule (1) fl, simp_all)
qed

lemma keeps_fill [keeps_intros]:
  "keeps (\<lambda>s. (w_mats s, w_pipes s)) (get_action_id E pipe nm)"
  "keeps (\<lambda>s. (w_mats s, w_pipes s)) (fill_act_fmt E pipe p action f)"
  by (auto simp: get_action_id_def fill_act_fmt_def allocate_def Let_def intro!: keeps_intros)

lemma keeps_free [keeps_intros]:
  "keeps (\<lambda>s. (w_mats s, w_pipes s)) (free_buf b)" "keeps (\<lambda>s. (w_mats s, w_pipes s)) (free_arg_infos fs)"
proof -
  show buf: "keeps (\<lambda>s. (w_mats s, w_pipes s)) (free_buf b)" for b :: "'x cbuf"
    by (cases b) (auto intro!: keeps_intros)
  show "keeps (\<lambda>s. (w_mats s, w_pipes s)) (free_arg_infos fs)"
    by (induction fs) (auto intro!: keeps_intros buf)
qed

lemma keeps_mat_args [keeps_intros]:
  "keeps (\<lambda>s. (w_mats s, w_pipes s)) (mat_args_loop E pipe p n filled fmts actions sz)"
  by (induction E pipe p n filled fmts actions sz rule: mat_args_loop.induct) (auto intro!: keeps_intros)

text \<open>The metadata of the result differs in the size of the action data only.\<close>

lemma mat_args_info_wf:
  "wp (mat_action_args_info E p meta ctx st) (\<lambda>(r, meta', st') t. w_mats t = w_mats s \<and> w_pipes t = w_pipes s \<and>
    meta' = meta\<lparr>tm_action_data_size := tm_action_data_size meta'\<rparr>) s"
  by (auto simp: mat_action_args_info_def wp_simps split: option.split
      intro!: wp_conseq [OF keeps_wp [OF keeps_mat_args]])

lemma metadata_get_wf:
  assumes "swx_layout_ok E" and ctx: "mat_ctx_of tbl s = Some ctx" "key_fields_ok ctx"
  shows "wp (dal_dpdk_table_metadata_get E tbl PIPE_MGR_TABLE_TYPE_MAT pn tn) (\<lambda>st t. st = BF_SUCCESS \<longrightarrow>
    (\<exists>ctx' meta pl. mat_ctx_of tbl t = Some ctx' \<and> ctx_meta ctx' = Some meta \<and> meta_wf ctx' meta \<and>
       pipe_obj (tm_pipe meta) t = Some pl)) s"
proof -
  let ?post = "\<lambda>st t. st = BF_SUCCESS \<longrightarrow> (\<exists>ctx' meta pl. mat_ctx_of tbl t = Some ctx' \<and> ctx_meta ctx' = Some meta \<and>
    meta_wf ctx' meta \<and> pipe_obj (tm_pipe meta) t = Some pl)"
  have fill: "wp (mat_action_args_info E p (meta\<lparr>tm_match_type := mt\<rparr>) ctx stg) (\<lambda>(st, meta, stg). wp (do {
        set_stage PIPE_MGR_TABLE_TYPE_MAT tbl (if st \<noteq> BF_SUCCESS then stg else stg\<lparr>st_table_meta := Some meta\<rparr>);
        ret st }) ?post) t"
    if "w_mats t = w_mats s" "w_pipes t = w_pipes s" "fields_wf meta" "pipe_obj (tm_pipe meta) s \<noteq> None"
      "tm_n_match_fields meta = mc_mat_key_fields_count ctx" "meta_match_type (mc_mat_key_fields ctx) = Some mt"
    for t p meta mt stg
  proof (rule wp_conseq [OF mat_args_info_wf], goal_cases)
    case (1 r u)
    obtain st meta' stg' where r: "r = (st, meta', stg')" by (cases r) auto
    have "meta_wf ctx meta'" using 1 r fields_meta_wf [OF that(3) ctx(2) that(5,6), of "tm_action_data_size meta'"] by simp
    moreover have "tm_pipe meta' = tm_pipe meta" using 1 r by (cases meta') auto
    ultimately show ?case
      using 1 r that ctx(1)
      by (auto simp: wp_simps set_stage_def upd_ctx_def mat_ctx_of_def ctx_meta_def meta_wf_def pipe_obj_def)
  qed
  have query: "wp (metadata_query E pn tn) (\<lambda>x. wp (case x of (st, q) \<Rightarrow> case q of
        None \<Rightarrow> ret st
      | Some (p, meta) \<Rightarrow>
          if tm_n_match_fields meta \<noteq> mc_mat_key_fields_count ctx then ret BF_UNEXPECTED
          else deref (\<lambda>_. meta_match_type (mc_mat_key_fields ctx)) BF_UNEXPECTED (\<lambda>mt. do {
            (st, meta, stg) \<leftarrow> mat_action_args_info E p (meta\<lparr>tm_match_type := mt\<rparr>) ctx stg;
            set_stage PIPE_MGR_TABLE_TYPE_MAT tbl (if st \<noteq> BF_SUCCESS then stg else stg\<lparr>st_table_meta := Some meta\<rparr>);
            ret st })) ?post) s" for stg
    by (rule wp_conseq [OF query_wf [OF assms(1)]])
      (auto simp: wp_deref wp_return wp_bind case_prod_beta split: option.split
        intro!: wp_conseq [OF fill [simplified wp_bind case_prod_beta]])
  with ctx(1) show ?thesis
    by (auto simp: dal_dpdk_table_metadata_get_def wp_deref wp_bind wp_return stage_of_def split: option.split)
qed

end
