(* ===== verification/Bracket.thy ===== *)
theory Bracket
  imports Device
begin

text \<open>
  The bracket of the public calls when it succeeds: a live session, a valid target and free locks. The
  work of a call then runs in a state that differs from that of its caller in the clock and the locks
  only, and afterwards the locks are those of the caller.
\<close>

definition api_ready ::
  "('m, 'i, 'h, 'z) ext_scheme \<Rightarrow> nat \<Rightarrow> bf_dev_target \<Rightarrow> ('m, 'i, 'h) world \<Rightarrow> bool" where
  "api_ready E h tgt s \<longleftrightarrow> locks_ok E \<and> h \<in> live_sessions s \<and>
     take_shared (os_locks s PIPE_MGR_LOCK) \<noteq> None \<and> os_locks s (SESS_LOCK h) = Free \<and>
     (let d = dev_of E s (device_id tgt) in d \<noteq> NULL \<and>
        take_shared (os_locks s (PROF_LOCK d (dev_pipe_id tgt))) \<noteq> None \<and>
        (case w_devs s d of None \<Rightarrow> False
         | Some dev \<Rightarrow> dev_pipe_id tgt < length (pd_profiles dev) \<and> dev_pipe_id tgt < pd_num_pipeline_profiles dev))"

lemma dev_of_os [simp]:
  "dev_of E (s\<lparr>os_clk := c\<rparr>) d = dev_of E s d" "dev_of E (s\<lparr>os_locks := L\<rparr>) d = dev_of E s d"
  by (simp_all add: dev_of_def the_ctx_def)

lemma wp_is_pipe_valid_ready:
  "api_ready E h tgt s \<Longrightarrow> wp (pipe_mgr_is_pipe_valid E (device_id tgt) (dev_pipe_id tgt)) Q s = Q BF_SUCCESS s"
  by (auto simp: api_ready_def pipe_mgr_is_pipe_valid_def wp_simps Let_def dest!: live_ctx split: option.splits)

lemma wp_prologue_ready:
  assumes "api_ready E h tgt s"
  shows "wp (pipe_mgr_api_prologue E h tgt) (\<lambda>st t. st = BF_SUCCESS \<and>
    (\<exists>c L. t = s\<lparr>os_clk := c, os_locks := L\<rparr> \<and> entered E h tgt s L)) s"
proof -
  from assms obtain y z dev ctx where
    y: "take_shared (os_locks s PIPE_MGR_LOCK) = Some y" "os_locks s (SESS_LOCK h) = Free" and
    d: "dev_of E s (device_id tgt) \<noteq> NULL" "w_devs s (dev_of E s (device_id tgt)) = Some dev"
      "dev_pipe_id tgt < length (pd_profiles dev)" and
    z: "take_shared (os_locks s (PROF_LOCK (dev_of E s (device_id tgt)) (dev_pipe_id tgt))) = Some z" and
    ctx: "h < P4_SDE_MAX_SESSIONS" "pipe_mgr_ctx_obj s \<noteq> NULL" "w_ctxs s (pipe_mgr_ctx_obj s) = Some ctx"
      "sessions ctx ! h" and h: "h \<in> live_sessions s" and ok: "locks_ok E"
    by (auto simp: api_ready_def Let_def dest!: live_ctx split: option.splits)
  show ?thesis
    using y d z ctx h ok
    by (auto simp: pipe_mgr_api_prologue_def pipe_mgr_api_enter_def api_enter_def pipe_mgr_session_valid_def
        get_pipe_mgr_ctx_def wp_simps rdlock_def mutex_lock_def wp_lock_op Let_def locks_ok_def entered_def
        fun_upd_twist)
qed

text \<open>The state without clock, locks and fault.\<close>

definition os_rest :: "('m, 'i, 'h) world \<Rightarrow> ('m, 'i, 'h) world" where
  "os_rest s = s\<lparr>os_clk := 0, os_locks := (\<lambda>_. Free), os_fault := False\<rparr>"

lemma os_rest_os [simp]:
  "os_rest (s\<lparr>os_clk := c\<rparr>) = os_rest s" "os_rest (s\<lparr>os_locks := L\<rparr>) = os_rest s"
  "os_rest (s\<lparr>os_fault := b\<rparr>) = os_rest s"
  by (simp_all add: os_rest_def)

lemma keeps_rest: "keeps os_rest (pipe_mgr_api_epilogue E h tgt)"
  by (auto simp: pipe_mgr_api_epilogue_def pipe_mgr_api_exit_def pipe_mgr_session_valid_def get_pipe_mgr_ctx_def
      pipe_mgr_get_dev_def lock_defs intro!: keeps_intros)

lemma os_rest_eq:
  "os_rest t = os_rest u \<Longrightarrow> os_fault t = os_fault u \<Longrightarrow> t = u\<lparr>os_clk := os_clk t, os_locks := os_locks t\<rparr>"
  by (cases t; cases u) (simp add: os_rest_def)

lemma wp_epilogue_ready:
  assumes E: "unlock_ok E" and ent: "entered E h tgt s (os_locks u)" and fr: "api_frame u = api_frame s"
  shows "wp (pipe_mgr_api_epilogue E h tgt) (\<lambda>_ t. \<exists>c. t = u\<lparr>os_clk := c, os_locks := os_locks s\<rparr>) u"
proof -
  have "\<exists>c. t = u\<lparr>os_clk := c, os_locks := os_locks s\<rparr>"
    if "os_rest t = os_rest u" "os_fault t = os_fault u" "os_locks t = os_locks s" for t
    using os_rest_eq [OF that(1,2)] that(3) by auto
  then show ?thesis
    by (intro wp_conseq [OF wp_conj [OF keeps_wp [OF keeps_rest] wp_epilogue [OF E ent fr]]]) blast
qed

lemma wp_with_api:
  assumes ready: "api_ready E h tgt s"
    and body: "\<And>c L. entered E h tgt s L \<Longrightarrow> wp body (\<lambda>r u. Q r u \<and> os_locks u = L \<and> api_frame u = api_frame s)
      (s\<lparr>os_clk := c, os_locks := L\<rparr>)"
  shows "wp (with_api E h tgt err body) (\<lambda>r t. \<exists>u c. Q r u \<and> t = u\<lparr>os_clk := c, os_locks := os_locks s\<rparr>) s"
proof -
  let ?post = "\<lambda>r t. \<exists>u c. Q r u \<and> t = u\<lparr>os_clk := c, os_locks := os_locks s\<rparr>"
  have E: "unlock_ok E" using ready by (simp add: api_ready_def locks_ok_def)
  have "wp (pipe_mgr_api_epilogue E h tgt) (\<lambda>_. ?post r) u"
    if "Q r u" "entered E h tgt s (os_locks u)" "api_frame u = api_frame s" for r u
    by (rule wp_conseq [OF wp_epilogue_ready [OF E that(2,3)]]) (use that(1) in blast)
  then have "wp body (\<lambda>r. wp (pipe_mgr_api_epilogue E h tgt) (\<lambda>_. ?post r)) (s\<lparr>os_clk := c, os_locks := L\<rparr>)"
    if "entered E h tgt s L" for c L
    by (intro wp_conseq [OF body [OF that]]) (use that in blast)
  then show ?thesis
    unfolding with_api_def wp_bind wp_is_pipe_valid_ready [OF ready]
    by (auto simp: wp_simps intro!: wp_conseq [OF wp_prologue_ready [OF ready]])
qed

end
