(* ===== verification/Mat_Api.thy ===== *)
theory Mat_Api
  imports Mat_Spec Dal_Mat_Spec Bracket
begin

text \<open>
  The public calls on match-action tables as calls in the bracket: every body gives back the locks it
  takes and leaves alone what the bracket reads, so each call is an instance of the contract
  \<open>api_call\<close>; the two additions are instances of the contract \<open>dal_provider\<close>.
\<close>

section \<open>The bodies are balanced\<close>

lemma get_table_read:
  "keeps api_frame (get_table h hdl ps)" "bal (get_table h hdl ps)"
  by (induction ps) (auto intro!: keeps_intros bal_intros bal_ops)

lemma ctx_get_table_read [keeps_intros]:
  "keeps api_frame (pipe_mgr_get_profile E d i)" "keeps api_frame (pipe_mgr_ctx_get_table E tgt hdl tt)"
  by (auto simp: pipe_mgr_ctx_get_table_def pipe_mgr_get_profile_ctx_def pipe_mgr_get_profile_def
      intro!: keeps_intros get_table_read split: pipe_mgr_table_type.split)

lemma bal_ctx_get_table [bal_ops]: "bal (pipe_mgr_ctx_get_table E tgt hdl tt)"
  by (auto simp: pipe_mgr_ctx_get_table_def pipe_mgr_get_profile_ctx_def pipe_mgr_get_profile_def
      intro!: bal_intros bal_ops get_table_read split: pipe_mgr_table_type.split)

lemma with_table_rules:
  "(\<And>tbl. keeps api_frame (k tbl)) \<Longrightarrow> keeps api_frame (with_table E tgt hdl tt err k)"
  "(\<And>tbl. bal (k tbl)) \<Longrightarrow> bal (with_table E tgt hdl tt err k)"
  by (auto simp: with_table_def intro!: keeps_intros bal_intros bal_ops)

lemmas [keeps_intros] = with_table_rules(1)
lemmas [bal_intros] = with_table_rules(2)

lemma frame_dal: "dal_op m \<Longrightarrow> keeps api_frame m"
  by (rule dal_locks_frame(2)) (rule dal_opD)

lemma dal_pack [dal_intros]:
  "dal_op (pipe_mgr_mat_pack_match_spec E ms)" "dal_op (pipe_mgr_mat_pack_act_spec E ads)"
  "dal_op (pipe_mgr_mat_unpack_match_spec ms ms')" "dal_op (pipe_mgr_mat_unpack_act_spec ads ads')"
  by (auto simp: pipe_mgr_mat_pack_match_spec_def pipe_mgr_mat_pack_act_spec_def
      pipe_mgr_mat_unpack_match_spec_def pipe_mgr_mat_unpack_act_spec_def intro!: dal_intros)

lemma dal_unpack_entry [dal_intros]: "dal_op (pipe_mgr_mat_unpack_entry_data E tgt out hdl e flags)"
  by (auto simp: pipe_mgr_mat_unpack_entry_data_def Let_def intro!: dal_intros)

lemmas [keeps_intros] = dal_allocate [THEN frame_dal] dal_pack [THEN frame_dal] dal_unpack_entry [THEN frame_dal] dal_mat_ops [THEN frame_dal]
lemmas [bal_ops] = dal_allocate [THEN dal_bal] dal_pack [THEN dal_bal] dal_unpack_entry [THEN dal_bal] dal_mat_ops [THEN dal_bal]

lemma put_mat_ent_rules: "keeps api_frame (put_mat_ent e x)" "bal (put_mat_ent e x)"
  by (auto simp: put_mat_ent_def intro!: keeps_intros bal_ops)

lemma entry_data_rules:
  "keeps api_frame (pipe_mgr_mat_pack_entry_data E ms act ads)" "bal (pipe_mgr_mat_pack_entry_data E ms act ads)"
  "keeps api_frame (pipe_mgr_mat_delete_entry_data e)" "bal (pipe_mgr_mat_delete_entry_data e)"
  by (auto simp: pipe_mgr_mat_pack_entry_data_def pipe_mgr_mat_delete_entry_data_def
      intro!: keeps_intros bal_intros bal_ops put_mat_ent_rules)

lemmas [keeps_intros] = entry_data_rules(1,3)
lemmas [bal_ops] = entry_data_rules(2,4)

lemma bal_mat_add_body:
  assumes "unlock_ok E" "\<And>tbl. dal_op (dal_add tbl)"
  shows "bal (mat_add_body E tgt hdl ms act ads dup dal_add)"
  unfolding mat_add_body_def
  by (rule bal_intros bal_ops bal_key_table [OF assms(1)] dal_bal [OF assms(2)] | simp)+

lemma frame_mat_add_body:
  "(\<And>tbl. dal_op (dal_add tbl)) \<Longrightarrow> keeps api_frame (mat_add_body E tgt hdl ms act ads dup dal_add)"
  unfolding mat_add_body_def by (intro keeps_intros frame_dal) auto

lemma mat_read_bodies_bal:
  assumes "unlock_ok E"
  shows "bal (match_spec_to_ent_hdl_body E tgt hdl ms)" "bal (get_first_entry_handle_body E hdl tgt nn)"
    "bal (get_next_entry_handles_body E hdl tgt h n nn)" "bal (store_entries_body E hdl tgt)"
  unfolding match_spec_to_ent_hdl_body_def get_first_entry_handle_body_def get_next_entry_handles_body_def
    store_entries_body_def
  by (rule bal_intros bal_ops bal_key_table [OF assms(1)] | simp)+

lemma mat_read_bodies_frame:
  "keeps api_frame (match_spec_to_ent_hdl_body E tgt hdl ms)" "keeps api_frame (get_first_entry_handle_body E hdl tgt nn)"
  "keeps api_frame (get_next_entry_handles_body E hdl tgt h n nn)" "keeps api_frame (store_entries_body E hdl tgt)"
  unfolding match_spec_to_ent_hdl_body_def get_first_entry_handle_body_def get_next_entry_handles_body_def
    store_entries_body_def
  by (rule keeps_intros | simp)+

lemma get_entry_body_rules:
  "unlock_ok E \<Longrightarrow> bal (get_entry_body E hdl tgt ent out flags)" "keeps api_frame (get_entry_body E hdl tgt ent out flags)"
  unfolding get_entry_body_def
  by (rule bal_intros bal_ops bal_key_table | assumption | simp)+
    (rule keeps_intros | simp)+

lemma dal_iter_body_rules:
  "dal_op m \<Longrightarrow> bal (dal_iter_body E hdl tgt m)" "dal_op m \<Longrightarrow> keeps api_frame (dal_iter_body E hdl tgt m)"
  unfolding dal_iter_body_def by (rule with_table_rules; simp add: dal_bal frame_dal)+

lemma mat_del_body_rules:
  "unlock_ok E \<Longrightarrow> bal (mat_del_body E tgt hdl ms)" "keeps api_frame (mat_del_body E tgt hdl ms)"
  unfolding mat_del_body_def
  by (rule bal_intros bal_ops bal_key_table | assumption | simp)+
    (rule keeps_intros | simp)+

section \<open>Which tables there are\<close>

text \<open>The handles of the tables and whether they store their entries.\<close>

definition mat_ids :: "('m, 'i, 'h) world \<Rightarrow> ptr \<Rightarrow> (u32 \<times> bool) option" where
  "mat_ids s p = map_option (\<lambda>m. (mc_handle (mat_ctx m), mc_store_entries (mat_ctx m))) (w_mats s p)"

lemma mat_ids_os [simp]:
  "mat_ids (s\<lparr>os_clk := c\<rparr>) = mat_ids s" "mat_ids (s\<lparr>os_fault := b\<rparr>) = mat_ids s"
  "mat_ids (s\<lparr>os_next := n\<rparr>) = mat_ids s" "mat_ids (s\<lparr>os_locks := l\<rparr>) = mat_ids s"
  "mat_ids (s\<lparr>w_nodes := ns\<rparr>) = mat_ids s" "mat_ids (s\<lparr>w_mat_ents := es\<rparr>) = mat_ids s"
  by (simp_all add: mat_ids_def fun_eq_iff)

lemma ids_frame:
  assumes "dal_frame t = dal_frame s"
  shows "mat_ids t = mat_ids s"
proof
  fix p
  from dal_frameD(9) [OF assms, of p] show "mat_ids t p = mat_ids s p"
    by (cases "w_mats t p"; cases "w_mats s p") (auto simp: mat_ids_def mat_store_def)
qed

lemma ids_dal: "dal_op m \<Longrightarrow> keeps mat_ids m"
  by (auto simp: keeps_def dal_op_def intro: ids_frame)

lemma keeps_ids_store [keeps_intros]:
  "keeps mat_ids (set_state tt p f)" "keeps mat_ids (set_ent_hdl tt e h)" "keeps mat_ids (put_mat_ent e x)"
  by (cases tt; auto simp: set_state_def set_ent_hdl_def put_mat_ent_def mat_ids_def fun_eq_iff option.map_comp comp_def
      intro!: keeps_modify)+

lemma keeps_ids_search [keeps_intros]: "keeps mat_ids (bf_hashtbl_search E tt t key ns)"
  by (induction ns) (auto simp: key_cmp_fn_def pipe_mgr_cmp_match_value_bits_def
      pipe_mgr_form_htbl_key_def intro!: keeps_intros)

lemma keeps_ids_table [keeps_intros]:
  "keeps mat_ids (pipe_mgr_table_key_exists E tbl tt ms pipe_id want)"
  "keeps mat_ids (pipe_mgr_table_key_delete E tgt tbl tt ms)"
  "keeps mat_ids (pipe_mgr_table_key_insert E tgt tbl tt ent)"
  unfolding key_table_unfold by (rule keeps_intros | simp)+

lemmas ids_dal_ops [keeps_intros] =
  dal_allocate [THEN ids_dal] dal_pack [THEN ids_dal] dal_unpack_entry [THEN ids_dal] dal_mat_ops [THEN ids_dal]

lemma keeps_ids_entry [keeps_intros]:
  "keeps mat_ids (pipe_mgr_mat_pack_entry_data E ms act ads)" "keeps mat_ids (pipe_mgr_mat_delete_entry_data e)"
  by (auto simp: pipe_mgr_mat_pack_entry_data_def pipe_mgr_mat_delete_entry_data_def intro!: keeps_intros)

lemma keeps_ids_get_table [keeps_intros]: "keeps mat_ids (get_table h hdl ps)"
  by (induction ps) (auto intro!: keeps_intros)

lemma keeps_ids_ctx_get_table [keeps_intros]: "keeps mat_ids (pipe_mgr_ctx_get_table E tgt hdl tt)"
  by (auto simp: pipe_mgr_ctx_get_table_def pipe_mgr_get_profile_ctx_def pipe_mgr_get_profile_def
      pipe_mgr_get_dev_def get_pipe_mgr_ctx_def intro!: keeps_intros split: pipe_mgr_table_type.split)

lemma keeps_ids_add:
  "(\<And>tbl. dal_op (dal_add tbl)) \<Longrightarrow> keeps mat_ids (mat_add_body E tgt hdl ms act ads dup dal_add)"
  unfolding mat_add_body_def with_table_def
  by (rule keeps_intros ids_dal | simp)+

lemma keeps_ids_del: "keeps mat_ids (mat_del_body E tgt hdl ms)"
  unfolding mat_del_body_def with_table_def by (rule keeps_intros | simp)+

lemma table_of_frame:
  assumes "api_frame t = api_frame s" "mat_ids t = mat_ids s"
  shows "table_of E tgt hdl PIPE_MGR_TABLE_TYPE_MAT t = table_of E tgt hdl PIPE_MGR_TABLE_TYPE_MAT s"
proof -
  have "mat_handle p t = mat_handle p s" for p
    using fun_cong [OF assms(2), of p] by (cases "w_mats t p"; cases "w_mats s p") (auto simp: mat_ids_def mat_handle_def)
  then show ?thesis
    using frame_eqD(3) [OF assms(1)] frame_eqD(6) [OF assms(1), where E = E]
    by (simp add: table_of_def get_profile_obj_def Let_def)
qed

section \<open>Tables that clients can use\<close>

text \<open>A session, a target and a table handle with which calls can be made, the table holding \<open>A\<close>.\<close>

definition mat_ready ::
  "('m, 'i, 'h, 'z) ext_scheme \<Rightarrow> nat \<Rightarrow> bf_dev_target \<Rightarrow> u32 \<Rightarrow> ptr \<Rightarrow> nat \<Rightarrow> bool \<Rightarrow>
   ('m, 'i, 'h) world \<Rightarrow> ktable \<Rightarrow> bool" where
  "mat_ready E h tgt hdl tbl N tr s A \<longleftrightarrow> api_ready E h tgt s \<and>
     kt_ready E PIPE_MGR_TABLE_TYPE_MAT tbl (dev_pipe_id tgt) N tr s A \<and>
     table_of E tgt hdl PIPE_MGR_TABLE_TYPE_MAT s = Some tbl \<and> map_option snd (mat_ids s tbl) = Some True \<and> heap_ok s"

lemma entered_other: "entered E h tgt s L \<Longrightarrow> L (TBL_LOCK p) = os_locks s (TBL_LOCK p)"
  by (auto simp: entered_def Let_def)

lemma kt_rel_fault [simp]: "kt_rel E tt tbl pid N (s\<lparr>os_fault := b\<rparr>) A = kt_rel E tt tbl pid N s A"
proof -
  have "tbl_view tt tbl (s\<lparr>os_fault := b\<rparr>) = tbl_view tt tbl s" by (cases tt) simp_all
  moreover have "ent_spec tt e (s\<lparr>os_fault := b\<rparr>) = ent_spec tt e s" "ent_hdl tt e (s\<lparr>os_fault := b\<rparr>) = ent_hdl tt e s" for e
    by (cases tt; simp)+
  ultimately show ?thesis by (simp add: kt_rel_def kt_state_def kt_ents_def)
qed

text \<open>Inside the bracket the table is as outside.\<close>

lemma kt_ready_inside:
  assumes "kt_ready E PIPE_MGR_TABLE_TYPE_MAT tbl pid N tr s A" "entered E h tgt s L"
  shows "kt_ready E PIPE_MGR_TABLE_TYPE_MAT tbl pid N tr (s\<lparr>os_clk := c, os_locks := L\<rparr>) A"
  using assms entered_other [OF assms(2)] by (simp add: kt_ready_def)

lemma api_ready_frame:
  assumes "api_ready E h tgt s" "api_frame t = api_frame s" "os_locks t = os_locks s"
  shows "api_ready E h tgt t"
  using assms(1,3) frame_eqD(1-5) [OF assms(2)] frame_eqD(6) [OF assms(2), where E = E]
  by (simp add: api_ready_def Let_def)

section \<open>Additions\<close>

lemma mat_ready_after:
  assumes "mat_ready E h tgt hdl tbl N tr s A" "kt_ready E PIPE_MGR_TABLE_TYPE_MAT tbl (dev_pipe_id tgt) N tr u A'"
    "api_frame u = api_frame s" "mat_ids u = mat_ids s" "heap_ok u"
    "os_locks u (TBL_LOCK tbl) = os_locks s (TBL_LOCK tbl)"
  shows "mat_ready E h tgt hdl tbl N tr (u\<lparr>os_clk := c, os_locks := os_locks s\<rparr>) A'"
proof -
  let ?t = "u\<lparr>os_clk := c, os_locks := os_locks s\<rparr>"
  have fr: "api_frame ?t = api_frame s" "mat_ids ?t = mat_ids s" "os_locks ?t = os_locks s" using assms(3,4) by simp_all
  have "api_ready E h tgt ?t" by (rule api_ready_frame [OF _ fr(1,3)]) (use assms(1) in \<open>simp add: mat_ready_def\<close>)
  moreover have "kt_ready E PIPE_MGR_TABLE_TYPE_MAT tbl (dev_pipe_id tgt) N tr ?t A'"
    using assms(2,6) by (simp add: kt_ready_def)
  moreover have "table_of E tgt hdl PIPE_MGR_TABLE_TYPE_MAT ?t = Some tbl"
    unfolding table_of_frame [OF fr(1,2)] using assms(1) by (simp add: mat_ready_def)
  moreover have "heap_ok ?t" using assms(5) by (simp add: heap_ok_def)
  ultimately show ?thesis unfolding mat_ready_def fr(2) using assms(1) by (simp add: mat_ready_def)
qed

lemma mat_ready_clk: "mat_ready E h tgt hdl tbl N tr s A \<Longrightarrow> mat_ready E h tgt hdl tbl N tr (s\<lparr>os_clk := c\<rparr>) A"
  using mat_ready_after [of E h tgt hdl tbl N tr s A s A c] by (simp add: mat_ready_def)

text \<open>The outcome of an addition for the client.\<close>

definition add_outcome where
  "add_outcome E h tgt hdl tbl N tr A k act ms ads dup s r t \<longleftrightarrow> os_locks t = os_locks s \<and>
     (case A k of
        Some (eh, e) \<Rightarrow> r = (dup, Some eh) \<and> w_mat_ents t = w_mat_ents s \<and> w_rte t = w_rte s \<and>
          mat_ready E h tgt hdl tbl N tr t A
      | None \<Rightarrow> (case r of (st, ehdl) \<Rightarrow>
          if st = BF_SUCCESS then \<exists>eh e. ehdl = Some eh \<and> eh \<noteq> 0 \<and> eh \<notin> handles A \<and> w_mat_ents s e = None \<and>
            w_mat_ents t = (w_mat_ents s)(e \<mapsto> mat_entry eh act ms ads) \<and>
            mat_ready E h tgt hdl tbl N tr t (A(k \<mapsto> (eh, e)))
          else ehdl = None \<and> w_mat_ents t = w_mat_ents s \<and> mat_ready E h tgt hdl tbl N tr t A))"

lemma heap_ok_after:
  "heap_ok s \<Longrightarrow> os_next s \<le> os_next u \<Longrightarrow> w_mat_ents u = w_mat_ents s \<Longrightarrow> heap_ok u"
  "heap_ok s \<Longrightarrow> os_next s \<le> os_next u \<Longrightarrow> w_mat_ents u = (w_mat_ents s)(e \<mapsto> x) \<Longrightarrow> e \<le> os_next u \<Longrightarrow> heap_ok u"
  unfolding heap_ok_def by (metis le_trans, metis fun_upd_apply le_trans)

text \<open>What the work inside the bracket establishes, the locks of the bracket being held.\<close>

definition add_mid where
  "add_mid E tgt tbl N tr A k act ms ads dup s r u \<longleftrightarrow> mat_ids u = mat_ids s \<and> api_frame u = api_frame s \<and>
     os_locks u (TBL_LOCK tbl) = os_locks s (TBL_LOCK tbl) \<and> os_next s \<le> os_next u \<and>
     (case A k of
        Some (eh, e) \<Rightarrow> r = (dup, Some eh) \<and> kt_ready E PIPE_MGR_TABLE_TYPE_MAT tbl (dev_pipe_id tgt) N tr u A \<and>
          w_mat_ents u = w_mat_ents s \<and> w_rte u = w_rte s
      | None \<Rightarrow> \<exists>c L. add_post E tbl (dev_pipe_id tgt) N tr A k act ms ads (s\<lparr>os_clk := c, os_locks := L\<rparr>) r u)"

lemma add_outcome_mid:
  assumes ready: "mat_ready E h tgt hdl tbl N tr s A" and mid: "add_mid E tgt tbl N tr A k act ms ads dup s r u"
    and t: "t = u\<lparr>os_clk := c, os_locks := os_locks s\<rparr>"
  shows "add_outcome E h tgt hdl tbl N tr A k act ms ads dup s r t"
proof -
  let ?kt = "kt_ready E PIPE_MGR_TABLE_TYPE_MAT tbl (dev_pipe_id tgt) N tr"
  have heap: "heap_ok s" using ready by (simp add: mat_ready_def)
  have after: "mat_ready E h tgt hdl tbl N tr t A'" if "?kt u A'" "heap_ok u" for A'
    unfolding t by (rule mat_ready_after [OF ready that(1) _ _ that(2)]) (use mid in \<open>simp_all add: add_mid_def\<close>)
  have same: "mat_ready E h tgt hdl tbl N tr t A" if "?kt u A" "w_mat_ents u = w_mat_ents s"
    using after [OF that(1)] heap_ok_after(1) [OF heap _ that(2)] mid by (simp add: add_mid_def)
  show ?thesis
  proof (cases "A k")
    case None
    obtain st eh where r: "r = (st, eh)" by (cases r)
    show ?thesis
    proof (cases "st = BF_SUCCESS")
      case True
      with mid r None obtain eh' e where e: "eh = Some eh'" "eh' \<noteq> 0" "eh' \<notin> handles A" "w_mat_ents s e = None"
        "w_mat_ents u = (w_mat_ents s)(e \<mapsto> mat_entry eh' act ms ads)" "e \<le> os_next u" "?kt u (A(k \<mapsto> (eh', e)))"
        by (auto simp: add_mid_def add_post_def)
      have "mat_ready E h tgt hdl tbl N tr t (A(k \<mapsto> (eh', e)))"
        using after [OF e(7)] heap_ok_after(2) [OF heap _ e(5,6)] mid by (simp add: add_mid_def)
      with e t r None True show ?thesis by (auto simp: add_outcome_def)
    next
      case False
      with mid r None have e: "?kt u A" "w_mat_ents u = w_mat_ents s" "eh = None" by (auto simp: add_mid_def add_post_def)
      with same [OF e(1,2)] t r None False show ?thesis by (simp add: add_outcome_def)
    qed
  next
    case (Some he)
    with mid have e: "?kt u A" "w_mat_ents u = w_mat_ents s" by (auto simp: add_mid_def)
    with same [OF e] Some mid t show ?thesis by (cases he) (simp add: add_outcome_def add_mid_def)
  qed
qed

context dal_provider
begin

lemma add_inside:
  assumes ready: "mat_ready E h tgt hdl tbl N tr s A" and k: "spec_key tr N ms = Some k" "client_ok ms ads"
    and dup: "dup \<noteq> BF_SUCCESS" and ent: "entered E h tgt s L"
  shows "wp (mat_add_body E tgt hdl ms act ads dup dal_add)
    (\<lambda>r u. (dal_done did tbl s r u \<and> add_mid E tgt tbl N tr A k act ms ads dup s r u) \<and>
      os_locks u = L \<and> api_frame u = api_frame s) (s\<lparr>os_clk := c, os_locks := L\<rparr>)"
proof -
  let ?s = "s\<lparr>os_clk := c, os_locks := L\<rparr>" and ?kt = "kt_ready E PIPE_MGR_TABLE_TYPE_MAT tbl (dev_pipe_id tgt) N tr"
  from ready have kt: "?kt s A" and heap: "heap_ok s"
    and tbl: "table_of E tgt hdl PIPE_MGR_TABLE_TYPE_MAT s = Some tbl" "map_option snd (mat_ids s tbl) = Some True"
    by (simp_all add: mat_ready_def)
  from tbl(2) obtain ctx where ctx: "mat_ctx_of tbl s = Some ctx" "mc_store_entries ctx"
    by (auto simp: mat_ids_def mat_ctx_of_def)
  have fr: "api_frame ?s = api_frame s" "mat_ids ?s = mat_ids s" by simp_all
  have kt': "?kt ?s A" by (rule kt_ready_inside [OF kt ent])
  have obs: "dal_done did tbl s r u" if "dal_done did tbl ?s r u" for r u
    by (rule dal_done_same [OF that]) (simp_all add: dal_view_def)
  have tb: "table_of E tgt hdl PIPE_MGR_TABLE_TYPE_MAT ?s = Some tbl" unfolding table_of_frame [OF fr] by (rule tbl(1))
  have hp: "heap_ok ?s" "mat_ctx_of tbl ?s = Some ctx" using heap ctx(1) by (simp_all add: heap_ok_def mat_ctx_of_def)
  note spec = add_body_spec [OF kt' k tb hp(2) ctx(2) hp(1) dup, of act]
    and ids = keeps_wp [OF keeps_ids_add [OF dal_ok, of E tgt hdl ms act ads dup], where s = ?s]
  show ?thesis
  proof (rule wp_conseq [OF wp_conj [OF spec ids]], goal_cases)
    case (1 r u)
    show ?case
    proof (cases "A k")
      case None
      with 1 obs entered_other [OF ent, of tbl] show ?thesis
        by (auto simp: add_mid_def add_post_def intro!: exI [of _ c] exI [of _ L])
    next
      case (Some he)
      with 1 have "u = s\<lparr>os_locks := L, os_clk := os_clk u\<rparr>" by (cases he) simp
      then obtain c' where "u = s\<lparr>os_locks := L, os_clk := c'\<rparr>" by (metis (no_types))
      moreover have "s\<lparr>os_locks := L, os_clk := c'\<rparr> = s\<lparr>os_clk := c', os_locks := L\<rparr>" by simp
      ultimately have u: "u = s\<lparr>os_clk := c', os_locks := L\<rparr>" by (rule trans)
      with Some 1 have "dal_done did tbl s r u" by (intro obs) simp
      with u Some 1 kt_ready_inside [OF kt ent, of c'] entered_other [OF ent, of tbl] show ?thesis
        by (cases he) (simp add: add_mid_def)
    qed
  qed
qed

lemma add_api:
  assumes ready: "mat_ready E h tgt hdl tbl N tr s A" and k: "spec_key tr N ms = Some k" "client_ok ms ads"
    and dup: "dup \<noteq> BF_SUCCESS"
  shows "wp (with_api E h tgt (\<lambda>st. (st, None)) (mat_add_body E tgt hdl ms act ads dup dal_add))
    (\<lambda>r t. dal_done did tbl s r t \<and> add_outcome E h tgt hdl tbl N tr A k act ms ads dup s r t) s"
proof -
  have api: "api_ready E h tgt s" using ready by (simp add: mat_ready_def)
  show ?thesis
    by (rule wp_conseq [OF wp_with_api [OF api add_inside [OF ready k dup]]])
      (auto intro: add_outcome_mid [OF ready] dal_done_same)
qed

end

section \<open>The contracts\<close>

text \<open>What an addition of this specification and action does on the data plane: when the table is set up and
  the buffers of the client have room, one entry with the key of the client is added and committed, and
  nothing faults.\<close>

definition ent_add_does ::
  "pipe_tbl_match_spec \<Rightarrow> u32 \<Rightarrow> pipe_action_spec \<Rightarrow> ptr \<Rightarrow> ('m, 'i, 'h) world \<Rightarrow> bf_status \<Rightarrow> ('m, 'i, 'h) world \<Rightarrow> bool" where
  "ent_add_does ms act ads tbl s st t \<longleftrightarrow>
     (\<forall>ctx meta pl. dal_table_ok ctx meta pl tbl s \<longrightarrow> act_room ctx meta act ads \<longrightarrow> spec_room meta ms \<longrightarrow>
        sends (TableEntryAdd (pl_ctl pl) (mc_target_table_name ctx)) (pl_ctl pl)
          (\<lambda>e. same_key e (keyed_entry ctx meta ms)) s st t)"

definition default_add_does ::
  "u32 \<Rightarrow> pipe_action_spec \<Rightarrow> ptr \<Rightarrow> ('m, 'i, 'h) world \<Rightarrow> bf_status \<Rightarrow> ('m, 'i, 'h) world \<Rightarrow> bool" where
  "default_add_does act ads tbl s st t \<longleftrightarrow>
     (\<forall>ctx meta pl. dal_table_ok ctx meta pl tbl s \<longrightarrow> act_room ctx meta act ads \<longrightarrow>
        sends (TableDefaultEntryAdd (pl_ctl pl) (mc_name ctx)) (pl_ctl pl)
          (\<lambda>e. same_key e (zero_entry meta (tm_match_type meta))) s st t)"

lemma dal_table_ok_view:
  "dal_view t = dal_view s \<Longrightarrow> dal_table_ok ctx meta pl tbl t = dal_table_ok ctx meta pl tbl s"
  by (simp add: dal_view_def dal_table_ok_def mat_ctx_of_def pipe_obj_def api_frame_def)

lemma sends_obs:
  "dal_obs u = dal_obs s \<Longrightarrow> dal_obs v = dal_obs t \<Longrightarrow> sends call ctl P u st v = sends call ctl P s st t"
  by (simp add: dal_obs_def sends_def)

lemma wp_all: "(\<And>x. wp m (Q x) s) \<Longrightarrow> wp m (\<lambda>r t. \<forall>x. Q x r t) s"
  by (auto simp: wp_def split: prod.splits)

lemma wp_imp: "(P \<Longrightarrow> wp m Q s) \<Longrightarrow> wp m (\<lambda>r t. P \<longrightarrow> Q r t) s"
  by (auto simp: wp_def split: prod.splits)

interpretation ent_add: dal_provider "dal_table_ent_add E tgt ms act ads" "ent_add_does ms act ads"
  for E tgt ms act ads
proof
  show "dal_op (dal_table_ent_add E tgt ms act ads tbl)" for tbl by (rule dal_mat_ops)
  show "wp (dal_table_ent_add E tgt ms act ads tbl) (ent_add_does ms act ads tbl s) s" for tbl s
    unfolding ent_add_does_def [abs_def] by (intro wp_all wp_imp ent_add_spec)
  show "ent_add_does ms act ads tbl u st v"
    if "ent_add_does ms act ads tbl s st t" "dal_view u = dal_view s" "dal_obs u = dal_obs s" "dal_obs v = dal_obs t"
    for tbl st and s t u v :: "('a, 'b, 'c) world"
    using that(1) unfolding ent_add_does_def dal_table_ok_view [OF that(2)] sends_obs [OF that(3,4)] .
qed

interpretation default_add: dal_provider "dal_table_default_ent_add E tgt act ads" "default_add_does act ads"
  for E tgt act ads
proof
  show "dal_op (dal_table_default_ent_add E tgt act ads tbl)" for tbl by (rule dal_mat_ops)
  show "wp (dal_table_default_ent_add E tgt act ads tbl) (default_add_does act ads tbl s) s" for tbl s
    unfolding default_add_does_def [abs_def] by (intro wp_all wp_imp default_ent_add_spec)
  show "default_add_does act ads tbl u st v"
    if "default_add_does act ads tbl s st t" "dal_view u = dal_view s" "dal_obs u = dal_obs s" "dal_obs v = dal_obs t"
    for tbl st and s t u v :: "('a, 'b, 'c) world"
    using that(1) unfolding default_add_does_def dal_table_ok_view [OF that(2)] sends_obs [OF that(3,4)] .
qed

interpretation mat_add: api_call E "mat_add_body E tgt hdl ms act ads BF_ALREADY_EXISTS (dal_table_ent_add E tgt ms act ads)"
  for E tgt hdl ms act ads
  by unfold_locales (simp_all add: bal_mat_add_body frame_mat_add_body dal_mat_ops)

interpretation mat_default_add: api_call E "mat_add_body E tgt hdl ms act ads BF_UNEXPECTED (dal_table_default_ent_add E tgt act ads)"
  for E tgt hdl ms act ads
  by unfold_locales (simp_all add: bal_mat_add_body frame_mat_add_body dal_mat_ops)

interpretation mat_get_entry: api_call E "get_entry_body E hdl tgt ent out flags" for E hdl tgt ent out flags
  by unfold_locales (rule get_entry_body_rules; assumption)+

interpretation mat_find: api_call E "match_spec_to_ent_hdl_body E tgt hdl ms" for E tgt hdl ms
  by unfold_locales (rule mat_read_bodies_bal mat_read_bodies_frame; assumption)+

interpretation mat_first: api_call E "get_first_entry_handle_body E hdl tgt nn" for E hdl tgt nn
  by unfold_locales (rule mat_read_bodies_bal mat_read_bodies_frame; assumption)+

interpretation mat_next: api_call E "get_next_entry_handles_body E hdl tgt h n nn" for E hdl tgt h n nn
  by unfold_locales (rule mat_read_bodies_bal mat_read_bodies_frame; assumption)+

end
