(* ===== verification/Mat_Calls.thy ===== *)
theory Mat_Calls
  imports Mat_Api
begin

text \<open>
  The calls on match-action tables that read and delete, as clients see them: the look-up of a handle,
  the retrieval of an entry, the enumeration of handles, and deletion by key.
\<close>

section \<open>Calls that only read\<close>

lemma wp_read_api:
  assumes ready: "api_ready E h tgt s"
    and body: "\<And>c L. entered E h tgt s L \<Longrightarrow>
      wp body (\<lambda>r u. P r \<and> (\<exists>d. u = s\<lparr>os_locks := L, os_clk := d\<rparr>)) (s\<lparr>os_clk := c, os_locks := L\<rparr>)"
  shows "wp (with_api E h tgt err body) (\<lambda>r t. P r \<and> (\<exists>c. t = s\<lparr>os_clk := c\<rparr>)) s"
proof -
  let ?Q = "\<lambda>r u. P r \<and> (\<exists>d L. u = s\<lparr>os_locks := L, os_clk := d\<rparr>)"
  have "wp body (\<lambda>r u. ?Q r u \<and> os_locks u = L \<and> api_frame u = api_frame s) (s\<lparr>os_clk := c, os_locks := L\<rparr>)"
    if "entered E h tgt s L" for c L
    by (rule wp_conseq [OF body [OF that]]) auto
  from wp_with_api [OF ready this] show ?thesis by (rule wp_conseq) auto
qed

text \<open>A call that looks the table up and then only reads: it suffices to look at the work on the table.\<close>

lemma wp_read_table:
  assumes ready: "mat_ready E h tgt hdl tbl N tr s A"
    and work: "\<And>ctx u. mc_store_entries ctx \<Longrightarrow> kt_ready E PIPE_MGR_TABLE_TYPE_MAT tbl (dev_pipe_id tgt) N tr u A \<Longrightarrow>
      w_mat_ents u = w_mat_ents s \<Longrightarrow> wp (k tbl ctx) (\<lambda>r t. P r \<and> (\<exists>d. t = u\<lparr>os_clk := d\<rparr>)) u"
  shows "wp (with_api E h tgt err (with_table E tgt hdl PIPE_MGR_TABLE_TYPE_MAT err'
      (\<lambda>tbl. deref (mat_ctx_of tbl) x (\<lambda>ctx. k tbl ctx)))) (\<lambda>r t. P r \<and> (\<exists>c. t = s\<lparr>os_clk := c\<rparr>)) s"
proof (rule wp_read_api)
  from ready have tbl: "table_of E tgt hdl PIPE_MGR_TABLE_TYPE_MAT s = Some tbl" "map_option snd (mat_ids s tbl) = Some True"
    and kt: "kt_ready E PIPE_MGR_TABLE_TYPE_MAT tbl (dev_pipe_id tgt) N tr s A" by (simp_all add: mat_ready_def)
  from tbl(2) obtain ctx where ctx: "mat_ctx_of tbl s = Some ctx" "mc_store_entries ctx"
    by (auto simp: mat_ids_def mat_ctx_of_def)
  fix c L assume ent: "entered E h tgt s L"
  let ?u = "s\<lparr>os_clk := c, os_locks := L\<rparr>"
  have fr: "api_frame ?u = api_frame s" "mat_ids ?u = mat_ids s" by simp_all
  have tb: "table_of E tgt hdl PIPE_MGR_TABLE_TYPE_MAT ?u = Some tbl" unfolding table_of_frame [OF fr] by (rule tbl(1))
  have cx: "mat_ctx_of tbl ?u = Some ctx" using ctx(1) by (simp add: mat_ctx_of_def)
  have "wp (k tbl ctx) (\<lambda>r t. P r \<and> (\<exists>d. t = ?u\<lparr>os_clk := d\<rparr>)) ?u"
    by (rule work [OF ctx(2) kt_ready_inside [OF kt ent]]) simp
  then show "wp (with_table E tgt hdl PIPE_MGR_TABLE_TYPE_MAT err' (\<lambda>tbl. deref (mat_ctx_of tbl) x (\<lambda>ctx. k tbl ctx)))
      (\<lambda>r t. P r \<and> (\<exists>d. t = s\<lparr>os_locks := L, os_clk := d\<rparr>)) ?u"
    unfolding wp_with_table [OF tb] wp_deref cx option.case by (rule wp_conseq) auto
qed (use ready in \<open>simp add: mat_ready_def\<close>)

lemma map_ok_get:
  "map_ok E \<Longrightarrow> map_abs E m k = Some p \<Longrightarrow> x_map_get E m k = (BF_MAP_OK, p)"
  "map_ok E \<Longrightarrow> map_abs E m k = None \<Longrightarrow> fst (x_map_get E m k) = BF_MAP_NO_KEY"
  by (simp_all add: map_ok_def)

lemma kt_map_at:
  assumes "kt_map M A"
  shows "M (ucast hdl) = None \<longleftrightarrow> hdl \<notin> handles A" "M (ucast hdl) = Some e \<longleftrightarrow> (\<exists>k. A k = Some (hdl, e))"
proof -
  show at: "M (ucast hdl) = Some e \<longleftrightarrow> (\<exists>k. A k = Some (hdl, e))" for e using assms by (auto simp: kt_map_def)
  show "M (ucast hdl) = None \<longleftrightarrow> hdl \<notin> handles A"
    using at unfolding handles_iff by (metis not_None_eq)
qed

lemma table_get_spec:
  assumes rel: "kt_rel E tt tbl pid N s A" and lock: "os_locks s (tbl_lock tt tbl) = Free" and E: "locks_ok E"
  shows "wp (pipe_mgr_table_get E tbl tt hdl True) (\<lambda>r u. (\<exists>c. u = s\<lparr>os_clk := c\<rparr>) \<and>
    (if hdl \<in> handles A then fst r = BF_SUCCESS \<and> (\<exists>k. A k = Some (hdl, snd r)) else r = (BF_OBJECT_NOT_FOUND, NULL))) s"
proof -
  from rel obtain ti where ti: "tbl_view tt tbl s = Some ti" "kt_map (map_abs E (entry_info_htbl (ti_state ti))) A"
      and env: "env_ok E" "tbl_known tt" by (auto simp: kt_rel_def kt_state_def)
  obtain sts p where get: "x_map_get E (entry_info_htbl (ti_state ti)) (ucast hdl) = (sts, p)" by (metis prod.exhaust)
  let ?M = "map_abs E (entry_info_htbl (ti_state ti))"
  have "?M (ucast hdl) = None \<Longrightarrow> sts = BF_MAP_NO_KEY" "\<And>e. ?M (ucast hdl) = Some e \<Longrightarrow> sts = BF_MAP_OK \<and> p = e"
    using map_ok_get [OF env_okD(1) [OF env(1)], of "entry_info_htbl (ti_state ti)" "ucast hdl"] get by auto
  then have "if hdl \<in> handles A then sts = BF_MAP_OK \<and> (\<exists>k. A k = Some (hdl, p)) else sts = BF_MAP_NO_KEY"
    using kt_map_at [OF ti(2), of hdl] by (cases "?M (ucast hdl)") auto
  then show ?thesis
    using ti lock E env env_okD(5) [OF env(1)] get
    by (auto simp: pipe_mgr_table_get_def wp_simps fun_upd_idem wp_mutex_lock_free Let_def locks_ok_def
        wp_mutex_unlock_held)
qed

lemma find_api:
  assumes ready: "mat_ready E h tgt hdl tbl N tr s A" and k: "spec_key tr N ms = Some k"
  shows "wp (pipe_mgr_match_spec_to_ent_hdl E h tgt hdl ms) (\<lambda>r t.
    r = (case A k of None \<Rightarrow> (BF_OBJECT_NOT_FOUND, None) | Some (eh, e) \<Rightarrow> (BF_SUCCESS, Some eh)) \<and>
    (\<exists>c. t = s\<lparr>os_clk := c\<rparr>)) s"
  unfolding pipe_mgr_match_spec_to_ent_hdl_def match_spec_to_ent_hdl_body_def
proof (rule wp_read_table [OF ready], goal_cases)
  case (1 ctx u)
  have "wp (pipe_mgr_table_key_exists E tbl PIPE_MGR_TABLE_TYPE_MAT ms (dev_pipe_id tgt) False)
      (\<lambda>r t. r = lookup_result False (A k) \<and> (\<exists>d. t = u\<lparr>os_clk := d\<rparr>)) u"
    by (rule wp_conseq [OF key_exists_ready [OF 1(2) k]]) blast
  then show ?case
    by (simp add: 1(1) wp_bind) (erule wp_conseq, auto simp: wp_return lookup_result_def split: option.split)
qed

text \<open>What \<^verbatim>\<open>pipe_mgr_get_entry\<close> writes through its out parameters: the buffers of the client keep what is
  behind the bytes of the entry.\<close>

definition unpacked :: "pipe_mgr_mat_entry_info \<Rightarrow> mat_out \<Rightarrow> mat_out" where
  "unpacked x out = (let ms = me_match_spec x; ads = me_act_data_spec x in
     out\<lparr>mo_match_spec := (mo_match_spec out)\<lparr>num_valid_match_bits := num_valid_match_bits ms,
           num_match_bytes := num_match_bytes ms, priority := priority ms,
           match_value_bits := mem_write (match_value_bits (mo_match_spec out)) 0 (take (num_match_bytes ms) (match_value_bits ms)),
           match_mask_bits := mem_write (match_mask_bits (mo_match_spec out)) 0 (take (num_match_bytes ms) (match_mask_bits ms))\<rparr>,
         mo_act_data_spec := (mo_act_data_spec out)\<lparr>pipe_action_datatype_bmap := pipe_action_datatype_bmap ads,
           as_adt_ent_hdl := as_adt_ent_hdl ads, as_sel_grp_hdl := as_sel_grp_hdl ads,
           act_data := \<lparr>num_valid_action_data_bits = num_valid_action_data_bits (act_data ads),
             num_action_data_bytes = num_action_data_bytes (act_data ads),
             action_data_bits = mem_write (action_data_bits (act_data (mo_act_data_spec out))) 0
               (take (num_action_data_bytes (act_data ads)) (action_data_bits (act_data ads)))\<rparr>\<rparr>,
         mo_act_fn_hdl := me_act_fn_hdl x\<rparr>)"

text \<open>The buffers of the client have room for the entry.\<close>

definition out_room :: "pipe_mgr_mat_entry_info \<Rightarrow> mat_out \<Rightarrow> bool" where
  "out_room x out \<longleftrightarrow> num_match_bytes (me_match_spec x) \<le> length (match_value_bits (mo_match_spec out)) \<and>
     num_match_bytes (me_match_spec x) \<le> length (match_mask_bits (mo_match_spec out)) \<and>
     num_action_data_bytes (act_data (me_act_data_spec x)) \<le> length (action_data_bits (act_data (mo_act_data_spec out)))"

lemma unpack_entry_spec:
  assumes "w_mat_ents s e = Some x" "client_ok (me_match_spec x) (me_act_data_spec x)" "out_room x out" "\<not> bit flags 1"
  shows "wp (pipe_mgr_mat_unpack_entry_data E tgt out hdl e flags) (\<lambda>r t. t = s \<and>
    r = (if hdl = me_mat_ent_hdl x then (BF_SUCCESS, unpacked x out) else (BF_UNEXPECTED, out))) s"
  using assms
  by (simp add: pipe_mgr_mat_unpack_entry_data_def pipe_mgr_mat_unpack_match_spec_def pipe_mgr_mat_unpack_act_spec_def
      wp_simps wp_memcpy_ok client_ok_def out_room_def unpacked_def Let_def)

lemma kt_rel_inj:
  assumes "kt_rel E tt tbl pid N s A" "A k = Some (eh, e)" "A k' = Some (eh, e')"
  shows "k = k'"
proof -
  from assms(1) obtain tr where "kt_ents tt tr N s A" by (auto simp: kt_rel_def kt_state_def)
  with assms(2,3) show ?thesis unfolding kt_ents_def by blast
qed

lemma get_entry_api:
  assumes ready: "mat_ready E h tgt hdl tbl N tr s A" and e: "A k = Some (eh, e)" "w_mat_ents s e = Some x"
    "client_ok (me_match_spec x) (me_act_data_spec x)" "out_room x out" "\<not> bit flags 1"
  shows "wp (pipe_mgr_get_entry E h hdl tgt eh out flags) (\<lambda>r t. r = (BF_SUCCESS, unpacked x out) \<and>
    (\<exists>c. t = s\<lparr>os_clk := c\<rparr>)) s"
  unfolding pipe_mgr_get_entry_def get_entry_body_def
proof (rule wp_read_table [OF ready], goal_cases)
  case (1 ctx u)
  have rel: "kt_rel E PIPE_MGR_TABLE_TYPE_MAT tbl (dev_pipe_id tgt) N u A" using 1 by (simp add: kt_ready_def)
  have eh: "eh \<in> handles A" using e(1) by (auto simp: handles_iff)
  have one: "p = e" if "A k' = Some (eh, p)" for k' p
    using kt_rel_inj [OF rel e(1) that] e(1) that by simp
  have hd: "me_mat_ent_hdl x = eh" using kt_rel_ent [OF rel e(1)] e(2) 1(3) by simp
  have up: "wp (pipe_mgr_mat_unpack_entry_data E tgt out eh e flags) (\<lambda>r t. r = (BF_SUCCESS, unpacked x out) \<and>
      (\<exists>d. t = u\<lparr>os_clk := d\<rparr>)) (u\<lparr>os_clk := c\<rparr>)" for c
    by (rule wp_conseq [OF unpack_entry_spec [OF _ e(3-5)]]) (use e(2) 1(3) hd in auto)
  have free: "os_locks u (tbl_lock PIPE_MGR_TABLE_TYPE_MAT tbl) = Free" "locks_ok E" using 1 by (simp_all add: kt_ready_def)
  have get: "wp (pipe_mgr_table_get E tbl PIPE_MGR_TABLE_TYPE_MAT eh True) (\<lambda>r t. r = (BF_SUCCESS, e) \<and>
      (\<exists>c. t = u\<lparr>os_clk := c\<rparr>)) u"
    by (rule wp_conseq [OF table_get_spec [OF rel free]]) (use eh one in auto)
  show ?case
    by (simp add: wp_bind 1(1)) (rule wp_conseq [OF get], use up in auto)
qed

section \<open>Deletion\<close>

definition ent_del_does ::
  "pipe_tbl_match_spec \<Rightarrow> ptr \<Rightarrow> ('m, 'i, 'h) world \<Rightarrow> bf_status \<Rightarrow> ('m, 'i, 'h) world \<Rightarrow> bool" where
  "ent_del_does ms tbl s st t \<longleftrightarrow> (\<forall>ctx meta pl. dal_table_ok ctx meta pl tbl s \<longrightarrow> spec_room meta ms \<longrightarrow>
     sends (TableEntryDelete (pl_ctl pl) (mc_name ctx)) (pl_ctl pl) (\<lambda>e. e = keyed_entry ctx meta ms) s st t)"

interpretation ent_del: dal_provider "dal_table_ent_del_by_match_spec E ms" "ent_del_does ms" for E ms
proof
  show "dal_op (dal_table_ent_del_by_match_spec E ms tbl)" for tbl by (rule dal_mat_ops)
  show "wp (dal_table_ent_del_by_match_spec E ms tbl) (ent_del_does ms tbl s) s" for tbl s
    unfolding ent_del_does_def [abs_def] by (intro wp_all wp_imp ent_del_spec)
  show "ent_del_does ms tbl u st v"
    if "ent_del_does ms tbl s st t" "dal_view u = dal_view s" "dal_obs u = dal_obs s" "dal_obs v = dal_obs t"
    for tbl st and s t u v :: "('a, 'b, 'c) world"
    using that(1) unfolding ent_del_does_def dal_table_ok_view [OF that(2)] sends_obs [OF that(3,4)] .
qed

lemma keeps_ents_store [keeps_intros]: "keeps w_mat_ents (set_state tt p f)"
  by (cases tt) (auto simp: set_state_def intro!: keeps_modify)

lemma keeps_ents_search [keeps_intros]: "keeps w_mat_ents (bf_hashtbl_search E tt t key ns)"
  by (induction ns) (auto simp: key_cmp_fn_def pipe_mgr_cmp_match_value_bits_def
      pipe_mgr_form_htbl_key_def intro!: keeps_intros)

lemma keeps_ents_delete: "keeps w_mat_ents (pipe_mgr_table_key_delete E tgt tbl tt ms)"
  unfolding key_table_unfold by (rule keeps_intros | simp)+

lemma pres_next_delete: "pres (\<lambda>s. n \<le> os_next s) (pipe_mgr_table_key_delete E tgt tbl tt ms)"
  unfolding key_table_unfold by (rule pres_intros | simp)+

text \<open>Taking an entry out of the store.\<close>

lemma remove_stored:
  assumes ready: "kt_ready E PIPE_MGR_TABLE_TYPE_MAT tbl (dev_pipe_id tgt) N tr s A" and k: "spec_key tr N ms = Some k"
  shows "wp (pipe_mgr_table_key_delete E tgt tbl PIPE_MGR_TABLE_TYPE_MAT ms) (\<lambda>st t. st = BF_SUCCESS \<and>
    os_locks t = os_locks s \<and> api_frame t = api_frame s \<and> dal_obs t = dal_obs s \<and> os_next s \<le> os_next t \<and>
    w_mat_ents t = w_mat_ents s \<and>
    kt_ready E PIPE_MGR_TABLE_TYPE_MAT tbl (dev_pipe_id tgt) N tr t (A(k := None))) s"
proof -
  let ?del = "pipe_mgr_table_key_delete E tgt tbl PIPE_MGR_TABLE_TYPE_MAT ms"
  from ready k have rel: "wp ?del (\<lambda>st u. os_fault u = os_fault s \<and> os_locks u = os_locks s \<and>
      st = BF_SUCCESS \<and> kt_rel E PIPE_MGR_TABLE_TYPE_MAT tbl (dev_pipe_id tgt) N u (A(k := None))) s"
    by (intro wp_conseq [OF key_delete_spec [of E PIPE_MGR_TABLE_TYPE_MAT tbl tgt N s A ms]])
      (auto simp: kt_ready_def spec_key_def split: if_splits)
  have keep: "wp ?del (\<lambda>_ t. api_frame t = api_frame s) s" "wp ?del (\<lambda>_ t. w_rte t = w_rte s) s"
      "wp ?del (\<lambda>_ t. tbl_tern PIPE_MGR_TABLE_TYPE_MAT tbl t = tbl_tern PIPE_MGR_TABLE_TYPE_MAT tbl s) s"
      "wp ?del (\<lambda>_ t. w_mat_ents t = w_mat_ents s) s"
    by (rule keeps_wp, rule frame_key_table keeps_rte_key_table keeps_tern_delete keeps_ents_delete)+
  have nxt: "wp ?del (\<lambda>_ t. os_next s \<le> os_next t) s" by (rule pres_wp [OF pres_next_delete]) simp
  show ?thesis
    by (rule wp_conseq [OF wp_conj [OF rel wp_conj [OF keep(1) wp_conj [OF keep(2) wp_conj [OF keep(3) wp_conj [OF keep(4) nxt]]]]]])
      (use ready in \<open>simp add: kt_ready_def dal_obs_def\<close>)
qed

lemma removed_ents:
  assumes "kt_rel E tt tbl pid N s A" "A k = Some (eh, e)"
  shows "e \<notin> ktable_ents (A(k := None))"
proof
  assume "e \<in> ktable_ents (A(k := None))"
  then obtain k' h' where k': "k' \<noteq> k" "A k' = Some (h', e)" by (auto simp: ktable_ents_def ran_def split: if_splits)
  have "h' = eh" using kt_rel_ent [OF assms(1) k'(2)] kt_rel_ent [OF assms] by simp
  with kt_rel_inj [OF assms(1) assms(2)] k' show False by auto
qed

text \<open>The specification that the deletion passes to the data plane: a copy of exactly the announced size.\<close>

definition copied_spec :: "pipe_tbl_match_spec \<Rightarrow> pipe_tbl_match_spec" where
  "copied_spec ms = packed_match_spec ms (take (num_match_bytes ms) (match_value_bits ms))
     (take (num_match_bytes ms) (match_mask_bits ms))"

definition del_post where
  "del_post E tbl pid N tr A k s st t \<longleftrightarrow> os_locks t = os_locks s \<and> api_frame t = api_frame s \<and> os_next s \<le> os_next t \<and>
     (case A k of
        None \<Rightarrow> st = BF_OBJECT_NOT_FOUND \<and> w_mat_ents t = w_mat_ents s \<and> kt_ready E PIPE_MGR_TABLE_TYPE_MAT tbl pid N tr t A
      | Some (eh, e) \<Rightarrow>
          if st = BF_SUCCESS then w_mat_ents t = (w_mat_ents s)(e := None) \<and>
            kt_ready E PIPE_MGR_TABLE_TYPE_MAT tbl pid N tr t (A(k := None))
          else w_mat_ents t = w_mat_ents s \<and> kt_ready E PIPE_MGR_TABLE_TYPE_MAT tbl pid N tr t A)"

text \<open>From the deletion on the data plane on.\<close>

lemma del_found:
  assumes ready: "kt_ready E PIPE_MGR_TABLE_TYPE_MAT tbl (dev_pipe_id tgt) N tr s A"
    and k: "spec_key tr N ms = Some k" "A k = Some (eh, e)"
    and s: "os_locks s = os_locks s0" "api_frame s = api_frame s0" "os_next s = os_next s0" "w_mat_ents s = w_mat_ents s0"
      "dal_view s0 = dal_view s" "dal_obs s0 = dal_obs s"
  shows "wp (do {
      status \<leftarrow> dal_table_ent_del_by_match_spec E ms' tbl;
      if status \<noteq> BF_SUCCESS then ret (True, status)
      else do {
        status \<leftarrow> pipe_mgr_table_key_delete E tgt tbl PIPE_MGR_TABLE_TYPE_MAT ms;
        if status \<noteq> BF_SUCCESS then ret (True, status)
        else do { pipe_mgr_mat_delete_entry_data e; ret (True, BF_SUCCESS) }}})
    (\<lambda>r t. fst r \<and> dal_done (ent_del_does ms') tbl s0 (snd r, ()) t \<and>
      del_post E tbl (dev_pipe_id tgt) N tr A k s0 (snd r) t) s"
  unfolding wp_bind
proof (rule wp_conseq [OF wp_conj [OF ent_del.dal_keeps ent_del.dal_does]], goal_cases)
  case (1 st t)
  then have fr: "dal_frame t = dal_frame s" and did: "ent_del_does ms' tbl s st t" by auto
  have t: "kt_ready E PIPE_MGR_TABLE_TYPE_MAT tbl (dev_pipe_id tgt) N tr t A" "w_mat_ents t = w_mat_ents s0"
      "os_locks t = os_locks s0" "api_frame t = api_frame s0" "os_next s0 \<le> os_next t"
    using kt_ready_dal [OF fr ready] s dal_frameD(1-3,8) [OF fr] by simp_all
  have live: "w_mat_ents t e \<noteq> None" "e \<notin> ktable_ents (A(k := None))"
    using kt_ents_live [of E tbl "dev_pipe_id tgt" N t A e] removed_ents [of E PIPE_MGR_TABLE_TYPE_MAT tbl "dev_pipe_id tgt" N t A k eh e]
      t(1) k(2) ktable_entsI [of A k eh e] by (auto simp: kt_ready_def)
  show ?case
  proof (cases "st = BF_SUCCESS")
    case True
    have "wp (pipe_mgr_mat_delete_entry_data e) (\<lambda>_ v. dal_done (ent_del_does ms') tbl s0 (BF_SUCCESS, ()) v \<and>
        del_post E tbl (dev_pipe_id tgt) N tr A k s0 BF_SUCCESS v) u"
      if u: "os_locks u = os_locks t" "api_frame u = api_frame t" "dal_obs u = dal_obs t" "os_next t \<le> os_next u"
        "w_mat_ents u = w_mat_ents t" "kt_ready E PIPE_MGR_TABLE_TYPE_MAT tbl (dev_pipe_id tgt) N tr u (A(k := None))" for u
    proof -
      let ?v = "u\<lparr>w_mat_ents := (w_mat_ents u)(e := None)\<rparr>"
      have "kt_rel E PIPE_MGR_TABLE_TYPE_MAT tbl (dev_pipe_id tgt) N ?v (A(k := None))"
        by (rule kt_rel_put [where s = u and x = None, OF _ live(2)]) (use u(6) in \<open>simp_all add: kt_ready_def\<close>)
      then have "kt_ready E PIPE_MGR_TABLE_TYPE_MAT tbl (dev_pipe_id tgt) N tr ?v (A(k := None))"
        using u(6) by (auto simp: kt_ready_def tbl_tern_def)
      moreover have "dal_done (ent_del_does ms') tbl s0 (BF_SUCCESS, ()) ?v"
        by (rule ent_del.dal_done_view [OF did s(5,6)]) (use u(3) True in simp_all)
      ultimately show ?thesis using u t live(1) k(2)
        by (auto simp: pipe_mgr_mat_delete_entry_data_def wp_simps put_mat_ent_def dal_delete_table_entry_data_def
            del_post_def)
    qed
    then show ?thesis
      using True by (simp add: wp_simps) (rule wp_conseq [OF remove_stored [OF t(1) k(1)]], simp add: wp_simps)
  next
    case False
    with t k(2) show ?thesis
      by (auto simp: wp_return del_post_def intro!: ent_del.dal_done_view [OF did s(5,6)])
  qed
qed

lemma del_body_spec:
  assumes ready: "kt_ready E PIPE_MGR_TABLE_TYPE_MAT tbl (dev_pipe_id tgt) N tr s A"
    and k: "spec_key tr N ms = Some k" "num_match_bytes ms \<le> length (match_value_bits ms)"
      "num_match_bytes ms \<le> length (match_mask_bits ms)"
    and tbl: "table_of E tgt hdl PIPE_MGR_TABLE_TYPE_MAT s = Some tbl" "mat_ctx_of tbl s = Some ctx"
      "mc_store_entries ctx"
  shows "wp (mat_del_body E tgt hdl ms) (\<lambda>r t. fst r \<and> dal_done (ent_del_does (copied_spec ms)) tbl s (snd r, ()) t \<and>
      del_post E tbl (dev_pipe_id tgt) N tr A k s (snd r) t) s"
  unfolding mat_del_body_def wp_with_table [OF tbl(1)] wp_deref
  apply (simp add: tbl(2,3) wp_bind)
proof (rule wp_conseq [OF key_exists_ready [OF ready k(1)]], goal_cases)
  case (1 r t)
  then obtain c where t: "t = s\<lparr>os_clk := c\<rparr>" "r = lookup_result True (A k)" by blast
  have alloc: "x_calloc E n" for n using ready by (simp add: kt_ready_def calloc_ok_def)
  show ?case
  proof (cases "A k")
    case None
    with t ready show ?thesis
      by (simp add: lookup_result_def wp_simps dal_done_def del_post_def kt_ready_clk)
  next
    case (Some he)
    then obtain eh e where he: "A k = Some (eh, e)" by (cases he) auto
    have found: "wp (do {
        status \<leftarrow> dal_table_ent_del_by_match_spec E (copied_spec ms) tbl;
        if status \<noteq> BF_SUCCESS then ret (True, status)
        else do {
          status \<leftarrow> pipe_mgr_table_key_delete E tgt tbl PIPE_MGR_TABLE_TYPE_MAT ms;
          if status \<noteq> BF_SUCCESS then ret (True, status)
          else do { pipe_mgr_mat_delete_entry_data e; ret (True, BF_SUCCESS) }}})
      (\<lambda>r t. fst r \<and> dal_done (ent_del_does (copied_spec ms)) tbl s (snd r, ()) t \<and>
        del_post E tbl (dev_pipe_id tgt) N tr A k s (snd r) t) (s\<lparr>os_clk := d\<rparr>)" for d
      by (rule del_found [OF kt_ready_clk [OF ready] k(1) he]) (simp_all add: dal_view_def)
    show ?thesis
      using t he alloc k(2,3) found
      by (simp add: lookup_result_def wp_simps pipe_mgr_mat_pack_match_spec_def mem_write_def copied_spec_def tbl(3))
  qed
qed

text \<open>When the copy can be allocated, the call is bracketed like every other.\<close>

lemma wp_del_call:
  assumes ready: "api_ready E h tgt s"
    and body: "\<And>c L. entered E h tgt s L \<Longrightarrow> wp (mat_del_body E tgt hdl ms)
      (\<lambda>r u. (fst r \<and> Q (snd r) u) \<and> os_locks u = L \<and> api_frame u = api_frame s) (s\<lparr>os_clk := c, os_locks := L\<rparr>)"
  shows "wp (pipe_mgr_mat_ent_del_by_match_spec E h tgt hdl ms)
    (\<lambda>st t. \<exists>u c. Q st u \<and> t = u\<lparr>os_clk := c, os_locks := os_locks s\<rparr>) s"
proof -
  let ?post = "\<lambda>st t. \<exists>u c. Q st u \<and> t = u\<lparr>os_clk := c, os_locks := os_locks s\<rparr>"
  have E: "unlock_ok E" using ready by (simp add: api_ready_def locks_ok_def)
  have "wp (pipe_mgr_api_epilogue E h tgt) (\<lambda>_. ?post st) u"
    if "Q st u" "entered E h tgt s (os_locks u)" "api_frame u = api_frame s" for st u
    by (rule wp_conseq [OF wp_epilogue_ready [OF E that(2,3)]]) (use that(1) in blast)
  then have inner: "wp (mat_del_body E tgt hdl ms) (\<lambda>r u. fst r \<and> wp (pipe_mgr_api_epilogue E h tgt) (\<lambda>_. ?post (snd r)) u)
      (s\<lparr>os_clk := c, os_locks := L\<rparr>)" if "entered E h tgt s L" for c L
    by (intro wp_conseq [OF body [OF that]]) (use that in blast)
  have "wp (mat_del_body E tgt hdl ms) (\<lambda>r. wp (case r of (epilogue, status) \<Rightarrow> if \<not> epilogue then ret status
      else do { pipe_mgr_api_epilogue E h tgt; ret status }) ?post) (s\<lparr>os_clk := c, os_locks := L\<rparr>)"
    if "entered E h tgt s L" for c L
    by (rule wp_conseq [OF inner [OF that]]) (auto simp: wp_simps case_prod_beta)
  then show ?thesis
    unfolding pipe_mgr_mat_ent_del_by_match_spec_def wp_bind wp_is_pipe_valid_ready [OF ready]
    by (auto simp: wp_simps intro!: wp_conseq [OF wp_prologue_ready [OF ready]])
qed

text \<open>The outcome of a deletion for the client.\<close>

definition del_outcome where
  "del_outcome E h tgt hdl tbl N tr A k s st t \<longleftrightarrow> os_locks t = os_locks s \<and>
     (case A k of
        None \<Rightarrow> st = BF_OBJECT_NOT_FOUND \<and> w_mat_ents t = w_mat_ents s \<and> mat_ready E h tgt hdl tbl N tr t A
      | Some (eh, e) \<Rightarrow>
          if st = BF_SUCCESS then w_mat_ents t = (w_mat_ents s)(e := None) \<and> mat_ready E h tgt hdl tbl N tr t (A(k := None))
          else w_mat_ents t = w_mat_ents s \<and> mat_ready E h tgt hdl tbl N tr t A)"

text \<open>What the work inside the bracket establishes.\<close>

definition del_mid where
  "del_mid E tgt tbl N tr A k s st u \<longleftrightarrow> mat_ids u = mat_ids s \<and> os_locks u (TBL_LOCK tbl) = os_locks s (TBL_LOCK tbl) \<and>
     (\<exists>c L. del_post E tbl (dev_pipe_id tgt) N tr A k (s\<lparr>os_clk := c, os_locks := L\<rparr>) st u)"

lemma del_outcome_mid:
  assumes ready: "mat_ready E h tgt hdl tbl N tr s A" and mid: "del_mid E tgt tbl N tr A k s st u"
    and t: "t = u\<lparr>os_clk := c, os_locks := os_locks s\<rparr>"
  shows "del_outcome E h tgt hdl tbl N tr A k s st t"
proof -
  from mid have u: "mat_ids u = mat_ids s" "os_locks u (TBL_LOCK tbl) = os_locks s (TBL_LOCK tbl)"
    "api_frame u = api_frame s" "os_next s \<le> os_next u" by (auto simp: del_mid_def del_post_def)
  have heap: "heap_ok u" if "w_mat_ents u = w_mat_ents s \<or> w_mat_ents u = (w_mat_ents s)(e := None)" for e
  proof -
    have "p \<le> os_next s" if "w_mat_ents s p \<noteq> None" for p using that ready by (auto simp: mat_ready_def heap_ok_def)
    with that u(4) show ?thesis unfolding heap_ok_def by (metis fun_upd_apply le_trans)
  qed
  have after: "mat_ready E h tgt hdl tbl N tr t A'"
    if "kt_ready E PIPE_MGR_TABLE_TYPE_MAT tbl (dev_pipe_id tgt) N tr u A'" "heap_ok u" for A'
    unfolding t by (rule mat_ready_after [OF ready that(1) u(3,1) that(2) u(2)])
  show ?thesis
  proof (cases "A k")
    case None
    with mid t after heap show ?thesis by (auto simp: del_mid_def del_outcome_def del_post_def)
  next
    case (Some he)
    with mid t after heap show ?thesis
      by (cases he; cases "st = BF_SUCCESS") (auto simp: del_mid_def del_outcome_def del_post_def)
  qed
qed

lemma del_inside:
  assumes ready: "mat_ready E h tgt hdl tbl N tr s A" and ent: "entered E h tgt s L"
    and k: "spec_key tr N ms = Some k" "num_match_bytes ms \<le> length (match_value_bits ms)"
      "num_match_bytes ms \<le> length (match_mask_bits ms)"
  shows "wp (mat_del_body E tgt hdl ms) (\<lambda>r u. (fst r \<and>
      dal_done (ent_del_does (copied_spec ms)) tbl s (snd r, ()) u \<and> del_mid E tgt tbl N tr A k s (snd r) u) \<and>
      os_locks u = L \<and> api_frame u = api_frame s) (s\<lparr>os_clk := c, os_locks := L\<rparr>)"
proof -
  let ?s = "s\<lparr>os_clk := c, os_locks := L\<rparr>"
  from ready have kt: "kt_ready E PIPE_MGR_TABLE_TYPE_MAT tbl (dev_pipe_id tgt) N tr s A"
    and tbl: "table_of E tgt hdl PIPE_MGR_TABLE_TYPE_MAT s = Some tbl" "map_option snd (mat_ids s tbl) = Some True"
    by (simp_all add: mat_ready_def)
  from tbl(2) obtain ctx where ctx: "mat_ctx_of tbl s = Some ctx" "mc_store_entries ctx"
    by (auto simp: mat_ids_def mat_ctx_of_def)
  have fr: "api_frame ?s = api_frame s" "mat_ids ?s = mat_ids s" by simp_all
  have tb: "table_of E tgt hdl PIPE_MGR_TABLE_TYPE_MAT ?s = Some tbl" unfolding table_of_frame [OF fr] by (rule tbl(1))
  have cx: "mat_ctx_of tbl ?s = Some ctx" using ctx(1) by (simp add: mat_ctx_of_def)
  note spec = del_body_spec [OF kt_ready_inside [OF kt ent] k tb cx ctx(2)]
    and ids = keeps_wp [OF keeps_ids_del [of E tgt hdl ms], where s = ?s]
  show ?thesis
  proof (rule wp_conseq [OF wp_conj [OF spec ids]], goal_cases)
    case (1 r u)
    then have post: "del_post E tbl (dev_pipe_id tgt) N tr A k ?s (snd r) u" by simp
    then have u: "os_locks u = L" "api_frame u = api_frame s" by (simp_all add: del_post_def)
    have "dal_done (ent_del_does (copied_spec ms)) tbl s (snd r, ()) u"
      by (rule ent_del.dal_done_same [where s = ?s and t = u]) (use 1 in \<open>simp_all add: dal_view_def\<close>)
    moreover have "del_mid E tgt tbl N tr A k s (snd r) u"
      using post u entered_other [OF ent, of tbl] 1 unfolding del_mid_def by auto
    ultimately show ?case using u 1 by simp
  qed
qed

lemma del_api:
  assumes ready: "mat_ready E h tgt hdl tbl N tr s A"
    and k: "spec_key tr N ms = Some k" "num_match_bytes ms \<le> length (match_value_bits ms)"
      "num_match_bytes ms \<le> length (match_mask_bits ms)"
  shows "wp (pipe_mgr_mat_ent_del_by_match_spec E h tgt hdl ms) (\<lambda>st t.
    dal_done (ent_del_does (copied_spec ms)) tbl s (st, ()) t \<and> del_outcome E h tgt hdl tbl N tr A k s st t) s"
proof -
  have api: "api_ready E h tgt s" using ready by (simp add: mat_ready_def)
  show ?thesis
    by (rule wp_conseq [OF wp_del_call [OF api del_inside [OF ready _ k]]])
      (auto intro: del_outcome_mid [OF ready] ent_del.dal_done_same)
qed

end
