(* ===== verification/Mat_Props.thy ===== *)
theory Mat_Props
  imports Mat_Calls KeyTable_Props
begin

text \<open>
  The properties of match-action tables: what clients see of additions, deletions and look-ups, what the
  data plane receives, and the locks. A concrete system, one device with one pipeline and one table whose
  metadata is known, shows that the hypotheses can hold.
\<close>

section \<open>A concrete system\<close>

definition ex_meta :: dal_dpdk_table_metadata where
  "ex_meta = \<lparr>tm_pipe = 5, tm_table_id = 0, tm_n_match_fields = 1, tm_n_actions = 1,
     tm_mf = [\<lparr>mf_is_header = False, mf_n_bits = 16, mf_offset = 0\<rparr>],
     tm_match_type = PIPE_MGR_MATCH_TYPE_EXACT, tm_match_field_nbits = 16, tm_action_data_size = 8,
     tm_first_offset = 0\<rparr>"

definition ex_fmt :: pipe_mgr_dpdk_action_format where
  "ex_fmt = \<lparr>af_action_name = ''act'', af_action_handle = 7,
     af_immediate_field = [\<lparr>param_name = ''port'', dest_start = 0, dest_width = 8\<rparr>], af_action_id = 0,
     af_n_args = 1, af_arg_info = Live [\<lparr>arg_name = ''port'', arg_n_bits = 8\<rparr>], af_arg_nbits = 8\<rparr>"

definition ex_stage :: pipe_mgr_dpdk_stage_table where
  "ex_stage = \<lparr>st_act_fmt = Live [ex_fmt], st_resource_id = PIPE_MGR_DPDK_RES_INVALID, st_immediate_field = [],
     st_table_meta = Some ex_meta, st_val_lookup_meta = Null\<rparr>"

definition ex_ctx :: pipe_mgr_mat_ctx where
  "ex_ctx = ex_mat_ctx\<lparr>mc_match_stage_table_count := 1, mc_match_stage_table := Some ex_stage,
     mc_actions := [\<lparr>al_name = ''act'', al_target_action_name = ''act'', al_handle = 7\<rparr>]\<rparr>"

definition ex_pipe :: pipeline where
  "ex_pipe = \<lparr>pl_name = ''pipe'', pl_p = 6, pl_ctl = 7, pl_timer_period_ms = 10, pl_enabled = True, pl_thread_id = 1,
     pl_numa_node = 0, pl_net_port_mask = []\<rparr>"

definition ex_profile :: pipe_mgr_profile where
  "ex_profile = \<lparr>pf_profile_id = 0, pf_core_id = 1, pf_fast_clone = 0, pf_prog_name = ''prog'',
     pf_pipeline_name = ''pipe'', pf_cfg_file = ''cfg'',
     pf_pipe_ctx = \<lparr>pc_arch_name = ''PSA'', pc_mat_tables = [1], pc_value_lookup_tables = [],
       pc_externs_htbl = None, pc_externs_tables_name = []\<rparr>, pf_num_ct_timer_profiles = 0, pf_bf_ct_timeout = []\<rparr>"

definition ex_sys :: "(lmap, lids, lht) world" where
  "ex_sys = world0\<lparr>os_next := 9, os_locks := (\<lambda>_. Free), pipe_mgr_ctx_obj := 3,
     w_ctxs := [3 \<mapsto> \<lparr>sessions = True # replicate 15 False, dev_map = [(0, 4)]\<rparr>],
     w_devs := [4 \<mapsto> \<lparr>pd_dev_id = 0, pd_num_pipeline_profiles = 1, pd_profiles = [ex_profile]\<rparr>],
     w_mats := [1 \<mapsto> ex_mat\<lparr>mat_ctx := ex_ctx\<rparr>], w_pipes := [(5, ex_pipe)]\<rparr>"

text \<open>The key of the client is in a buffer of eight bytes, of which two count.\<close>

definition ex_ms :: pipe_tbl_match_spec where
  "ex_ms = \<lparr>num_valid_match_bits = 16, num_match_bytes = 2, match_value_bits = [1, 10, 0, 0, 0, 0, 0, 0],
     match_mask_bits = [255, 255, 0, 0, 0, 0, 0, 0], match_field_validity = 0, priority = 0\<rparr>"

definition ex_ads :: pipe_action_spec where
  "ex_ads = \<lparr>pipe_action_datatype_bmap = PIPE_ACTION_DATA_TYPE,
     act_data = \<lparr>num_valid_action_data_bits = 8, num_action_data_bytes = 1, action_data_bits = [9]\<rparr>,
     as_adt_ent_hdl = 0, as_sel_grp_hdl = 0, resources = [], resource_count = 0\<rparr>"

definition ex_out :: mat_out where
  "ex_out = \<lparr>mo_match_spec = ex_ms\<lparr>match_value_bits := [0, 0], match_mask_bits := [0, 0]\<rparr>,
     mo_act_data_spec = ex_ads\<lparr>act_data := \<lparr>num_valid_action_data_bits = 0, num_action_data_bytes = 0,
       action_data_bits = [0]\<rparr>\<rparr>, mo_act_fn_hdl = 0, mo_res_data = \<lparr>rd_counter = \<lparr>sd_packets = 0, sd_bytes = 0\<rparr>, rd_has_counter = False\<rparr>\<rparr>"

lemmas ex_sys_defs = ex_sys_def ex_profile_def ex_pipe_def ex_ctx_def ex_stage_def ex_fmt_def ex_meta_def
  ex_mat_def ex_mat_ctx_def ex_tgt_def

lemma ex_dev: "dev_of ref_env ex_sys 0 = 4"
  by (simp add: dev_of_def the_ctx_def ex_sys_def ref_env_def)

lemma ex_api: "api_ready ref_env 0 ex_tgt ex_sys"
  using ex_dev by (simp add: api_ready_def live_sessions_def ex_tgt_def Let_def) (simp add: ex_sys_defs the_ctx_def)

lemma ex_sys_kt: "kt_ready ref_env PIPE_MGR_TABLE_TYPE_MAT 1 (dev_pipe_id ex_tgt) 2 False ex_sys Map.empty"
  by (auto simp: kt_ready_def kt_rel_def tbl_known_def kt_state_def ex_sys_defs kt_ents_def kt_map_def kt_nodes_def
      ht_abs_def tbl_tern_def tern_def) (simp_all add: ref_env_def)

lemma ex_table: "table_of ref_env ex_tgt 1 PIPE_MGR_TABLE_TYPE_MAT ex_sys = Some 1"
  using ex_dev by (simp add: table_of_def ex_tgt_def) (simp add: ex_sys_defs get_profile_obj_def mat_handle_def)

lemma ex_mat_ready: "mat_ready ref_env 0 ex_tgt 1 1 2 False ex_sys Map.empty"
  unfolding mat_ready_def
  by (intro conjI ex_api ex_sys_kt ex_table) (simp_all add: ex_sys_defs heap_ok_def mat_ids_def world0_def)

lemma ex_client: "spec_key False 2 ex_ms = Some [1, 10]" "client_ok ex_ms ex_ads"
  by (simp_all add: spec_key_def spec_ok_def key_of_def ex_ms_def ex_ads_def client_ok_def)

lemma ex_dal_ok: "dal_table_ok ex_ctx ex_meta ex_pipe 1 ex_sys"
  by (auto simp: dal_table_ok_def ctx_meta_def mat_ctx_of_def pipe_obj_def meta_wf_def layout_ok_def field_ok_def
      field_offset_def nbytes_def ex_sys_defs)

lemma ex_room: "act_room ex_ctx ex_meta 7 ex_ads" "spec_room ex_meta ex_ms"
  by (simp_all add: act_room_def spec_room_def ex_sys_defs ex_ads_def ex_ms_def nbytes_def)

section \<open>What clients see\<close>

text \<open>The data plane received one entry and a commit.\<close>

lemma sends_success:
  "sends call ctl P s BF_SUCCESS t \<Longrightarrow> \<exists>e. P e \<and> w_rte t = w_rte s @ [(call e, 0), (Commit ctl, 0)]"
  by (auto simp: sends_def commit_trace_def)

lemma sends_fault: "sends call ctl P s st t \<Longrightarrow> os_fault t = os_fault s"
  by (auto simp: sends_def)

text \<open>C11. An addition refines the insertion into a finite map. When the key is there, the client gets its
  handle and \<^verbatim>\<open>BF_ALREADY_EXISTS\<close>, and neither the store nor the data plane changes. Otherwise the call either
  succeeds with a new handle, and the store holds a copy of what the client passed under the key, or it
  fails and the store is as before. The locks are as before, and further calls can be made.\<close>

theorem mat_add_refines:
  assumes "mat_ready E h tgt hdl tbl N tr s A" "spec_key tr N ms = Some k" "client_ok ms ads"
  shows "wp (pipe_mgr_mat_ent_add E h tgt hdl ms act ads)
    (add_outcome E h tgt hdl tbl N tr A k act ms ads BF_ALREADY_EXISTS s) s"
  unfolding pipe_mgr_mat_ent_add_def
  by (rule wp_conseq [OF ent_add.add_api [OF assms]]) simp_all

theorem mat_add_refines_witness:
  "wp (pipe_mgr_mat_ent_add ref_env 0 ex_tgt 1 ex_ms 7 ex_ads) (\<lambda>(st, eh) t. os_locks t = os_locks ex_sys \<and>
    (if st = BF_SUCCESS then eh \<noteq> None else w_mat_ents t = w_mat_ents ex_sys)) ex_sys"
  by (rule wp_conseq [OF mat_add_refines [OF ex_mat_ready ex_client]]) (auto simp: add_outcome_def split: prod.splits if_splits)

text \<open>C12. What the data plane receives. When the metadata of the table is there and the buffers of the client
  have room, a successful addition sends exactly one entry to the target table and commits it. The
  priority is that of the client, and every match field lies at its offset in the key, with the bytes of
  the client in the byte order that the field needs. Nothing faults, whatever the outcome.\<close>

theorem mat_add_programs:
  assumes "mat_ready E h tgt hdl tbl N tr s A" "spec_key tr N ms = Some k" "client_ok ms ads"
    and "dal_table_ok ctx meta pl tbl s" "act_room ctx meta act ads" "spec_room meta ms"
  shows "wp (pipe_mgr_mat_ent_add E h tgt hdl ms act ads) (\<lambda>(st, eh) t. os_fault t = os_fault s \<and>
    (st = BF_SUCCESS \<longrightarrow> (\<exists>e. te_key_priority e = priority ms \<and>
       w_rte t = w_rte s @ [(TableEntryAdd (pl_ctl pl) (mc_target_table_name ctx) e, 0), (Commit (pl_ctl pl), 0)] \<and>
       (\<forall>i < length (tm_mf meta). take (nbytes (mf_n_bits (tm_mf meta ! i)))
           (drop (field_offset (tm_first_offset meta) (tm_mf meta ! i)) (te_key e)) =
         field_bytes (tm_mf meta ! i)
           (drop (sum_list (map (\<lambda>m. nbytes (mf_n_bits m)) (take i (tm_mf meta)))) (match_value_bits ms)))))) s"
  unfolding pipe_mgr_mat_ent_add_def
proof (rule wp_conseq [OF ent_add.add_api [OF assms(1-3)]], simp, goal_cases)
  case (1 r t)
  have wf: "meta_wf ctx meta" using assms(4) by (simp add: dal_table_ok_def)
  have sent: "ent_add_does ms act ads tbl s st t \<Longrightarrow> sends (TableEntryAdd (pl_ctl pl) (mc_target_table_name ctx))
      (pl_ctl pl) (\<lambda>e. same_key e (keyed_entry ctx meta ms)) s st t" for st
    using assms(4-6) by (simp add: ent_add_does_def)
  have "os_fault t = os_fault s" using 1 sends_fault [OF sent] by (auto simp: dal_done_def dal_obs_def)
  moreover have "\<exists>e. same_key e (keyed_entry ctx meta ms) \<and> w_rte t = w_rte s @
      [(TableEntryAdd (pl_ctl pl) (mc_target_table_name ctx) e, 0), (Commit (pl_ctl pl), 0)]" if "fst r = BF_SUCCESS"
    using 1 that sends_success [OF sent] by (auto simp: dal_done_def)
  ultimately show ?case
    using keyed_entry_field [OF wf assms(6)]
    by (auto simp: same_key_def keyed_entry_def Let_def split: prod.splits)
qed

theorem mat_add_programs_witness:
  "wp (pipe_mgr_mat_ent_add ref_env 0 ex_tgt 1 ex_ms 7 ex_ads) (\<lambda>(st, eh) t. \<not> os_fault t) ex_sys"
  by (rule wp_conseq [OF mat_add_programs [OF ex_mat_ready ex_client ex_dal_ok ex_room]])
    (auto simp: ex_sys_def world0_def)

text \<open>C13. Add, then read back: after a successful addition under a new key, the look-up by key gives the handle
  that was returned, and \<^verbatim>\<open>pipe_mgr_get_entry\<close> with that handle gives the client the key, the mask, the
  priority, the action and the action data that it had passed.\<close>

theorem mat_add_get_roundtrip:
  assumes "mat_ready E h tgt hdl tbl N tr s A" "spec_key tr N ms = Some k" "client_ok ms ads" "A k = None"
    and "out_room (mat_entry 0 act ms ads) out" "\<not> bit flags 1"
  shows "wp (do {
      (st, eh) \<leftarrow> pipe_mgr_mat_ent_add E h tgt hdl ms act ads;
      (case eh of
         None \<Rightarrow> ret None
       | Some eh \<Rightarrow> do {
           found \<leftarrow> pipe_mgr_match_spec_to_ent_hdl E h tgt hdl ms;
           got \<leftarrow> pipe_mgr_get_entry E h hdl tgt eh out flags;
           ret (Some (eh, found, got)) }) })
    (\<lambda>r t. case r of None \<Rightarrow> True
     | Some (eh, found, st, got) \<Rightarrow> found = (BF_SUCCESS, Some eh) \<and> st = BF_SUCCESS \<and>
         (let n = num_match_bytes ms; m = num_action_data_bytes (act_data ads) in
          mo_act_fn_hdl got = act \<and> num_match_bytes (mo_match_spec got) = n \<and> priority (mo_match_spec got) = priority ms \<and>
          take n (match_value_bits (mo_match_spec got)) = take n (match_value_bits ms) \<and>
          take n (match_mask_bits (mo_match_spec got)) = take n (match_mask_bits ms) \<and>
          num_action_data_bytes (act_data (mo_act_data_spec got)) = m \<and>
          take m (action_data_bits (act_data (mo_act_data_spec got))) = take m (action_data_bits (act_data ads)))) s"
  (is "wp _ ?post _")
  unfolding pipe_mgr_mat_ent_add_def wp_bind
proof (rule wp_conseq [OF ent_add.add_api [OF assms(1-3)]], simp, goal_cases)
  case (1 r t)
  obtain st hd where r: "r = (st, hd)" by (cases r)
  show ?case
  proof (cases "st = BF_SUCCESS")
    case True
    with 1 r assms(4) obtain eh e where e: "hd = Some eh" "w_mat_ents t = (w_mat_ents s)(e \<mapsto> mat_entry eh act ms ads)"
      "mat_ready E h tgt hdl tbl N tr t (A(k \<mapsto> (eh, e)))" by (auto simp: add_outcome_def)
    let ?x = "mat_entry eh act ms ads"
    have x: "client_ok (me_match_spec ?x) (me_act_data_spec ?x)" "out_room ?x out"
      using assms(3,5) by (simp_all add: client_ok_def out_room_def mat_entry_def packed_match_spec_def packed_act_spec_def)
    have post: "?post (Some (eh, (BF_SUCCESS, Some eh), BF_SUCCESS, unpacked ?x out)) u" for u
      using assms(3) x(2)
      by (simp add: unpacked_def mat_entry_def packed_match_spec_def packed_act_spec_def out_room_def client_ok_def
          Let_def mem_write_def)
    have get: "wp (pipe_mgr_get_entry E h hdl tgt eh out flags) (\<lambda>g. ?post (Some (eh, (BF_SUCCESS, Some eh), g))) u"
      if "u = t\<lparr>os_clk := c\<rparr>" for u c
    proof -
      have "mat_ready E h tgt hdl tbl N tr u (A(k \<mapsto> (eh, e)))" unfolding that by (rule mat_ready_clk [OF e(3)])
      moreover have "w_mat_ents u e = Some ?x" using e(2) that by simp
      ultimately show ?thesis
        using get_entry_api [of E h tgt hdl tbl N tr u "A(k \<mapsto> (eh, e))" k eh e ?x out flags] x assms(6) post
        by (auto elim!: wp_conseq)
    qed
    show ?thesis
      unfolding r e(1) prod.case option.case wp_bind wp_return
      by (rule wp_conseq [OF find_api [OF e(3) assms(2)]]) (use get in auto)
  next
    case False
    with 1 r assms(4) show ?thesis by (simp add: add_outcome_def wp_return)
  qed
qed

theorem mat_add_get_roundtrip_witness:
  "wp (do {
      (st, eh) \<leftarrow> pipe_mgr_mat_ent_add ref_env 0 ex_tgt 1 ex_ms 7 ex_ads;
      (case eh of
         None \<Rightarrow> ret None
       | Some eh \<Rightarrow> do {
           found \<leftarrow> pipe_mgr_match_spec_to_ent_hdl ref_env 0 ex_tgt 1 ex_ms;
           got \<leftarrow> pipe_mgr_get_entry ref_env 0 1 ex_tgt eh ex_out 0;
           ret (Some (eh, found, got)) }) })
    (\<lambda>r t. case r of None \<Rightarrow> True
     | Some (eh, found, st, got) \<Rightarrow> found = (BF_SUCCESS, Some eh) \<and> mo_act_fn_hdl got = 7 \<and>
         take 2 (match_value_bits (mo_match_spec got)) = [1, 10]) ex_sys"
proof -
  have "out_room (mat_entry 0 7 ex_ms ex_ads) ex_out"
    by (simp add: out_room_def mat_entry_def packed_match_spec_def packed_act_spec_def ex_ms_def ex_ads_def ex_out_def)
  from mat_add_get_roundtrip [OF ex_mat_ready ex_client _ this, of 0] show ?thesis
    by simp (erule wp_conseq, auto simp: Let_def ex_ms_def split: option.splits)
qed



section \<open>Metadata and encoding\<close>

text \<open>C15. The metadata of a table is well typed: when \<^verbatim>\<open>dal_dpdk_table_metadata_get\<close> succeeds on a match-action
  table, the metadata that it leaves in the table belongs to a pipeline of the registry, its match
  fields correspond to the key fields of the context and do not overlap, every field lies inside the key
  buffer, and a table is of exact type only if all its key fields are.\<close>

theorem metadata_well_typed:
  assumes "swx_layout_ok E" "mat_ctx_of tbl s = Some ctx" "key_fields_ok ctx"
  shows "wp (dal_dpdk_table_metadata_get E tbl PIPE_MGR_TABLE_TYPE_MAT pn tn) (\<lambda>st t. st = BF_SUCCESS \<longrightarrow>
    (\<exists>ctx' meta pl. mat_ctx_of tbl t = Some ctx' \<and> ctx_meta ctx' = Some meta \<and> meta_wf ctx' meta \<and>
       pipe_obj (tm_pipe meta) t = Some pl)) s"
  by (rule metadata_get_wf [OF assms])

lemma ref_layout: "swx_layout_ok ref_env"
  unfolding swx_layout_ok_def
proof (intro allI impI)
  fix p tid nm na and mfs :: "rte_swx_ctl_table_match_field_info list"
  assume "r_table_info ref_env p tid = (0, nm, length mfs, na)" "\<forall>i<length mfs. r_match_field_info ref_env p tid i = (0, mfs ! i)"
  then have "mfs = [\<lparr>mf_is_header = False, mf_n_bits = 16, mf_offset = 0\<rparr>]"
    by (cases mfs) (auto simp: ref_env_def)
  then show "layout_ok mfs" by (simp add: layout_ok_def field_ok_def)
qed

definition ex_bare_ctx :: pipe_mgr_mat_ctx where
  "ex_bare_ctx = ex_ctx\<lparr>mc_match_stage_table := Some (ex_stage\<lparr>st_table_meta := None\<rparr>)\<rparr>"

theorem metadata_well_typed_witness:
  "wp (dal_dpdk_table_metadata_get ref_env 1 PIPE_MGR_TABLE_TYPE_MAT ''pipe'' ''t'') (\<lambda>st t. if st = BF_SUCCESS then
      \<exists>ctx meta. mat_ctx_of 1 t = Some ctx \<and> ctx_meta ctx = Some meta \<and> meta_wf ctx meta else True)
    (ex_sys\<lparr>w_mats := [1 \<mapsto> ex_mat\<lparr>mat_ctx := ex_bare_ctx\<rparr>]\<rparr>)"
  by (rule wp_conseq [OF metadata_well_typed [OF ref_layout, where ctx = ex_bare_ctx]])
    (auto simp: mat_ctx_of_def key_fields_ok_def ex_bare_ctx_def ex_sys_defs)

text \<open>C16. The loop that writes keys and masks computes a declarative result: the key is the zero key with every
  match field stored at its offset, and so for the mask, where fields of exact type have all bits set.\<close>

theorem encode_key_equiv:
  assumes "ctx_meta ctx = Some meta" "meta_wf ctx meta" "spec_room meta ms"
  shows "run_state (pipe_mgr_dpdk_encode_match_key_and_mask ctx ms (zero_entry meta (tm_match_type meta))) s =
    ((BF_SUCCESS, keyed_entry ctx meta ms), s)"
  using encode_key_spec [OF assms] by (auto simp: wp_def split: prod.splits)

theorem encode_key_equiv_witness:
  "run_state (pipe_mgr_dpdk_encode_match_key_and_mask ex_ctx ex_ms (zero_entry ex_meta (tm_match_type ex_meta))) ex_sys =
    ((BF_SUCCESS, keyed_entry ex_ctx ex_meta ex_ms), ex_sys)"
  using encode_key_equiv [of ex_ctx ex_meta ex_ms ex_sys] ex_dal_ok ex_room(2) by (simp add: dal_table_ok_def)

text \<open>C17. Bounds of the key buffer: the size that \<^verbatim>\<open>table_match_field_info\<close> computes for the key covers every
  match field, from the first offset on, when the data plane announces fields of whole bytes that do not
  overlap. So no store of the encoding loop leaves the buffer.\<close>

theorem key_buffer_bounds:
  assumes "swx_layout_ok E" "r_table_info E p (unat (tm_table_id meta)) = (0, nm, tm_n_match_fields meta, na)"
  shows "wp (table_match_field_info E p meta) (\<lambda>(st, meta') t. st = BF_SUCCESS \<longrightarrow>
    length (tm_mf meta') = tm_n_match_fields meta \<and>
    (\<forall>mf \<in> set (tm_mf meta'). tm_first_offset meta' \<le> mf_offset mf \<and>
       (mf_offset mf - tm_first_offset meta') div 8 + nbytes (mf_n_bits mf) \<le> nbytes (tm_match_field_nbits meta'))) s"
proof -
  have "length mfs = tm_n_match_fields meta \<and> (\<forall>mf \<in> set mfs. mn \<le> mf_offset mf \<and>
      field_offset mn mf + nbytes (mf_n_bits mf) \<le> nbytes ((mx - mn) + ab))"
    if "field_loop (r_match_field_info E p (unat (tm_table_id meta))) [0..<tm_n_match_fields meta] (0, 0, 0, []) =
      Some (mn, mx, ab, mfs)" for mn mx ab mfs
  proof -
    note span = field_loop_span [OF that]
    then have len: "length mfs = tm_n_match_fields meta" and
      "\<forall>i < length mfs. r_match_field_info E p (unat (tm_table_id meta)) i = (0, mfs ! i)" by (auto simp: span_inv_def)
    then have "layout_ok mfs" using assms by (auto simp: swx_layout_ok_def)
    with span_fits [OF span] len show ?thesis by blast
  qed
  then show ?thesis
    by (auto simp: table_match_field_info_def wp_simps field_offset_def split: option.split)
qed

theorem key_buffer_bounds_witness:
  "wp (table_match_field_info ref_env 6 ex_meta) (\<lambda>(st, meta) t. if st = BF_SUCCESS then length (tm_mf meta) = 1 else True) ex_sys"
proof -
  have "r_table_info ref_env 6 (unat (tm_table_id ex_meta)) = (0, ''t'', tm_n_match_fields ex_meta, 1)"
    by (simp add: ref_env_def ex_meta_def)
  from key_buffer_bounds [OF ref_layout this] show ?thesis by (rule wp_conseq) (auto simp: ex_meta_def)
qed

text \<open>C18. Network order: a match field outside headers is read as a little-endian integer, and the bytes that go
  into the key are, most significant first, the value of its low bits, shifted left to fill whole bytes.\<close>

theorem read_field_network:
  assumes "\<not> mf_is_header mf" "0 < mf_n_bits mf" "mf_n_bits mf \<le> 64" "index + 8 \<le> length bits"
  shows "wp (read_field mf bits index) (\<lambda>v t. t = s \<and>
    horner_sum uint 256 (rev (take (nbytes (mf_n_bits mf)) (le_bytes 8 v))) =
      take_bit (mf_n_bits mf) (horner_sum uint 256 (take 8 (drop index bits))) *
        2 ^ (8 * nbytes (mf_n_bits mf) - mf_n_bits mf)) s"
proof -
  have ok: "field_ok mf" using assms(2,3) by (simp add: field_ok_def)
  let ?h = "horner_sum uint 256 (take 8 (drop index bits))"
  have "take_bit (mf_n_bits mf) (uint (le_word (take 8 (drop index bits)) :: u64)) = take_bit (mf_n_bits mf) ?h"
    using assms(3) by (simp add: le_word_def uint_word_of_int_eq take_bit_take_bit min_def)
  with field_bytes_network [OF assms(1) ok, of "drop index bits"] show ?thesis
    by (simp add: wp_read_field [OF ok assms(4)] field_bytes_def)
qed

theorem read_field_network_witness:
  "wp (read_field \<lparr>mf_is_header = False, mf_n_bits = 16, mf_offset = 0\<rparr> (match_value_bits ex_ms) 0)
    (\<lambda>v t. horner_sum uint 256 (rev (take 2 (le_bytes 8 v))) = 256 * 10 + 1) ex_sys"
  by (rule wp_conseq [OF read_field_network]) (simp_all add: ex_ms_def nbytes_def take_bit_eq_mod)

section \<open>Locks\<close>

text \<open>C19. No call on match-action tables keeps a lock, but for the deletion: whatever fails inside the call, the
  lock of the manager, of the session, of the profile and of the table are as before it.\<close>

theorem mat_calls_restore_locks:
  assumes "unlock_ok E" and "m \<in> {
      do { pipe_mgr_mat_ent_add E h tgt hdl ms act ads; ret () },
      do { pipe_mgr_mat_default_ent_add E h tgt hdl ms act ads; ret () },
      do { pipe_mgr_match_spec_to_ent_hdl E h tgt hdl ms; ret () },
      do { pipe_mgr_get_entry E h hdl tgt eh out flags; ret () },
      do { pipe_mgr_get_first_entry_handle E h hdl tgt nn; ret () },
      do { pipe_mgr_get_next_entry_handles E h hdl tgt from n nn; ret () },
      do { pipe_mgr_store_entries E h hdl tgt; ret () },
      do { pipe_mgr_get_first_entry E h hdl tgt; ret () },
      do { pipe_mgr_get_next_n_by_key E h hdl tgt; ret () }}"
    and "run_state m s = ((), t)" "\<not> os_fault t"
  shows "os_locks t = os_locks s"
proof -
  note calls = pipe_mgr_mat_ent_add_def pipe_mgr_mat_default_ent_add_def pipe_mgr_match_spec_to_ent_hdl_def
    pipe_mgr_get_entry_def pipe_mgr_get_first_entry_handle_def pipe_mgr_get_next_entry_handles_def
    pipe_mgr_get_first_entry_def pipe_mgr_get_next_n_by_key_def
  have "bal m"
    using assms(2) unfolding calls pipe_mgr_store_entries_def
    by (auto intro!: bal_intros bal_ops bal_with_api [OF assms(1)] bal_bracket [OF assms(1)] bal_mat_add_body [OF assms(1)]
        frame_mat_add_body mat_read_bodies_bal [OF assms(1)] mat_read_bodies_frame get_entry_body_rules(1) [OF assms(1)]
        get_entry_body_rules(2) dal_iter_body_rules dal_mat_ops)
  from balD [OF this assms(3)] assms(4) show ?thesis by simp
qed

theorem mat_calls_restore_locks_witness:
  "case run_state (do { pipe_mgr_mat_ent_add ref_env 0 ex_tgt 1 ex_ms 7 ex_ads; ret () }) ex_sys of (r, t) \<Rightarrow>
     if os_fault t then True else os_locks t = os_locks ex_sys"
  using mat_calls_restore_locks [OF ref_unlock_ok, of "do { pipe_mgr_mat_ent_add ref_env 0 ex_tgt 1 ex_ms 7 ex_ads; ret () }"
      0 ex_tgt 1 ex_ms 7 ex_ads] by (auto split: prod.splits)






section \<open>The copy of the key\<close>

lemma read_short: "length bits < index + 8 \<Longrightarrow> wp (read_field mf bits index) (\<lambda>_. os_fault) s"
  by (auto simp: read_field_def memcpy_def guard_c_def wp_simps field_hton_def)

lemma wp_fault_then:
  fixes m :: "('m, 'i, 'h, 'r) cmd"
  shows "wp m (\<lambda>_. os_fault) s \<Longrightarrow> (\<And>x. dal_op (k x)) \<Longrightarrow> wp (m \<bind> k) (\<lambda>_. os_fault) s"
  unfolding wp_bind by (erule wp_conseq) (rule pres_wp [OF dal_opD(2)])

lemma encode_short:
  fixes s :: "('m, 'i, 'h) world"
  assumes "tm_mf meta \<noteq> []" "ctx_meta ctx = Some meta" "meta_wf ctx meta" "length (match_value_bits ms) < 8"
  shows "wp (pipe_mgr_dpdk_encode_match_key_and_mask ctx ms e) (\<lambda>_. os_fault) s"
proof -
  from assms(2) obtain st where st: "mc_match_stage_table ctx = Some st" "st_table_meta st = Some meta"
    by (auto simp: ctx_meta_def bind_eq_Some_conv)
  from assms(1) obtain mf mfs where mfs: "tm_mf meta = mf # mfs" by (cases "tm_mf meta") auto
  then obtain kf kfs where kfs: "mc_mat_key_fields ctx = kf # kfs"
    using assms(3) by (cases "mc_mat_key_fields ctx") (auto simp: meta_wf_def)
  have "wp (encode_fields fo ms 0 (mf # mfs) (kf # kfs) e) (\<lambda>_. os_fault) s" for fo
    unfolding encode_fields.simps Let_def
    by (rule wp_fault_then [OF read_short]) (use assms(4) in \<open>auto intro!: dal_intros\<close>)
  then have "wp (do {
      (status, entry) \<leftarrow> encode_fields (tm_first_offset meta) ms 0 (mf # mfs) (kf # kfs) e;
      if status \<noteq> BF_SUCCESS then ret (status, entry)
      else ret (BF_SUCCESS, entry\<lparr>te_key_priority := priority ms\<rparr>) }) (\<lambda>_. os_fault) s"
    by (rule wp_fault_then) (auto intro!: dal_intros)
  with st mfs kfs assms(3) show ?thesis
    by (simp add: pipe_mgr_dpdk_encode_match_key_and_mask_def meta_wf_def guard_c_def wp_simps)
qed

text \<open>C21. The deletion passes the data plane a copy of the key that is exactly as long as the key, but the
  encoding reads eight bytes for every match field. When the key is shorter than eight bytes the deletion
  reads beyond the copy.\<close>

theorem mat_del_overreads:
  assumes "dal_table_ok ctx meta pl tbl s" "tm_mf meta \<noteq> []" "num_match_bytes ms < 8" "calloc_ok E" "pl_ctl pl \<noteq> NULL"
    and "mc_match_stage_table_count ctx \<le> 1"
  shows "wp (dal_table_ent_del_by_match_spec E (copied_spec ms) tbl) (\<lambda>st t. os_fault t) s"
proof -
  have ctx: "mat_ctx_of tbl s = Some ctx" "ctx_meta ctx = Some meta" "meta_wf ctx meta" "pipe_obj (tm_pipe meta) s = Some pl"
    using assms(1) by (auto simp: dal_table_ok_def)
  from ctx(2) obtain st where st: "mc_match_stage_table ctx = Some st" "st_table_meta st = Some meta"
    by (auto simp: ctx_meta_def bind_eq_Some_conv)
  have alloc: "wp (dal_dpdk_table_entry_alloc E meta mt) (\<lambda>(st, e) t. st = BF_SUCCESS) s" for mt
    using assms(4) by (auto simp: dal_dpdk_table_entry_alloc_def alloc_if_def wp_simps Let_def calloc_ok_def)
  have "wp (do {
      (status, entry) \<leftarrow> pipe_mgr_dpdk_encode_match_key_and_mask ctx (copied_spec ms) e;
      if status \<noteq> BF_SUCCESS then ret BF_UNEXPECTED
      else dal_commit E (pl_ctl pl) (TableEntryDelete (pl_ctl pl) (mc_name ctx) entry) }) (\<lambda>_. os_fault) t" for e t
    by (rule wp_fault_then [OF encode_short [OF assms(2) ctx(2,3)]])
      (use assms(3) in \<open>auto simp: copied_spec_def packed_match_spec_def intro!: dal_intros\<close>)
  with ctx st assms(5,6) show ?thesis
    by (auto simp: dal_table_ent_del_by_match_spec_def wp_simps case_prod_beta intro!: wp_conseq [OF alloc])
qed

theorem mat_del_overreads_witness:
  "wp (dal_table_ent_del_by_match_spec ref_env (copied_spec ex_ms) 1) (\<lambda>st t. os_fault t) ex_sys"
  by (rule mat_del_overreads [OF ex_dal_ok]) (simp_all add: ex_ms_def ex_sys_defs)

end
