(* ===== verification/Dal_Adt.thy ===== *)
theory Dal_Adt
  imports Dal_Mat
begin

text \<open>
  Action-data tables in the device abstraction layer,
  \<^verbatim>\<open>src/pipe_mgr/shared/dal/dpdk/dal_adt.c\<close>. A member of an action profile is an entry of a table of the
  data plane whose key is the handle of the member.
\<close>

text \<open>The stage table of an action-data table is created with its first member: it is cleared memory.\<close>

definition zero_stage :: pipe_mgr_dpdk_stage_table where
  "zero_stage = \<lparr>st_act_fmt = Null, st_resource_id = PIPE_MGR_DPDK_RES_MIR_SESSION, st_immediate_field = [],
     st_table_meta = None, st_val_lookup_meta = Null\<rparr>"

definition adt_stage ::
  "('m, 'i, 'h, 'z) dpdk_scheme \<Rightarrow> bf_dev_target \<Rightarrow> ptr \<Rightarrow> pipe_mgr_mat_ctx \<Rightarrow> ('m, 'i, 'h, bf_status) cmd" where
  "adt_stage E dev_tgt tbl ctx = do {
     (status, profile) \<leftarrow> pipe_mgr_get_profile E (device_id dev_tgt) (dev_pipe_id dev_tgt);
     case profile of
       None \<Rightarrow> ret BF_OBJECT_NOT_FOUND
     | Some pf \<Rightarrow>
         if mc_stage_table ctx \<noteq> None then ret BF_SUCCESS
         else do {
           ok \<leftarrow> allocate E;
           if \<not> ok then ret BF_NO_SPACE
           else do {
             upd_ctx tbl (\<lambda>ctx. ctx\<lparr>mc_stage_table := Some zero_stage\<rparr>);
             deref (get_profile_obj pf) BF_UNEXPECTED (\<lambda>profile. do {
               status \<leftarrow> dal_dpdk_table_metadata_get E tbl PIPE_MGR_TABLE_TYPE_ADT (pf_pipeline_name profile)
                 (mc_target_table_name ctx);
               if status \<noteq> BF_SUCCESS then do {
                 upd_ctx tbl (\<lambda>ctx. ctx\<lparr>mc_stage_table := None\<rparr>);
                 ret BF_OBJECT_NOT_FOUND }
               else ret BF_SUCCESS }) }}}"

text \<open>The stage table with its metadata and pipeline; a missing one is read through a \<open>NULL\<close> pointer.\<close>

definition adt_pipe ::
  "ptr \<Rightarrow> 'r \<Rightarrow> (pipe_mgr_mat_ctx \<Rightarrow> pipe_mgr_dpdk_stage_table \<Rightarrow> dal_dpdk_table_metadata \<Rightarrow> pipeline \<Rightarrow>
   ('m, 'i, 'h, 'r) cmd) \<Rightarrow> ('m, 'i, 'h, 'r) cmd" where
  "adt_pipe tbl err k = deref (mat_ctx_of tbl) err (\<lambda>ctx. deref (\<lambda>_. mc_stage_table ctx) err (\<lambda>stage_table.
     deref (\<lambda>_. st_table_meta stage_table) err (\<lambda>meta. deref (pipe_obj (tm_pipe meta)) err (\<lambda>pl.
       k ctx stage_table meta pl))))"

text \<open>The body of the two functions that add, which differ in the call to the data plane.\<close>

definition dal_adt_add ::
  "('m, 'i, 'h, 'z) dpdk_scheme \<Rightarrow> bf_dev_target \<Rightarrow> u32 \<Rightarrow> pipe_action_spec \<Rightarrow>
   (pipe_mgr_mat_ctx \<Rightarrow> ptr \<Rightarrow> rte_swx_table_entry \<Rightarrow> rte_call) \<Rightarrow> u32 \<Rightarrow> ptr \<Rightarrow> ('m, 'i, 'h, bf_status) cmd" where
  "dal_adt_add E dev_tgt act_fn_hdl action_spec call tbl_ent_hdl tbl =
     deref (mat_ctx_of tbl) BF_UNEXPECTED (\<lambda>ctx.
       if mc_stage_table_count ctx > 1 then ret BF_NOT_SUPPORTED
       else do {
         status \<leftarrow> adt_stage E dev_tgt tbl ctx;
         if status \<noteq> BF_SUCCESS then ret status
         else adt_pipe tbl BF_UNEXPECTED (\<lambda>ctx stage_table meta pl.
           if pl_ctl pl = NULL then ret BF_OBJECT_NOT_FOUND
           else do {
             (status, act_fmt) \<leftarrow> pipe_mgr_ctx_dpdk_get_act_fmt stage_table act_fn_hdl;
             case act_fmt of
               None \<Rightarrow> ret BF_OBJECT_NOT_FOUND
             | Some fmt \<Rightarrow> do {
                 (status, entry) \<leftarrow> dal_dpdk_table_entry_alloc E meta PIPE_MGR_MATCH_TYPE_EXACT;
                 if status \<noteq> BF_SUCCESS then ret BF_NO_SPACE
                 else do {
                   k \<leftarrow> memcpy (te_key entry) 0 (le_bytes 4 tbl_ent_hdl) 4;
                   (status, entry) \<leftarrow> pipe_mgr_dpdk_encode_adt_action_data fmt
                     (action_data_bits (act_data action_spec)) (entry\<lparr>te_key := k\<rparr>);
                   if status \<noteq> BF_SUCCESS then ret status
                   else dal_commit E (pl_ctl pl) (call ctx (pl_ctl pl) entry) }}}) })"

definition dal_table_adt_ent_add where
  "dal_table_adt_ent_add E dev_tgt act_fn_hdl action_spec =
     dal_adt_add E dev_tgt act_fn_hdl action_spec (\<lambda>ctx ctl. TableEntryAdd ctl (mc_target_table_name ctx))"

definition dal_table_adt_default_ent_add where
  "dal_table_adt_default_ent_add E dev_tgt act_fn_hdl action_spec =
     dal_adt_add E dev_tgt act_fn_hdl action_spec (\<lambda>ctx ctl. TableDefaultEntryAdd ctl (mc_name ctx))"

definition dal_table_adt_ent_del ::
  "('m, 'i, 'h, 'z) dpdk_scheme \<Rightarrow> bf_dev_target \<Rightarrow> u32 \<Rightarrow> ptr \<Rightarrow> ('m, 'i, 'h, bf_status) cmd" where
  "dal_table_adt_ent_del E dev_tgt tbl_ent_hdl tbl =
     deref (mat_ctx_of tbl) BF_UNEXPECTED (\<lambda>ctx.
       if mc_stage_table_count ctx > 1 then ret BF_NOT_SUPPORTED
       else do {
         (status, profile) \<leftarrow> pipe_mgr_get_profile E (device_id dev_tgt) (dev_pipe_id dev_tgt);
         if status \<noteq> BF_SUCCESS then ret BF_OBJECT_NOT_FOUND
         else adt_pipe tbl BF_UNEXPECTED (\<lambda>ctx stage_table meta pl.
           if pl_ctl pl = NULL then ret BF_OBJECT_NOT_FOUND
           else do {
             (status, entry) \<leftarrow> dal_dpdk_table_entry_alloc E meta PIPE_MGR_MATCH_TYPE_EXACT;
             if status \<noteq> BF_SUCCESS then ret BF_NO_SPACE
             else do {
               k \<leftarrow> memcpy (te_key entry) 0 (le_bytes 4 tbl_ent_hdl) 4;
               dal_commit E (pl_ctl pl) (TableEntryDelete (pl_ctl pl) (mc_name ctx) (entry\<lparr>te_key := k\<rparr>)) }}) })"

section \<open>Frames\<close>

lemma dal_upd_stage [dal_intros]: "dal_op (upd_ctx tbl (\<lambda>ctx. ctx\<lparr>mc_stage_table := x\<rparr>))"
  by (auto simp: upd_ctx_def dal_op_def dal_frame_def mat_store_def [abs_def] api_frame_def option.map_comp comp_def
      fun_eq_iff intro!: keeps_modify pres_modify)

lemma dal_adt_ops [dal_intros]:
  "dal_op (adt_stage E tgt tbl ctx)" "(\<And>ctx st meta pl. dal_op (k ctx st meta pl)) \<Longrightarrow> dal_op (adt_pipe tbl err k)"
  by (auto simp: adt_stage_def adt_pipe_def intro!: dal_intros)

lemma dal_adt_calls [dal_intros]:
  "dal_op (dal_adt_add E tgt hdl spec call eh tbl)" "dal_op (dal_table_adt_ent_del E tgt eh tbl)"
  "dal_op (dal_table_adt_ent_add E tgt hdl spec eh tbl)" "dal_op (dal_table_adt_default_ent_add E tgt hdl spec eh tbl)"
  by (auto simp: dal_adt_add_def dal_table_adt_ent_del_def dal_table_adt_ent_add_def dal_table_adt_default_ent_add_def
      intro!: dal_intros)

end
