(* ===== verification/Adt.thy ===== *)
theory Adt
  imports Dal_Adt Mat
begin

text \<open>
  The public calls on action-data tables, \<^verbatim>\<open>src/pipe_mgr/shared/features/pipe_mgr_adt.c\<close>. A member has a
  handle and an id of the client; it is filed in two maps, under the handle and under the id. Groups
  count the references to it.
\<close>

section \<open>Entries\<close>

abbreviation adt_state_of :: "ptr \<Rightarrow> ('m, 'i, 'h) world \<Rightarrow> ('m, 'i, 'h) pipe_mgr_mat_state option" where
  "adt_state_of tbl s \<equiv> Option.bind (w_mats s tbl) mat_state"

abbreviation set_adt_state where
  "set_adt_state \<equiv> set_state PIPE_MGR_TABLE_TYPE_ADT"

definition put_adt_ent :: "ptr \<Rightarrow> pipe_mgr_adt_entry_info option \<Rightarrow> ('m, 'i, 'h, unit) cmd" where
  "put_adt_ent e x = modify (\<lambda>s. s\<lparr>w_adt_ents := (w_adt_ents s)(e := x)\<rparr>)"

definition upd_adt_ent ::
  "ptr \<Rightarrow> (pipe_mgr_adt_entry_info \<Rightarrow> pipe_mgr_adt_entry_info) \<Rightarrow> ('m, 'i, 'h, unit) cmd" where
  "upd_adt_ent e f = modify (\<lambda>s. s\<lparr>w_adt_ents := (w_adt_ents s)(e := map_option f (w_adt_ents s e))\<rparr>)"

text \<open>The entry data of a released entry are not released.\<close>

definition pipe_mgr_adt_delete_entry_data :: "ptr \<Rightarrow> ('m, 'i, 'h, unit) cmd" where
  "pipe_mgr_adt_delete_entry_data entry = deref (\<lambda>s. w_adt_ents s entry) () (\<lambda>e. do {
     dal_delete_adt_table_entry_data;
     put_adt_ent entry None })"

definition pipe_mgr_adt_pack_entry_data ::
  "('m, 'i, 'h, 'z) ext_scheme \<Rightarrow> u32 \<Rightarrow> pipe_action_spec \<Rightarrow> u32 \<Rightarrow> ('m, 'i, 'h, bf_status \<times> ptr) cmd" where
  "pipe_mgr_adt_pack_entry_data E act_fn_hdl act_data_spec new_ent_hdl = do {
     entry \<leftarrow> calloc E;
     if entry = NULL then ret (BF_NO_SYS_RESOURCES, NULL)
     else do {
       (status, ads) \<leftarrow> pipe_mgr_mat_pack_act_spec E act_data_spec;
       case ads of
         None \<Rightarrow> ret (status, NULL)
       | Some ads \<Rightarrow> do {
           put_adt_ent entry (Some \<lparr>ae_adt_ent_hdl = new_ent_hdl, ae_act_fn_hdl = act_fn_hdl, ae_mbr_id = 0,
             ae_entry_data = None, ae_act_data_spec = ads, ae_reference_count = 0\<rparr>);
           ret (BF_SUCCESS, entry) }}}"

text \<open>The structure has room for \<open>PIPE_NUM_TBL_RESOURCES\<close> resources.\<close>

definition make_adt_ent_data ::
  "('m, 'i, 'h, 'z) ext_scheme \<Rightarrow> pipe_action_data_spec \<Rightarrow> u32 \<Rightarrow> nat \<Rightarrow> pipe_res_spec list \<Rightarrow>
   ('a os_scheme, pipe_mgr_adt_ent_data option) state" where
  "make_adt_ent_data E action_data act_fn_hdl num_resources res = do {
     ok \<leftarrow> allocate E;
     if \<not> ok then ret None
     else do {
       bits \<leftarrow> (if num_action_data_bytes action_data \<noteq> 0
         then memcpy (replicate (num_action_data_bytes action_data) 0) 0 (action_data_bits action_data)
           (num_action_data_bytes action_data)
         else ret []);
       guard_c (num_resources \<le> PIPE_NUM_TBL_RESOURCES);
       ret (Some \<lparr>ad_num_resources = num_resources, ad_act_fn_hdl = act_fn_hdl,
         ad_action_data = \<lparr>num_valid_action_data_bits = num_valid_action_data_bits action_data,
           num_action_data_bytes = num_action_data_bytes action_data, action_data_bits = bits\<rparr>,
         ad_resources = res\<rparr>) }}"

section \<open>Looking up\<close>

text \<open>The entry that a map has for a key, read under the lock of the table. The entry itself is read after
  the lock is released.\<close>

definition adt_map_get ::
  "('m, 'i, 'h, 'z) ext_scheme \<Rightarrow> ptr \<Rightarrow> (('m, 'i, 'h) pipe_mgr_mat_state \<Rightarrow> 'm) \<Rightarrow> u32 \<Rightarrow>
   ('m, 'i, 'h, bf_status \<times> ptr) cmd" where
  "adt_map_get E tbl htbl key = deref (adt_state_of tbl) (BF_UNEXPECTED, NULL) (\<lambda>st. do {
     rc \<leftarrow> mutex_lock E (TBL_LOCK tbl);
     if rc \<noteq> 0 then ret (BF_UNEXPECTED, NULL)
     else do {
       r \<leftarrow> (case x_map_get E (htbl st) (ucast key) of (map_sts, e) \<Rightarrow>
         ret (if map_sts \<noteq> BF_MAP_OK then (BF_NO_SYS_RESOURCES, NULL) else (BF_SUCCESS, e)));
       mutex_unlock E (TBL_LOCK tbl);
       ret r }})"

text \<open>What the client asks for: the handle, the id, the data. At least one is asked for.\<close>

record adt_out =
  ao_adt_ent_hdl :: "u32 option"
  ao_mbr_id :: "u32 option"
  ao_ent_data :: "pipe_mgr_adt_ent_data option"

definition adt_no_out :: adt_out where
  "adt_no_out = \<lparr>ao_adt_ent_hdl = None, ao_mbr_id = None, ao_ent_data = None\<rparr>"

definition adt_read ::
  "ptr \<Rightarrow> bool \<Rightarrow> bool \<Rightarrow> bool \<Rightarrow> ('m, 'i, 'h, bf_status \<times> adt_out) cmd" where
  "adt_read entry want_hdl want_mbr want_data =
     deref (\<lambda>s. w_adt_ents s entry) (BF_UNEXPECTED, adt_no_out) (\<lambda>e. do {
       guard_c (want_data \<longrightarrow> ae_entry_data e \<noteq> None);
       ret (BF_SUCCESS, \<lparr>ao_adt_ent_hdl = (if want_hdl then Some (ae_adt_ent_hdl e) else None),
         ao_mbr_id = (if want_mbr then Some (ae_mbr_id e) else None),
         ao_ent_data = (if want_data then ae_entry_data e else None)\<rparr>) })"

definition pipe_mgr_adt_get_mbr_id_hdl_int ::
  "('m, 'i, 'h, 'z) ext_scheme \<Rightarrow> bf_dev_target \<Rightarrow> u32 \<Rightarrow> u32 \<Rightarrow> u32 \<Rightarrow> bool \<Rightarrow> bool \<Rightarrow> bool \<Rightarrow>
   ('m, 'i, 'h, bf_status \<times> adt_out) cmd" where
  "pipe_mgr_adt_get_mbr_id_hdl_int E dev_tgt adt_tbl_hdl mbr_id adt_ent_hdl want_hdl want_mbr want_data =
     (if \<not> want_hdl \<and> \<not> want_mbr \<and> \<not> want_data then ret (BF_INVALID_ARG, adt_no_out)
      else if adt_ent_hdl = 0 \<and> mbr_id = 0 then ret (BF_INVALID_ARG, adt_no_out)
      else with_table E dev_tgt adt_tbl_hdl PIPE_MGR_TABLE_TYPE_ADT (\<lambda>_. (BF_OBJECT_NOT_FOUND, adt_no_out)) (\<lambda>tbl. do {
        (status, entry) \<leftarrow> (if adt_ent_hdl \<noteq> 0 then adt_map_get E tbl entry_info_htbl adt_ent_hdl
          else adt_map_get E tbl mbr_id_htbl mbr_id);
        if status \<noteq> BF_SUCCESS then ret (status, adt_no_out)
        else adt_read entry want_hdl want_mbr want_data }))"

definition pipe_mgr_adt_default_get_mbr_id_hdl_int ::
  "('m, 'i, 'h, 'z) ext_scheme \<Rightarrow> bf_dev_target \<Rightarrow> u32 \<Rightarrow> u32 \<Rightarrow> bool \<Rightarrow> bool \<Rightarrow> bool \<Rightarrow>
   ('m, 'i, 'h, bf_status \<times> adt_out) cmd" where
  "pipe_mgr_adt_default_get_mbr_id_hdl_int E dev_tgt adt_tbl_hdl mbr_id want_hdl want_mbr want_data =
     (if \<not> want_hdl \<and> \<not> want_mbr \<and> \<not> want_data then ret (BF_INVALID_ARG, adt_no_out)
      else with_table E dev_tgt adt_tbl_hdl PIPE_MGR_TABLE_TYPE_ADT (\<lambda>_. (BF_OBJECT_NOT_FOUND, adt_no_out)) (\<lambda>tbl. do {
        (status, entry) \<leftarrow> adt_map_get E tbl mbr_id_htbl mbr_id;
        if status \<noteq> BF_SUCCESS then ret (status, adt_no_out)
        else adt_read entry want_hdl want_mbr want_data }))"

definition pipe_mgr_adt_ent_hdl_get where
  "pipe_mgr_adt_ent_hdl_get E shdl dev_tgt adt_tbl_hdl mbr_id = with_api E shdl dev_tgt (\<lambda>st. (st, adt_no_out))
     (pipe_mgr_adt_get_mbr_id_hdl_int E dev_tgt adt_tbl_hdl mbr_id 0 True False False)"

definition pipe_mgr_adt_default_ent_hdl_get where
  "pipe_mgr_adt_default_ent_hdl_get E shdl dev_tgt adt_tbl_hdl mbr_id = with_api E shdl dev_tgt (\<lambda>st. (st, adt_no_out))
     (pipe_mgr_adt_default_get_mbr_id_hdl_int E dev_tgt adt_tbl_hdl mbr_id True False False)"

definition pipe_mgr_adt_mbr_id_get where
  "pipe_mgr_adt_mbr_id_get E shdl dev_tgt adt_tbl_hdl adt_ent_hdl = with_api E shdl dev_tgt (\<lambda>st. (st, adt_no_out))
     (pipe_mgr_adt_get_mbr_id_hdl_int E dev_tgt adt_tbl_hdl 0 adt_ent_hdl False True False)"

definition pipe_mgr_adt_ent_data_get where
  "pipe_mgr_adt_ent_data_get E shdl dev_tgt adt_tbl_hdl mbr_id = with_api E shdl dev_tgt (\<lambda>st. (st, adt_no_out))
     (pipe_mgr_adt_get_mbr_id_hdl_int E dev_tgt adt_tbl_hdl mbr_id 0 True False True)"

section \<open>Adding\<close>

definition adt_free_id :: "('m, 'i, 'h, 'z) ext_scheme \<Rightarrow> ptr \<Rightarrow> u32 \<Rightarrow> ('m, 'i, 'h, unit) cmd" where
  "adt_free_id E tbl hdl = set_adt_state tbl (\<lambda>st. st\<lparr>entry_handle_array := x_id_free E (entry_handle_array st) hdl\<rparr>)"

text \<open>The clean-up labels of the function, from the last on.\<close>

definition cleanup_tbl_unlock ::
  "('m, 'i, 'h, 'z) ext_scheme \<Rightarrow> ptr \<Rightarrow> 'r \<Rightarrow> ('m, 'i, 'h, 'r) cmd" where
  "cleanup_tbl_unlock E tbl r = do { mutex_unlock E (TBL_LOCK tbl); ret r }"

definition cleanup_id :: "('m, 'i, 'h, 'z) ext_scheme \<Rightarrow> ptr \<Rightarrow> u32 \<Rightarrow> 'r \<Rightarrow> ('m, 'i, 'h, 'r) cmd" where
  "cleanup_id E tbl hdl r = do { adt_free_id E tbl hdl; cleanup_tbl_unlock E tbl r }"

definition cleanup_map_add ::
  "('m, 'i, 'h, 'z) ext_scheme \<Rightarrow> ptr \<Rightarrow> ptr \<Rightarrow> u32 \<Rightarrow> 'r \<Rightarrow> ('m, 'i, 'h, 'r) cmd" where
  "cleanup_map_add E tbl entry hdl r = do { pipe_mgr_adt_delete_entry_data entry; cleanup_id E tbl hdl r }"

text \<open>The resources of the client are copied first. A failed allocation is reported by \<open>None\<close>.\<close>

definition adt_entry_data ::
  "('m, 'i, 'h, 'z) ext_scheme \<Rightarrow> u32 \<Rightarrow> pipe_action_spec \<Rightarrow> ('m, 'i, 'h, pipe_mgr_adt_ent_data option) cmd" where
  "adt_entry_data E act_fn_hdl action_spec = do {
     ok \<leftarrow> (if resource_count action_spec \<noteq> 0 then allocate E else ret True);
     if \<not> ok then ret None
     else do {
       guard_c (resource_count action_spec \<le> length (resources action_spec));
       make_adt_ent_data E (act_data action_spec) act_fn_hdl (resource_count action_spec)
         (take (resource_count action_spec) (resources action_spec)) }}"

text \<open>Filing a member in the two maps.\<close>

definition adt_file ::
  "('m, 'i, 'h, 'z) ext_scheme \<Rightarrow> ptr \<Rightarrow> ptr \<Rightarrow> u32 \<Rightarrow> u32 \<Rightarrow> ('m, 'i, 'h, bf_status) cmd" where
  "adt_file E tbl entry hdl mbr_id = deref (adt_state_of tbl) BF_UNEXPECTED (\<lambda>st.
     case x_map_add E (entry_info_htbl st) (ucast hdl) entry of (map_sts, m) \<Rightarrow> do {
       set_adt_state tbl (\<lambda>st. st\<lparr>entry_info_htbl := m\<rparr>);
       if map_sts \<noteq> BF_MAP_OK then ret BF_NO_SYS_RESOURCES
       else case x_map_add E (mbr_id_htbl st) (ucast mbr_id) entry of (map_sts, m) \<Rightarrow> do {
         set_adt_state tbl (\<lambda>st. st\<lparr>mbr_id_htbl := m\<rparr>);
         if map_sts \<noteq> BF_MAP_OK then do {
           set_adt_state tbl (\<lambda>st. st\<lparr>entry_info_htbl := snd (x_map_rmv E (entry_info_htbl st) (ucast hdl))\<rparr>);
           ret BF_NO_SYS_RESOURCES }
         else ret BF_SUCCESS }})"

text \<open>The last part of the two functions that add: when the table cannot be unlocked, the entry is
  released although the maps have it.\<close>

definition adt_add_file ::
  "('m, 'i, 'h, 'z) ext_scheme \<Rightarrow> ptr \<Rightarrow> ptr \<Rightarrow> u32 \<Rightarrow> u32 \<Rightarrow> ('m, 'i, 'h, bf_status \<times> u32 option) cmd" where
  "adt_add_file E tbl entry new_ent_hdl mbr_id = do {
     status \<leftarrow> adt_file E tbl entry new_ent_hdl mbr_id;
     if status \<noteq> BF_SUCCESS then cleanup_map_add E tbl entry new_ent_hdl (status, None)
     else do {
       rc \<leftarrow> mutex_unlock E (TBL_LOCK tbl);
       if rc \<noteq> 0 then cleanup_map_add E tbl entry new_ent_hdl (BF_UNEXPECTED, Some new_ent_hdl)
       else ret (BF_SUCCESS, Some new_ent_hdl) }}"

text \<open>From the packed entry on. When memory runs out after the data plane has the entry, the status is still
  that of the data plane, \<open>BF_SUCCESS\<close>.\<close>

definition adt_add_entry ::
  "('m, 'i, 'h, 'z) dpdk_scheme \<Rightarrow> ptr \<Rightarrow> ptr \<Rightarrow> u32 \<Rightarrow> u32 \<Rightarrow> u32 \<Rightarrow> pipe_action_spec \<Rightarrow>
   (u32 \<Rightarrow> ptr \<Rightarrow> ('m, 'i, 'h, bf_status) cmd) \<Rightarrow> ('m, 'i, 'h, bf_status \<times> u32 option) cmd" where
  "adt_add_entry E tbl entry new_ent_hdl act_fn_hdl mbr_id action_spec dal_add = do {
     upd_adt_ent entry (\<lambda>e. e\<lparr>ae_mbr_id := mbr_id\<rparr>);
     status \<leftarrow> dal_add new_ent_hdl tbl;
     if status \<noteq> BF_SUCCESS then cleanup_map_add E tbl entry new_ent_hdl (status, None)
     else do {
       d \<leftarrow> adt_entry_data E act_fn_hdl action_spec;
       case d of
         None \<Rightarrow> cleanup_map_add E tbl entry new_ent_hdl (BF_SUCCESS, None)
       | Some d \<Rightarrow> do {
           upd_adt_ent entry (\<lambda>e. e\<lparr>ae_entry_data := Some d\<rparr>);
           adt_add_file E tbl entry new_ent_hdl mbr_id }}}"

definition adt_add_body ::
  "('m, 'i, 'h, 'z) dpdk_scheme \<Rightarrow> bf_dev_target \<Rightarrow> u32 \<Rightarrow> u32 \<Rightarrow> u32 \<Rightarrow> pipe_action_spec \<Rightarrow>
   (u32 \<Rightarrow> ptr \<Rightarrow> ('m, 'i, 'h, bf_status) cmd) \<Rightarrow> ('m, 'i, 'h, bf_status \<times> u32 option) cmd" where
  "adt_add_body E dev_tgt adt_tbl_hdl act_fn_hdl mbr_id action_spec dal_add =
     with_table E dev_tgt adt_tbl_hdl PIPE_MGR_TABLE_TYPE_ADT (\<lambda>st. (st, None)) (\<lambda>tbl.
       deref (adt_state_of tbl) (BF_UNEXPECTED, None) (\<lambda>st. do {
         rc \<leftarrow> mutex_lock E (TBL_LOCK tbl);
         if rc \<noteq> 0 then ret (BF_UNEXPECTED, None)
         else case x_id_alloc E (entry_handle_array st) of (new_ent_hdl, ids) \<Rightarrow> do {
           set_adt_state tbl (\<lambda>st. st\<lparr>entry_handle_array := ids\<rparr>);
           if new_ent_hdl = ENTRY_HANDLE_ARRAY_SIZE then cleanup_tbl_unlock E tbl (BF_NO_SPACE, None)
           else do {
             (status, entry) \<leftarrow> pipe_mgr_adt_pack_entry_data E act_fn_hdl action_spec new_ent_hdl;
             if status \<noteq> BF_SUCCESS then cleanup_id E tbl new_ent_hdl (status, None)
             else adt_add_entry E tbl entry new_ent_hdl act_fn_hdl mbr_id action_spec dal_add }}}))"

definition pipe_mgr_adt_ent_add where
  "pipe_mgr_adt_ent_add E sess_hdl dev_tgt adt_tbl_hdl act_fn_hdl mbr_id action_spec =
     with_api E sess_hdl dev_tgt (\<lambda>st. (st, None)) (adt_add_body E dev_tgt adt_tbl_hdl act_fn_hdl mbr_id action_spec
       (dal_table_adt_ent_add E dev_tgt act_fn_hdl action_spec))"

definition pipe_mgr_adt_default_ent_add where
  "pipe_mgr_adt_default_ent_add E sess_hdl dev_tgt adt_tbl_hdl act_fn_hdl mbr_id action_spec =
     with_api E sess_hdl dev_tgt (\<lambda>st. (st, None)) (adt_add_body E dev_tgt adt_tbl_hdl act_fn_hdl mbr_id action_spec
       (dal_table_adt_default_ent_add E dev_tgt act_fn_hdl action_spec))"

section \<open>References\<close>

text \<open>Counting the references of groups to a member: \<^verbatim>\<open>op\<close> is 0 to add one. The counter is a 32-bit
  integer. The table is not locked.\<close>

definition pipe_mgr_adt_member_reference_add_delete ::
  "('m, 'i, 'h, 'z) ext_scheme \<Rightarrow> bf_dev_target \<Rightarrow> u32 \<Rightarrow> u32 \<Rightarrow> bool \<Rightarrow> ('m, 'i, 'h, bf_status) cmd" where
  "pipe_mgr_adt_member_reference_add_delete E dev_tgt adt_tbl_hdl adt_ent_hdl op =
     with_table E dev_tgt adt_tbl_hdl PIPE_MGR_TABLE_TYPE_ADT (\<lambda>_. BF_UNEXPECTED) (\<lambda>tbl.
       deref (adt_state_of tbl) BF_UNEXPECTED (\<lambda>st.
         case x_map_get E (entry_info_htbl st) (ucast adt_ent_hdl) of (map_sts, entry) \<Rightarrow>
           if map_sts \<noteq> BF_MAP_OK then ret BF_NO_SYS_RESOURCES
           else deref (\<lambda>s. w_adt_ents s entry) BF_UNEXPECTED (\<lambda>_. do {
             upd_adt_ent entry (\<lambda>e. e\<lparr>ae_reference_count := (if op then ae_reference_count e - 1
               else ae_reference_count e + 1)\<rparr>);
             ret BF_SUCCESS })))"

section \<open>Reading and deleting\<close>

text \<open>The buffer of the client and the action it gets back.\<close>

definition get_action_data_body ::
  "('m, 'i, 'h, 'z) ext_scheme \<Rightarrow> u32 \<Rightarrow> bf_dev_target \<Rightarrow> u32 \<Rightarrow> pipe_action_data_spec \<Rightarrow>
   ('m, 'i, 'h, bf_status \<times> pipe_action_data_spec \<times> u32 option) cmd" where
  "get_action_data_body E tbl_hdl dev_tgt entry_hdl out =
     with_table E dev_tgt tbl_hdl PIPE_MGR_TABLE_TYPE_ADT (\<lambda>st. (st, out, None)) (\<lambda>tbl.
       deref (adt_state_of tbl) (BF_UNEXPECTED, out, None) (\<lambda>st. do {
         rc \<leftarrow> mutex_lock E (TBL_LOCK tbl);
         if rc \<noteq> 0 then ret (BF_UNEXPECTED, out, None)
         else case x_map_get E (entry_info_htbl st) (ucast entry_hdl) of (map_sts, entry) \<Rightarrow>
           if map_sts \<noteq> BF_MAP_OK then cleanup_tbl_unlock E tbl (BF_NO_SYS_RESOURCES, out, None)
           else do {
             r \<leftarrow> deref (\<lambda>s. w_adt_ents s entry) (out, None) (\<lambda>e. do {
               bits \<leftarrow> memcpy (action_data_bits out) 0 (action_data_bits (act_data (ae_act_data_spec e)))
                 (num_action_data_bytes (act_data (ae_act_data_spec e)));
               ret (\<lparr>num_valid_action_data_bits = num_valid_action_data_bits (act_data (ae_act_data_spec e)),
                 num_action_data_bytes = num_action_data_bytes (act_data (ae_act_data_spec e)),
                 action_data_bits = bits\<rparr>, Some (ae_act_fn_hdl e)) });
             rc \<leftarrow> mutex_unlock E (TBL_LOCK tbl);
             ret (if rc \<noteq> 0 then BF_UNEXPECTED else BF_SUCCESS, r) }}))"

definition pipe_mgr_get_action_data_entry where
  "pipe_mgr_get_action_data_entry E sess_hdl tbl_hdl dev_tgt entry_hdl out =
     with_api E sess_hdl dev_tgt (\<lambda>st. (st, out, None)) (get_action_data_body E tbl_hdl dev_tgt entry_hdl out)"

text \<open>Taking a member out of the maps and releasing it, once the data plane has forgotten it.\<close>

definition adt_unfile ::
  "('m, 'i, 'h, 'z) ext_scheme \<Rightarrow> ptr \<Rightarrow> ptr \<Rightarrow> u32 \<Rightarrow> ('m, 'i, 'h, unit) cmd" where
  "adt_unfile E tbl entry hdl = do {
     adt_free_id E tbl hdl;
     set_adt_state tbl (\<lambda>st. st\<lparr>entry_info_htbl := snd (x_map_rmv E (entry_info_htbl st) (ucast hdl))\<rparr>);
     deref (\<lambda>s. w_adt_ents s entry) () (\<lambda>e.
       set_adt_state tbl (\<lambda>st. st\<lparr>mbr_id_htbl := snd (x_map_rmv E (mbr_id_htbl st) (ucast (ae_mbr_id e)))\<rparr>));
     pipe_mgr_adt_delete_entry_data entry }"

definition adt_del_body ::
  "('m, 'i, 'h, 'z) dpdk_scheme \<Rightarrow> bf_dev_target \<Rightarrow> u32 \<Rightarrow> u32 \<Rightarrow> ('m, 'i, 'h, bf_status) cmd" where
  "adt_del_body E dev_tgt adt_tbl_hdl adt_ent_hdl =
     with_table E dev_tgt adt_tbl_hdl PIPE_MGR_TABLE_TYPE_ADT (\<lambda>st. st) (\<lambda>tbl.
       deref (adt_state_of tbl) BF_UNEXPECTED (\<lambda>st. do {
         rc \<leftarrow> mutex_lock E (TBL_LOCK tbl);
         if rc \<noteq> 0 then ret BF_UNEXPECTED
         else case x_map_get E (entry_info_htbl st) (ucast adt_ent_hdl) of (map_sts, entry) \<Rightarrow>
           if map_sts \<noteq> BF_MAP_OK then cleanup_tbl_unlock E tbl BF_NO_SYS_RESOURCES
           else do {
             referenced \<leftarrow> deref (\<lambda>s. w_adt_ents s entry) True (\<lambda>e. ret (ae_reference_count e \<noteq> 0));
             if referenced then cleanup_tbl_unlock E tbl BF_UNEXPECTED
             else do {
               status \<leftarrow> dal_table_adt_ent_del E dev_tgt adt_ent_hdl tbl;
               if status \<noteq> BF_SUCCESS then cleanup_tbl_unlock E tbl BF_UNEXPECTED
               else do {
                 adt_unfile E tbl entry adt_ent_hdl;
                 rc \<leftarrow> mutex_unlock E (TBL_LOCK tbl);
                 ret (if rc \<noteq> 0 then BF_UNEXPECTED else BF_SUCCESS) }}}}))"

definition pipe_mgr_adt_ent_del where
  "pipe_mgr_adt_ent_del E sess_hdl dev_tgt adt_tbl_hdl adt_ent_hdl =
     with_api E sess_hdl dev_tgt (\<lambda>st. st) (adt_del_body E dev_tgt adt_tbl_hdl adt_ent_hdl)"

end
