(* ===== verification/Sel.thy ===== *)
theory Sel
  imports Adt
begin

text \<open>
  Action selectors: the operations on the data plane (\<^verbatim>\<open>src/pipe_mgr/shared/dal/dpdk/dal_sel.c\<close>) and the public
  calls (\<^verbatim>\<open>src/pipe_mgr/shared/features/pipe_mgr_sel.c\<close>). A group has a handle, which the data plane chooses, an id of
  the client and members, which are handles of an action-data table; it counts as a reference to each of them.
\<close>

section \<open>The data plane\<close>

text \<open>The control structure of the pipeline of the profile.\<close>

definition sel_ctl ::
  "('m, 'i, 'h, 'z) dpdk_scheme \<Rightarrow> bf_dev_target \<Rightarrow> 'r \<Rightarrow> 'r \<Rightarrow> (ptr \<Rightarrow> ('m, 'i, 'h, 'r) cmd) \<Rightarrow> ('m, 'i, 'h, 'r) cmd" where
  "sel_ctl E dev_tgt absent bad k = do {
     (status, profile) \<leftarrow> pipe_mgr_get_profile E (device_id dev_tgt) (dev_pipe_id dev_tgt);
     case profile of
       None \<Rightarrow> ret absent
     | Some pf \<Rightarrow> deref (get_profile_obj pf) bad (\<lambda>profile. do {
         pipe \<leftarrow> pipeline_find (pf_pipeline_name profile);
         if pipe = NULL then ret absent
         else deref (pipe_obj pipe) bad (\<lambda>pl. if pl_ctl pl = NULL then ret absent else k (pl_ctl pl)) }) }"

text \<open>The two directions of \<^verbatim>\<open>dal_table_sel_ent_add_del\<close>. The first returns the handle of the new group.\<close>

definition dal_table_sel_ent_add ::
  "('m, 'i, 'h, 'z) dpdk_scheme \<Rightarrow> bf_dev_target \<Rightarrow> ptr \<Rightarrow> ('m, 'i, 'h, bf_status \<times> u32) cmd" where
  "dal_table_sel_ent_add E dev_tgt tbl = sel_ctl E dev_tgt (BF_OBJECT_NOT_FOUND, 0) (BF_UNEXPECTED, 0) (\<lambda>ctl.
     deref (mat_ctx_of tbl) (BF_UNEXPECTED, 0) (\<lambda>ctx. do {
       n \<leftarrow> gets os_clk;
       status \<leftarrow> dal_commit E ctl (SelectorGroupAdd ctl (mc_name ctx));
       ret (status, r_group_id E n) }))"

definition dal_table_sel_ent_del ::
  "('m, 'i, 'h, 'z) dpdk_scheme \<Rightarrow> bf_dev_target \<Rightarrow> ptr \<Rightarrow> u32 \<Rightarrow> ('m, 'i, 'h, bf_status) cmd" where
  "dal_table_sel_ent_del E dev_tgt tbl grp_hdl = sel_ctl E dev_tgt BF_OBJECT_NOT_FOUND BF_UNEXPECTED (\<lambda>ctl.
     deref (mat_ctx_of tbl) BF_UNEXPECTED (\<lambda>ctx. dal_commit E ctl (SelectorGroupDelete ctl (mc_name ctx) grp_hdl)))"

text \<open>An element of an array behind a pointer.\<close>

definition elem :: "'a list option \<Rightarrow> nat \<Rightarrow> 'a option" where
  "elem a i = Option.bind a (\<lambda>xs. if i < length xs then Some (xs ! i) else None)"

primrec sel_member_loop ::
  "('m, 'i, 'h, 'z) dpdk_scheme \<Rightarrow> (u32 \<Rightarrow> rte_call) \<Rightarrow> u32 list option \<Rightarrow> nat list \<Rightarrow> ('m, 'i, 'h, bf_status) cmd" where
  "sel_member_loop E call mbrs [] = ret BF_SUCCESS"
| "sel_member_loop E call mbrs (i # is) = deref (\<lambda>_. elem mbrs i) BF_UNEXPECTED (\<lambda>m. do {
     rc \<leftarrow> rte_do E (call m);
     if rc \<noteq> 0 then ret BF_UNEXPECTED else sel_member_loop E call mbrs is })"

definition dal_table_sel_member_add_del ::
  "('m, 'i, 'h, 'z) dpdk_scheme \<Rightarrow> bf_dev_target \<Rightarrow> u32 \<Rightarrow> nat \<Rightarrow> u32 list option \<Rightarrow> bool \<Rightarrow> ptr \<Rightarrow>
   ('m, 'i, 'h, bf_status) cmd" where
  "dal_table_sel_member_add_del E dev_tgt sel_grp_hdl num_mbrs mbrs delete_members tbl =
     sel_ctl E dev_tgt BF_OBJECT_NOT_FOUND BF_UNEXPECTED (\<lambda>ctl. deref (mat_ctx_of tbl) BF_UNEXPECTED (\<lambda>ctx. do {
       status \<leftarrow> sel_member_loop E (if delete_members then SelectorGroupMemberDelete ctl (mc_name ctx) sel_grp_hdl
         else (\<lambda>m. SelectorGroupMemberAdd ctl (mc_name ctx) sel_grp_hdl m 1)) mbrs [0..<num_mbrs];
       if status \<noteq> BF_SUCCESS then ret status
       else do {
         rc \<leftarrow> rte_do E (Commit ctl);
         ret (if rc \<noteq> 0 then BF_UNEXPECTED else BF_SUCCESS) }}))"

section \<open>Entries\<close>

abbreviation set_sel_state where
  "set_sel_state \<equiv> set_state PIPE_MGR_TABLE_TYPE_SEL"

definition put_sel_ent :: "ptr \<Rightarrow> pipe_mgr_sel_entry_info option \<Rightarrow> ('m, 'i, 'h, unit) cmd" where
  "put_sel_ent e x = modify (\<lambda>s. s\<lparr>w_sel_ents := (w_sel_ents s)(e := x)\<rparr>)"

definition upd_sel_ent ::
  "ptr \<Rightarrow> (pipe_mgr_sel_entry_info \<Rightarrow> pipe_mgr_sel_entry_info) \<Rightarrow> ('m, 'i, 'h, unit) cmd" where
  "upd_sel_ent e f = modify (\<lambda>s. s\<lparr>w_sel_ents := (w_sel_ents s)(e := map_option f (w_sel_ents s e))\<rparr>)"

definition pipe_mgr_sel_delete_entry_data :: "ptr \<Rightarrow> ('m, 'i, 'h, unit) cmd" where
  "pipe_mgr_sel_delete_entry_data entry = deref (\<lambda>s. w_sel_ents s entry) () (\<lambda>_. put_sel_ent entry None)"

text \<open>Filling an entry, a new one when \<open>entry\<close> is \<open>NULL\<close>. An entry that was there is released when its members
  cannot be allocated. The old members are not released; with no new members they stay.\<close>

definition sel_fill ::
  "('m, 'i, 'h, 'z) ext_scheme \<Rightarrow> u32 \<Rightarrow> u32 \<Rightarrow> nat \<Rightarrow> u32 list \<Rightarrow> ptr \<Rightarrow> ('m, 'i, 'h, bf_status \<times> ptr) cmd" where
  "sel_fill E sel_tbl_hdl sel_grp_hdl num_mbrs mbrs entry = deref (\<lambda>s. w_sel_ents s entry) (BF_UNEXPECTED, NULL) (\<lambda>_. do {
     upd_sel_ent entry (\<lambda>e. e\<lparr>se_sel_tbl_hdl := sel_tbl_hdl, se_sel_grp_hdl := sel_grp_hdl, se_num_mbrs := num_mbrs\<rparr>);
     if num_mbrs = 0 then ret (BF_SUCCESS, entry)
     else do {
       ok \<leftarrow> allocate E;
       if \<not> ok then do { put_sel_ent entry None; ret (BF_NO_SYS_RESOURCES, NULL) }
       else do {
         guard_c (num_mbrs \<le> length mbrs);
         upd_sel_ent entry (\<lambda>e. e\<lparr>se_mbrs := Some (take num_mbrs mbrs)\<rparr>);
         ret (BF_SUCCESS, entry) }}})"

definition pipe_mgr_sel_pack_entry_data ::
  "('m, 'i, 'h, 'z) ext_scheme \<Rightarrow> u32 \<Rightarrow> u32 \<Rightarrow> nat \<Rightarrow> u32 list \<Rightarrow> ptr \<Rightarrow> ('m, 'i, 'h, bf_status \<times> ptr) cmd" where
  "pipe_mgr_sel_pack_entry_data E sel_tbl_hdl sel_grp_hdl num_mbrs mbrs entry_info =
     (if entry_info \<noteq> NULL then sel_fill E sel_tbl_hdl sel_grp_hdl num_mbrs mbrs entry_info
      else do {
        entry \<leftarrow> calloc E;
        if entry = NULL then ret (BF_NO_SYS_RESOURCES, NULL)
        else do {
          put_sel_ent entry (Some \<lparr>se_sel_tbl_hdl = 0, se_sel_grp_hdl = 0, se_sel_grp_id = 0, se_max_grp_size = 0,
            se_num_mbrs = 0, se_mbrs = None\<rparr>);
          sel_fill E sel_tbl_hdl sel_grp_hdl num_mbrs mbrs entry }})"

section \<open>Looking up\<close>

record sel_out =
  so_sel_grp_hdl :: "u32 option"
  so_sel_grp_id :: "u32 option"
  so_max_size :: "u32 option"

definition sel_no_out :: sel_out where
  "sel_no_out = \<lparr>so_sel_grp_hdl = None, so_sel_grp_id = None, so_max_size = None\<rparr>"

text \<open>The handle \<^verbatim>\<open>0xffffffff\<close> asks for the id. The entry is read after the lock is released.\<close>

definition sel_map_get ::
  "('m, 'i, 'h, 'z) ext_scheme \<Rightarrow> ptr \<Rightarrow> u32 \<Rightarrow> u32 \<Rightarrow> ('m, 'i, 'h, bf_status \<times> ptr) cmd" where
  "sel_map_get E tbl grp_id grp_hdl = deref (adt_state_of tbl) (BF_UNEXPECTED, NULL) (\<lambda>st. do {
     rc \<leftarrow> mutex_lock E (TBL_LOCK tbl);
     if rc \<noteq> 0 then ret (BF_UNEXPECTED, NULL)
     else do {
       r \<leftarrow> (case (if grp_hdl \<noteq> 0xffffffff then x_map_get E (entry_info_htbl st) (ucast grp_hdl)
           else x_map_get E (mbr_id_htbl st) (ucast grp_id)) of (map_sts, e) \<Rightarrow>
         ret (if map_sts \<noteq> BF_MAP_OK then NULL else e));
       mutex_unlock E (TBL_LOCK tbl);
       ret (BF_SUCCESS, r) }})"

definition pipe_mgr_sel_get_grp_id_hdl_int ::
  "('m, 'i, 'h, 'z) ext_scheme \<Rightarrow> bf_dev_target \<Rightarrow> u32 \<Rightarrow> u32 \<Rightarrow> u32 \<Rightarrow> bool \<Rightarrow> bool \<Rightarrow> bool \<Rightarrow>
   ('m, 'i, 'h, bf_status \<times> sel_out) cmd" where
  "pipe_mgr_sel_get_grp_id_hdl_int E dev_tgt sel_tbl_hdl grp_id grp_hdl want_hdl want_id want_size =
     (if \<not> want_hdl \<and> \<not> want_id \<and> \<not> want_size then ret (BF_INVALID_ARG, sel_no_out)
      else with_table E dev_tgt sel_tbl_hdl PIPE_MGR_TABLE_TYPE_SEL (\<lambda>_. (BF_OBJECT_NOT_FOUND, sel_no_out)) (\<lambda>tbl. do {
        (status, entry) \<leftarrow> sel_map_get E tbl grp_id grp_hdl;
        if status \<noteq> BF_SUCCESS then ret (status, sel_no_out)
        else if entry = NULL then ret (BF_OBJECT_NOT_FOUND, sel_no_out)
        else deref (\<lambda>s. w_sel_ents s entry) (BF_UNEXPECTED, sel_no_out) (\<lambda>e.
          ret (BF_SUCCESS, \<lparr>so_sel_grp_hdl = (if want_hdl then Some (se_sel_grp_hdl e) else None),
            so_sel_grp_id = (if want_id then Some (se_sel_grp_id e) else None),
            so_max_size = (if want_size then Some (se_max_grp_size e) else None)\<rparr>)) }))"

definition pipe_mgr_get_sel_grp_max_size where
  "pipe_mgr_get_sel_grp_max_size E sess_hdl dev_tgt tbl_hdl grp_hdl = with_api E sess_hdl dev_tgt (\<lambda>st. (st, sel_no_out))
     (pipe_mgr_sel_get_grp_id_hdl_int E dev_tgt tbl_hdl 0 grp_hdl False False True)"

definition pipe_mgr_sel_grp_id_get where
  "pipe_mgr_sel_grp_id_get E sess_hdl dev_tgt sel_tbl_hdl sel_grp_hdl = with_api E sess_hdl dev_tgt (\<lambda>st. (st, sel_no_out))
     (pipe_mgr_sel_get_grp_id_hdl_int E dev_tgt sel_tbl_hdl 0 sel_grp_hdl False True False)"

definition pipe_mgr_sel_grp_hdl_get where
  "pipe_mgr_sel_grp_hdl_get E sess_hdl dev_tgt sel_tbl_hdl sel_grp_id = with_api E sess_hdl dev_tgt (\<lambda>st. (st, sel_no_out))
     (pipe_mgr_sel_get_grp_id_hdl_int E dev_tgt sel_tbl_hdl sel_grp_id 0xffffffff True False False)"

section \<open>Groups\<close>

definition sel_file ::
  "('m, 'i, 'h, 'z) ext_scheme \<Rightarrow> ptr \<Rightarrow> ptr \<Rightarrow> u32 \<Rightarrow> u32 \<Rightarrow> ('m, 'i, 'h, bf_status) cmd" where
  "sel_file E tbl entry hdl sel_grp_id = deref (adt_state_of tbl) BF_UNEXPECTED (\<lambda>st.
     case x_map_add E (entry_info_htbl st) (ucast hdl) entry of (map_sts, m) \<Rightarrow> do {
       set_sel_state tbl (\<lambda>st. st\<lparr>entry_info_htbl := m\<rparr>);
       if map_sts \<noteq> BF_MAP_OK then ret BF_NO_SYS_RESOURCES
       else case x_map_add E (mbr_id_htbl st) (ucast sel_grp_id) entry of (map_sts, m) \<Rightarrow> do {
         set_sel_state tbl (\<lambda>st. st\<lparr>mbr_id_htbl := m\<rparr>);
         if map_sts \<noteq> BF_MAP_OK then do {
           set_sel_state tbl (\<lambda>st. st\<lparr>entry_info_htbl := snd (x_map_rmv E (entry_info_htbl st) (ucast hdl))\<rparr>);
           ret BF_NO_SYS_RESOURCES }
         else ret BF_SUCCESS }})"

text \<open>Whether the entry of the new group was allocated is not tested. An entry that cannot be filed is not released,
  and the group stays in the data plane.\<close>

definition sel_grp_add_body ::
  "('m, 'i, 'h, 'z) dpdk_scheme \<Rightarrow> bf_dev_target \<Rightarrow> u32 \<Rightarrow> u32 \<Rightarrow> u32 \<Rightarrow> ('m, 'i, 'h, bf_status \<times> u32 option) cmd" where
  "sel_grp_add_body E dev_tgt sel_tbl_hdl sel_grp_id max_grp_size =
     with_table E dev_tgt sel_tbl_hdl PIPE_MGR_TABLE_TYPE_SEL (\<lambda>st. (st, None)) (\<lambda>tbl.
       deref (adt_state_of tbl) (BF_UNEXPECTED, None) (\<lambda>_. do {
         rc \<leftarrow> mutex_lock E (TBL_LOCK tbl);
         if rc \<noteq> 0 then ret (BF_UNEXPECTED, None)
         else do {
           (status, new_ent_hdl) \<leftarrow> dal_table_sel_ent_add E dev_tgt tbl;
           if status \<noteq> BF_SUCCESS then cleanup_tbl_unlock E tbl (status, None)
           else do {
             (_, entry) \<leftarrow> pipe_mgr_sel_pack_entry_data E sel_tbl_hdl new_ent_hdl 0 [] NULL;
             status \<leftarrow> deref (\<lambda>s. w_sel_ents s entry) BF_UNEXPECTED (\<lambda>_. do {
               upd_sel_ent entry (\<lambda>e. e\<lparr>se_max_grp_size := max_grp_size, se_sel_grp_id := sel_grp_id\<rparr>);
               sel_file E tbl entry new_ent_hdl sel_grp_id });
             cleanup_tbl_unlock E tbl (status, Some new_ent_hdl) }}}))"

definition pipe_mgr_sel_grp_add where
  "pipe_mgr_sel_grp_add E sess_hdl dev_tgt sel_tbl_hdl sel_grp_id max_grp_size = with_api E sess_hdl dev_tgt (\<lambda>st. (st, None))
     (sel_grp_add_body E dev_tgt sel_tbl_hdl sel_grp_id max_grp_size)"

text \<open>Work under the lock of a table.\<close>

definition tbl_section :: "('m, 'i, 'h, 'z) ext_scheme \<Rightarrow> ptr \<Rightarrow> ('m, 'i, 'h, bf_status) cmd \<Rightarrow> ('m, 'i, 'h, bf_status) cmd" where
  "tbl_section E tbl work = deref (adt_state_of tbl) BF_UNEXPECTED (\<lambda>_. do {
     rc \<leftarrow> mutex_lock E (TBL_LOCK tbl);
     if rc \<noteq> 0 then ret BF_UNEXPECTED
     else do {
       status \<leftarrow> work;
       mutex_unlock E (TBL_LOCK tbl);
       ret status }})"

text \<open>The calls that lock both the selector and its action-data table.\<close>

definition with_sel_adt ::
  "('m, 'i, 'h, 'z) ext_scheme \<Rightarrow> bf_dev_target \<Rightarrow> u32 \<Rightarrow> (ptr \<Rightarrow> u32 \<Rightarrow> ('m, 'i, 'h, bf_status) cmd) \<Rightarrow>
   ('m, 'i, 'h, bf_status) cmd" where
  "with_sel_adt E dev_tgt sel_tbl_hdl work =
     with_table E dev_tgt sel_tbl_hdl PIPE_MGR_TABLE_TYPE_SEL (\<lambda>st. st) (\<lambda>tbl.
       deref (mat_ctx_of tbl) BF_UNEXPECTED (\<lambda>ctx.
         with_table E dev_tgt (mc_adt_handle ctx) PIPE_MGR_TABLE_TYPE_ADT (\<lambda>st. st) (\<lambda>adt_tbl.
           tbl_section E tbl (tbl_section E adt_tbl (work tbl (mc_adt_handle ctx))))))"

text \<open>Counting the references to the members of a group, until one fails.\<close>

primrec sel_reference_loop ::
  "('m, 'i, 'h, 'z) ext_scheme \<Rightarrow> bf_dev_target \<Rightarrow> u32 \<Rightarrow> bool \<Rightarrow> u32 list option \<Rightarrow> nat list \<Rightarrow> ('m, 'i, 'h, bf_status) cmd" where
  "sel_reference_loop E dev_tgt adt_handle op mbrs [] = ret BF_SUCCESS"
| "sel_reference_loop E dev_tgt adt_handle op mbrs (i # is) = deref (\<lambda>_. elem mbrs i) BF_UNEXPECTED (\<lambda>m. do {
     status \<leftarrow> pipe_mgr_adt_member_reference_add_delete E dev_tgt adt_handle m op;
     if status \<noteq> BF_SUCCESS then ret BF_UNEXPECTED
     else sel_reference_loop E dev_tgt adt_handle op mbrs is })"

text \<open>The label \<^verbatim>\<open>cleanup_map_add\<close>: the members are released, their number is kept.\<close>

definition sel_drop_mbrs :: "ptr \<Rightarrow> ('m, 'i, 'h, unit) cmd" where
  "sel_drop_mbrs entry = (if entry = NULL then ret ()
     else deref (\<lambda>s. w_sel_ents s entry) () (\<lambda>_. upd_sel_ent entry (\<lambda>e. e\<lparr>se_mbrs := None\<rparr>)))"

text \<open>Filing the entry of a group that was not there, the data plane and the references.\<close>

definition sel_set_file :: "('m, 'i, 'h, 'z) ext_scheme \<Rightarrow> ptr \<Rightarrow> u32 \<Rightarrow> ptr \<Rightarrow> ('m, 'i, 'h, map_sts) cmd" where
  "sel_set_file E tbl sel_grp_hdl entry = deref (adt_state_of tbl) BF_MAP_OTHER (\<lambda>st.
     case x_map_add E (entry_info_htbl st) (ucast sel_grp_hdl) entry of (map_sts, m) \<Rightarrow> do {
       set_sel_state tbl (\<lambda>st. st\<lparr>entry_info_htbl := m\<rparr>);
       ret map_sts })"

definition sel_mbrs_program ::
  "('m, 'i, 'h, 'z) dpdk_scheme \<Rightarrow> bf_dev_target \<Rightarrow> u32 \<Rightarrow> nat \<Rightarrow> u32 list \<Rightarrow> ptr \<Rightarrow> u32 \<Rightarrow> map_sts \<Rightarrow> ptr \<Rightarrow>
   ('m, 'i, 'h, bf_status) cmd" where
  "sel_mbrs_program E dev_tgt sel_grp_hdl num_mbrs mbrs tbl adt_handle map_sts entry = do {
     status \<leftarrow> dal_table_sel_member_add_del E dev_tgt sel_grp_hdl num_mbrs (Some mbrs) False tbl;
     map_sts \<leftarrow> (if status = BF_SUCCESS \<and> map_sts \<noteq> BF_MAP_OK then sel_set_file E tbl sel_grp_hdl entry else ret map_sts);
     if map_sts \<noteq> BF_MAP_OK \<or> status \<noteq> BF_SUCCESS then do { sel_drop_mbrs entry; ret BF_NO_SYS_RESOURCES }
     else sel_reference_loop E dev_tgt adt_handle False (Some mbrs) [0..<num_mbrs] }"

text \<open>The members that the group had before keep the references it counted for them. The members are not limited
  to the size of the group.\<close>

definition sel_mbrs_set_work ::
  "('m, 'i, 'h, 'z) dpdk_scheme \<Rightarrow> bf_dev_target \<Rightarrow> u32 \<Rightarrow> u32 \<Rightarrow> nat \<Rightarrow> u32 list \<Rightarrow> ptr \<Rightarrow> u32 \<Rightarrow>
   ('m, 'i, 'h, bf_status) cmd" where
  "sel_mbrs_set_work E dev_tgt sel_tbl_hdl sel_grp_hdl num_mbrs mbrs tbl adt_handle =
     deref (adt_state_of tbl) BF_UNEXPECTED (\<lambda>st. case x_map_get E (entry_info_htbl st) (ucast sel_grp_hdl) of (map_sts, p) \<Rightarrow> do {
       (status, entry) \<leftarrow> pipe_mgr_sel_pack_entry_data E sel_tbl_hdl sel_grp_hdl num_mbrs mbrs
         (if map_sts = BF_MAP_OK then p else NULL);
       if status \<noteq> BF_SUCCESS then do { sel_drop_mbrs entry; ret status }
       else sel_mbrs_program E dev_tgt sel_grp_hdl num_mbrs mbrs tbl adt_handle map_sts entry })"

definition pipe_mgr_sel_grp_mbrs_set where
  "pipe_mgr_sel_grp_mbrs_set E sess_hdl dev_tgt sel_tbl_hdl sel_grp_hdl num_mbrs mbrs = with_api E sess_hdl dev_tgt (\<lambda>st. st)
     (with_sel_adt E dev_tgt sel_tbl_hdl (sel_mbrs_set_work E dev_tgt sel_tbl_hdl sel_grp_hdl num_mbrs mbrs))"

section \<open>Reading the members\<close>

text \<open>Reading an entry under the lock of the table. After an unlock that failed the table is unlocked once more.\<close>

definition sel_read ::
  "('m, 'i, 'h, 'z) ext_scheme \<Rightarrow> bf_dev_target \<Rightarrow> u32 \<Rightarrow> u32 \<Rightarrow> 'r \<Rightarrow> (pipe_mgr_sel_entry_info \<Rightarrow> ('m, 'i, 'h, 'r) cmd) \<Rightarrow>
   ('m, 'i, 'h, bf_status \<times> 'r) cmd" where
  "sel_read E dev_tgt tbl_hdl grp_hdl out k =
     with_table E dev_tgt tbl_hdl PIPE_MGR_TABLE_TYPE_SEL (\<lambda>st. (st, out)) (\<lambda>tbl.
       deref (adt_state_of tbl) (BF_UNEXPECTED, out) (\<lambda>st. do {
         rc \<leftarrow> mutex_lock E (TBL_LOCK tbl);
         if rc \<noteq> 0 then ret (BF_UNEXPECTED, out)
         else case x_map_get E (entry_info_htbl st) (ucast grp_hdl) of (map_sts, entry) \<Rightarrow>
           if map_sts \<noteq> BF_MAP_OK then cleanup_tbl_unlock E tbl (BF_NO_SYS_RESOURCES, out)
           else do {
             r \<leftarrow> deref (\<lambda>s. w_sel_ents s entry) out k;
             rc \<leftarrow> mutex_unlock E (TBL_LOCK tbl);
             if rc \<noteq> 0 then cleanup_tbl_unlock E tbl (BF_UNEXPECTED, r) else ret (BF_SUCCESS, r) }}))"

definition sel_first_mbr :: "pipe_mgr_sel_entry_info \<Rightarrow> ('a os_scheme, u32 option) state" where
  "sel_first_mbr e = (if se_num_mbrs e \<noteq> 0 then deref (\<lambda>_. elem (se_mbrs e) 0) None (\<lambda>m. ret (Some m)) else ret None)"

definition pipe_mgr_get_first_group_member where
  "pipe_mgr_get_first_group_member E sess_hdl tbl_hdl dev_tgt sel_grp_hdl = with_api E sess_hdl dev_tgt (\<lambda>st. (st, None))
     (sel_read E dev_tgt tbl_hdl sel_grp_hdl None sel_first_mbr)"

definition pipe_mgr_get_sel_grp_mbr_count where
  "pipe_mgr_get_sel_grp_mbr_count E sess_hdl dev_tgt tbl_hdl grp_hdl = with_api E sess_hdl dev_tgt (\<lambda>st. (st, None))
     (sel_read E dev_tgt tbl_hdl grp_hdl None (\<lambda>e. ret (Some (se_num_mbrs e))))"

primrec mbrs_copy ::
  "u32 list option \<Rightarrow> nat list \<Rightarrow> u32 list \<times> bool list \<times> u32 \<Rightarrow> ('a os_scheme, u32 list \<times> bool list \<times> u32) state" where
  "mbrs_copy ms [] out = ret out"
| "mbrs_copy ms (i # is) out = (case out of (mbrs, enable, populated) \<Rightarrow> deref (\<lambda>_. elem ms i) out (\<lambda>m. do {
     guard_c (i < length mbrs \<and> i < length enable);
     mbrs_copy ms is (mbrs[i := m], enable[i := True], populated + 1) }))"

definition sel_mbrs :: "nat \<Rightarrow> u32 list \<times> bool list \<times> u32 \<Rightarrow> pipe_mgr_sel_entry_info \<Rightarrow>
  ('a os_scheme, u32 list \<times> bool list \<times> u32) state" where
  "sel_mbrs mbrs_size out e = mbrs_copy (se_mbrs e) [0..<min (se_num_mbrs e) mbrs_size] out"

definition pipe_mgr_sel_grp_mbrs_get where
  "pipe_mgr_sel_grp_mbrs_get E sess_hdl dev_tgt tbl_hdl sel_grp_hdl mbrs_size out = with_api E sess_hdl dev_tgt (\<lambda>st. (st, out))
     (sel_read E dev_tgt tbl_hdl sel_grp_hdl out (sel_mbrs mbrs_size out))"

section \<open>Deleting a group\<close>

definition sel_unfile ::
  "('m, 'i, 'h, 'z) ext_scheme \<Rightarrow> ptr \<Rightarrow> ptr \<Rightarrow> u32 \<Rightarrow> ('m, 'i, 'h, unit) cmd" where
  "sel_unfile E tbl entry hdl = do {
     set_sel_state tbl (\<lambda>st. st\<lparr>entry_info_htbl := snd (x_map_rmv E (entry_info_htbl st) (ucast hdl))\<rparr>);
     deref (\<lambda>s. w_sel_ents s entry) () (\<lambda>e.
       set_sel_state tbl (\<lambda>st. st\<lparr>mbr_id_htbl := snd (x_map_rmv E (mbr_id_htbl st) (ucast (se_sel_grp_id e)))\<rparr>));
     pipe_mgr_sel_delete_entry_data entry }"

text \<open>Taking the members out of the group, in the data plane and in the counters.\<close>

definition sel_remove_mbrs ::
  "('m, 'i, 'h, 'z) dpdk_scheme \<Rightarrow> bf_dev_target \<Rightarrow> u32 \<Rightarrow> ptr \<Rightarrow> u32 \<Rightarrow> pipe_mgr_sel_entry_info \<Rightarrow> ('m, 'i, 'h, bf_status) cmd" where
  "sel_remove_mbrs E dev_tgt grp_hdl tbl adt_handle e =
     (if se_num_mbrs e = 0 then ret BF_SUCCESS
      else do {
        status \<leftarrow> dal_table_sel_member_add_del E dev_tgt grp_hdl (se_num_mbrs e) (se_mbrs e) True tbl;
        if status \<noteq> BF_SUCCESS then ret BF_UNEXPECTED
        else sel_reference_loop E dev_tgt adt_handle True (se_mbrs e) [0..<se_num_mbrs e] })"

definition sel_grp_del_work ::
  "('m, 'i, 'h, 'z) dpdk_scheme \<Rightarrow> bf_dev_target \<Rightarrow> u32 \<Rightarrow> ptr \<Rightarrow> u32 \<Rightarrow> ('m, 'i, 'h, bf_status) cmd" where
  "sel_grp_del_work E dev_tgt grp_hdl tbl adt_handle = deref (adt_state_of tbl) BF_UNEXPECTED (\<lambda>st.
     case x_map_get E (entry_info_htbl st) (ucast grp_hdl) of (map_sts, entry) \<Rightarrow>
       if map_sts \<noteq> BF_MAP_OK then ret BF_NO_SYS_RESOURCES
       else deref (\<lambda>s. w_sel_ents s entry) BF_UNEXPECTED (\<lambda>e. do {
         status \<leftarrow> sel_remove_mbrs E dev_tgt grp_hdl tbl adt_handle e;
         if status \<noteq> BF_SUCCESS then ret status
         else do {
           status \<leftarrow> dal_table_sel_ent_del E dev_tgt tbl grp_hdl;
           if status \<noteq> BF_SUCCESS then ret BF_UNEXPECTED
           else do { sel_unfile E tbl entry grp_hdl; ret BF_SUCCESS } }}))"

definition pipe_mgr_sel_grp_del where
  "pipe_mgr_sel_grp_del E sess_hdl dev_tgt tbl_hdl grp_hdl = with_api E sess_hdl dev_tgt (\<lambda>st. st)
     (with_sel_adt E dev_tgt tbl_hdl (sel_grp_del_work E dev_tgt grp_hdl))"

end
