(* ===== verification/Adt_Spec.thy ===== *)
theory Adt_Spec
  imports Adt Mat_Api
begin

text \<open>
  The members of action-data tables. The two maps of a table file the same members
  (\<open>adt_inv\<close>), and every call keeps this, whether it succeeds or fails; the members a table has are a
  map from handles to entries (\<open>adt_mbrs\<close>), and each call has its effect on that map.
\<close>

section \<open>The calls are balanced\<close>

lemma adt_ent_rules:
  "keeps api_frame (put_adt_ent e x)" "bal (put_adt_ent e x)" "keeps api_frame (upd_adt_ent e f)" "bal (upd_adt_ent e f)"
  by (auto simp: put_adt_ent_def upd_adt_ent_def api_frame_def intro!: keeps_intros bal_ops)

lemma adt_op_rules:
  "keeps api_frame (pipe_mgr_adt_delete_entry_data e)" "bal (pipe_mgr_adt_delete_entry_data e)"
  "keeps api_frame (pipe_mgr_adt_pack_entry_data E a ads h)" "bal (pipe_mgr_adt_pack_entry_data E a ads h)"
  by (auto simp: pipe_mgr_adt_delete_entry_data_def pipe_mgr_adt_pack_entry_data_def
      intro!: keeps_intros bal_intros bal_ops adt_ent_rules)

lemma dal_adt_entry_data [dal_intros]: "dal_op (adt_entry_data E a ads)"
  by (auto simp: adt_entry_data_def make_adt_ent_data_def intro!: dal_intros)

lemma set_state_bal [bal_ops]: "bal (set_state tt tbl f)"
  by (auto simp: set_state_def intro!: bal_ops split: pipe_mgr_table_type.splits)

lemmas adt_rules = adt_ent_rules adt_op_rules
lemmas [keeps_intros] = adt_rules(1,3,5,7) dal_adt_calls [THEN frame_dal] dal_adt_entry_data [THEN frame_dal]
lemmas [bal_ops] = adt_rules(2,4,6,8) dal_adt_calls [THEN dal_bal] dal_adt_entry_data [THEN dal_bal]

lemma lt_cleanup [lt_intros]:
  assumes "unlock_ok E" "L (TBL_LOCK tbl) = Held" "\<And>r. L(TBL_LOCK tbl := Free) = N r"
  shows "lt L (cleanup_tbl_unlock E tbl r) N" "lt L (cleanup_id E tbl h r) N" "lt L (cleanup_map_add E tbl e h r) N"
proof -
  show 1: "lt L (cleanup_tbl_unlock E tbl r) N"
    unfolding cleanup_tbl_unlock_def using assms by (auto intro!: lt_intros pres_intros)
  show 2: "lt L (cleanup_id E tbl h r) N"
    unfolding cleanup_id_def adt_free_id_def by (rule lt_bal [OF set_state_bal 1])
  show "lt L (cleanup_map_add E tbl e h r) N"
    unfolding cleanup_map_add_def by (rule lt_bal [OF adt_op_rules(2) 2])
qed

lemma bal_adt_file [bal_ops]: "bal (adt_file E tbl e h m)" "bal (adt_unfile E tbl e h)"
  unfolding adt_file_def adt_unfile_def adt_free_id_def by (rule bal_intros bal_ops | simp)+

lemma frame_adt_file [keeps_intros]:
  "keeps api_frame (adt_file E tbl e h m)" "keeps api_frame (adt_unfile E tbl e h)"
  "keeps api_frame (cleanup_tbl_unlock E tbl r)" "keeps api_frame (cleanup_id E tbl h r)"
  "keeps api_frame (cleanup_map_add E tbl e h r)"
  unfolding adt_file_def adt_unfile_def adt_free_id_def cleanup_tbl_unlock_def cleanup_id_def cleanup_map_add_def
  by (rule keeps_intros | simp)+

lemma fault_cleanup [pres_intros]:
  "pres os_fault (cleanup_tbl_unlock E tbl r)" "pres os_fault (cleanup_id E tbl h r)"
  "pres os_fault (cleanup_map_add E tbl e h r)"
  unfolding cleanup_tbl_unlock_def cleanup_id_def cleanup_map_add_def adt_free_id_def
  by (intro pres_intros bal_fault [OF set_state_bal] bal_fault [OF adt_op_rules(2)])+

text \<open>A section that gives the lock back at the end of each of its paths.\<close>

lemma bal_locked [bal_intros]:
  assumes E: "unlock_ok E" and body: "\<And>L. L l = Held \<Longrightarrow> lt L m (\<lambda>_. L(l := Free))" and err: "bal err"
  shows "bal (do { rc \<leftarrow> mutex_lock E l; if rc \<noteq> 0 then err else m })"
proof (rule balI)
  fix L
  have "lt (L(l := Held)) m (\<lambda>_. L)" if "L l = Free"
    using body [of "L(l := Held)"] that by (simp add: fun_upd_idem)
  moreover have "pres os_fault m" using body [of "\<lambda>_. Held"] by (auto intro: lt_mono)
  ultimately show "lt L (do { rc \<leftarrow> mutex_lock E l; if rc \<noteq> 0 then err else m }) (\<lambda>_. L)"
    by (intro lt_mutex_lock) (auto intro!: lt_tail [OF err] pres_if bal_fault [OF err])
qed

lemma bal_adt_add_body:
  assumes E: "unlock_ok E" and dal: "\<And>h tbl. dal_op (dal_add h tbl)"
  shows "bal (adt_add_body E tgt hdl act mbr ads dal_add)"
  unfolding adt_add_body_def adt_add_entry_def adt_add_file_def
  by (intro with_table_rules bal_deref bal_locked E bal_return)
    (rule E lt_case_prod lt_if lt_case_option lt_cleanup lt_mutex_unlock lt_ret lt_bal bal_ops dal_bal [OF dal]
      pres_intros | simp)+

lemma frame_adt_add_body:
  "(\<And>h tbl. dal_op (dal_add h tbl)) \<Longrightarrow> keeps api_frame (adt_add_body E tgt hdl act mbr ads dal_add)"
  unfolding adt_add_body_def adt_add_entry_def adt_add_file_def by (rule keeps_intros frame_dal | assumption | simp)+

lemma adt_del_body_rules:
  shows "unlock_ok E \<Longrightarrow> bal (adt_del_body E tgt hdl eh)" and "keeps api_frame (adt_del_body E tgt hdl eh)"
proof -
  show "bal (adt_del_body E tgt hdl eh)" if "unlock_ok E"
    unfolding adt_del_body_def using that
    by (intro with_table_rules bal_deref bal_locked bal_return; assumption?)
      (rule lt_intros lt_bal lt_bind_deref bal_intros bal_ops pres_intros | assumption | simp)+
  show "keeps api_frame (adt_del_body E tgt hdl eh)"
    unfolding adt_del_body_def by (rule keeps_intros | simp)+
qed

lemma adt_get_rules:
  "unlock_ok E \<Longrightarrow> bal (adt_map_get E tbl f k)" "keeps api_frame (adt_map_get E tbl f k)"
  "bal (adt_read e b c d)" "keeps api_frame (adt_read e b c d)"
  unfolding adt_map_get_def adt_read_def
  by (intro bal_deref bal_mutex_section bal_intros bal_ops; assumption)
    (rule keeps_intros bal_intros bal_ops | simp)+

lemma adt_read_bodies_rules:
  "unlock_ok E \<Longrightarrow> bal (pipe_mgr_adt_get_mbr_id_hdl_int E tgt hdl mbr eh a b c)"
  "unlock_ok E \<Longrightarrow> bal (pipe_mgr_adt_default_get_mbr_id_hdl_int E tgt hdl mbr a b c)"
  "keeps api_frame (pipe_mgr_adt_get_mbr_id_hdl_int E tgt hdl mbr eh a b c)"
  "keeps api_frame (pipe_mgr_adt_default_get_mbr_id_hdl_int E tgt hdl mbr a b c)"
  unfolding pipe_mgr_adt_get_mbr_id_hdl_int_def pipe_mgr_adt_default_get_mbr_id_hdl_int_def
  by (auto intro!: keeps_intros bal_intros bal_ops adt_get_rules)

lemma get_action_data_rules:
  shows "unlock_ok E \<Longrightarrow> bal (get_action_data_body E hdl tgt eh out)" and "keeps api_frame (get_action_data_body E hdl tgt eh out)"
proof -
  show "bal (get_action_data_body E hdl tgt eh out)" if "unlock_ok E"
    unfolding get_action_data_body_def using that
    by (intro with_table_rules bal_deref bal_locked bal_return; assumption?)
      (rule lt_intros lt_bal lt_bind_deref bal_intros bal_ops pres_intros | assumption | simp)+
  show "keeps api_frame (get_action_data_body E hdl tgt eh out)"
    unfolding get_action_data_body_def by (rule keeps_intros | simp)+
qed

interpretation adt_add: api_call E "adt_add_body E tgt hdl act mbr ads (dal_table_adt_ent_add E tgt act ads)"
  for E tgt hdl act mbr ads
  by unfold_locales (auto intro!: bal_adt_add_body frame_adt_add_body dal_adt_calls)

interpretation adt_default_add: api_call E "adt_add_body E tgt hdl act mbr ads (dal_table_adt_default_ent_add E tgt act ads)"
  for E tgt hdl act mbr ads
  by unfold_locales (auto intro!: bal_adt_add_body frame_adt_add_body dal_adt_calls)

interpretation adt_del: api_call E "adt_del_body E tgt hdl eh" for E tgt hdl eh
  by unfold_locales (fact adt_del_body_rules)+

interpretation adt_get: api_call E "pipe_mgr_adt_get_mbr_id_hdl_int E tgt hdl mbr eh a b c" for E tgt hdl mbr eh a b c
  by unfold_locales (fact adt_read_bodies_rules)+

interpretation adt_action: api_call E "get_action_data_body E hdl tgt eh out" for E hdl tgt eh out
  by unfold_locales (fact get_action_data_rules)+

section \<open>The members of a table\<close>

text \<open>What the maps and the allocator of a table contain.\<close>

definition adt_st ::
  "('m, 'i, 'h, 'z) ext_scheme \<Rightarrow> ('m, 'i, 'h) world \<Rightarrow> ptr \<Rightarrow> ((u64 \<rightharpoonup> ptr) \<times> (u64 \<rightharpoonup> ptr) \<times> u32 set) option" where
  "adt_st E s tbl = map_option (\<lambda>st. (map_abs E (entry_info_htbl st), map_abs E (mbr_id_htbl st),
     id_used E (entry_handle_array st))) (adt_state_of tbl s)"

definition adt_v where
  "adt_v E s = (adt_st E s, w_adt_ents s, os_next s)"

text \<open>One table: the two maps file the same entries, each under its handle and its id; the handles
  are in use; the entries have their data.\<close>

definition adt_files :: "(u64 \<rightharpoonup> ptr) \<Rightarrow> (u64 \<rightharpoonup> ptr) \<Rightarrow> u32 set \<Rightarrow> (ptr \<rightharpoonup> pipe_mgr_adt_entry_info) \<Rightarrow> ptr \<Rightarrow> bool" where
  "adt_files F M I H n \<longleftrightarrow>
     (\<forall>h p. F h = Some p \<longrightarrow> p \<le> n \<and> (\<exists>e. H p = Some e \<and> ucast (ae_adt_ent_hdl e) = h \<and> ae_adt_ent_hdl e \<in> I \<and>
        M (ucast (ae_mbr_id e)) = Some p \<and> ae_entry_data e \<noteq> None)) \<and>
     (\<forall>m p. M m = Some p \<longrightarrow> (\<exists>e. H p = Some e \<and> ucast (ae_mbr_id e) = m \<and> F (ucast (ae_adt_ent_hdl e)) = Some p))"

definition adt_inv :: "('m, 'i, 'h, 'z) ext_scheme \<Rightarrow> ptr set \<Rightarrow> ('m, 'i, 'h) world \<Rightarrow> bool" where
  "adt_inv E A s \<longleftrightarrow>
     (\<forall>tbl\<in>A. \<exists>F M I. adt_st E s tbl = Some (F, M, I) \<and> adt_files F M I (w_adt_ents s) (os_next s)) \<and>
     (\<forall>t\<in>A. \<forall>u\<in>A. t \<noteq> u \<longrightarrow> ran (fst (the (adt_st E s t))) \<inter> ran (fst (the (adt_st E s u))) = {})"

text \<open>The members of a table by their handles.\<close>

definition adt_mbrs ::
  "('m, 'i, 'h, 'z) ext_scheme \<Rightarrow> ('m, 'i, 'h) world \<Rightarrow> ptr \<Rightarrow> u32 \<rightharpoonup> pipe_mgr_adt_entry_info" where
  "adt_mbrs E s tbl h = (case adt_st E s tbl of None \<Rightarrow> None
   | Some (F, _) \<Rightarrow> Option.bind (F (ucast h)) (w_adt_ents s))"

lemma adt_v_os [simp]:
  "adt_v E (s\<lparr>os_clk := c\<rparr>) = adt_v E s" "adt_v E (s\<lparr>os_fault := b\<rparr>) = adt_v E s" "adt_v E (s\<lparr>os_locks := l\<rparr>) = adt_v E s"
  by (simp_all add: adt_v_def adt_st_def [abs_def])

lemma adt_vD:
  assumes "adt_v E t = adt_v E s"
  shows "adt_st E t = adt_st E s" "w_adt_ents t = w_adt_ents s" "os_next t = os_next s"
  using assms by (simp_all add: adt_v_def)

lemma adt_v_lock [keeps_intros]: "keeps (adt_v E) (mutex_lock E' l)" "keeps (adt_v E) (mutex_unlock E' l)"
  by (auto simp: lock_defs intro!: keeps_intros)

lemma adt_v_dal:
  assumes "dal_op m"
  shows "keeps (adt_v E) m"
proof -
  have "adt_v E t = adt_v E s" if fr: "dal_frame t = dal_frame s" for s t :: "('a, 'b, 'c) world"
  proof -
    have "adt_state_of p t = adt_state_of p s" for p
      using dal_frameD(9) [OF fr, of p] by (cases "w_mats t p"; cases "w_mats s p") (auto simp: mat_store_def)
    then show ?thesis using dal_frameD(5,8) [OF fr] by (simp add: adt_v_def adt_st_def [abs_def])
  qed
  then show ?thesis using assms unfolding keeps_def dal_op_def by blast
qed

lemma wp_view: "keeps f m \<Longrightarrow> (\<And>r u. f u = f s \<Longrightarrow> Q r u) \<Longrightarrow> wp m Q s"
  by (auto simp: wp_def dest: keepsD split: prod.split)

lemma adt_st_set [simp]:
  "adt_st E (st_upd PIPE_MGR_TABLE_TYPE_ADT tbl f s) = (adt_st E s)(tbl :=
     map_option (\<lambda>st. (map_abs E (entry_info_htbl (f st)), map_abs E (mbr_id_htbl (f st)),
     id_used E (entry_handle_array (f st)))) (adt_state_of tbl s))"
  by (auto simp: adt_st_def fun_eq_iff option.map_comp comp_def split: Option.bind_splits)

text \<open>Entries that no map has come and go without effect.\<close>

lemma adt_filesD:
  assumes "adt_files F M I H n"
  shows "F h = Some p \<Longrightarrow> p \<le> n" "M m = Some p \<Longrightarrow> p \<le> n"
    "F h = Some p \<Longrightarrow> \<exists>e. H p = Some e \<and> ucast (ae_adt_ent_hdl e) = h \<and> ae_adt_ent_hdl e \<in> I \<and>
        M (ucast (ae_mbr_id e)) = Some p \<and> ae_entry_data e \<noteq> None"
    "M m = Some p \<Longrightarrow> \<exists>e. H p = Some e \<and> ucast (ae_mbr_id e) = m \<and> F (ucast (ae_adt_ent_hdl e)) = Some p"
  using assms unfolding adt_files_def by blast+

lemma adt_files_other:
  assumes "adt_files F M I H n" "n \<le> n'" "\<And>p. p \<le> n \<Longrightarrow> H' p = H p"
  shows "adt_files F M I H' n'"
proof -
  have "H' p = H p" "p \<le> n'" if "F h = Some p" for h p
    using assms(2,3) adt_filesD(1) [OF assms(1) that] by auto
  moreover have "H' p = H p" if "M m = Some p" for m p using assms(3) adt_filesD(2) [OF assms(1) that] by auto
  ultimately show ?thesis using assms(1) unfolding adt_files_def by simp
qed

lemma adt_inv_same:
  assumes "adt_inv E A s" "adt_st E t = adt_st E s" "os_next s \<le> os_next t"
    "\<And>p. p \<le> os_next s \<Longrightarrow> w_adt_ents t p = w_adt_ents s p"
  shows "adt_inv E A t" "tbl \<in> A \<Longrightarrow> adt_mbrs E t tbl = adt_mbrs E s tbl"
proof -
  have "adt_files F M I (w_adt_ents t) (os_next t)" if "adt_files F M I (w_adt_ents s) (os_next s)" for F M I
    by (rule adt_files_other [OF that assms(3,4)])
  with assms(1) show "adt_inv E A t" unfolding adt_inv_def assms(2) by blast
  show "adt_mbrs E t tbl = adt_mbrs E s tbl" if "tbl \<in> A"
  proof
    fix h :: u32
    from assms(1) that obtain F M I where st: "adt_st E s tbl = Some (F, M, I)" "adt_files F M I (w_adt_ents s) (os_next s)"
      by (auto simp: adt_inv_def)
    have "p \<le> os_next s" if "F (ucast h) = Some p" for p using st(2) that by (auto simp: adt_files_def)
    then show "adt_mbrs E t tbl h = adt_mbrs E s tbl h"
      using st(1) assms(2,4) by (cases "F (ucast h)") (auto simp: adt_mbrs_def)
  qed
qed

section \<open>Filing and removing\<close>

lemma adt_invD:
  assumes "adt_inv E A s" "tbl \<in> A"
  obtains F M I where "adt_st E s tbl = Some (F, M, I)" "adt_files F M I (w_adt_ents s) (os_next s)"
  using assms by (auto simp: adt_inv_def)

lemma adt_inv_disj:
  assumes "adt_inv E A s" "t \<in> A" "u \<in> A" "t \<noteq> u" "adt_st E s t = Some (F, r)" "adt_st E s u = Some (G, r')"
    "F h = Some p" "G k = Some q"
  shows "p \<noteq> q"
proof -
  have "ran (fst (the (adt_st E s t))) \<inter> ran (fst (the (adt_st E s u))) = {}"
    using assms(1-4) unfolding adt_inv_def by blast
  with assms(5-) show ?thesis by (auto simp: ran_def)
qed

text \<open>A change of one table that leaves the entries of the others alone.\<close>

lemma adt_inv_upd:
  assumes inv: "adt_inv E A s" and st: "adt_st E t = (adt_st E s)(tbl \<mapsto> (F', M', I'))"
    and files: "adt_files F' M' I' (w_adt_ents t) (os_next t)" and n: "os_next s \<le> os_next t"
    and others: "\<And>u F M I h q. u \<in> A \<Longrightarrow> u \<noteq> tbl \<Longrightarrow> adt_st E s u = Some (F, M, I) \<Longrightarrow> F h = Some q \<Longrightarrow>
      w_adt_ents t q = w_adt_ents s q \<and> q \<notin> ran F'"
  shows "adt_inv E A t" "u \<in> A \<Longrightarrow> u \<noteq> tbl \<Longrightarrow> adt_mbrs E t u = adt_mbrs E s u"
proof -
  have oth: "adt_files F M I (w_adt_ents t) (os_next t)"
    if u: "u \<in> A" "u \<noteq> tbl" "adt_st E s u = Some (F, M, I)" for u F M I
  proof -
    from inv u have fs: "adt_files F M I (w_adt_ents s) (os_next s)" by (auto elim: adt_invD)
    have "w_adt_ents t q = w_adt_ents s q" if "M m = Some q" for m q
      using adt_filesD(4) [OF fs that] others [OF u] by blast
    moreover have "w_adt_ents t q = w_adt_ents s q" "q \<le> os_next t" if "F h = Some q" for h q
      using others [OF u that] adt_filesD(1) [OF fs that] n by auto
    ultimately show ?thesis using fs unfolding adt_files_def by simp
  qed
  let ?R = "\<lambda>t u. ran (fst (the (adt_st E t u)))"
  have new: "ran F' \<inter> ?R s u = {}" if u: "u \<in> A" "u \<noteq> tbl" for u
  proof -
    from inv u(1) obtain F M I where "adt_st E s u = Some (F, M, I)" by (auto elim: adt_invD)
    with others [OF u this] show ?thesis by (auto simp: ran_def)
  qed
  have old: "?R s v \<inter> ?R s u = {}" if "u \<in> A" "v \<in> A" "v \<noteq> u" for u v
    using inv that unfolding adt_inv_def by blast
  have R: "?R t u = (if u = tbl then ran F' else ?R s u)" for u by (simp add: st)
  have "?R t v \<inter> ?R t u = {}" if "u \<in> A" "v \<in> A" "v \<noteq> u" for u v
    using that new [of u] new [of v] old [of u v] by (auto simp only: R Int_commute split: if_splits)
  moreover have "\<exists>F M I. adt_st E t u = Some (F, M, I) \<and> adt_files F M I (w_adt_ents t) (os_next t)" if "u \<in> A" for u
    using inv that by (cases "u = tbl") (auto simp: st files elim!: adt_invD [of E A s u] intro: oth)
  ultimately show "adt_inv E A t" unfolding adt_inv_def by blast
  show "adt_mbrs E t u = adt_mbrs E s u" if u: "u \<in> A" "u \<noteq> tbl"
  proof
    fix h :: u32
    from inv u obtain F M I where "adt_st E s u = Some (F, M, I)" by (auto elim: adt_invD)
    with others [OF u this] u(2) show "adt_mbrs E t u h = adt_mbrs E s u h"
      by (cases "F (ucast h)") (auto simp: adt_mbrs_def st)
  qed
qed

lemma adt_filed:
  assumes inv: "adt_inv E A s" "tbl \<in> A" "adt_st E s tbl = Some (F, M, I)"
    and new: "new \<notin> I" "M (ucast mbr) = None" "os_next s < p" "p \<le> os_next t"
    and st: "adt_st E t = (adt_st E s)(tbl \<mapsto> (F(ucast new \<mapsto> p), M(ucast mbr \<mapsto> p), insert new I))"
    and ents: "w_adt_ents t = (w_adt_ents s)(p \<mapsto> e)"
    and e: "ae_adt_ent_hdl e = new" "ae_mbr_id e = mbr" "ae_entry_data e \<noteq> None"
  shows "adt_inv E A t" "adt_mbrs E t tbl = (adt_mbrs E s tbl)(new \<mapsto> e)"
    "u \<in> A \<Longrightarrow> u \<noteq> tbl \<Longrightarrow> adt_mbrs E t u = adt_mbrs E s u"
proof -
  have fs: "adt_files F M I (w_adt_ents s) (os_next s)" using inv by (auto elim: adt_invD)
  have none: "F (ucast new) = None" using adt_filesD(3) [OF fs, of "ucast new"] new(1) by (cases "F (ucast new)") auto
  have le: "q \<noteq> p \<and> q \<le> os_next t" if "F h = Some q \<or> M m = Some q" for h m q
    using adt_filesD(1,2) [OF fs] that new(3,4) by force
  have "adt_files (F(ucast new \<mapsto> p)) (M(ucast mbr \<mapsto> p)) (insert new I) (w_adt_ents t) (os_next t)"
    unfolding adt_files_def
  proof (rule conjI; intro allI impI)
    fix h q assume "(F(ucast new \<mapsto> p)) h = Some q"
    then consider "h = ucast new" "q = p" | "h \<noteq> ucast new" "F h = Some q" by (auto split: if_splits)
    then show "q \<le> os_next t \<and> (\<exists>e'. w_adt_ents t q = Some e' \<and> ucast (ae_adt_ent_hdl e') = h \<and> ae_adt_ent_hdl e' \<in> insert new I \<and>
        (M(ucast mbr \<mapsto> p)) (ucast (ae_mbr_id e')) = Some q \<and> ae_entry_data e' \<noteq> None)"
    proof cases
      case 1 with new e show ?thesis by (simp add: ents)
    next
      case 2
      from adt_filesD(3) [OF fs this(2)] obtain e' where "w_adt_ents s q = Some e'" "ucast (ae_adt_ent_hdl e') = h"
        "ae_adt_ent_hdl e' \<in> I" "M (ucast (ae_mbr_id e')) = Some q" "ae_entry_data e' \<noteq> None" by blast
      moreover from this new(2) have "ae_mbr_id e' \<noteq> mbr" by auto
      ultimately show ?thesis using le [of h q] 2 by (intro conjI exI [of _ e']) (auto simp: ents)
    qed
  next
    fix m q assume "(M(ucast mbr \<mapsto> p)) m = Some q"
    then consider "m = ucast mbr" "q = p" | "m \<noteq> ucast mbr" "M m = Some q" by (auto split: if_splits)
    then show "\<exists>e'. w_adt_ents t q = Some e' \<and> ucast (ae_mbr_id e') = m \<and>
        (F(ucast new \<mapsto> p)) (ucast (ae_adt_ent_hdl e')) = Some q"
    proof cases
      case 1 with e show ?thesis by (simp add: ents)
    next
      case 2
      from adt_filesD(4) [OF fs this(2)] obtain e' where "w_adt_ents s q = Some e'" "ucast (ae_mbr_id e') = m"
        "F (ucast (ae_adt_ent_hdl e')) = Some q" by blast
      moreover from this none have "ae_adt_ent_hdl e' \<noteq> new" by auto
      ultimately show ?thesis using le [of _ q m] 2 by (intro exI [of _ e']) (auto simp: ents)
    qed
  qed
  moreover have "w_adt_ents t q = w_adt_ents s q \<and> q \<notin> ran (F(ucast new \<mapsto> p))"
    if "v \<in> A" "v \<noteq> tbl" "adt_st E s v = Some (G, N, J)" "G h = Some q" for v G N J h q
  proof -
    from adt_invD [OF inv(1) that(1)] that(3) have "adt_files G N J (w_adt_ents s) (os_next s)" by auto
    from adt_filesD(1) [OF this that(4)] have "q \<le> os_next s" .
    moreover have "q \<notin> ran F" using adt_inv_disj [OF inv(1,2) that(1) _ inv(3) that(3) _ that(4)] that(2) by (auto simp: ran_def)
    ultimately show ?thesis using new(3) none by (auto simp: ents)
  qed
  moreover have "os_next s \<le> os_next t" using new(3,4) by simp
  ultimately show "adt_inv E A t" "u \<in> A \<Longrightarrow> u \<noteq> tbl \<Longrightarrow> adt_mbrs E t u = adt_mbrs E s u"
    using adt_inv_upd [OF inv(1) st] by blast+
  have "Option.bind (F (ucast h)) ((w_adt_ents s)(p \<mapsto> e)) = Option.bind (F (ucast h)) (w_adt_ents s)" for h :: u32
    using le [of "ucast h"] by (cases "F (ucast h)") auto
  then show "adt_mbrs E t tbl = (adt_mbrs E s tbl)(new \<mapsto> e)"
    by (auto simp: adt_mbrs_def fun_eq_iff st ents inv(3))
qed

lemma adt_inv_files:
  "adt_inv E A s \<Longrightarrow> tbl \<in> A \<Longrightarrow> adt_st E s tbl = Some (F, M, I) \<Longrightarrow> adt_files F M I (w_adt_ents s) (os_next s)"
  by (auto elim: adt_invD)

lemma adt_files_inj:
  assumes "adt_files F M I H n" "F h = Some p" "F k = Some p"
  shows "h = k"
  using adt_filesD(3) [OF assms(1,2)] adt_filesD(3) [OF assms(1,3)] by auto

lemma adt_files_minj:
  assumes "adt_files F M I H n" "M h = Some p" "M k = Some p"
  shows "h = k"
  using adt_filesD(4) [OF assms(1,2)] adt_filesD(4) [OF assms(1,3)] by auto

lemma adt_other_ents:
  assumes "adt_inv E A s" "tbl \<in> A" "adt_st E s tbl = Some (F, M, I)" "F k = Some p"
    "u \<in> A" "u \<noteq> tbl" "adt_st E s u = Some (G, N, J)" "G h = Some q"
  shows "q \<noteq> p" "q \<notin> ran F"
  using adt_inv_disj [OF assms(1,2,5) _ assms(3,7) _ assms(8)] assms(4,6) by (auto simp: ran_def)

lemma adt_removed:
  assumes inv: "adt_inv E A s" "tbl \<in> A" "adt_st E s tbl = Some (F, M, I)"
    and p: "F (ucast h) = Some p" "w_adt_ents s p = Some e"
    and st: "adt_st E t = (adt_st E s)(tbl \<mapsto> (F(ucast h := None), M(ucast (ae_mbr_id e) := None), I - {h}))"
    and ents: "w_adt_ents t = (w_adt_ents s)(p := None)" and n: "os_next t = os_next s"
  shows "adt_inv E A t" "adt_mbrs E t tbl = (adt_mbrs E s tbl)(h := None)"
    "u \<in> A \<Longrightarrow> u \<noteq> tbl \<Longrightarrow> adt_mbrs E t u = adt_mbrs E s u"
proof -
  note fs = adt_inv_files [OF inv]
  have e: "ae_adt_ent_hdl e = h" "M (ucast (ae_mbr_id e)) = Some p" using adt_filesD(3) [OF fs p(1)] p(2) by auto
  have "adt_files (F(ucast h := None)) (M(ucast (ae_mbr_id e) := None)) (I - {h}) (w_adt_ents t) (os_next t)"
    unfolding adt_files_def
  proof (rule conjI; intro allI impI)
    fix k q assume "(F(ucast h := None)) k = Some q"
    then have k: "k \<noteq> ucast h" "F k = Some q" by (auto split: if_splits)
    then have "q \<noteq> p" using adt_files_inj [OF fs _ p(1)] by auto
    with adt_filesD(3) [OF fs k(2)] obtain e' where "w_adt_ents t q = Some e'" "ucast (ae_adt_ent_hdl e') = k"
      "ae_adt_ent_hdl e' \<in> I" "M (ucast (ae_mbr_id e')) = Some q" "ae_entry_data e' \<noteq> None" by (auto simp: ents)
    moreover from this \<open>q \<noteq> p\<close> e(2) have "ae_mbr_id e' \<noteq> ae_mbr_id e" by auto
    ultimately show "q \<le> os_next t \<and> (\<exists>e'. w_adt_ents t q = Some e' \<and> ucast (ae_adt_ent_hdl e') = k \<and> ae_adt_ent_hdl e' \<in> I - {h} \<and>
        (M(ucast (ae_mbr_id e) := None)) (ucast (ae_mbr_id e')) = Some q \<and> ae_entry_data e' \<noteq> None)"
      using k(1) adt_filesD(1) [OF fs k(2)] by (intro conjI exI [of _ e']) (auto simp: n)
  next
    fix m q assume "(M(ucast (ae_mbr_id e) := None)) m = Some q"
    then have m: "m \<noteq> ucast (ae_mbr_id e)" "M m = Some q" by (auto split: if_splits)
    then have "q \<noteq> p" using adt_files_minj [OF fs _ e(2)] by auto
    with adt_filesD(4) [OF fs m(2)] obtain e' where "w_adt_ents t q = Some e'" "ucast (ae_mbr_id e') = m"
      "F (ucast (ae_adt_ent_hdl e')) = Some q" by (auto simp: ents)
    moreover from this \<open>q \<noteq> p\<close> p(1) have "ae_adt_ent_hdl e' \<noteq> h" by auto
    ultimately show "\<exists>e'. w_adt_ents t q = Some e' \<and> ucast (ae_mbr_id e') = m \<and>
        (F(ucast h := None)) (ucast (ae_adt_ent_hdl e')) = Some q" by auto
  qed
  moreover have "w_adt_ents t q = w_adt_ents s q \<and> q \<notin> ran (F(ucast h := None))"
    if "v \<in> A" "v \<noteq> tbl" "adt_st E s v = Some (G, N, J)" "G k = Some q" for v G N J k q
    using adt_other_ents [OF inv p(1) that] by (auto simp: ents ran_def)
  ultimately show "adt_inv E A t" "u \<in> A \<Longrightarrow> u \<noteq> tbl \<Longrightarrow> adt_mbrs E t u = adt_mbrs E s u"
    using adt_inv_upd [OF inv(1) st] n by (metis order_refl)+
  have "Option.bind (F (ucast k)) ((w_adt_ents s)(p := None)) = Option.bind (F (ucast k)) (w_adt_ents s)" if "k \<noteq> h" for k :: u32
    using adt_files_inj [OF fs _ p(1), of "ucast k"] that by (cases "F (ucast k)") auto
  then show "adt_mbrs E t tbl = (adt_mbrs E s tbl)(h := None)"
    by (auto simp: adt_mbrs_def fun_eq_iff st ents inv(3))
qed

lemma adt_counted:
  assumes inv: "adt_inv E A s" "tbl \<in> A" "adt_st E s tbl = Some (F, M, I)"
    and p: "F (ucast h) = Some p" "w_adt_ents s p = Some e"
    and st: "adt_st E t = adt_st E s"
    and ents: "w_adt_ents t = (w_adt_ents s)(p \<mapsto> e\<lparr>ae_reference_count := c\<rparr>)" and n: "os_next t = os_next s"
  shows "adt_inv E A t" "adt_mbrs E t tbl = (adt_mbrs E s tbl)(h \<mapsto> e\<lparr>ae_reference_count := c\<rparr>)"
    "u \<in> A \<Longrightarrow> u \<noteq> tbl \<Longrightarrow> adt_mbrs E t u = adt_mbrs E s u"
proof -
  note fs = adt_inv_files [OF inv]
  have e: "ae_adt_ent_hdl e = h" using adt_filesD(3) [OF fs p(1)] p(2) by auto
  have H: "\<exists>e'. w_adt_ents t q = Some e' \<and> ae_adt_ent_hdl e' = ae_adt_ent_hdl x \<and> ae_mbr_id e' = ae_mbr_id x \<and>
    ae_entry_data e' = ae_entry_data x" if "w_adt_ents s q = Some x" for q x
    using that p(2) by (cases "q = p") (auto simp: ents)
  have "adt_files F M I (w_adt_ents t) (os_next t)"
    unfolding adt_files_def
  proof (rule conjI; intro allI impI)
    fix k q assume k: "F k = Some q"
    from adt_filesD(3) [OF fs this] show "q \<le> os_next t \<and> (\<exists>e'. w_adt_ents t q = Some e' \<and> ucast (ae_adt_ent_hdl e') = k \<and>
        ae_adt_ent_hdl e' \<in> I \<and> M (ucast (ae_mbr_id e')) = Some q \<and> ae_entry_data e' \<noteq> None)"
      using adt_filesD(1) [OF fs k] by (auto simp: n dest!: H)
  next
    fix m q assume "M m = Some q"
    from adt_filesD(4) [OF fs this] show "\<exists>e'. w_adt_ents t q = Some e' \<and> ucast (ae_mbr_id e') = m \<and>
        F (ucast (ae_adt_ent_hdl e')) = Some q" by (auto dest!: H)
  qed
  moreover have "w_adt_ents t q = w_adt_ents s q \<and> q \<notin> ran F"
    if "v \<in> A" "v \<noteq> tbl" "adt_st E s v = Some (G, N, J)" "G k = Some q" for v G N J k q
    using adt_other_ents [OF inv p(1) that] by (auto simp: ents)
  moreover have "adt_st E t = (adt_st E s)(tbl \<mapsto> (F, M, I))" using st inv(3) by auto
  ultimately show "adt_inv E A t" "u \<in> A \<Longrightarrow> u \<noteq> tbl \<Longrightarrow> adt_mbrs E t u = adt_mbrs E s u"
    using adt_inv_upd [OF inv(1)] n by (metis order_refl)+
  have "Option.bind (F (ucast k)) ((w_adt_ents s)(p \<mapsto> x)) = Option.bind (F (ucast k)) (w_adt_ents s)" if "k \<noteq> h" for k :: u32 and x
    using adt_files_inj [OF fs _ p(1), of "ucast k"] that by (cases "F (ucast k)") auto
  with p(1) show "adt_mbrs E t tbl = (adt_mbrs E s tbl)(h \<mapsto> e\<lparr>ae_reference_count := c\<rparr>)"
    by (auto simp: adt_mbrs_def fun_eq_iff st ents inv(3))
qed

section \<open>The steps of the calls\<close>

declare st_upd.simps [simp del]

lemmas adt_upd_defs = put_adt_ent_def upd_adt_ent_def set_state_def

lemma adt_ents_os [simp]: "adt_st E (s\<lparr>w_adt_ents := x\<rparr>) = adt_st E s" "adt_st E (s\<lparr>os_next := n\<rparr>) = adt_st E s"
  "adt_st E (s\<lparr>os_clk := c\<rparr>) = adt_st E s" "adt_st E (s\<lparr>os_fault := b\<rparr>) = adt_st E s"
  by (simp_all add: adt_st_def [abs_def])

text \<open>The member that a call adds; the buffers of a client are as long as it says.\<close>

definition adt_data :: "u32 \<Rightarrow> pipe_action_spec \<Rightarrow> pipe_mgr_adt_ent_data" where
  "adt_data act ads = \<lparr>ad_num_resources = resource_count ads, ad_act_fn_hdl = act,
     ad_action_data = (act_data ads)\<lparr>action_data_bits := take (num_action_data_bytes (act_data ads)) (action_data_bits (act_data ads))\<rparr>,
     ad_resources = take (resource_count ads) (resources ads)\<rparr>"

definition adt_member :: "u32 \<Rightarrow> u32 \<Rightarrow> pipe_action_spec \<Rightarrow> u32 \<Rightarrow> pipe_mgr_adt_entry_info" where
  "adt_member act mbr ads h = \<lparr>ae_adt_ent_hdl = h, ae_act_fn_hdl = act, ae_mbr_id = mbr,
     ae_entry_data = Some (adt_data act ads),
     ae_act_data_spec = packed_act_spec ads (take (num_action_data_bytes (act_data ads)) (action_data_bits (act_data ads))),
     ae_reference_count = 0\<rparr>"

definition adt_client :: "pipe_action_spec \<Rightarrow> bool" where
  "adt_client ads \<longleftrightarrow> num_action_data_bytes (act_data ads) \<le> length (action_data_bits (act_data ads)) \<and>
     resource_count ads \<le> length (resources ads) \<and> resource_count ads \<le> PIPE_NUM_TBL_RESOURCES"

lemma adt_pack_spec:
  assumes "adt_client ads"
  shows "wp (pipe_mgr_adt_pack_entry_data E act ads h) (\<lambda>(st, e) t. adt_st E t = adt_st E s \<and> os_next s \<le> os_next t \<and>
     (if st = BF_SUCCESS then os_next s < e \<and> e \<le> os_next t \<and> w_adt_ents t = (w_adt_ents s)(e \<mapsto>
        (adt_member act 0 ads h)\<lparr>ae_entry_data := None\<rparr>)
      else w_adt_ents t = w_adt_ents s)) s"
  using assms by (auto simp: pipe_mgr_adt_pack_entry_data_def pipe_mgr_mat_pack_act_spec_def allocate_def put_adt_ent_def
      adt_client_def adt_member_def wp_simps Let_def mem_write_def)

lemma adt_entry_data_spec:
  assumes "adt_client ads"
  shows "wp (adt_entry_data E act ads) (\<lambda>d t. adt_v E t = adt_v E s \<and> (d = None \<or> d = Some (adt_data act ads))) s"
  using assms by (auto simp: adt_entry_data_def make_adt_ent_data_def allocate_def adt_client_def adt_data_def wp_simps
      Let_def mem_write_def)

lemma map_add_any:
  assumes "map_ok E" "x_map_add E m k p = (sts, m')"
  shows "map_abs E m' = (if sts = BF_MAP_OK then (map_abs E m)(k \<mapsto> p) else map_abs E m)"
    "sts = BF_MAP_OK \<Longrightarrow> map_abs E m k = None"
proof -
  have "sts = BF_MAP_KEY_EXISTS \<and> map_abs E m' = map_abs E m" if "map_abs E m k \<noteq> None"
    using assms that unfolding map_ok_def by (metis fst_conv snd_conv)
  with map_add_new [OF assms(1) _ assms(2)]
  show "map_abs E m' = (if sts = BF_MAP_OK then (map_abs E m)(k \<mapsto> p) else map_abs E m)"
    "sts = BF_MAP_OK \<Longrightarrow> map_abs E m k = None"
    by (cases "map_abs E m k"; simp)+
qed

lemma map_rmv_any: "map_ok E \<Longrightarrow> map_abs E (snd (x_map_rmv E m k)) = (map_abs E m)(k := None)"
  by (simp add: map_ok_def)

lemma adt_state_upd [simp]:
  "adt_state_of u (st_upd PIPE_MGR_TABLE_TYPE_ADT tbl f s) =
     (if u = tbl then map_option f (adt_state_of tbl s) else adt_state_of u s)"
  by (cases "w_mats s tbl") (auto simp: st_upd.simps)

lemma adt_file_spec:
  assumes E: "map_ok E" and st: "adt_st E s tbl = Some (F, M, I)" "F (ucast h) = None"
  shows "wp (adt_file E tbl e h m) (\<lambda>r t. w_adt_ents t = w_adt_ents s \<and> os_next t = os_next s \<and>
    (if r = BF_SUCCESS then M (ucast m) = None \<and>
       adt_st E t = (adt_st E s)(tbl \<mapsto> (F(ucast h \<mapsto> e), M(ucast m \<mapsto> e), I))
     else adt_st E t = adt_st E s)) s"
proof -
  from st obtain z where z: "adt_state_of tbl s = Some z" and F: "F = map_abs E (entry_info_htbl z)"
    and M: "M = map_abs E (mbr_id_htbl z)" and I: "I = id_used E (entry_handle_array z)" by (auto simp: adt_st_def)
  obtain sts m' where 1: "x_map_add E (entry_info_htbl z) (ucast h) e = (sts, m')" by force
  obtain sts2 m2 where 2: "x_map_add E (mbr_id_htbl z) (ucast m) e = (sts2, m2)" by force
  note abs = map_add_any [OF E 1] map_add_any [OF E 2]
  have undo: "F(ucast h := None) = F" using st(2) by auto
  have same: "(adt_st E s)(tbl \<mapsto> (F, M, I)) = adt_st E s" using st(1) by auto
  show ?thesis
    using z abs undo same
    by (auto simp: adt_file_def wp_simps set_state_def 1 2 F [symmetric] M [symmetric] I [symmetric] map_rmv_any [OF E])
qed


lemma cleanup_tbl_unlock_spec:
  "wp (cleanup_tbl_unlock E tbl r) (\<lambda>r' t. r' = r \<and> adt_v E t = adt_v E s) s"
  unfolding cleanup_tbl_unlock_def wp_bind wp_return by (rule wp_view [OF adt_v_lock(2)]) simp

lemma cleanup_id_spec:
  assumes "id_ok E" "adt_st E s tbl = Some (F, M, I)"
  shows "wp (cleanup_id E tbl h r) (\<lambda>r' t. r' = r \<and> adt_st E t = (adt_st E s)(tbl \<mapsto> (F, M, I - {h})) \<and>
    w_adt_ents t = w_adt_ents s \<and> os_next t = os_next s) s"
  unfolding cleanup_id_def adt_free_id_def set_state_def wp_bind wp_modify
  by (rule wp_conseq [OF cleanup_tbl_unlock_spec])
    (use assms in \<open>auto simp: adt_v_def adt_st_def [of E s tbl] id_free_used\<close>)

lemma cleanup_map_add_spec:
  assumes "id_ok E" "adt_st E s tbl = Some (F, M, I)" "w_adt_ents s e = Some x"
  shows "wp (cleanup_map_add E tbl e h r) (\<lambda>r' t. r' = r \<and> adt_st E t = (adt_st E s)(tbl \<mapsto> (F, M, I - {h})) \<and>
    w_adt_ents t = (w_adt_ents s)(e := None) \<and> os_next t = os_next s) s"
  using assms unfolding cleanup_map_add_def pipe_mgr_adt_delete_entry_data_def dal_delete_adt_table_entry_data_def
  by (auto simp: wp_simps put_adt_ent_def intro!: wp_conseq [OF cleanup_id_spec])

end
