(* ===== verification/Adt_Calls.thy ===== *)
theory Adt_Calls
  imports Adt_Spec Mat_Calls
begin

text \<open>
  What the public calls on action-data tables do to the members of the tables: an addition that succeeds adds
  one member under a new handle and a new id, a deletion that succeeds removes one that no group refers to, and
  a call that fails changes no table.
\<close>

section \<open>Adding a member\<close>

declare st_upd.simps [simp del]

lemma adt_v_same:
  assumes "adt_v E t = adt_v E s"
  shows "adt_inv E A t = adt_inv E A s" "adt_mbrs E t u = adt_mbrs E s u"
  unfolding adt_inv_def adt_mbrs_def [abs_def] adt_vD [OF assms] by (rule refl)+

definition adt_unchanged :: "('m, 'i, 'h, 'z) ext_scheme \<Rightarrow> ptr set \<Rightarrow> ('m, 'i, 'h) world \<Rightarrow> ('m, 'i, 'h) world \<Rightarrow> bool" where
  "adt_unchanged E A s t \<longleftrightarrow> adt_inv E A t \<and> (\<forall>u\<in>A. adt_mbrs E t u = adt_mbrs E s u)"

lemma adt_unchangedI:
  assumes "adt_inv E A s" "adt_st E t = adt_st E s" "os_next s \<le> os_next t"
    "\<And>p. p \<le> os_next s \<Longrightarrow> w_adt_ents t p = w_adt_ents s p"
  shows "adt_unchanged E A s t"
  using adt_inv_same [OF assms] by (simp add: adt_unchanged_def)

text \<open>A handle and an id that were not in use now name the new member.\<close>

definition adt_added ::
  "('m, 'i, 'h, 'z) ext_scheme \<Rightarrow> ptr set \<Rightarrow> ptr \<Rightarrow> pipe_mgr_adt_entry_info \<Rightarrow> ('m, 'i, 'h) world \<Rightarrow>
   ('m, 'i, 'h) world \<Rightarrow> bool" where
  "adt_added E A tbl e s t \<longleftrightarrow> adt_inv E A t \<and> adt_mbrs E s tbl (ae_adt_ent_hdl e) = None \<and>
     (\<forall>h x. adt_mbrs E s tbl h = Some x \<longrightarrow> ae_mbr_id x \<noteq> ae_mbr_id e) \<and>
     adt_mbrs E t tbl = (adt_mbrs E s tbl)(ae_adt_ent_hdl e \<mapsto> e) \<and>
     (\<forall>u\<in>A. u \<noteq> tbl \<longrightarrow> adt_mbrs E t u = adt_mbrs E s u)"

definition adt_mid where
  "adt_mid E tbl F M I h e x s u \<longleftrightarrow> adt_st E u = (adt_st E s)(tbl \<mapsto> (F, M, insert h I)) \<and>
     os_next s < e \<and> e \<le> os_next u \<and> w_adt_ents u = (w_adt_ents s)(e \<mapsto> x)"

lemma adt_mid_v: "adt_v E u = adt_v E v \<Longrightarrow> adt_mid E tbl F M I h e x s u = adt_mid E tbl F M I h e x s v"
  by (simp add: adt_mid_def adt_v_def)

lemma adt_mid_upd:
  "adt_mid E tbl F M I h e x s u \<Longrightarrow> wp (upd_adt_ent e f) (\<lambda>_. adt_mid E tbl F M I h e (f x) s) u"
  by (simp add: adt_mid_def upd_adt_ent_def wp_simps)

lemma adt_mid_cleanup:
  assumes "id_ok E" "adt_inv E A s" "tbl \<in> A" "adt_st E s tbl = Some (F, M, I)" "h \<notin> I" "adt_mid E tbl F M I h e x s u"
  shows "wp (cleanup_map_add E tbl e h r) (\<lambda>r' t. r' = r \<and> adt_unchanged E A s t) u"
proof (rule wp_conseq [OF cleanup_map_add_spec [OF assms(1)]])
  show "adt_st E u tbl = Some (F, M, insert h I)" "w_adt_ents u e = Some x" using assms(6) by (simp_all add: adt_mid_def)
  fix r' t assume *: "r' = r \<and> adt_st E t = (adt_st E u)(tbl \<mapsto> (F, M, insert h I - {h})) \<and>
    w_adt_ents t = (w_adt_ents u)(e := None) \<and> os_next t = os_next u"
  have "adt_st E t = adt_st E s" using * assms(4-6) by (auto simp: adt_mid_def)
  moreover have "os_next s \<le> os_next t" using * assms(6) by (simp add: adt_mid_def)
  moreover have "w_adt_ents t p = w_adt_ents s p" if "p \<le> os_next s" for p using * assms(6) that by (auto simp: adt_mid_def)
  ultimately show "r' = r \<and> adt_unchanged E A s t" using * by (auto intro: adt_unchangedI [OF assms(2)])
qed

lemma wp_unlock_ok:
  "unlock_ok E \<Longrightarrow> (\<And>u. adt_v E u = adt_v E s \<Longrightarrow> Q 0 u) \<Longrightarrow> wp (mutex_unlock E l) Q s"
  by (auto simp: mutex_unlock_def wp_lock_op Let_def unlock_ok_def split: option.splits)

lemma adt_mid_filed:
  assumes "adt_inv E A s" "tbl \<in> A" "adt_st E s tbl = Some (F, M, I)" "ae_adt_ent_hdl x \<notin> I" "M (ucast (ae_mbr_id x)) = None"
    "ae_entry_data x \<noteq> None" "os_next s < e" "e \<le> os_next t" "w_adt_ents t = (w_adt_ents s)(e \<mapsto> x)"
    "adt_st E t = (adt_st E s)(tbl \<mapsto> (F(ucast (ae_adt_ent_hdl x) \<mapsto> e), M(ucast (ae_mbr_id x) \<mapsto> e), insert (ae_adt_ent_hdl x) I))"
  shows "adt_added E A tbl x s t"
proof -
  note fs = adt_inv_files [OF assms(1-3)]
  note filed = adt_filed [OF assms(1-5,7,8,10,9) refl refl assms(6)]
  have at: "adt_mbrs E s tbl h = Option.bind (F (ucast h)) (w_adt_ents s)" for h by (simp add: adt_mbrs_def assms(3))
  have "adt_mbrs E s tbl (ae_adt_ent_hdl x) = None"
    using adt_filesD(3) [OF fs, of "ucast (ae_adt_ent_hdl x)"] assms(4) by (cases "F (ucast (ae_adt_ent_hdl x))") (auto simp: at)
  moreover have "ae_mbr_id y \<noteq> ae_mbr_id x" if "adt_mbrs E s tbl h = Some y" for h y
    using that adt_filesD(3) [OF fs, of "ucast h"] assms(5) by (cases "F (ucast h)") (auto simp: at)
  ultimately show ?thesis using filed by (simp add: adt_added_def)
qed

text \<open>What the client of an addition gets to see.\<close>

definition adt_add_result where
  "adt_add_result E A tbl act mbr ads s r t \<longleftrightarrow> (case r of (BF_SUCCESS, Some h) \<Rightarrow>
     adt_added E A tbl (adt_member act mbr ads h) s t | _ \<Rightarrow> adt_unchanged E A s t)"

lemma adt_mid_cleaned:
  assumes "id_ok E" "adt_inv E A s" "tbl \<in> A" "adt_st E s tbl = Some (F, M, I)" "h \<notin> I" "adt_mid E tbl F M I h e x s u"
  shows "wp (cleanup_map_add E tbl e h (st, None)) (adt_add_result E A tbl act mbr ads s) u"
  by (rule wp_conseq [OF adt_mid_cleanup [OF assms]]) (simp add: adt_add_result_def split: bf_status.split)

lemma adt_add_file_spec:
  assumes E: "map_ok E" "id_ok E" "unlock_ok E"
    and inv: "adt_inv E A s" "tbl \<in> A" "adt_st E s tbl = Some (F, M, I)" and h: "h \<notin> I"
    and u: "adt_mid E tbl F M I h e (adt_member act mbr ads h) s u"
  shows "wp (adt_add_file E tbl e h mbr) (adt_add_result E A tbl act mbr ads s) u"
  unfolding adt_add_file_def wp_bind
proof (rule wp_conseq [OF adt_file_spec [OF E(1)]])
  from u show "adt_st E u tbl = Some (F, M, insert h I)" by (simp add: adt_mid_def)
  show "F (ucast h) = None" using adt_filesD(3) [OF adt_inv_files [OF inv], of "ucast h"] h by (cases "F (ucast h)") auto
next
  fix r t
  assume *: "w_adt_ents t = w_adt_ents u \<and> os_next t = os_next u \<and>
    (if r = BF_SUCCESS then M (ucast mbr) = None \<and>
       adt_st E t = (adt_st E u)(tbl \<mapsto> (F(ucast h \<mapsto> e), M(ucast mbr \<mapsto> e), insert h I))
     else adt_st E t = adt_st E u)"
  show "wp (if r \<noteq> BF_SUCCESS then cleanup_map_add E tbl e h (r, None)
       else do {
         rc \<leftarrow> mutex_unlock E (TBL_LOCK tbl);
         if rc \<noteq> 0 then cleanup_map_add E tbl e h (BF_UNEXPECTED, Some h)
         else ret (BF_SUCCESS, Some h) }) (adt_add_result E A tbl act mbr ads s) t"
  proof (cases "r = BF_SUCCESS")
    case True
    have "adt_added E A tbl (adt_member act mbr ads h) s w" if "adt_v E w = adt_v E t" for w
      by (rule adt_mid_filed [OF inv, where e = e])
        (use * True u h adt_vD [OF that] in \<open>auto simp: adt_mid_def adt_member_def\<close>)
    then show ?thesis using True
      by (auto simp: wp_bind wp_return adt_add_result_def intro!: wp_unlock_ok [OF E(3)])
  next
    case False
    then have "adt_mid E tbl F M I h e (adt_member act mbr ads h) s t" using * u by (simp add: adt_mid_def)
    from adt_mid_cleaned [OF E(2) inv h this] False show ?thesis by simp
  qed
qed

lemma adt_add_entry_spec:
  assumes E: "map_ok E" "id_ok E" "unlock_ok E" and dal: "dal_op (dal_add h tbl)" and ads: "adt_client ads"
    and inv: "adt_inv E A s" "tbl \<in> A" "adt_st E s tbl = Some (F, M, I)" and h: "h \<notin> I"
    and u: "adt_mid E tbl F M I h e ((adt_member act 0 ads h)\<lparr>ae_entry_data := None\<rparr>) s u"
  shows "wp (adt_add_entry E tbl e h act mbr ads dal_add) (adt_add_result E A tbl act mbr ads s) u"
proof -
  let ?Q = "adt_add_result E A tbl act mbr ads s" and ?x = "(adt_member act mbr ads h)\<lparr>ae_entry_data := None\<rparr>"
  note clean = adt_mid_cleaned [OF E(2) inv h]
  have stored: "wp (do { upd_adt_ent e (\<lambda>e. e\<lparr>ae_entry_data := Some (adt_data act ads)\<rparr>);
      adt_add_file E tbl e h mbr }) ?Q v" if "adt_mid E tbl F M I h e ?x s v" for v
    unfolding wp_bind
    by (rule wp_conseq [OF adt_mid_upd [OF that]], rule adt_add_file_spec [OF E inv h]) (simp add: adt_member_def)
  have data: "wp (do { d \<leftarrow> adt_entry_data E act ads;
      case d of None \<Rightarrow> cleanup_map_add E tbl e h (BF_SUCCESS, None)
       | Some d \<Rightarrow> do { upd_adt_ent e (\<lambda>e. e\<lparr>ae_entry_data := Some d\<rparr>); adt_add_file E tbl e h mbr }}) ?Q v"
    if v: "adt_mid E tbl F M I h e ?x s v" for v
    unfolding wp_bind [of "adt_entry_data E act ads"]
  proof (rule wp_conseq [OF adt_entry_data_spec [OF ads]])
    fix d t assume "adt_v E t = adt_v E v \<and> (d = None \<or> d = Some (adt_data act ads))"
    then show "wp (case d of None \<Rightarrow> cleanup_map_add E tbl e h (BF_SUCCESS, None)
       | Some d \<Rightarrow> do { upd_adt_ent e (\<lambda>e. e\<lparr>ae_entry_data := Some d\<rparr>); adt_add_file E tbl e h mbr }) ?Q t"
      using clean [of e ?x t BF_SUCCESS] stored [of t] v adt_mid_v [of E t v] by auto
  qed
  have mid: "wp (dal_add h tbl) (\<lambda>_. adt_mid E tbl F M I h e ?x s) v" if "adt_mid E tbl F M I h e ?x s v" for v
    by (rule wp_view [OF adt_v_dal [OF dal], of E]) (use that adt_mid_v in blast)
  have dal: "wp (dal_add h tbl) (\<lambda>st. wp (if st \<noteq> BF_SUCCESS then cleanup_map_add E tbl e h (st, None)
      else do { d \<leftarrow> adt_entry_data E act ads;
        case d of None \<Rightarrow> cleanup_map_add E tbl e h (BF_SUCCESS, None)
         | Some d \<Rightarrow> do { upd_adt_ent e (\<lambda>e. e\<lparr>ae_entry_data := Some d\<rparr>); adt_add_file E tbl e h mbr }}) ?Q) v"
    if "adt_mid E tbl F M I h e ?x s v" for v
    by (rule wp_conseq [OF mid [OF that]]) (simp add: clean data)
  show ?thesis unfolding adt_add_entry_def wp_bind [of "upd_adt_ent _ _"] wp_bind [of "dal_add _ _"]
    by (rule wp_conseq [OF adt_mid_upd [OF u]], rule dal) (simp add: adt_member_def)
qed

lemma adt_add_body_spec:
  assumes E: "map_ok E" "id_ok E" "unlock_ok E" and dal: "\<And>h tbl. dal_op (dal_add h tbl)" and ads: "adt_client ads"
    and inv: "adt_inv E A s" "tbl \<in> A" and tbl: "table_of E tgt hdl PIPE_MGR_TABLE_TYPE_ADT s = Some tbl"
  shows "wp (adt_add_body E tgt hdl act mbr ads dal_add) (adt_add_result E A tbl act mbr ads s) s"
proof -
  let ?Q = "adt_add_result E A tbl act mbr ads s"
  from adt_invD [OF inv] obtain F M I where st: "adt_st E s tbl = Some (F, M, I)" by blast
  then obtain z where z: "adt_state_of tbl s = Some z" and I: "I = id_used E (entry_handle_array z)"
    and FM: "map_abs E (entry_info_htbl z) = F" "map_abs E (mbr_id_htbl z) = M" by (auto simp: adt_st_def)
  have same: "?Q (r, None) t" if "adt_v E t = adt_v E s" for r t
    using adt_unchangedI [OF inv(1), of t] adt_vD [OF that] by (simp add: adt_add_result_def split: bf_status.split)
  obtain h ids where al: "x_id_alloc E (entry_handle_array z) = (h, ids)" by force
  let ?up = "st_upd PIPE_MGR_TABLE_TYPE_ADT tbl (\<lambda>st. st\<lparr>entry_handle_array := ids\<rparr>)"
  have locked: "wp (if h = ENTRY_HANDLE_ARRAY_SIZE then cleanup_tbl_unlock E tbl (BF_NO_SPACE, None)
      else do {
        (status, entry) \<leftarrow> pipe_mgr_adt_pack_entry_data E act ads h;
        if status \<noteq> BF_SUCCESS then cleanup_id E tbl h (status, None)
        else adt_add_entry E tbl entry h act mbr ads dal_add }) ?Q (?up u)" if u: "adt_v E u = adt_v E s" for u
  proof -
    from st adt_vD(1) [OF u] have "adt_st E u tbl = Some (F, M, I)" by simp
    then obtain y where "adt_state_of tbl u = Some y" "map_abs E (entry_info_htbl y) = F" "map_abs E (mbr_id_htbl y) = M"
      by (auto simp: adt_st_def)
    then have up: "adt_st E (?up u) = (adt_st E s)(tbl \<mapsto> (F, M, id_used E ids))" "w_adt_ents (?up u) = w_adt_ents s"
      "os_next (?up u) = os_next s"
      using adt_vD [OF u] by simp_all
    from id_alloc_cases [OF E(2) al] show ?thesis
    proof cases
      case 1
      then have v: "adt_v E (?up u) = adt_v E s" using up st I by (auto simp: adt_v_def)
      show ?thesis unfolding if_P [OF 1(1)]
        by (rule wp_conseq [OF cleanup_tbl_unlock_spec]) (metis same v)
    next
      case 2
      then have h: "h \<notin> I" and ids: "id_used E ids = insert h I" by (simp_all add: I)
      have packed: "wp (if st \<noteq> BF_SUCCESS then cleanup_id E tbl h (st, None) else adt_add_entry E tbl e h act mbr ads dal_add) ?Q t"
        if *: "adt_st E t = adt_st E (?up u)" "os_next (?up u) \<le> os_next t"
          "if st = BF_SUCCESS then os_next (?up u) < e \<and> e \<le> os_next t \<and> w_adt_ents t = (w_adt_ents (?up u))(e \<mapsto>
            (adt_member act 0 ads h)\<lparr>ae_entry_data := None\<rparr>) else w_adt_ents t = w_adt_ents (?up u)" for st e t
      proof (cases "st = BF_SUCCESS")
        case True
        with * up ids have "adt_mid E tbl F M I h e ((adt_member act 0 ads h)\<lparr>ae_entry_data := None\<rparr>) s t"
          by (simp add: adt_mid_def)
        from adt_add_entry_spec [OF E dal ads inv \<open>adt_st E s tbl = _\<close> h this] True show ?thesis by simp
      next
        case False
        have t: "adt_st E t tbl = Some (F, M, insert h I)" using *(1) up ids by simp
        have ents: "w_adt_ents t = w_adt_ents s" "os_next s \<le> os_next t" using False *(2,3) up by simp_all
        have undo: "(adt_st E t)(tbl \<mapsto> (F, M, insert h I - {h})) = adt_st E s" using *(1) up st h by auto
        show ?thesis
          unfolding if_P [OF False]
        proof (rule wp_conseq [OF cleanup_id_spec [OF E(2) t]])
          fix r :: "bf_status \<times> u32 option" and v
          assume v: "r = (st, None) \<and> adt_st E v = (adt_st E t)(tbl \<mapsto> (F, M, insert h I - {h})) \<and>
            w_adt_ents v = w_adt_ents t \<and> os_next v = os_next t"
          then have "adt_unchanged E A s v" using ents undo by (intro adt_unchangedI [OF inv(1)]) simp_all
          then show "?Q r v" using v False by (simp add: adt_add_result_def split: bf_status.split)
        qed
      qed
      show ?thesis unfolding if_not_P [OF 2(1)] wp_bind
        by (rule wp_conseq [OF adt_pack_spec [OF ads]], unfold case_prod_beta, elim conjE) (rule packed)
    qed
  qed
  show ?thesis
    unfolding adt_add_body_def wp_with_table [OF tbl] wp_deref z option.case wp_bind [of "mutex_lock _ _"]
  proof (rule wp_view [OF adt_v_lock(1), of E])
    fix rc u assume u: "adt_v E u = adt_v E s"
    show "wp (if rc \<noteq> 0 then ret (BF_UNEXPECTED, None)
         else case x_id_alloc E (entry_handle_array z) of (new_ent_hdl, ids) \<Rightarrow> do {
           set_adt_state tbl (\<lambda>st. st\<lparr>entry_handle_array := ids\<rparr>);
           if new_ent_hdl = ENTRY_HANDLE_ARRAY_SIZE then cleanup_tbl_unlock E tbl (BF_NO_SPACE, None)
           else do {
             (status, entry) \<leftarrow> pipe_mgr_adt_pack_entry_data E act ads new_ent_hdl;
             if status \<noteq> BF_SUCCESS then cleanup_id E tbl new_ent_hdl (status, None)
             else adt_add_entry E tbl entry new_ent_hdl act mbr ads dal_add }}) ?Q u"
      unfolding al prod.case wp_if [of "rc \<noteq> 0"] wp_return wp_bind [of "set_adt_state _ _"] unfolding set_state_def wp_bind wp_modify
      using same [OF u] locked [OF u] by (simp only: if_cancel)
  qed
qed

section \<open>Deleting a member, counting references\<close>

definition adt_deleted ::
  "('m, 'i, 'h, 'z) ext_scheme \<Rightarrow> ptr set \<Rightarrow> ptr \<Rightarrow> u32 \<Rightarrow> ('m, 'i, 'h) world \<Rightarrow> ('m, 'i, 'h) world \<Rightarrow> bool" where
  "adt_deleted E A tbl h s t \<longleftrightarrow> adt_inv E A t \<and>
     (\<exists>e. adt_mbrs E s tbl h = Some e \<and> ae_reference_count e = 0) \<and>
     adt_mbrs E t tbl = (adt_mbrs E s tbl)(h := None) \<and>
     (\<forall>u\<in>A. u \<noteq> tbl \<longrightarrow> adt_mbrs E t u = adt_mbrs E s u)"

lemma adt_unfile_spec:
  assumes E: "map_ok E" "id_ok E" and inv: "adt_inv E A s" "tbl \<in> A" "adt_st E s tbl = Some (F, M, I)"
    and p: "F (ucast h) = Some p" "w_adt_ents s p = Some e" "ae_reference_count e = 0" and u: "adt_v E u = adt_v E s"
  shows "wp (adt_unfile E tbl p h) (\<lambda>_. adt_deleted E A tbl h s) u"
proof -
  from inv(3) adt_vD [OF u] have "adt_st E u tbl = Some (F, M, I)" by simp
  then obtain y where y: "adt_state_of tbl u = Some y" "map_abs E (entry_info_htbl y) = F" "map_abs E (mbr_id_htbl y) = M"
    "id_used E (entry_handle_array y) = I" by (auto simp: adt_st_def)
  have "adt_deleted E A tbl h s t" if "adt_st E t = (adt_st E s)(tbl \<mapsto> (F(ucast h := None), M(ucast (ae_mbr_id e) := None), I - {h}))"
    "w_adt_ents t = (w_adt_ents s)(p := None)" "os_next t = os_next s" for t
    using adt_removed [OF inv p(1,2) that] p inv(3) by (auto simp: adt_deleted_def adt_mbrs_def)
  then show ?thesis
    using y p(2) adt_vD [OF u] E
    by (simp add: adt_unfile_def adt_free_id_def set_state_def pipe_mgr_adt_delete_entry_data_def
        dal_delete_adt_table_entry_data_def put_adt_ent_def wp_simps map_rmv_any id_free_used)
qed

definition adt_del_result where
  "adt_del_result E A tbl h s r t \<longleftrightarrow> (if r = BF_SUCCESS then adt_deleted E A tbl h s t else adt_unchanged E A s t)"

lemma adt_del_body_spec:
  assumes E: "map_ok E" "id_ok E" "unlock_ok E"
    and inv: "adt_inv E A s" "tbl \<in> A" and tbl: "table_of E tgt hdl PIPE_MGR_TABLE_TYPE_ADT s = Some tbl"
  shows "wp (adt_del_body E tgt hdl h) (adt_del_result E A tbl h s) s"
proof -
  let ?Q = "adt_del_result E A tbl h s"
  from adt_invD [OF inv] obtain F M I where st: "adt_st E s tbl = Some (F, M, I)" by blast
  then obtain z where z: "adt_state_of tbl s = Some z" and F: "map_abs E (entry_info_htbl z) = F" by (auto simp: adt_st_def)
  have same: "?Q r t" if "adt_v E t = adt_v E s" "r \<noteq> BF_SUCCESS" for r t
    using adt_unchangedI [OF inv(1), of t] adt_vD [OF that(1)] that(2) by (simp add: adt_del_result_def)
  have undo: "wp (cleanup_tbl_unlock E tbl r) ?Q u" if "adt_v E u = adt_v E s" "r \<noteq> BF_SUCCESS" for r u
    by (rule wp_conseq [OF cleanup_tbl_unlock_spec]) (use same that in simp)
  obtain sts p where get: "x_map_get E (entry_info_htbl z) (ucast h) = (sts, p)" by force
  have locked: "wp (do {
      referenced \<leftarrow> deref (\<lambda>s. w_adt_ents s p) True (\<lambda>e. ret (ae_reference_count e \<noteq> 0));
      if referenced then cleanup_tbl_unlock E tbl BF_UNEXPECTED
      else do {
        status \<leftarrow> dal_table_adt_ent_del E tgt h tbl;
        if status \<noteq> BF_SUCCESS then cleanup_tbl_unlock E tbl BF_UNEXPECTED
        else do {
          adt_unfile E tbl p h;
          rc \<leftarrow> mutex_unlock E (TBL_LOCK tbl);
          ret (if rc \<noteq> 0 then BF_UNEXPECTED else BF_SUCCESS) }}}) ?Q u"
    if u: "adt_v E u = adt_v E s" and F': "F (ucast h) = Some p" for u
  proof -
    from adt_filesD(3) [OF adt_inv_files [OF inv st] F'] obtain e where e: "w_adt_ents s p = Some e" by blast
    have fin: "?Q BF_SUCCESS w" if "adt_deleted E A tbl h s v" "adt_v E w = adt_v E v" for v w
      using that(1) by (simp add: adt_del_result_def adt_deleted_def adt_v_same [OF that(2)])
    have del: "wp (do { adt_unfile E tbl p h; rc \<leftarrow> mutex_unlock E (TBL_LOCK tbl);
        ret (if rc \<noteq> 0 then BF_UNEXPECTED else BF_SUCCESS) }) ?Q v" if "adt_v E v = adt_v E s" "ae_reference_count e = 0" for v
      unfolding wp_bind wp_return
      by (rule wp_conseq [OF adt_unfile_spec [OF E(1,2) inv st F' e that(2,1)]], rule wp_unlock_ok [OF E(3)])
        (simp add: fin)
    have dal: "wp (dal_table_adt_ent_del E tgt h tbl) (\<lambda>st. wp (if st \<noteq> BF_SUCCESS then cleanup_tbl_unlock E tbl BF_UNEXPECTED
        else do { adt_unfile E tbl p h; rc \<leftarrow> mutex_unlock E (TBL_LOCK tbl);
          ret (if rc \<noteq> 0 then BF_UNEXPECTED else BF_SUCCESS) }) ?Q) u" if "ae_reference_count e = 0"
      by (rule wp_view [OF adt_v_dal [OF dal_adt_calls(2)], of E]) (simp add: undo del u that)
    show ?thesis
      unfolding wp_bind [of "deref _ _ _"] wp_deref adt_vD(2) [OF u] e option.case wp_return
      using undo [OF u] dal by (simp add: wp_bind [of "dal_table_adt_ent_del _ _ _ _"])
  qed
  show ?thesis
    unfolding adt_del_body_def wp_with_table [OF tbl] wp_deref z option.case wp_bind [of "mutex_lock _ _"] get prod.case
  proof (rule wp_view [OF adt_v_lock(1), of E])
    fix rc u assume u: "adt_v E u = adt_v E s"
    have "F (ucast h) = Some p" if "sts = BF_MAP_OK"
      using map_ok_get [OF E(1), of "entry_info_htbl z" "ucast h"] get that by (cases "F (ucast h)") (auto simp: F)
    with same [OF u] undo [OF u] locked [OF u] show "wp (if rc \<noteq> 0 then ret BF_UNEXPECTED
       else if sts \<noteq> BF_MAP_OK then cleanup_tbl_unlock E tbl BF_NO_SYS_RESOURCES
       else do {
          referenced \<leftarrow> deref (\<lambda>s. w_adt_ents s p) True (\<lambda>e. ret (ae_reference_count e \<noteq> 0));
          if referenced then cleanup_tbl_unlock E tbl BF_UNEXPECTED
          else do {
            status \<leftarrow> dal_table_adt_ent_del E tgt h tbl;
            if status \<noteq> BF_SUCCESS then cleanup_tbl_unlock E tbl BF_UNEXPECTED
            else do {
              adt_unfile E tbl p h;
              rc \<leftarrow> mutex_unlock E (TBL_LOCK tbl);
              ret (if rc \<noteq> 0 then BF_UNEXPECTED else BF_SUCCESS) }}}) ?Q u"
      by (simp add: wp_return)
  qed
qed

text \<open>One more or one less reference to a member.\<close>

definition adt_recounted ::
  "('m, 'i, 'h, 'z) ext_scheme \<Rightarrow> ptr set \<Rightarrow> ptr \<Rightarrow> u32 \<Rightarrow> bool \<Rightarrow> ('m, 'i, 'h) world \<Rightarrow> ('m, 'i, 'h) world \<Rightarrow> bool" where
  "adt_recounted E A tbl h op s t \<longleftrightarrow> adt_inv E A t \<and>
     (\<exists>e. adt_mbrs E s tbl h = Some e \<and> adt_mbrs E t tbl = (adt_mbrs E s tbl)(h \<mapsto>
        e\<lparr>ae_reference_count := (if op then ae_reference_count e - 1 else ae_reference_count e + 1)\<rparr>)) \<and>
     (\<forall>u\<in>A. u \<noteq> tbl \<longrightarrow> adt_mbrs E t u = adt_mbrs E s u)"

lemma member_reference_spec:
  assumes E: "map_ok E" and inv: "adt_inv E A s" "tbl \<in> A"
    and tbl: "table_of E tgt hdl PIPE_MGR_TABLE_TYPE_ADT s = Some tbl"
  shows "wp (pipe_mgr_adt_member_reference_add_delete E tgt hdl h op) (\<lambda>r t. t = s\<lparr>w_adt_ents := w_adt_ents t\<rparr> \<and>
     (if adt_mbrs E s tbl h = None then r = BF_NO_SYS_RESOURCES \<and> t = s
      else r = BF_SUCCESS \<and> adt_recounted E A tbl h op s t)) s"
proof -
  from adt_invD [OF inv] obtain F M I where st: "adt_st E s tbl = Some (F, M, I)"
    and fs: "adt_files F M I (w_adt_ents s) (os_next s)" by blast
  then obtain z where z: "adt_state_of tbl s = Some z" and F: "map_abs E (entry_info_htbl z) = F" by (auto simp: adt_st_def)
  have at: "adt_mbrs E s tbl h = Option.bind (F (ucast h)) (w_adt_ents s)" by (simp add: adt_mbrs_def st)
  show ?thesis
  proof (cases "F (ucast h)")
    case None
    with map_get_None [OF E] F obtain p where "x_map_get E (entry_info_htbl z) (ucast h) = (BF_MAP_NO_KEY, p)" by blast
    with None z show ?thesis
      by (simp add: pipe_mgr_adt_member_reference_add_delete_def wp_with_table [OF tbl] wp_simps at)
  next
    case (Some p)
    from adt_filesD(3) [OF fs Some] obtain e where e: "w_adt_ents s p = Some e" by blast
    have get: "x_map_get E (entry_info_htbl z) (ucast h) = (BF_MAP_OK, p)" using map_get_Some [OF E] F Some by blast
    let ?c = "if op then ae_reference_count e - 1 else ae_reference_count e + 1"
    let ?t = "s\<lparr>w_adt_ents := (w_adt_ents s)(p \<mapsto> e\<lparr>ae_reference_count := ?c\<rparr>)\<rparr>"
    have "adt_recounted E A tbl h op s ?t"
      using adt_counted [OF inv st Some e, of ?t ?c] e Some by (auto simp: adt_recounted_def at)
    with z get e Some show ?thesis
      by (simp add: pipe_mgr_adt_member_reference_add_delete_def wp_with_table [OF tbl] wp_simps at upd_adt_ent_def)
  qed
qed

section \<open>The public calls\<close>

text \<open>The bracket, whether it succeeds or fails, changes nothing but the clock, the locks and the fault flag.\<close>

lemma keeps_rest_bracket:
  "keeps os_rest (pipe_mgr_api_prologue E h tgt)" "keeps os_rest (pipe_mgr_is_pipe_valid E d i)"
  by (auto simp: pipe_mgr_api_prologue_def pipe_mgr_is_pipe_valid_def pipe_mgr_api_enter_def api_enter_def
      pipe_mgr_api_exit_def pipe_mgr_session_valid_def get_pipe_mgr_ctx_def pipe_mgr_get_dev_def lock_defs intro!: keeps_intros)

lemma os_rest_iff:
  "os_rest t = os_rest u \<longleftrightarrow> t = u\<lparr>os_clk := os_clk t, os_locks := os_locks t, os_fault := os_fault t\<rparr>"
  by (cases t; cases u) (auto simp: os_rest_def)

lemma wp_with_api_any:
  assumes err: "\<And>st u. st \<noteq> BF_SUCCESS \<Longrightarrow> os_rest u = os_rest s \<Longrightarrow> Q (err st) u"
    and body: "\<And>u. os_rest u = os_rest s \<Longrightarrow> wp body (\<lambda>r v. \<forall>w. os_rest w = os_rest v \<longrightarrow> Q r w) u"
  shows "wp (with_api E h tgt err body) Q s"
proof -
  have entered: "wp (do { r \<leftarrow> body; pipe_mgr_api_epilogue E h tgt; ret r }) Q v" if v: "os_rest v = os_rest s" for v
    unfolding wp_bind wp_return
    by (rule wp_conseq [OF body [OF v]], rule wp_view [OF keeps_rest]) blast
  have valid: "wp (do { status \<leftarrow> pipe_mgr_api_prologue E h tgt;
      if status \<noteq> BF_SUCCESS then ret (err status)
      else do { r \<leftarrow> body; pipe_mgr_api_epilogue E h tgt; ret r } }) Q u" if u: "os_rest u = os_rest s" for u
    unfolding wp_bind [of "pipe_mgr_api_prologue _ _ _"]
    by (rule wp_view [OF keeps_rest_bracket(1)]) (simp add: u entered err wp_return)
  show ?thesis
    unfolding with_api_def wp_bind [of "pipe_mgr_is_pipe_valid _ _ _"]
    by (rule wp_view [OF keeps_rest_bracket(2)]) (simp add: valid err wp_return)
qed

lemma adt_v_rest: "os_rest t = os_rest s \<Longrightarrow> adt_v E t = adt_v E s"
  unfolding os_rest_iff by (erule ssubst) simp

lemma handles_os [simp]:
  "vl_handle p (s\<lparr>os_clk := c, os_locks := L, os_fault := b\<rparr>) = vl_handle p s"
  "mat_handle p (s\<lparr>os_clk := c, os_locks := L, os_fault := b\<rparr>) = mat_handle p s"
  by (simp_all add: vl_handle_def mat_handle_def)

lemma table_of_rest: "os_rest t = os_rest s \<Longrightarrow> table_of E tgt hdl tt t = table_of E tgt hdl tt s"
  unfolding os_rest_iff by (erule ssubst, cases "tt = PIPE_MGR_TABLE_TYPE_VALUE_LOOKUP")
    (simp_all add: table_of_def dev_of_def the_ctx_def get_profile_obj_def Let_def)

lemma adt_results_v:
  assumes "adt_v E s' = adt_v E s" "adt_v E t' = adt_v E t"
  shows "adt_add_result E A tbl act mbr ads s' r t' = adt_add_result E A tbl act mbr ads s r t"
    "adt_del_result E A tbl h s' st t' = adt_del_result E A tbl h s st t"
  by (cases r) (simp_all add: adt_add_result_def adt_del_result_def adt_added_def adt_unchanged_def adt_deleted_def
      adt_v_same [OF assms(1)] adt_v_same [OF assms(2)] split: bf_status.split option.split)

text \<open>A call that fails before its work.\<close>

lemma adt_failed:
  assumes "adt_inv E A s" "os_rest u = os_rest s"
  shows "adt_add_result E A tbl act mbr ads s (st, None) u"
  using assms(1) by (simp add: adt_add_result_def adt_unchanged_def adt_v_same [OF adt_v_rest [OF assms(2)]] split: bf_status.split)

lemma adt_add_api:
  assumes E: "map_ok E" "id_ok E" "unlock_ok E" and dal: "\<And>h tbl. dal_op (dal_add h tbl)" and ads: "adt_client ads"
    and inv: "adt_inv E A s" "tbl \<in> A" and tbl: "table_of E tgt hdl PIPE_MGR_TABLE_TYPE_ADT s = Some tbl"
  shows "wp (with_api E sh tgt (\<lambda>st. (st, None)) (adt_add_body E tgt hdl act mbr ads dal_add))
    (adt_add_result E A tbl act mbr ads s) s"
proof (rule wp_with_api_any)
  fix u assume u: "os_rest u = os_rest s"
  have "adt_inv E A u" "table_of E tgt hdl PIPE_MGR_TABLE_TYPE_ADT u = Some tbl"
    using inv(1) tbl adt_v_same(1) [OF adt_v_rest [OF u], of E] table_of_rest [OF u, of E] by auto
  from adt_add_body_spec [OF E dal ads this(1) inv(2) this(2)]
  show "wp (adt_add_body E tgt hdl act mbr ads dal_add) (\<lambda>r v. \<forall>w. os_rest w = os_rest v \<longrightarrow>
      adt_add_result E A tbl act mbr ads s r w) u"
    by (rule wp_conseq) (use adt_results_v(1) [OF adt_v_rest [OF u] adt_v_rest] in blast)
qed (rule adt_failed [OF inv(1)])

lemma adt_del_api:
  assumes E: "map_ok E" "id_ok E" "unlock_ok E"
    and inv: "adt_inv E A s" "tbl \<in> A" and tbl: "table_of E tgt hdl PIPE_MGR_TABLE_TYPE_ADT s = Some tbl"
  shows "wp (pipe_mgr_adt_ent_del E sh tgt hdl h) (adt_del_result E A tbl h s) s"
  unfolding pipe_mgr_adt_ent_del_def
proof (rule wp_with_api_any)
  fix u assume u: "os_rest u = os_rest s"
  have "adt_inv E A u" "table_of E tgt hdl PIPE_MGR_TABLE_TYPE_ADT u = Some tbl"
    using inv(1) tbl adt_v_same(1) [OF adt_v_rest [OF u], of E] table_of_rest [OF u, of E] by auto
  from adt_del_body_spec [OF E this(1) inv(2) this(2)]
  show "wp (adt_del_body E tgt hdl h) (\<lambda>r v. \<forall>w. os_rest w = os_rest v \<longrightarrow>
      adt_del_result E A tbl h s r w) u"
    by (rule wp_conseq) (use adt_results_v(2) [OF adt_v_rest [OF u] adt_v_rest] in blast)
next
  fix st u assume "st \<noteq> BF_SUCCESS" and u: "os_rest u = os_rest s"
  then show "adt_del_result E A tbl h s st u"
    using inv(1) by (simp add: adt_del_result_def adt_unchanged_def adt_v_same [OF adt_v_rest [OF u]])
qed

text \<open>A session, a target and a table with which calls can be made; after a call they still are.\<close>

definition adt_ready ::
  "('m, 'i, 'h, 'z) ext_scheme \<Rightarrow> nat \<Rightarrow> bf_dev_target \<Rightarrow> u32 \<Rightarrow> ptr \<Rightarrow> ptr set \<Rightarrow> ('m, 'i, 'h) world \<Rightarrow> bool" where
  "adt_ready E sh tgt hdl tbl A s \<longleftrightarrow> api_ready E sh tgt s \<and> adt_inv E A s \<and> tbl \<in> A \<and>
     table_of E tgt hdl PIPE_MGR_TABLE_TYPE_ADT s = Some tbl \<and> os_locks s (TBL_LOCK tbl) = Free"

lemma table_of_ids:
  assumes "api_frame t = api_frame s" "mat_ids t = mat_ids s"
  shows "table_of E tgt hdl PIPE_MGR_TABLE_TYPE_ADT t = table_of E tgt hdl PIPE_MGR_TABLE_TYPE_ADT s"
proof -
  have "table_of E tgt hdl PIPE_MGR_TABLE_TYPE_ADT u = table_of E tgt hdl PIPE_MGR_TABLE_TYPE_MAT u" for u
    by (cases "dev_of E u (device_id tgt) = NULL") (simp_all add: table_of_def Let_def)
  then show ?thesis using table_of_frame [OF assms, of E tgt hdl] by simp
qed

lemma keeps_ids_adt [keeps_intros]:
  "keeps mat_ids (put_adt_ent e x)" "keeps mat_ids (upd_adt_ent e f)"
  by (auto simp: put_adt_ent_def upd_adt_ent_def mat_ids_def fun_eq_iff intro!: keeps_modify)

lemma keeps_ids_adt_add:
  assumes "\<And>h tbl. dal_op (dal_add h tbl)"
  shows "keeps mat_ids (adt_add_body E tgt hdl act mbr ads dal_add)"
  unfolding adt_add_body_def adt_add_entry_def adt_add_file_def adt_file_def cleanup_map_add_def cleanup_id_def
    cleanup_tbl_unlock_def adt_free_id_def pipe_mgr_adt_delete_entry_data_def dal_delete_adt_table_entry_data_def
    pipe_mgr_adt_pack_entry_data_def with_table_def lock_defs
  by (rule keeps_intros ids_dal [OF assms] ids_dal [OF dal_adt_entry_data] | simp)+

lemma keeps_ids_api:
  assumes "keeps mat_ids m"
  shows "keeps mat_ids (with_api E h tgt err m)"
proof -
  have "mat_ids t = mat_ids s" if "os_rest t = os_rest s" for s t :: "('a, 'b, 'c) world"
    using that unfolding os_rest_iff by (erule_tac ssubst) simp
  then have "keeps mat_ids n" if "keeps os_rest n" for n :: "('a, 'b, 'c, 'x) cmd"
    using that unfolding keeps_def by blast
  note rest = this [OF keeps_rest_bracket(1)] this [OF keeps_rest_bracket(2)] this [OF keeps_rest]
  show ?thesis unfolding with_api_def by (rule keeps_intros rest assms | simp)+
qed

lemma adt_ready_after:
  assumes ready: "adt_ready E sh tgt hdl tbl A s" and t: "api_frame t = api_frame s" "mat_ids t = mat_ids s"
    "os_locks t = os_locks s" "adt_inv E A t"
  shows "adt_ready E sh tgt hdl tbl A t"
  using ready t api_ready_frame [OF _ t(1,3), of E sh tgt] table_of_ids [OF t(1,2), of E tgt hdl]
  by (simp add: adt_ready_def)

lemma adt_add_ready:
  assumes E: "map_ok E" "id_ok E" "unlock_ok E" and ads: "adt_client ads" and ready: "adt_ready E sh tgt hdl tbl A s"
  shows "wp (pipe_mgr_adt_ent_add E sh tgt hdl act mbr ads) (\<lambda>r t. adt_add_result E A tbl act mbr ads s r t \<and>
    (os_fault t \<or> adt_ready E sh tgt hdl tbl A t)) s"
proof -
  let ?m = "pipe_mgr_adt_ent_add E sh tgt hdl act mbr ads"
  have "adt_inv E A s" "tbl \<in> A" "table_of E tgt hdl PIPE_MGR_TABLE_TYPE_ADT s = Some tbl"
    using ready by (simp_all add: adt_ready_def)
  then have res: "wp ?m (adt_add_result E A tbl act mbr ads s) s"
    unfolding pipe_mgr_adt_ent_add_def by (rule adt_add_api [OF E dal_adt_calls(3) ads])
  have fr: "keeps api_frame ?m" unfolding pipe_mgr_adt_ent_add_def by (rule adt_add.frame_kept)
  have ids: "keeps mat_ids ?m" unfolding pipe_mgr_adt_ent_add_def
    by (rule keeps_ids_api [OF keeps_ids_adt_add [OF dal_adt_calls(3)]])
  show ?thesis
  proof (rule wp_runI)
    fix r t assume run: "run_state ?m s = (r, t)"
    have t: "adt_add_result E A tbl act mbr ads s r t" by (rule wp_run [OF run res])
    then have "adt_inv E A t"
      by (cases r) (auto simp: adt_add_result_def adt_added_def adt_unchanged_def split: bf_status.splits option.splits)
    moreover have "os_fault t \<or> os_locks t = os_locks s"
      using adt_add.locks_restored [OF E(3) run [unfolded pipe_mgr_adt_ent_add_def]] by blast
    ultimately show "adt_add_result E A tbl act mbr ads s r t \<and> (os_fault t \<or> adt_ready E sh tgt hdl tbl A t)"
      using t adt_ready_after [OF ready keepsD [OF fr run] keepsD [OF ids run]] by blast
  qed
qed

section \<open>Reading a member back\<close>

lemma adt_map_get_spec:
  assumes E: "locks_ok E" "map_ok E" and z: "adt_state_of tbl u = Some z" "os_locks u (TBL_LOCK tbl) = Free"
  shows "wp (adt_map_get E tbl f k) (\<lambda>r t. (\<exists>c. t = u\<lparr>os_clk := c\<rparr>) \<and>
     r = (case map_abs E (f z) (ucast k) of None \<Rightarrow> (BF_NO_SYS_RESOURCES, NULL) | Some p \<Rightarrow> (BF_SUCCESS, p))) u"
proof -
  have get: "(if fst (x_map_get E (f z) (ucast k)) \<noteq> BF_MAP_OK then (BF_NO_SYS_RESOURCES, NULL)
      else (BF_SUCCESS, snd (x_map_get E (f z) (ucast k)))) =
    (case map_abs E (f z) (ucast k) of None \<Rightarrow> (BF_NO_SYS_RESOURCES, NULL) | Some p \<Rightarrow> (BF_SUCCESS, p))"
    using map_ok_get [OF E(2), of "f z" "ucast k"] by (cases "map_abs E (f z) (ucast k)") auto
  have upd: "u\<lparr>os_clk := c, os_locks := (os_locks u)(TBL_LOCK tbl := Free)\<rparr> = u\<lparr>os_clk := c\<rparr>" for c
    using z(2) by (simp add: fun_upd_idem)
  show ?thesis
    using E(1) z get upd
    by (auto simp: adt_map_get_def wp_simps lock_defs wp_lock_op Let_def locks_ok_def unlock_ok_def case_prod_beta)
qed

lemma adt_data_get:
  assumes E: "map_ok E" and ready: "adt_ready E sh tgt hdl tbl A s" and mbr: "mbr \<noteq> 0"
    and e: "adt_mbrs E s tbl h = Some e" "ae_mbr_id e = mbr"
  shows "wp (pipe_mgr_adt_ent_data_get E sh tgt hdl mbr) (\<lambda>r t. r = (BF_SUCCESS,
     \<lparr>ao_adt_ent_hdl = Some h, ao_mbr_id = None, ao_ent_data = ae_entry_data e\<rparr>) \<and> (\<exists>c. t = s\<lparr>os_clk := c\<rparr>)) s"
  unfolding pipe_mgr_adt_ent_data_get_def
proof (rule wp_read_api)
  from ready have api: "api_ready E sh tgt s" and inv: "adt_inv E A s" "tbl \<in> A"
    and tbl: "table_of E tgt hdl PIPE_MGR_TABLE_TYPE_ADT s = Some tbl" and free: "os_locks s (TBL_LOCK tbl) = Free"
    by (auto simp: adt_ready_def)
  then show "api_ready E sh tgt s" by simp
  from adt_invD [OF inv] obtain F M I where st: "adt_st E s tbl = Some (F, M, I)"
    and fs: "adt_files F M I (w_adt_ents s) (os_next s)" by blast
  then obtain z where z: "adt_state_of tbl s = Some z" and M: "map_abs E (mbr_id_htbl z) = M" by (auto simp: adt_st_def)
  from e(1) st obtain p where p: "F (ucast h) = Some p" "w_adt_ents s p = Some e"
    by (auto simp: adt_mbrs_def bind_eq_Some_conv)
  from adt_filesD(3) [OF fs p(1)] p(2) e(2) have at: "M (ucast mbr) = Some p" "ae_adt_ent_hdl e = h" "ae_entry_data e \<noteq> None" by auto
  fix c L assume ent: "entered E sh tgt s L"
  let ?u = "s\<lparr>os_clk := c, os_locks := L\<rparr>"
  have tb: "table_of E tgt hdl PIPE_MGR_TABLE_TYPE_ADT ?u = Some tbl" using table_of_rest [of ?u s E] tbl by simp
  have u: "adt_state_of tbl ?u = Some z" "os_locks ?u (TBL_LOCK tbl) = Free" "w_adt_ents ?u p = Some e"
    using z p(2) free entered_other [OF ent] by simp_all
  have ok: "locks_ok E" using api by (simp add: api_ready_def)
  show "wp (pipe_mgr_adt_get_mbr_id_hdl_int E tgt hdl mbr 0 True False True) (\<lambda>r t. r = (BF_SUCCESS,
     \<lparr>ao_adt_ent_hdl = Some h, ao_mbr_id = None, ao_ent_data = ae_entry_data e\<rparr>) \<and> (\<exists>d. t = s\<lparr>os_locks := L, os_clk := d\<rparr>)) ?u"
    unfolding pipe_mgr_adt_get_mbr_id_hdl_int_def using mbr
    by (simp add: wp_with_table [OF tb] wp_bind)
      (rule wp_conseq [OF adt_map_get_spec [OF ok E u(1,2), of mbr_id_htbl mbr]],
        use p(2) at M in \<open>auto simp: adt_read_def wp_simps\<close>)
qed

end
