(* ===== verification/Sel_Spec.thy ===== *)
theory Sel_Spec
  imports Sel Adt_Calls
begin

text \<open>
  Selectors and the members they refer to: the calls give back their locks, the references to a member are
  counted, and a member of a group cannot be deleted.
\<close>

section \<open>The calls are balanced\<close>

lemma dal_sel_ctl [dal_intros]: "(\<And>ctl. dal_op (k ctl)) \<Longrightarrow> dal_op (sel_ctl E tgt a b k)"
  by (auto simp: sel_ctl_def intro!: dal_intros)

lemma dal_sel_member_loop [dal_intros]: "dal_op (sel_member_loop E call mbrs is)"
  by (induction "is") (auto intro!: dal_intros)

lemma dal_sel_calls [dal_intros]:
  "dal_op (dal_table_sel_ent_add E tgt tbl)" "dal_op (dal_table_sel_ent_del E tgt tbl h)"
  "dal_op (dal_table_sel_member_add_del E tgt h n mbrs d tbl)"
  by (auto simp: dal_table_sel_ent_add_def dal_table_sel_ent_del_def dal_table_sel_member_add_del_def intro!: dal_intros)

lemma sel_ent_rules [bal_ops, keeps_intros]:
  "bal (put_sel_ent e x)" "bal (upd_sel_ent e f)" "keeps api_frame (put_sel_ent e x)" "keeps api_frame (upd_sel_ent e f)"
  by (auto simp: put_sel_ent_def upd_sel_ent_def api_frame_def intro!: keeps_intros bal_ops)

lemma sel_pack_rules [bal_ops, keeps_intros]:
  "bal (sel_fill E th h n ms e)" "keeps api_frame (sel_fill E th h n ms e)"
  "bal (pipe_mgr_sel_pack_entry_data E th h n ms e)" "keeps api_frame (pipe_mgr_sel_pack_entry_data E th h n ms e)"
  "bal (sel_drop_mbrs e)" "keeps api_frame (sel_drop_mbrs e)"
  "bal (pipe_mgr_sel_delete_entry_data e)" "keeps api_frame (pipe_mgr_sel_delete_entry_data e)"
  unfolding sel_fill_def pipe_mgr_sel_pack_entry_data_def sel_drop_mbrs_def pipe_mgr_sel_delete_entry_data_def
  by (rule bal_intros bal_ops keeps_intros | simp)+

lemma sel_file_rules [bal_ops, keeps_intros]:
  "bal (sel_file E tbl e h i)" "keeps api_frame (sel_file E tbl e h i)"
  "bal (sel_unfile E tbl e h)" "keeps api_frame (sel_unfile E tbl e h)"
  unfolding sel_file_def sel_unfile_def by (rule bal_intros bal_ops keeps_intros | simp)+

lemma member_reference_rules [bal_ops, keeps_intros]:
  "bal (pipe_mgr_adt_member_reference_add_delete E tgt hdl h op)"
  "keeps api_frame (pipe_mgr_adt_member_reference_add_delete E tgt hdl h op)"
  unfolding pipe_mgr_adt_member_reference_add_delete_def by (rule bal_intros bal_ops keeps_intros | simp)+

lemma sel_reference_loop_rules [bal_ops, keeps_intros]:
  "bal (sel_reference_loop E tgt hdl op mbrs is)" "keeps api_frame (sel_reference_loop E tgt hdl op mbrs is)"
  by (induction "is") (auto intro!: bal_intros bal_ops keeps_intros)

lemmas [keeps_intros] = dal_sel_calls [THEN frame_dal]
lemmas [bal_ops] = dal_sel_calls [THEN dal_bal]

lemma sel_work_rules:
  "bal (sel_mbrs_set_work E tgt th h n ms tbl ah)" "keeps api_frame (sel_mbrs_set_work E tgt th h n ms tbl ah)"
  "bal (sel_grp_del_work E tgt h tbl ah)" "keeps api_frame (sel_grp_del_work E tgt h tbl ah)"
  unfolding sel_mbrs_set_work_def sel_mbrs_program_def sel_set_file_def sel_grp_del_work_def sel_remove_mbrs_def
  by (rule bal_intros bal_ops keeps_intros | simp)+

lemma with_sel_adt_rules:
  assumes "\<And>tbl ah. bal (work tbl ah)" "\<And>tbl ah. keeps api_frame (work tbl ah)"
  shows "unlock_ok E \<Longrightarrow> bal (with_sel_adt E tgt hdl work)" "keeps api_frame (with_sel_adt E tgt hdl work)"
proof -
  show "bal (with_sel_adt E tgt hdl work)" if "unlock_ok E"
    unfolding with_sel_adt_def tbl_section_def
    by (intro with_table_rules bal_deref bal_mutex_section [OF that] bal_ops assms)
  show "keeps api_frame (with_sel_adt E tgt hdl work)"
    unfolding with_sel_adt_def tbl_section_def by (rule keeps_intros assms(2) | simp)+
qed

lemma mbrs_copy_rules: "bal (mbrs_copy ms is out)" "keeps api_frame (mbrs_copy ms is out)"
  by (induction "is" arbitrary: out) (auto intro!: bal_intros bal_ops keeps_intros split: prod.split)

lemma sel_reader_rules:
  "bal (sel_first_mbr e)" "keeps api_frame (sel_first_mbr e)" "bal (sel_mbrs n out e)" "keeps api_frame (sel_mbrs n out e)"
  unfolding sel_first_mbr_def sel_mbrs_def by (rule bal_intros bal_ops keeps_intros mbrs_copy_rules | simp)+

lemma sel_read_rules:
  assumes "\<And>e. bal (k e)" "\<And>e. keeps api_frame (k e)"
  shows "unlock_ok E \<Longrightarrow> bal (sel_read E tgt hdl h out k)" "keeps api_frame (sel_read E tgt hdl h out k)"
proof -
  show "bal (sel_read E tgt hdl h out k)" if "unlock_ok E"
    unfolding sel_read_def
    by (intro with_table_rules bal_deref bal_locked [OF that] bal_return)
      (rule that lt_intros lt_bal bal_intros bal_ops pres_intros assms | simp)+
  show "keeps api_frame (sel_read E tgt hdl h out k)"
    unfolding sel_read_def by (rule keeps_intros assms(2) | simp)+
qed

lemma sel_grp_add_body_rules:
  shows "unlock_ok E \<Longrightarrow> bal (sel_grp_add_body E tgt hdl i n)" and "keeps api_frame (sel_grp_add_body E tgt hdl i n)"
proof -
  show "bal (sel_grp_add_body E tgt hdl i n)" if "unlock_ok E"
    unfolding sel_grp_add_body_def
    by (intro with_table_rules bal_deref bal_locked [OF that] bal_return)
      (rule that lt_intros lt_bal bal_intros bal_ops pres_intros | simp)+
  show "keeps api_frame (sel_grp_add_body E tgt hdl i n)"
    unfolding sel_grp_add_body_def by (rule keeps_intros | simp)+
qed

lemma sel_get_rules:
  shows "unlock_ok E \<Longrightarrow> bal (pipe_mgr_sel_get_grp_id_hdl_int E tgt hdl i h a b c)"
    and "keeps api_frame (pipe_mgr_sel_get_grp_id_hdl_int E tgt hdl i h a b c)"
proof -
  have 1: "bal (sel_map_get E tbl i h)" if "unlock_ok E" for tbl
    unfolding sel_map_get_def by (intro bal_deref bal_mutex_section [OF that] bal_intros bal_ops)
  show "bal (pipe_mgr_sel_get_grp_id_hdl_int E tgt hdl i h a b c)" if "unlock_ok E"
    unfolding pipe_mgr_sel_get_grp_id_hdl_int_def by (rule bal_intros bal_ops 1 [OF that] | simp)+
  show "keeps api_frame (pipe_mgr_sel_get_grp_id_hdl_int E tgt hdl i h a b c)"
    unfolding pipe_mgr_sel_get_grp_id_hdl_int_def sel_map_get_def by (rule keeps_intros | simp)+
qed

interpretation sel_add: api_call E "sel_grp_add_body E tgt hdl i n" for E tgt hdl i n
  by unfold_locales (fact sel_grp_add_body_rules)+

interpretation sel_set: api_call E "with_sel_adt E tgt hdl (sel_mbrs_set_work E tgt hdl h n ms)" for E tgt hdl h n ms
  by unfold_locales (rule with_sel_adt_rules [OF sel_work_rules(1,2)]; assumption)+

interpretation sel_del: api_call E "with_sel_adt E tgt hdl (sel_grp_del_work E tgt h)" for E tgt hdl h
  by unfold_locales (rule with_sel_adt_rules [OF sel_work_rules(3,4)]; assumption)+

interpretation sel_get: api_call E "pipe_mgr_sel_get_grp_id_hdl_int E tgt hdl i h a b c" for E tgt hdl i h a b c
  by unfold_locales (fact sel_get_rules)+

interpretation sel_first: api_call E "sel_read E tgt hdl h None sel_first_mbr" for E tgt hdl h
  by unfold_locales (rule sel_read_rules [OF sel_reader_rules(1,2)]; assumption)+

interpretation sel_members: api_call E "sel_read E tgt hdl h out (sel_mbrs n out)" for E tgt hdl h n out
  by unfold_locales (rule sel_read_rules [OF sel_reader_rules(3,4)]; assumption)+

section \<open>References\<close>

text \<open>The members of a table with \<open>c h\<close> more references to the member with handle \<open>h\<close>.\<close>

definition adt_refs :: "(u32 \<rightharpoonup> pipe_mgr_adt_entry_info) \<Rightarrow> (u32 \<Rightarrow> u32) \<Rightarrow> u32 \<rightharpoonup> pipe_mgr_adt_entry_info" where
  "adt_refs m c h = map_option (\<lambda>e. e\<lparr>ae_reference_count := ae_reference_count e + c h\<rparr>) (m h)"

definition refs_of :: "bool \<Rightarrow> u32 list \<Rightarrow> u32 \<Rightarrow> u32" where
  "refs_of op ms h = (if op then - of_nat (count_list ms h) else of_nat (count_list ms h))"

lemma adt_refs_add: "adt_refs (adt_refs m c) d = adt_refs m (\<lambda>h. c h + d h)"
  by (auto simp: adt_refs_def fun_eq_iff option.map_comp comp_def add.assoc)

lemma adt_refs_zero: "(\<And>h. c h = 0) \<Longrightarrow> adt_refs m c = m"
  by (auto simp: adt_refs_def fun_eq_iff option.map_ident)

lemma adt_refs_dom [simp]: "adt_refs m c h = None \<longleftrightarrow> m h = None"
  by (simp add: adt_refs_def)

lemma table_of_ents: "table_of E tgt hdl tt (s\<lparr>w_adt_ents := x\<rparr>) = table_of E tgt hdl tt s"
proof -
  have "vl_handle p (s\<lparr>w_adt_ents := x\<rparr>) = vl_handle p s" "mat_handle p (s\<lparr>w_adt_ents := x\<rparr>) = mat_handle p s" for p
    by (simp_all add: vl_handle_def mat_handle_def)
  then show ?thesis
    by (cases "tt = PIPE_MGR_TABLE_TYPE_VALUE_LOOKUP")
      (simp_all add: table_of_def dev_of_def the_ctx_def get_profile_obj_def Let_def)
qed

lemma only_ents_trans: "v = t\<lparr>w_adt_ents := x\<rparr> \<Longrightarrow> t = s\<lparr>w_adt_ents := y\<rparr> \<Longrightarrow> v = s\<lparr>w_adt_ents := x\<rparr>"
  by simp

lemma only_ents_frame: "t = u\<lparr>w_adt_ents := x\<rparr> \<Longrightarrow> api_frame t = api_frame u \<and> mat_ids t = mat_ids u"
  by (simp add: api_frame_def mat_ids_def fun_eq_iff)

lemma adt_recounted_refs:
  assumes "adt_recounted E A tbl h op s t"
  shows "adt_mbrs E t tbl = adt_refs (adt_mbrs E s tbl) (refs_of op [h])"
  using assms by (auto simp: adt_recounted_def adt_refs_def refs_of_def fun_eq_iff option.map_ident)

text \<open>The loop over the members of a group.\<close>

lemma sel_reference_loop_spec:
  assumes E: "map_ok E" and inv: "adt_inv E A s" "tbl \<in> A"
    and tbl: "table_of E tgt hdl PIPE_MGR_TABLE_TYPE_ADT s = Some tbl" and "is": "\<forall>i\<in>set is. i < length ms"
  shows "wp (sel_reference_loop E tgt hdl op (Some ms) is) (\<lambda>r t. t = s\<lparr>w_adt_ents := w_adt_ents t\<rparr> \<and> adt_inv E A t \<and>
     (\<forall>u\<in>A. u \<noteq> tbl \<longrightarrow> adt_mbrs E t u = adt_mbrs E s u) \<and>
     (if \<forall>i\<in>set is. adt_mbrs E s tbl (ms ! i) \<noteq> None
      then r = BF_SUCCESS \<and> adt_mbrs E t tbl = adt_refs (adt_mbrs E s tbl) (refs_of op (map ((!) ms) is))
      else r = BF_UNEXPECTED)) s"
  using inv(1) tbl "is"
proof (induction "is" arbitrary: s)
  case Nil
  then show ?case by (simp add: wp_return adt_refs_zero refs_of_def)
next
  case (Cons i "is")
  then have i: "elem (Some ms) i = Some (ms ! i)" by (simp add: elem_def)
  show ?case
    unfolding sel_reference_loop.simps wp_deref i option.case wp_bind
  proof (rule wp_conseq [OF member_reference_spec [OF E Cons.prems(1) inv(2) Cons.prems(2)]])
    fix r t
    assume *: "t = s\<lparr>w_adt_ents := w_adt_ents t\<rparr> \<and> (if adt_mbrs E s tbl (ms ! i) = None then r = BF_NO_SYS_RESOURCES \<and> t = s
       else r = BF_SUCCESS \<and> adt_recounted E A tbl (ms ! i) op s t)"
    let ?Q = "\<lambda>r u. u = s\<lparr>w_adt_ents := w_adt_ents u\<rparr> \<and> adt_inv E A u \<and>
     (\<forall>v\<in>A. v \<noteq> tbl \<longrightarrow> adt_mbrs E u v = adt_mbrs E s v) \<and>
     (if \<forall>i\<in>set (i # is). adt_mbrs E s tbl (ms ! i) \<noteq> None
      then r = BF_SUCCESS \<and> adt_mbrs E u tbl = adt_refs (adt_mbrs E s tbl) (refs_of op (map ((!) ms) (i # is)))
      else r = BF_UNEXPECTED)"
    show "wp (if r \<noteq> BF_SUCCESS then ret BF_UNEXPECTED else sel_reference_loop E tgt hdl op (Some ms) is) ?Q t"
    proof (cases "adt_mbrs E s tbl (ms ! i) = None")
      case True
      with * Cons.prems show ?thesis by (simp add: wp_return)
    next
      case False
      with * have r: "r = BF_SUCCESS" and rec: "adt_recounted E A tbl (ms ! i) op s t" and t: "t = s\<lparr>w_adt_ents := w_adt_ents t\<rparr>" by auto
      have tb: "table_of E tgt hdl PIPE_MGR_TABLE_TYPE_ADT t = Some tbl" by (subst t) (simp add: table_of_ents Cons.prems(2))
      have mb: "adt_mbrs E t tbl = adt_refs (adt_mbrs E s tbl) (refs_of op [ms ! i])" by (rule adt_recounted_refs [OF rec])
      have add: "refs_of op [x] h + refs_of op xs h = refs_of op (x # xs) h" for x xs h by (auto simp: refs_of_def)
      have oth: "adt_mbrs E t v = adt_mbrs E s v" if "v \<in> A" "v \<noteq> tbl" for v using rec that by (simp add: adt_recounted_def)
      have "wp (sel_reference_loop E tgt hdl op (Some ms) is) ?Q t"
        by (rule wp_conseq [OF Cons.IH [OF _ tb]])
          (use rec Cons.prems(3) False t oth in \<open>auto simp: adt_recounted_def mb adt_refs_add add elim: only_ents_trans\<close>)
      with r show ?thesis by simp
    qed
  qed
qed

section \<open>The members of a group\<close>

text \<open>What the work of a call on a selector leaves alone until it counts references.\<close>

definition sel_kept :: "('m, 'i, 'h, 'z) ext_scheme \<Rightarrow> ptr set \<Rightarrow> ('m, 'i, 'h) world \<Rightarrow> ('m, 'i, 'h) world \<Rightarrow> bool" where
  "sel_kept E A s t \<longleftrightarrow> api_frame t = api_frame s \<and> mat_ids t = mat_ids s \<and> (\<forall>u\<in>A. adt_st E t u = adt_st E s u) \<and>
     w_adt_ents t = w_adt_ents s \<and> os_next s \<le> os_next t"

lemma sel_kept_refl [simp]: "sel_kept E A s s"
  by (simp add: sel_kept_def)

lemma sel_kept_os [simp]:
  "sel_kept E A s (t\<lparr>os_clk := c\<rparr>) = sel_kept E A s t" "sel_kept E A s (t\<lparr>os_fault := b\<rparr>) = sel_kept E A s t"
  "sel_kept E A s (t\<lparr>os_locks := L\<rparr>) = sel_kept E A s t" "sel_kept E A s (t\<lparr>w_sel_ents := x\<rparr>) = sel_kept E A s t"
  by (simp_all add: sel_kept_def api_frame_def mat_ids_def fun_eq_iff adt_st_def)

lemma sel_kept_inv:
  assumes inv: "adt_inv E A s" and t: "sel_kept E A s t"
  shows "adt_inv E A t" "u \<in> A \<Longrightarrow> adt_mbrs E t u = adt_mbrs E s u"
proof -
  have eq: "adt_st E t u = adt_st E s u" if "u \<in> A" for u using t that by (simp add: sel_kept_def)
  have "adt_files F M I (w_adt_ents t) (os_next t)" if "adt_files F M I (w_adt_ents s) (os_next s)" for F M I
    by (rule adt_files_other [OF that]) (use t in \<open>simp_all add: sel_kept_def\<close>)
  with inv show "adt_inv E A t" unfolding adt_inv_def by (simp add: eq) blast
  show "adt_mbrs E t u = adt_mbrs E s u" if "u \<in> A"
    using t eq [OF that] by (auto simp: adt_mbrs_def [abs_def] sel_kept_def split: option.split)
qed

lemma sel_kept_table:
  "sel_kept E A s t \<Longrightarrow> table_of E' tgt hdl PIPE_MGR_TABLE_TYPE_ADT t = table_of E' tgt hdl PIPE_MGR_TABLE_TYPE_ADT s"
  by (rule table_of_ids) (simp_all add: sel_kept_def)

lemma sel_kept_dal:
  assumes "dal_op m"
  shows "pres (sel_kept E A s) m"
  unfolding pres_def
proof (intro allI impI)
  fix u assume u: "sel_kept E A s u"
  obtain r t where run: "run_state m u = (r, t)" by force
  have "adt_v E t = adt_v E u" "api_frame t = api_frame u" "mat_ids t = mat_ids u"
    using run assms by (auto intro: keepsD [OF adt_v_dal] keepsD [OF frame_dal] keepsD [OF ids_dal])
  with u adt_vD [OF this(1)] run show "sel_kept E A s (snd (run_state m u))" by (simp add: sel_kept_def)
qed

lemma sel_kept_deref [pres_intros]: "(\<And>v. pres (sel_kept E A s) (k v)) \<Longrightarrow> pres (sel_kept E A s) (deref g d k)"
  unfolding deref_def by (intro pres_intros) (auto simp: fault_def intro!: pres_modify)

lemma sel_kept_ops [pres_intros]:
  "pres (sel_kept E A s) (put_sel_ent e x)" "pres (sel_kept E A s) (upd_sel_ent e f)"
  by (auto simp: put_sel_ent_def upd_sel_ent_def intro!: pres_modify)

lemma sel_kept_calloc [pres_intros]: "pres (sel_kept E A s) (calloc E')"
  by (auto simp: pres_def calloc_def tick_def sel_kept_def api_frame_def mat_ids_def adt_st_def fun_eq_iff)

lemma sel_kept_state [pres_intros]: "tbl \<notin> A \<Longrightarrow> pres (sel_kept E A s) (set_sel_state tbl f)"
  by (auto simp: set_state_def st_upd.simps sel_kept_def mat_ids_def adt_st_def fun_eq_iff option.map_comp comp_def
      api_frame_def intro!: pres_modify split: if_splits)

lemma sel_kept_pack [pres_intros]:
  "pres (sel_kept E A s) (sel_drop_mbrs e)" "pres (sel_kept E A s) (pipe_mgr_sel_pack_entry_data E' th h n ms e)"
  unfolding sel_drop_mbrs_def pipe_mgr_sel_pack_entry_data_def sel_fill_def
  by (rule pres_intros sel_kept_dal dal_intros | simp)+

lemma wp_pres_bind: "pres I m \<Longrightarrow> I s \<Longrightarrow> (\<And>r u. I u \<Longrightarrow> wp (k r) Q u) \<Longrightarrow> wp (m \<bind> k) Q s"
  unfolding wp_bind by (rule wp_conseq [OF pres_wp])

text \<open>Setting the members: on success each of them is there and has one more reference, or one less when a group is
  deleted, for each time it occurs.\<close>

definition sel_counted ::
  "('m, 'i, 'h, 'z) ext_scheme \<Rightarrow> ptr set \<Rightarrow> ptr \<Rightarrow> bool \<Rightarrow> u32 list \<Rightarrow> ('m, 'i, 'h) world \<Rightarrow> ('m, 'i, 'h) world \<Rightarrow> bool" where
  "sel_counted E A adt op ms s t \<longleftrightarrow> adt_inv E A t \<and> set ms \<subseteq> dom (adt_mbrs E s adt) \<and>
     adt_mbrs E t adt = adt_refs (adt_mbrs E s adt) (refs_of op ms) \<and>
     (\<forall>u\<in>A. u \<noteq> adt \<longrightarrow> adt_mbrs E t u = adt_mbrs E s u)"

lemma sel_loop_counted:
  assumes E: "map_ok E" and inv: "adt_inv E A s" "adt \<in> A"
    and tbl: "table_of E tgt hdl PIPE_MGR_TABLE_TYPE_ADT s = Some adt" and n: "n \<le> length ms" and u: "sel_kept E A s u"
  shows "wp (sel_reference_loop E tgt hdl op (Some ms) [0..<n]) (\<lambda>r t. adt_inv E A t \<and> api_frame t = api_frame s \<and> mat_ids t = mat_ids s \<and>
     (r = BF_SUCCESS \<longrightarrow> sel_counted E A adt op (take n ms) s t)) u"
proof -
  have i: "adt_inv E A u" "\<And>v. v \<in> A \<Longrightarrow> adt_mbrs E u v = adt_mbrs E s v" using sel_kept_inv [OF inv(1) u] by auto
  have tb: "table_of E tgt hdl PIPE_MGR_TABLE_TYPE_ADT u = Some adt" unfolding sel_kept_table [OF u] by (rule tbl)
  have tk: "map ((!) ms) [0..<n] = take n ms" by (rule nth_equalityI) (use n in auto)
  show ?thesis
    by (rule wp_conseq [OF sel_reference_loop_spec [OF E i(1) inv(2) tb]])
      (use n tk i(2) inv(2) u in \<open>auto simp: sel_counted_def sel_kept_def subset_iff in_set_conv_nth split: if_splits
        dest: only_ents_frame\<close>)
qed

lemma sel_mbrs_set_work_spec:
  fixes s :: "('m, 'i, 'h) world"
  assumes E: "map_ok E" and inv: "adt_inv E A s" "adt \<in> A" "tbl \<notin> A"
    and tbl: "table_of E tgt hdl PIPE_MGR_TABLE_TYPE_ADT s = Some adt" and n: "n \<le> length ms"
  shows "wp (sel_mbrs_set_work E tgt th h n ms tbl hdl) (\<lambda>r t. adt_inv E A t \<and> api_frame t = api_frame s \<and> mat_ids t = mat_ids s \<and>
     (r = BF_SUCCESS \<longrightarrow> sel_counted E A adt False (take n ms) s t)) s"
proof -
  let ?Q = "\<lambda>r t. adt_inv E A t \<and> api_frame t = api_frame s \<and> mat_ids t = mat_ids s \<and>
     (r = BF_SUCCESS \<longrightarrow> sel_counted E A adt False (take n ms) s t)"
  have failed: "?Q r t" if "sel_kept E A s t" "r \<noteq> BF_SUCCESS" for r t
    using sel_kept_inv(1) [OF inv(1) that(1)] that by (simp add: sel_kept_def)
  note loop = sel_loop_counted [OF E inv(1,2) tbl n]
  have fails: "wp (do { m; ret r }) ?Q u" if "pres (sel_kept E A s) m" "sel_kept E A s u" "r \<noteq> BF_SUCCESS" for m :: "('m, 'i, 'h, unit) cmd" and r u
    by (rule wp_pres_bind [OF that(1,2)], unfold wp_return, rule failed [OF _ that(3)])
  note kept = wp_pres_bind [where I = "sel_kept E A s" and Q = ?Q]
  have program: "wp (sel_mbrs_program E tgt h n ms tbl hdl sts p) ?Q u" if u: "sel_kept E A s u" for u sts p
    unfolding sel_mbrs_program_def
  proof (rule kept [OF sel_kept_dal [OF dal_sel_calls(3)] u], rule kept)
    fix st v assume "sel_kept E A s v"
    then show "sel_kept E A s v" .
    show "pres (sel_kept E A s) (if st = BF_SUCCESS \<and> sts \<noteq> BF_MAP_OK then sel_set_file E tbl h p else ret sts)"
      unfolding sel_set_file_def by (rule pres_intros inv(3) | simp split: prod.split)+
  qed (use loop fails [OF sel_kept_pack(1)] in \<open>simp split: if_split\<close>)
  show ?thesis
    unfolding sel_mbrs_set_work_def wp_deref
    by (cases "adt_state_of tbl s")
      (use failed [of "s\<lparr>os_fault := True\<rparr>" BF_UNEXPECTED] in
        \<open>auto simp: split_beta intro!: kept sel_kept_pack program fails\<close>)
qed

text \<open>The calls that lock the selector and its action-data table.\<close>

lemma rest_lock: "keeps os_rest (mutex_lock E l)" "keeps os_rest (mutex_unlock E l)"
  by (auto simp: lock_defs intro!: keeps_intros)

lemma wp_tbl_section:
  assumes m: "\<And>u. os_rest u = os_rest s \<Longrightarrow> wp m (\<lambda>r v. \<forall>w. os_rest w = os_rest v \<longrightarrow> Q r w) u"
    and err: "\<And>u. os_rest u = os_rest s \<Longrightarrow> Q BF_UNEXPECTED u"
  shows "wp (tbl_section E tbl m) (\<lambda>r v. \<forall>w. os_rest w = os_rest v \<longrightarrow> Q r w) s"
proof -
  let ?l = "TBL_LOCK tbl" and ?Q = "\<lambda>r v. \<forall>w. os_rest w = os_rest v \<longrightarrow> Q r w"
  have unlock: "wp (do { mutex_unlock E ?l; ret r }) ?Q v" if "?Q r v" for r v
    unfolding wp_bind wp_return by (rule wp_view [OF rest_lock(2)]) (use that in simp)
  have body: "wp (do { status \<leftarrow> m; mutex_unlock E ?l; ret status }) ?Q u" if "os_rest u = os_rest s" for u
    unfolding wp_bind [of m] by (rule wp_conseq [OF m [OF that] unlock])
  have failed: "?Q BF_UNEXPECTED u" if "os_rest u = os_rest s" for u using err that by simp
  have locked: "wp (do { rc \<leftarrow> mutex_lock E ?l;
      if rc \<noteq> 0 then ret BF_UNEXPECTED else do { status \<leftarrow> m; mutex_unlock E ?l; ret status }}) ?Q s"
    unfolding wp_bind [of "mutex_lock E ?l"]
  proof (rule wp_view [OF rest_lock(1)])
    fix r u assume "os_rest u = os_rest s"
    then show "wp (if r \<noteq> 0 then ret BF_UNEXPECTED else do { status \<leftarrow> m; mutex_unlock E ?l; ret status }) ?Q u"
      using failed [of u] body [of u] by (cases "r = 0") (simp_all only: simp_thms if_True if_False wp_return True_implies_equals)
  qed
  have fault: "os_rest (s\<lparr>os_fault := True\<rparr>) = os_rest s" by (simp add: os_rest_def)
  show ?thesis
    unfolding tbl_section_def wp_deref
    by (cases "adt_state_of tbl s") (use locked failed [OF fault] in \<open>simp_all only: option.case\<close>)
qed

lemma wp_with_sel_adt:
  assumes tbl: "table_of E tgt sh PIPE_MGR_TABLE_TYPE_SEL s = Some tbl" and ctx: "mat_ctx_of tbl s = Some ctx"
    and adt: "table_of E tgt (mc_adt_handle ctx) PIPE_MGR_TABLE_TYPE_ADT s = Some adt"
    and work: "\<And>u. os_rest u = os_rest s \<Longrightarrow> wp (work tbl (mc_adt_handle ctx)) (\<lambda>r v. \<forall>w. os_rest w = os_rest v \<longrightarrow> Q r w) u"
    and err: "\<And>u. os_rest u = os_rest s \<Longrightarrow> Q BF_UNEXPECTED u"
  shows "wp (with_sel_adt E tgt sh work) (\<lambda>r v. \<forall>w. os_rest w = os_rest v \<longrightarrow> Q r w) s"
proof -
  have inner: "wp (tbl_section E adt (work tbl (mc_adt_handle ctx))) (\<lambda>r v. \<forall>w. os_rest w = os_rest v \<longrightarrow> Q r w) u"
    if u: "os_rest u = os_rest s" for u
    by (rule wp_tbl_section) (simp_all only: u work err)
  show ?thesis
    unfolding with_sel_adt_def wp_with_table [OF tbl] wp_deref [of "mat_ctx_of tbl"] ctx option.case wp_with_table [OF adt]
    by (rule wp_tbl_section [OF inner err])
qed

text \<open>The selector \<open>tbl\<close> and the action-data table \<open>adt\<close> of its members.\<close>

definition sel_of :: "('m, 'i, 'h, 'z) ext_scheme \<Rightarrow> bf_dev_target \<Rightarrow> u32 \<Rightarrow> u32 \<Rightarrow> ptr \<Rightarrow> ptr \<Rightarrow> ('m, 'i, 'h) world \<Rightarrow> bool" where
  "sel_of E tgt sel_hdl adt_hdl tbl adt s \<longleftrightarrow> table_of E tgt sel_hdl PIPE_MGR_TABLE_TYPE_SEL s = Some tbl \<and>
     map_option mc_adt_handle (mat_ctx_of tbl s) = Some adt_hdl \<and> table_of E tgt adt_hdl PIPE_MGR_TABLE_TYPE_ADT s = Some adt"

text \<open>A call that counts references, as a client sees it.\<close>

definition sel_result where
  "sel_result E A tgt ah adt op ms s r t \<longleftrightarrow> adt_inv E A t \<and> table_of E tgt ah PIPE_MGR_TABLE_TYPE_ADT t = Some adt \<and>
     (r = BF_SUCCESS \<longrightarrow> sel_counted E A adt op ms s t)"

lemma mat_ctx_rest: "os_rest t = os_rest s \<Longrightarrow> mat_ctx_of tbl t = mat_ctx_of tbl s"
  unfolding os_rest_iff by (erule ssubst) (simp add: mat_ctx_of_def)

lemma sel_result_rest:
  assumes "os_rest s' = os_rest s" "os_rest t' = os_rest t"
  shows "sel_result E A tgt ah adt op ms s' r t' = sel_result E A tgt ah adt op ms s r t"
  unfolding sel_result_def sel_counted_def table_of_rest [OF assms(2)]
  by (simp add: adt_v_same [OF adt_v_rest [OF assms(1)]] adt_v_same [OF adt_v_rest [OF assms(2)]])

lemma wp_sel_call:
  assumes sel: "sel_of E tgt th ah tbl adt s"
    and work: "\<And>u. os_rest u = os_rest s \<Longrightarrow> wp (work tbl ah) (\<lambda>r v. \<forall>w. os_rest w = os_rest v \<longrightarrow> Q r w) u"
    and failed: "\<And>r u. os_rest u = os_rest s \<Longrightarrow> r \<noteq> BF_SUCCESS \<Longrightarrow> Q r u"
  shows "wp (with_api E sh tgt (\<lambda>st. st) (with_sel_adt E tgt th work)) Q s"
proof (rule wp_with_api_any)
  fix u assume u: "os_rest u = os_rest s"
  from sel have "sel_of E tgt th ah tbl adt u" by (simp add: sel_of_def table_of_rest [OF u] mat_ctx_rest [OF u])
  then obtain ctx where "table_of E tgt th PIPE_MGR_TABLE_TYPE_SEL u = Some tbl" "mat_ctx_of tbl u = Some ctx"
    "mc_adt_handle ctx = ah" "table_of E tgt ah PIPE_MGR_TABLE_TYPE_ADT u = Some adt" by (auto simp: sel_of_def)
  from wp_with_sel_adt [where work = work and Q = Q, OF this(1,2), unfolded this(3), OF this(4)]
  show "wp (with_sel_adt E tgt th work) (\<lambda>r v. \<forall>w. os_rest w = os_rest v \<longrightarrow> Q r w) u"
    using work failed by (simp add: u)
qed (use failed in blast)

lemma sel_work_api:
  assumes inv: "adt_inv E A s" and sel: "sel_of E tgt th ah tbl adt s"
    and work: "\<And>u. os_rest u = os_rest s \<Longrightarrow> wp (work tbl ah) (\<lambda>r t. adt_inv E A t \<and> api_frame t = api_frame u \<and>
      mat_ids t = mat_ids u \<and> (r = BF_SUCCESS \<longrightarrow> sel_counted E A adt op ms u t)) u"
  shows "wp (with_api E sh tgt (\<lambda>st. st) (with_sel_adt E tgt th work)) (sel_result E A tgt ah adt op ms s) s"
proof (rule wp_sel_call [OF sel])
  fix u assume u: "os_rest u = os_rest s"
  have tb: "table_of E tgt ah PIPE_MGR_TABLE_TYPE_ADT u = Some adt"
    unfolding table_of_rest [OF u] using sel by (simp add: sel_of_def)
  have Q: "sel_result E A tgt ah adt op ms s r w = sel_result E A tgt ah adt op ms u r v" if "os_rest w = os_rest v" for r w v
    using sel_result_rest [OF u [symmetric] that, of E] by blast
  show "wp (work tbl ah) (\<lambda>r v. \<forall>w. os_rest w = os_rest v \<longrightarrow> sel_result E A tgt ah adt op ms s r w) u"
  proof (rule wp_conseq [OF work [OF u]])
    fix r v
    assume *: "adt_inv E A v \<and> api_frame v = api_frame u \<and> mat_ids v = mat_ids u \<and>
      (r = BF_SUCCESS \<longrightarrow> sel_counted E A adt op ms u v)"
    then have "table_of E tgt ah PIPE_MGR_TABLE_TYPE_ADT v = Some adt" using table_of_ids [of v u E tgt ah] tb by simp
    with * have "sel_result E A tgt ah adt op ms u r v" by (simp add: sel_result_def)
    with Q show "\<forall>w. os_rest w = os_rest v \<longrightarrow> sel_result E A tgt ah adt op ms s r w" by blast
  qed
next
  fix r u assume u: "os_rest u = os_rest s" and "r \<noteq> BF_SUCCESS"
  then show "sel_result E A tgt ah adt op ms s r u"
    using inv sel by (simp add: sel_result_def sel_of_def table_of_rest [OF u] adt_v_same [OF adt_v_rest [OF u]])
qed

lemma adt_inv_rest: "adt_inv E A s \<Longrightarrow> os_rest u = os_rest s \<Longrightarrow> adt_inv E A u"
  using adt_v_same(1) [OF adt_v_rest, of u s E] by blast

lemma sel_mbrs_set_api:
  assumes E: "map_ok E" and inv: "adt_inv E A s" "adt \<in> A" "tbl \<notin> A"
    and sel: "sel_of E tgt th ah tbl adt s" and n: "n \<le> length ms"
  shows "wp (pipe_mgr_sel_grp_mbrs_set E sh tgt th h n ms) (sel_result E A tgt ah adt False (take n ms) s) s"
  unfolding pipe_mgr_sel_grp_mbrs_set_def
proof (rule sel_work_api [OF inv(1) sel])
  fix u assume u: "os_rest u = os_rest s"
  show "wp (sel_mbrs_set_work E tgt th h n ms tbl ah) (\<lambda>r t. adt_inv E A t \<and> api_frame t = api_frame u \<and>
      mat_ids t = mat_ids u \<and> (r = BF_SUCCESS \<longrightarrow> sel_counted E A adt False (take n ms) u t)) u"
    using sel by (intro sel_mbrs_set_work_spec E inv adt_inv_rest [OF inv(1) u] n)
      (simp add: table_of_rest [OF u] sel_of_def)
qed

end
