(* ===== verification/Sel_Calls.thy ===== *)
theory Sel_Calls
  imports Sel_Spec
begin

text \<open>
  The groups of a selector: what a call files is what the later calls find, and deleting a group gives back the
  references that it held.
\<close>

declare st_upd.simps [simp del]

section \<open>The groups\<close>

definition sel_v where
  "sel_v E tbl s = (adt_st E s tbl, w_sel_ents s)"

definition sel_grps ::
  "('m, 'i, 'h, 'z) ext_scheme \<Rightarrow> ('m, 'i, 'h) world \<Rightarrow> ptr \<Rightarrow> u32 \<rightharpoonup> pipe_mgr_sel_entry_info" where
  "sel_grps E s tbl h = (case adt_st E s tbl of None \<Rightarrow> None
   | Some (F, _) \<Rightarrow> Option.bind (F (ucast h)) (w_sel_ents s))"

definition sel_ids ::
  "('m, 'i, 'h, 'z) ext_scheme \<Rightarrow> ('m, 'i, 'h) world \<Rightarrow> ptr \<Rightarrow> u32 \<rightharpoonup> pipe_mgr_sel_entry_info" where
  "sel_ids E s tbl i = (case adt_st E s tbl of None \<Rightarrow> None
   | Some (_, M, _) \<Rightarrow> Option.bind (M (ucast i)) (w_sel_ents s))"

lemma sel_v_os [simp]:
  "sel_v E tbl (s\<lparr>os_clk := c\<rparr>) = sel_v E tbl s" "sel_v E tbl (s\<lparr>os_fault := b\<rparr>) = sel_v E tbl s"
  "sel_v E tbl (s\<lparr>os_locks := L\<rparr>) = sel_v E tbl s" "sel_v E tbl (s\<lparr>os_next := n\<rparr>) = sel_v E tbl s"
  "sel_v E tbl (s\<lparr>w_adt_ents := x\<rparr>) = sel_v E tbl s"
  by (simp_all add: sel_v_def adt_st_def)

lemma sel_v_grps:
  assumes "sel_v E tbl t = sel_v E tbl s"
  shows "sel_grps E t tbl = sel_grps E s tbl" "sel_ids E t tbl = sel_ids E s tbl"
  using assms by (auto simp: sel_grps_def [abs_def] sel_ids_def [abs_def] sel_v_def split: option.split)

lemma sel_v_dal:
  assumes "dal_op m"
  shows "keeps (sel_v E tbl) m"
proof -
  have "sel_v E tbl t = sel_v E tbl s" if "run_state m s = (r, t)" for s t r
  proof -
    have fr: "dal_frame t = dal_frame s" using dal_opD(1) [OF assms] that by (rule keepsD)
    have "adt_v E t = adt_v E s" using adt_v_dal [OF assms] that by (rule keepsD)
    then show ?thesis using dal_frameD(6) [OF fr] by (simp add: sel_v_def adt_v_def)
  qed
  then show ?thesis unfolding keeps_def by (metis prod.collapse)
qed

lemma sel_v_get_table [keeps_intros]: "keeps (sel_v E tbl) (get_table g hdl ps)"
  by (induction ps) (auto intro!: keeps_intros)

lemma sel_v_with_table [keeps_intros]:
  "(\<And>t. keeps (sel_v E tbl) (k t)) \<Longrightarrow> keeps (sel_v E tbl) (with_table E' tgt hdl tt err k)"
  by (auto simp: with_table_def pipe_mgr_ctx_get_table_def pipe_mgr_get_profile_ctx_def pipe_mgr_get_profile_def
      get_pipe_mgr_ctx_def pipe_mgr_get_dev_def intro!: keeps_intros split: pipe_mgr_table_type.split)

lemma sel_v_reference: "keeps (sel_v E tbl) (sel_reference_loop E' tgt hdl op mbrs is)"
proof (induction "is")
  case (Cons i "is")
  have "keeps (sel_v E tbl) (pipe_mgr_adt_member_reference_add_delete E' tgt hdl m op)" for m
    unfolding pipe_mgr_adt_member_reference_add_delete_def upd_adt_ent_def by (rule keeps_intros | simp)+
  with Cons show ?case by (auto intro!: keeps_intros)
qed (simp add: keeps_intros)


text \<open>Filling an entry.\<close>

definition sel_packed :: "ptr \<Rightarrow> u32 \<Rightarrow> u32 \<Rightarrow> nat \<Rightarrow> u32 list \<Rightarrow> ptr \<Rightarrow> ('m, 'i, 'h) world \<Rightarrow> bool" where
  "sel_packed e0 th h n ms e t \<longleftrightarrow> (e0 \<noteq> NULL \<longrightarrow> e = e0) \<and> (\<exists>x. w_sel_ents t e = Some x \<and> se_sel_tbl_hdl x = th \<and>
     se_sel_grp_hdl x = h \<and> se_num_mbrs x = n \<and> (n \<noteq> 0 \<longrightarrow> se_mbrs x = Some (take n ms)))"

lemma sel_pack_spec:
  "wp (pipe_mgr_sel_pack_entry_data E th h n ms e0) (\<lambda>(r, e) t. adt_st E' t = adt_st E' s \<and>
     (r = BF_SUCCESS \<longrightarrow> sel_packed e0 th h n ms e t)) s"
  by (auto simp: pipe_mgr_sel_pack_entry_data_def sel_fill_def put_sel_ent_def upd_sel_ent_def allocate_def wp_simps
      sel_packed_def adt_st_def [abs_def] split: option.split)

lemma sel_st_set [simp]:
  "adt_st E (st_upd PIPE_MGR_TABLE_TYPE_SEL tbl f s) = (adt_st E s)(tbl :=
     map_option (\<lambda>st. (map_abs E (entry_info_htbl (f st)), map_abs E (mbr_id_htbl (f st)),
       id_used E (entry_handle_array (f st)))) (adt_state_of tbl s))"
  "w_sel_ents (st_upd PIPE_MGR_TABLE_TYPE_SEL tbl f s) = w_sel_ents s"
  by (auto simp: st_upd.simps adt_st_def fun_eq_iff option.map_comp comp_def split: Option.bind_splits)

lemma wp_anything [simp]: "wp m (\<lambda>_ _. True) s"
  by (simp add: wp_def split: prod.split)

lemma sel_grpsI:
  "adt_st E t tbl = Some (F, R) \<Longrightarrow> F (ucast h) = Some p \<Longrightarrow> w_sel_ents t p = Some x \<Longrightarrow> sel_grps E t tbl h = Some x"
  by (cases R) (simp add: sel_grps_def)

text \<open>The map of handles has no entry that is \<open>NULL\<close>.\<close>

definition sel_no_null :: "('m, 'i, 'h, 'z) ext_scheme \<Rightarrow> ptr \<Rightarrow> ('m, 'i, 'h) world \<Rightarrow> bool" where
  "sel_no_null E tbl s \<longleftrightarrow> (\<forall>F R k. adt_st E s tbl = Some (F, R) \<longrightarrow> F k \<noteq> Some NULL)"

text \<open>After the members of a group are set, the group has these members.\<close>

definition sel_has :: "('m, 'i, 'h, 'z) ext_scheme \<Rightarrow> ptr \<Rightarrow> u32 \<Rightarrow> nat \<Rightarrow> u32 list \<Rightarrow> ('m, 'i, 'h) world \<Rightarrow> bool" where
  "sel_has E tbl h n ms t \<longleftrightarrow>
     (\<exists>x. sel_grps E t tbl h = Some x \<and> se_num_mbrs x = n \<and> (n \<noteq> 0 \<longrightarrow> se_mbrs x = Some (take n ms)))"

lemma sel_set_files:
  assumes E: "map_ok E" and null: "sel_no_null E tbl s"
  shows "wp (sel_mbrs_set_work E tgt th h n ms tbl ah) (\<lambda>r t. r = BF_SUCCESS \<longrightarrow> sel_has E tbl h n ms t) s"
proof (cases "adt_state_of tbl s")
  case None
  then show ?thesis by (simp add: sel_mbrs_set_work_def wp_deref)
next
  case (Some z)
  let ?Q = "\<lambda>r t. r = BF_SUCCESS \<longrightarrow> sel_has E tbl h n ms t"
  obtain sts p where get: "x_map_get E (entry_info_htbl z) (ucast h) = (sts, p)" by force
  let ?e0 = "if sts = BF_MAP_OK then p else NULL"
  have loop: "wp (sel_reference_loop E tgt ah False (Some ms) [0..<n]) ?Q u" if "sel_has E tbl h n ms u" for u
    by (rule wp_view [OF sel_v_reference [of E tbl]]) (use that in \<open>auto simp: sel_has_def dest: sel_v_grps(1)\<close>)
  have packed: "wp (sel_mbrs_program E tgt h n ms tbl ah sts e) ?Q u"
    if u: "adt_st E u = adt_st E s" "sel_packed ?e0 th h n ms e u" for e u
    unfolding sel_mbrs_program_def wp_bind [of "dal_table_sel_member_add_del _ _ _ _ _ _ _"]
  proof (rule wp_view [OF sel_v_dal [OF dal_sel_calls(3), of E tbl]])
    fix r v assume "sel_v E tbl v = sel_v E tbl u"
    with u have v: "adt_st E v tbl = adt_st E s tbl" "sel_packed ?e0 th h n ms e v" by (simp_all add: sel_v_def sel_packed_def)
    then obtain y where y: "adt_state_of tbl v = Some y" using Some by (auto simp: adt_st_def)
    have found: "sel_has E tbl h n ms v" if "sts = BF_MAP_OK"
      using null Some get map_ok_get [OF E, of "entry_info_htbl z" "ucast h"] that v
      by (cases "map_abs E (entry_info_htbl z) (ucast h)") (auto simp: sel_no_null_def sel_has_def sel_packed_def sel_grps_def adt_st_def)
    obtain sts' m where add: "x_map_add E (entry_info_htbl y) (ucast h) e = (sts', m)" by force
    from map_add_any [OF E add] y v
    have filed: "sel_has E tbl h n ms (st_upd PIPE_MGR_TABLE_TYPE_SEL tbl (\<lambda>st. st\<lparr>entry_info_htbl := m\<rparr>) v)" if "sts' = BF_MAP_OK"
      using that by (auto simp: sel_has_def sel_packed_def sel_grps_def)
    show "wp (do {
        map_sts \<leftarrow> (if r = BF_SUCCESS \<and> sts \<noteq> BF_MAP_OK then sel_set_file E tbl h e else ret sts);
        if map_sts \<noteq> BF_MAP_OK \<or> r \<noteq> BF_SUCCESS then do { sel_drop_mbrs e; ret BF_NO_SYS_RESOURCES }
        else sel_reference_loop E tgt ah False (Some ms) [0..<n] }) ?Q v"
      using found filed loop by (auto simp: wp_simps y add set_state_def sel_set_file_def)
  qed
  have dropped: "wp (do { sel_drop_mbrs e; ret r }) ?Q t" if "r \<noteq> BF_SUCCESS" for e r t using that by (simp add: wp_simps)
  show ?thesis
    unfolding sel_mbrs_set_work_def wp_deref Some option.case get prod.case wp_bind [of "pipe_mgr_sel_pack_entry_data _ _ _ _ _ _"]
    by (rule wp_conseq [OF sel_pack_spec [where E' = E]]) (auto simp: packed dropped split_beta)
qed

section \<open>Deleting a group\<close>

lemma sel_kept_unfile: "tbl \<notin> A \<Longrightarrow> pres (sel_kept E A s) (sel_unfile E' tbl p h)"
  unfolding sel_unfile_def pipe_mgr_sel_delete_entry_data_def by (rule pres_intros | assumption | simp)+

lemma sel_counted_kept:
  assumes inv: "adt_inv E A u" "adt \<in> A" and s: "sel_counted E A adt op ms s u" and t: "sel_kept E A u t"
  shows "sel_counted E A adt op ms s t"
proof -
  have "adt_mbrs E t v = adt_mbrs E u v" if "v \<in> A" for v by (rule sel_kept_inv(2) [OF inv(1) t that])
  with s sel_kept_inv(1) [OF inv(1) t] inv(2) show ?thesis by (simp add: sel_counted_def)
qed

lemma sel_remove_mbrs_spec:
  assumes E: "map_ok E" and inv: "adt_inv E A s" "adt \<in> A"
    and tbl: "table_of E tgt hdl PIPE_MGR_TABLE_TYPE_ADT s = Some adt"
    and x: "se_num_mbrs x = n" "n \<noteq> 0 \<longrightarrow> se_mbrs x = Some (take n ms)" and n: "n \<le> length ms"
  shows "wp (sel_remove_mbrs E tgt h tbl hdl x) (\<lambda>r t. adt_inv E A t \<and> api_frame t = api_frame s \<and> mat_ids t = mat_ids s \<and>
     (r = BF_SUCCESS \<longrightarrow> sel_counted E A adt True (take n ms) s t)) s"
proof (cases "n = 0")
  case True
  with x inv show ?thesis
    by (simp add: sel_remove_mbrs_def wp_return sel_counted_def refs_of_def adt_refs_zero)
next
  case False
  let ?Q = "\<lambda>r t. adt_inv E A t \<and> api_frame t = api_frame s \<and> mat_ids t = mat_ids s \<and>
     (r = BF_SUCCESS \<longrightarrow> sel_counted E A adt True (take n ms) s t)"
  have "wp (do {
      status \<leftarrow> dal_table_sel_member_add_del E tgt h n (Some (take n ms)) True tbl;
      if status \<noteq> BF_SUCCESS then ret BF_UNEXPECTED
      else sel_reference_loop E tgt hdl True (Some (take n ms)) [0..<n] }) ?Q s"
  proof (rule wp_pres_bind [OF sel_kept_dal [OF dal_sel_calls(3)], of E A s])
    fix r u assume u: "sel_kept E A s u"
    with sel_kept_inv(1) [OF inv(1) u] have "?Q BF_UNEXPECTED u" by (simp add: sel_kept_def)
    then show "wp (if r \<noteq> BF_SUCCESS then ret BF_UNEXPECTED
      else sel_reference_loop E tgt hdl True (Some (take n ms)) [0..<n]) ?Q u"
      using sel_loop_counted [OF E inv tbl _ u, of n "take n ms" True] n by (simp add: wp_return)
  qed simp
  with False x show ?thesis by (simp add: sel_remove_mbrs_def cong: if_cong)
qed

lemma sel_grp_del_work_spec:
  assumes E: "map_ok E" and inv: "adt_inv E A s" "adt \<in> A" "tbl \<notin> A"
    and tbl: "table_of E tgt hdl PIPE_MGR_TABLE_TYPE_ADT s = Some adt"
    and has: "sel_has E tbl h n ms s" and n: "n \<le> length ms"
  shows "wp (sel_grp_del_work E tgt h tbl hdl) (\<lambda>r t. adt_inv E A t \<and> api_frame t = api_frame s \<and> mat_ids t = mat_ids s \<and>
     (r = BF_SUCCESS \<longrightarrow> sel_counted E A adt True (take n ms) s t)) s"
proof -
  let ?Q = "\<lambda>r t. adt_inv E A t \<and> api_frame t = api_frame s \<and> mat_ids t = mat_ids s \<and>
     (r = BF_SUCCESS \<longrightarrow> sel_counted E A adt True (take n ms) s t)"
  from has obtain z p x where z: "adt_state_of tbl s = Some z" and p: "map_abs E (entry_info_htbl z) (ucast h) = Some p"
    and x: "w_sel_ents s p = Some x" "se_num_mbrs x = n" "n \<noteq> 0 \<longrightarrow> se_mbrs x = Some (take n ms)"
    by (auto simp: sel_has_def sel_grps_def adt_st_def bind_eq_Some_conv split: option.splits)
  have rest: "wp (do {
      status \<leftarrow> dal_table_sel_ent_del E tgt tbl h;
      if status \<noteq> BF_SUCCESS then ret BF_UNEXPECTED
      else do { sel_unfile E tbl p h; ret BF_SUCCESS } }) ?Q u" if u: "?Q BF_SUCCESS u" for u
  proof -
    have Q: "?Q r t" if "sel_kept E A u t" for r t
      using sel_counted_kept [OF _ inv(2) _ that] u sel_kept_inv(1) [OF _ that] that by (simp add: sel_kept_def)
    show ?thesis
      by (rule wp_pres_bind [OF sel_kept_dal [OF dal_sel_calls(2)], of E A u])
        (auto simp: wp_return Q intro!: wp_pres_bind [OF sel_kept_unfile [OF inv(3)], of E u])
  qed
  show ?thesis
    unfolding sel_grp_del_work_def wp_deref z option.case map_ok_get(1) [OF E p] prod.case
    by (simp add: wp_deref x(1) wp_bind [of "sel_remove_mbrs _ _ _ _ _ _"])
      (rule wp_conseq [OF sel_remove_mbrs_spec [OF E inv(1,2) tbl x(2,3) n]], use rest in \<open>auto simp: wp_return\<close>)
qed

section \<open>The configuration of the tables stays\<close>

definition ctxs :: "('m, 'i, 'h) world \<Rightarrow> ptr \<Rightarrow> pipe_mgr_mat_ctx option" where
  "ctxs s p = mat_ctx_of p s"

lemma ctxs_upd [simp]:
  "ctxs (s\<lparr>os_clk := c\<rparr>) = ctxs s" "ctxs (s\<lparr>os_fault := b\<rparr>) = ctxs s" "ctxs (s\<lparr>os_locks := L\<rparr>) = ctxs s"
  "ctxs (s\<lparr>os_next := n\<rparr>) = ctxs s" "ctxs (s\<lparr>w_adt_ents := x\<rparr>) = ctxs s" "ctxs (s\<lparr>w_sel_ents := y\<rparr>) = ctxs s"
  "ctxs (s\<lparr>w_rte := z\<rparr>) = ctxs s" "ctxs (st_upd PIPE_MGR_TABLE_TYPE_SEL tbl f s) = ctxs s"
  by (auto simp: ctxs_def [abs_def] mat_ctx_of_def st_upd.simps fun_eq_iff option.map_comp comp_def)

lemma ctxs_ops [keeps_intros]:
  "keeps ctxs (put_sel_ent e x)" "keeps ctxs (upd_sel_ent e g)" "keeps ctxs (upd_adt_ent e' g')"
  "keeps ctxs (set_sel_state tbl f)" "keeps ctxs (get_table g'' hdl ps)" "keeps ctxs (rte_do E c)"
  by (auto simp: put_sel_ent_def upd_sel_ent_def upd_adt_ent_def set_state_def rte_do_def tick_def intro!: keeps_intros)
    (induction ps, auto intro!: keeps_intros)

lemma ctxs_loops [keeps_intros]:
  "keeps ctxs (sel_member_loop E call mbrs is)" "keeps ctxs (sel_reference_loop E' tgt hdl op mbrs is)"
proof -
  show "keeps ctxs (sel_member_loop E call mbrs is)" by (induction "is") (auto intro!: keeps_intros)
  have "keeps ctxs (pipe_mgr_adt_member_reference_add_delete E' tgt hdl m op)" for m
    unfolding pipe_mgr_adt_member_reference_add_delete_def with_table_def pipe_mgr_ctx_get_table_def
      pipe_mgr_get_profile_ctx_def pipe_mgr_get_profile_def get_pipe_mgr_ctx_def pipe_mgr_get_dev_def
    by (auto intro!: keeps_intros split: pipe_mgr_table_type.split)
  then show "keeps ctxs (sel_reference_loop E' tgt hdl op mbrs is)" by (induction "is") (auto intro!: keeps_intros)
qed

lemma ctxs_set_work: "keeps ctxs (sel_mbrs_set_work E tgt th h n ms tbl ah)"
  unfolding sel_mbrs_set_work_def sel_mbrs_program_def sel_set_file_def sel_drop_mbrs_def pipe_mgr_sel_pack_entry_data_def
    sel_fill_def allocate_def dal_table_sel_member_add_del_def sel_ctl_def pipe_mgr_get_profile_def get_pipe_mgr_ctx_def
    pipe_mgr_get_dev_def pipeline_find_def
  by (rule keeps_intros | simp)+

lemma ctxs_rest: "os_rest t = os_rest s \<Longrightarrow> ctxs t = ctxs s"
  unfolding ctxs_def [abs_def] fun_eq_iff by (blast intro: mat_ctx_rest)

text \<open>The work of a call on the selector also keeps what the call itself keeps.\<close>

lemma sel_of_same:
  assumes "api_frame t = api_frame s" "ctxs t = ctxs s"
  shows "sel_of E tgt th ah tbl adt t = sel_of E tgt th ah tbl adt s"
proof -
  have "mat_handle p t = mat_handle p s" "mat_ctx_of p t = mat_ctx_of p s" for p
    using fun_cong [OF assms(2), of p]
    by (cases "w_mats t p"; cases "w_mats s p"; simp add: ctxs_def mat_ctx_of_def mat_handle_def)+
  then show ?thesis
    using frame_eqD(3) [OF assms(1)] frame_eqD(6) [OF assms(1), where E = E]
    by (simp add: sel_of_def table_of_def get_profile_obj_def Let_def)
qed

lemma sel_of_rest:
  assumes "os_rest t = os_rest s"
  shows "sel_of E tgt th ah tbl adt t = sel_of E tgt th ah tbl adt s"
  by (simp only: sel_of_def table_of_rest [OF assms] mat_ctx_rest [OF assms])

lemma sel_v_rest: "os_rest t = os_rest s \<Longrightarrow> sel_v E tbl t = sel_v E tbl s"
  unfolding os_rest_iff by (erule ssubst) simp

lemma sel_has_v: "sel_v E tbl t = sel_v E tbl s \<Longrightarrow> sel_has E tbl h n ms t = sel_has E tbl h n ms s"
  using sel_v_grps(1) [of E tbl t s] by (simp add: sel_has_def)

lemma sel_set_after:
  assumes E: "map_ok E" and sel: "sel_of E tgt th ah tbl adt s"
    and null: "sel_no_null E tbl s"
  shows "wp (pipe_mgr_sel_grp_mbrs_set E sh tgt th h n ms) (\<lambda>r t. sel_of E tgt th ah tbl adt t \<and>
     (r = BF_SUCCESS \<longrightarrow> sel_has E tbl h n ms t)) s"
  unfolding pipe_mgr_sel_grp_mbrs_set_def
proof (rule wp_sel_call [OF sel])
  let ?Q = "\<lambda>r t. sel_of E tgt th ah tbl adt t \<and> (r = BF_SUCCESS \<longrightarrow> sel_has E tbl h n ms t)"
  fix u assume u: "os_rest u = os_rest s"
  have st: "adt_st E u tbl = adt_st E s tbl" using sel_v_rest [OF u, of E tbl] by (simp add: sel_v_def)
  show "wp (sel_mbrs_set_work E tgt th h n ms tbl ah) (\<lambda>r v. \<forall>w. os_rest w = os_rest v \<longrightarrow> ?Q r w) u"
  proof (rule wp_runI)
    fix r v assume run: "run_state (sel_mbrs_set_work E tgt th h n ms tbl ah) u = (r, v)"
    have "sel_of E tgt th ah tbl adt v"
      using sel_of_same [OF keepsD [OF sel_work_rules(2) run] keepsD [OF ctxs_set_work run], of E] sel sel_of_rest [OF u, of E] by simp
    moreover have "r = BF_SUCCESS \<longrightarrow> sel_has E tbl h n ms v"
      by (rule wp_run [OF run sel_set_files [OF E]]) (use null st in \<open>simp add: sel_no_null_def\<close>)
    ultimately show "\<forall>w. os_rest w = os_rest v \<longrightarrow> ?Q r w"
      using sel_has_v [OF sel_v_rest, of _ v E tbl h n ms] sel_of_rest [of _ v E tgt th ah tbl adt] by blast
  qed
qed (use sel sel_of_rest [of _ s E] in blast)

lemma sel_grp_del_api:
  assumes E: "map_ok E" and inv: "adt_inv E A s" "adt \<in> A" "tbl \<notin> A"
    and sel: "sel_of E tgt th ah tbl adt s" and has: "sel_has E tbl h n ms s" and n: "n \<le> length ms"
  shows "wp (pipe_mgr_sel_grp_del E sh tgt th h) (sel_result E A tgt ah adt True (take n ms) s) s"
  unfolding pipe_mgr_sel_grp_del_def
proof (rule sel_work_api [OF inv(1) sel])
  fix u assume u: "os_rest u = os_rest s"
  show "wp (sel_grp_del_work E tgt h tbl ah) (\<lambda>r t. adt_inv E A t \<and> api_frame t = api_frame u \<and>
      mat_ids t = mat_ids u \<and> (r = BF_SUCCESS \<longrightarrow> sel_counted E A adt True (take n ms) u t)) u"
    using sel has by (intro sel_grp_del_work_spec E inv adt_inv_rest [OF inv(1) u] n)
      (simp_all add: table_of_rest [OF u] sel_of_def sel_has_v [OF sel_v_rest [OF u]])
qed

section \<open>Reading a group\<close>

lemma sel_read_spec:
  assumes E: "locks_ok E" "map_ok E" and tbl: "table_of E tgt hdl PIPE_MGR_TABLE_TYPE_SEL u = Some tbl"
    and x: "sel_grps E u tbl h = Some x" and free: "os_locks u (TBL_LOCK tbl) = Free"
    and k: "\<And>w. wp (k x) (\<lambda>r t. r = v \<and> t = w) w"
  shows "wp (sel_read E tgt hdl h out k) (\<lambda>r t. r = (BF_SUCCESS, v) \<and> (\<exists>c. t = u\<lparr>os_clk := c\<rparr>)) u"
proof -
  from x obtain z p where z: "adt_state_of tbl u = Some z" and p: "map_abs E (entry_info_htbl z) (ucast h) = Some p"
    "w_sel_ents u p = Some x"
    by (auto simp: sel_grps_def adt_st_def bind_eq_Some_conv split: option.splits)
  have upd: "u\<lparr>os_clk := c, os_locks := (os_locks u)(TBL_LOCK tbl := Free)\<rparr> = u\<lparr>os_clk := c\<rparr>" for c
    using free by (simp add: fun_upd_idem)
  have k': "wp (k x) Q w" if "Q v w" for Q w by (rule wp_conseq [OF k]) (use that in simp)
  show ?thesis
    unfolding sel_read_def wp_with_table [OF tbl] wp_deref z option.case map_ok_get(1) [OF E(2) p(1)] prod.case
    using E(1) z p(2) upd free
    by (auto simp: wp_simps lock_defs wp_lock_op Let_def locks_ok_def unlock_ok_def intro!: k')
qed

lemma mbrs_copy_spec:
  "\<forall>i\<in>set is. i < length ms \<and> i < length a \<and> i < length b \<Longrightarrow>
   wp (mbrs_copy (Some ms) is (a, b, c)) (\<lambda>r t. r = (fold (\<lambda>i a. a[i := ms ! i]) is a, fold (\<lambda>i b. b[i := True]) is b,
     c + of_nat (length is)) \<and> t = s) s"
proof (induction "is" arbitrary: a b c)
  case (Cons i "is")
  from Cons.IH [of "a[i := ms ! i]" "b[i := True]" "c + 1"] Cons.prems show ?case
    by (simp add: wp_simps elem_def add.assoc)
qed (simp add: wp_return)

lemma fold_update: "n \<le> length ms \<Longrightarrow> n \<le> length a \<Longrightarrow> fold (\<lambda>i a. a[i := ms ! i]) [0..<n] a = take n ms @ drop n a"
proof (induction n)
  case (Suc n)
  then have "fold (\<lambda>i a. a[i := ms ! i]) [0..<Suc n] a = (take n ms @ drop n a)[n := ms ! n]" by simp
  also have "\<dots> = take (Suc n) ms @ drop (Suc n) a"
    using Suc.prems by (simp add: take_Suc_conv_app_nth list_update_append Cons_nth_drop_Suc [symmetric])
  finally show ?case .
qed simp

lemma fold_update_True: "n \<le> length b \<Longrightarrow> fold (\<lambda>i b. b[i := True]) [0..<n] b = replicate n True @ drop n b"
proof (induction n)
  case (Suc n)
  then have "fold (\<lambda>i b. b[i := True]) [0..<Suc n] b = (replicate n True @ drop n b)[n := True]" by simp
  also have "\<dots> = replicate (Suc n) True @ drop (Suc n) b"
    using Suc.prems by (simp add: list_update_append Cons_nth_drop_Suc [symmetric] replicate_append_same)
  finally show ?case .
qed simp

text \<open>The members of the group, in the buffers of a client that have room for them.\<close>

lemma sel_mbrs_spec:
  assumes x: "se_num_mbrs x = n" "n \<noteq> 0 \<longrightarrow> se_mbrs x = Some (take n ms)"
    and room: "n \<le> length ms" "n \<le> m" "n \<le> length a" "n \<le> length b"
  shows "wp (sel_mbrs m (a, b, c) x) (\<lambda>r t. r = (take n ms @ drop n a, replicate n True @ drop n b, c + of_nat n) \<and> t = s) s"
proof (cases "n = 0")
  case True
  with x show ?thesis by (simp add: sel_mbrs_def wp_return)
next
  case False
  have "fold (\<lambda>i a. a[i := take n ms ! i]) [0..<n] a = take n ms @ drop n a"
    using fold_update [of n "take n ms" a] room by simp
  then show ?thesis
    using mbrs_copy_spec [of "[0..<n]" "take n ms" a b c s] fold_update_True [of n b] room x False
    by (simp add: sel_mbrs_def)
qed

lemma sel_mbrs_get_api:
  assumes E: "map_ok E" and ready: "api_ready E sh tgt s" and sel: "sel_of E tgt th ah tbl adt s"
    and free: "os_locks s (TBL_LOCK tbl) = Free" and has: "sel_has E tbl h n ms s"
    and room: "n \<le> length ms" "n \<le> m" "n \<le> length a" "n \<le> length b"
  shows "wp (pipe_mgr_sel_grp_mbrs_get E sh tgt th h m (a, b, c)) (\<lambda>r t.
    r = (BF_SUCCESS, take n ms @ drop n a, replicate n True @ drop n b, c + of_nat n) \<and> (\<exists>c. t = s\<lparr>os_clk := c\<rparr>)) s"
  unfolding pipe_mgr_sel_grp_mbrs_get_def
proof (rule wp_read_api [OF ready])
  fix c' L assume ent: "entered E sh tgt s L"
  let ?u = "s\<lparr>os_clk := c', os_locks := L\<rparr>"
  have ok: "locks_ok E" using ready by (simp add: api_ready_def)
  have tb: "table_of E tgt th PIPE_MGR_TABLE_TYPE_SEL ?u = Some tbl"
    using table_of_rest [of ?u s E] sel by (simp add: sel_of_def)
  from has obtain x where x: "sel_grps E s tbl h = Some x" "se_num_mbrs x = n" "n \<noteq> 0 \<longrightarrow> se_mbrs x = Some (take n ms)"
    by (auto simp: sel_has_def)
  have grp: "sel_grps E ?u tbl h = Some x" using sel_v_grps(1) [OF sel_v_rest, of ?u s E] x(1) by simp
  have lock: "os_locks ?u (TBL_LOCK tbl) = Free" using free entered_other [OF ent] by simp
  show "wp (sel_read E tgt th h (a, b, c) (sel_mbrs m (a, b, c))) (\<lambda>r t.
    r = (BF_SUCCESS, take n ms @ drop n a, replicate n True @ drop n b, c + of_nat n) \<and> (\<exists>d. t = s\<lparr>os_locks := L, os_clk := d\<rparr>)) ?u"
    by (rule wp_conseq [OF sel_read_spec [where k = "sel_mbrs m (a, b, c)", OF ok E tb grp lock sel_mbrs_spec [OF x(2,3) room]]]) auto
qed

end
