(* ===== verification/Adt_Props.thy ===== *)
theory Adt_Props
  imports Adt_Calls Mat_Props
begin

text \<open>
  The properties of action-data tables, with a concrete table whose members the data plane accepts.
\<close>

section \<open>A concrete table\<close>

definition ex_adt_meta :: dal_dpdk_table_metadata where
  "ex_adt_meta = ex_meta\<lparr>tm_mf := [\<lparr>mf_is_header = False, mf_n_bits = 32, mf_offset = 0\<rparr>], tm_match_field_nbits := 32\<rparr>"

definition ex_adt_sys :: "(lmap, lids, lht) world" where
  "ex_adt_sys = ex_sys\<lparr>w_mats := [1 \<mapsto> ex_mat\<lparr>mat_ctx := ex_ctx\<lparr>mc_stage_table_count := 1,
     mc_stage_table := Some (ex_stage\<lparr>st_table_meta := Some ex_adt_meta\<rparr>)\<rparr>\<rparr>]\<rparr>"

lemmas bracket_run = with_api_def pipe_mgr_is_pipe_valid_def pipe_mgr_api_prologue_def pipe_mgr_api_enter_def api_enter_def
  pipe_mgr_session_valid_def get_pipe_mgr_ctx_def pipe_mgr_api_epilogue_def pipe_mgr_api_exit_def lock_defs wp_lock_op Let_def

lemmas adt_add_run = pipe_mgr_adt_ent_add_def adt_add_body_def with_table_def pipe_mgr_ctx_get_table_def
  pipe_mgr_get_profile_ctx_def pipe_mgr_get_profile_def get_profile_obj_def mat_handle_def set_state_def
  pipe_mgr_adt_pack_entry_data_def pipe_mgr_mat_pack_act_spec_def allocate_def put_adt_ent_def upd_adt_ent_def
  adt_add_entry_def dal_table_adt_ent_add_def dal_adt_add_def adt_stage_def adt_pipe_def mat_ctx_of_def pipe_obj_def
  pipe_mgr_ctx_dpdk_get_act_fmt_def dal_dpdk_table_entry_alloc_def pipe_mgr_dpdk_encode_adt_action_data_def dal_commit_def
  adt_entry_data_def make_adt_ent_data_def adt_add_file_def adt_file_def alloc_if_def nbytes_def encode_arg_def mem_write_def le_bytes_def empty_entry_def upt_rec field_hton_def

lemma ex_alloc: "list_id_alloc [] = (1, [1])"
  by (simp add: list_id_alloc_def candidate_ids_def upt_rec)

lemma ex_added:
  "wp (pipe_mgr_adt_ent_add ref_env 0 ex_tgt 1 7 5 ex_ads) (\<lambda>r t. r = (BF_SUCCESS, Some 1) \<and> \<not> os_fault t) ex_adt_sys"
  by (simp add: adt_add_run bracket_run wp_simps ex_adt_sys_def ex_adt_meta_def ex_ads_def ex_sys_defs ref_env_def
      dev_of_def the_ctx_def world0_def live_sessions_def ex_alloc st_upd.simps)

lemma ex_adt_dev: "dev_of ref_env ex_adt_sys 0 = 4"
  by (simp add: dev_of_def the_ctx_def ex_adt_sys_def ex_sys_def ref_env_def)

lemma ex_adt_ready: "adt_ready ref_env 0 ex_tgt 1 1 {1} ex_adt_sys"
proof -
  have "api_ready ref_env 0 ex_tgt ex_adt_sys"
    using ex_adt_dev by (simp add: api_ready_def live_sessions_def ex_tgt_def Let_def)
      (simp add: ex_adt_sys_def ex_sys_defs the_ctx_def)
  moreover have "table_of ref_env ex_tgt 1 PIPE_MGR_TABLE_TYPE_ADT ex_adt_sys = Some 1"
    using ex_adt_dev by (simp add: table_of_def ex_tgt_def)
      (simp add: ex_adt_sys_def ex_sys_defs get_profile_obj_def mat_handle_def)
  moreover have "adt_inv ref_env {1} ex_adt_sys"
    by (simp add: adt_inv_def adt_st_def adt_files_def ex_adt_sys_def ex_sys_defs) (simp add: ref_env_def)
  ultimately show ?thesis by (simp add: adt_ready_def) (simp add: ex_adt_sys_def ex_sys_defs)
qed

lemma ex_adt_client: "adt_client ex_ads"
  by (simp add: adt_client_def ex_ads_def)

section \<open>Properties\<close>

text \<open>C22. Adding a member, or the default member, to an action-data table. The maps of handles and of ids file the
  same members before the call, and they do after it, whatever its outcome. When it succeeds with a handle, the
  handle and the id were not in use, and the table has one more member, a copy of what the client passed that
  no group refers to. Otherwise every table has the members it had.\<close>

theorem adt_add_members:
  assumes "map_ok E" "id_ok E" "unlock_ok E" "adt_client ads" "adt_inv E A s" "tbl \<in> A"
    "table_of E tgt hdl PIPE_MGR_TABLE_TYPE_ADT s = Some tbl"
  shows "wp (pipe_mgr_adt_ent_add E sh tgt hdl act mbr ads) (adt_add_result E A tbl act mbr ads s) s \<and>
    wp (pipe_mgr_adt_default_ent_add E sh tgt hdl act mbr ads) (adt_add_result E A tbl act mbr ads s) s"
  unfolding pipe_mgr_adt_ent_add_def pipe_mgr_adt_default_ent_add_def
  by (intro conjI adt_add_api assms dal_adt_calls)

theorem adt_add_members_witness:
  "wp (pipe_mgr_adt_ent_add ref_env 0 ex_tgt 1 7 5 ex_ads) (\<lambda>_ t.
     adt_mbrs ref_env t 1 = (adt_mbrs ref_env ex_adt_sys 1)(1 \<mapsto> adt_member 7 5 ex_ads 1)) ex_adt_sys"
proof -
  have ready: "adt_inv ref_env {1} ex_adt_sys" "table_of ref_env ex_tgt 1 PIPE_MGR_TABLE_TYPE_ADT ex_adt_sys = Some 1"
    using ex_adt_ready by (simp_all add: adt_ready_def)
  have "wp (pipe_mgr_adt_ent_add ref_env 0 ex_tgt 1 7 5 ex_ads) (adt_add_result ref_env {1} 1 7 5 ex_ads ex_adt_sys) ex_adt_sys"
    using adt_add_members [of ref_env ex_ads "{1}" ex_adt_sys 1 ex_tgt 1 0 7 5] ex_adt_client ready by simp
  from wp_conj [OF this ex_added] show ?thesis
    by (rule wp_conseq) (auto simp: adt_add_result_def adt_added_def adt_member_def)
qed

text \<open>C23. Deleting a member. A deletion succeeds only for a handle whose member no group refers to; the table
  then has the members it had but for that one. A deletion that fails changes the members of no table. In both
  cases the two maps still file the same members.\<close>

theorem adt_del_members:
  assumes "map_ok E" "id_ok E" "unlock_ok E" "adt_inv E A s" "tbl \<in> A"
    "table_of E tgt hdl PIPE_MGR_TABLE_TYPE_ADT s = Some tbl"
  shows "wp (pipe_mgr_adt_ent_del E sh tgt hdl h) (\<lambda>r t. adt_inv E A t \<and>
    (if r = BF_SUCCESS
     then (\<exists>e. adt_mbrs E s tbl h = Some e \<and> ae_reference_count e = 0) \<and>
       adt_mbrs E t tbl = (adt_mbrs E s tbl)(h := None) \<and> (\<forall>u\<in>A. u \<noteq> tbl \<longrightarrow> adt_mbrs E t u = adt_mbrs E s u)
     else \<forall>u\<in>A. adt_mbrs E t u = adt_mbrs E s u)) s"
  by (rule wp_conseq [OF adt_del_api [OF assms]])
    (simp add: adt_del_result_def adt_deleted_def adt_unchanged_def split: if_splits)

lemma ex_add_ready:
  "wp (pipe_mgr_adt_ent_add ref_env 0 ex_tgt 1 7 5 ex_ads) (\<lambda>r t. r = (BF_SUCCESS, Some 1) \<and> \<not> os_fault t \<and>
     adt_ready ref_env 0 ex_tgt 1 1 {1} t \<and> adt_mbrs ref_env t 1 1 = Some (adt_member 7 5 ex_ads 1)) ex_adt_sys"
  by (rule wp_conseq [OF wp_conj [OF ex_added adt_add_ready [OF _ _ _ ex_adt_client ex_adt_ready, of 7 5]]])
    (auto simp: adt_add_result_def adt_added_def adt_member_def)

theorem adt_del_members_witness:
  "wp (pipe_mgr_adt_ent_add ref_env 0 ex_tgt 1 7 5 ex_ads) (\<lambda>_ t.
     wp (pipe_mgr_adt_ent_del ref_env 0 ex_tgt 1 1) (\<lambda>r u.
       adt_mbrs ref_env u 1 1 = (if r = BF_SUCCESS then None else Some (adt_member 7 5 ex_ads 1))) t) ex_adt_sys"
proof (rule wp_conseq [OF ex_add_ready], elim conjE)
  fix t assume "adt_ready ref_env 0 ex_tgt 1 1 {1} t" and at: "adt_mbrs ref_env t 1 1 = Some (adt_member 7 5 ex_ads 1)"
  then have "adt_inv ref_env {1} t" "table_of ref_env ex_tgt 1 PIPE_MGR_TABLE_TYPE_ADT t = Some 1"
    by (simp_all add: adt_ready_def)
  from adt_del_members [of ref_env "{1}" t 1 ex_tgt 1 0 1, OF _ _ _ this(1) _ this(2)]
  show "wp (pipe_mgr_adt_ent_del ref_env 0 ex_tgt 1 1) (\<lambda>r u.
       adt_mbrs ref_env u 1 1 = (if r = BF_SUCCESS then None else Some (adt_member 7 5 ex_ads 1))) t"
    by (auto simp: at simp del: One_nat_def elim!: wp_conseq)
qed

text \<open>C24. What a client adds it gets back by the id: after an addition that succeeded with a handle, reading the id
  returns the handle and the action, its data and its resources as they were passed, and changes nothing.\<close>

theorem adt_add_get_roundtrip:
  assumes "map_ok E" "id_ok E" "unlock_ok E" "adt_client ads" "adt_ready E sh tgt hdl tbl A s" "mbr \<noteq> 0"
  shows "wp (pipe_mgr_adt_ent_add E sh tgt hdl act mbr ads) (\<lambda>(st, h) t.
    if st = BF_SUCCESS \<and> h \<noteq> None \<and> \<not> os_fault t
    then wp (pipe_mgr_adt_ent_data_get E sh tgt hdl mbr) (\<lambda>r u. r = (BF_SUCCESS,
       \<lparr>ao_adt_ent_hdl = h, ao_mbr_id = None, ao_ent_data = Some (adt_data act ads)\<rparr>) \<and> (\<exists>c. u = t\<lparr>os_clk := c\<rparr>)) t
    else True) s"
proof (rule wp_conseq [OF adt_add_ready [OF assms(1-5)]])
  fix r :: "bf_status \<times> u32 option" and t
  assume *: "adt_add_result E A tbl act mbr ads s r t \<and> (os_fault t \<or> adt_ready E sh tgt hdl tbl A t)"
  show "(case r of (st, h) \<Rightarrow> \<lambda>t. if st = BF_SUCCESS \<and> h \<noteq> None \<and> \<not> os_fault t
    then wp (pipe_mgr_adt_ent_data_get E sh tgt hdl mbr) (\<lambda>r u. r = (BF_SUCCESS,
       \<lparr>ao_adt_ent_hdl = h, ao_mbr_id = None, ao_ent_data = Some (adt_data act ads)\<rparr>) \<and> (\<exists>c. u = t\<lparr>os_clk := c\<rparr>)) t
    else True) t"
  proof (cases "\<exists>h. r = (BF_SUCCESS, Some h) \<and> \<not> os_fault t")
    case True
    then obtain h where h: "r = (BF_SUCCESS, Some h)" "\<not> os_fault t" by blast
    with * have "adt_mbrs E t tbl h = Some (adt_member act mbr ads h)" "adt_ready E sh tgt hdl tbl A t"
      by (auto simp: adt_add_result_def adt_added_def adt_member_def)
    from adt_data_get [OF assms(1) this(2) assms(6) this(1)] h show ?thesis by (simp add: adt_member_def)
  qed (cases r, auto)
qed

theorem adt_add_get_roundtrip_witness:
  "wp (pipe_mgr_adt_ent_add ref_env 0 ex_tgt 1 7 5 ex_ads) (\<lambda>_ t.
     wp (pipe_mgr_adt_ent_data_get ref_env 0 ex_tgt 1 5) (\<lambda>r u. r = (BF_SUCCESS,
       \<lparr>ao_adt_ent_hdl = Some 1, ao_mbr_id = None, ao_ent_data = Some (adt_data 7 ex_ads)\<rparr>)) t) ex_adt_sys"
  by (rule wp_conseq [OF wp_conj [OF ex_added adt_add_get_roundtrip [OF _ _ _ ex_adt_client ex_adt_ready, of 5 7]]])
    (auto elim!: wp_conseq)



end
