(* ===== verification/Sel_Props.thy ===== *)
theory Sel_Props
  imports Sel_Calls Adt_Props
begin

text \<open>
  The properties of selectors and of the references to members that their groups hold, with a concrete selector
  over a table with one member.
\<close>

section \<open>A concrete selector\<close>

definition ex_sel_sys :: "(lmap, lids, lht) world" where
  "ex_sel_sys = ex_adt_sys\<lparr>os_next := 10,
     w_devs := [4 \<mapsto> \<lparr>pd_dev_id = 0, pd_num_pipeline_profiles = 1,
       pd_profiles = [ex_profile\<lparr>pf_pipe_ctx := (pf_pipe_ctx ex_profile)\<lparr>pc_mat_tables := [1, 2]\<rparr>\<rparr>]\<rparr>],
     w_mats := [1 \<mapsto> ex_mat\<lparr>mat_ctx := ex_ctx, mat_state := Some \<lparr>entry_handle_array = [1], entry_info_htbl = [(1, 10)],
         mbr_id_htbl = [(5, 10)], key_htbl = [None]\<rparr>\<rparr>,
       2 \<mapsto> ex_mat\<lparr>mat_ctx := ex_ctx\<lparr>mc_handle := 2, mc_name := ''sel'', mc_adt_handle := 1\<rparr>\<rparr>],
     w_adt_ents := [10 \<mapsto> adt_member 7 5 ex_ads 1]\<rparr>"

lemmas ex_sel_defs = ex_sel_sys_def ex_adt_sys_def ex_sys_defs

lemma ex_sel_dev: "dev_of ref_env ex_sel_sys 0 = 4"
  by (simp add: dev_of_def the_ctx_def ex_sel_sys_def ex_adt_sys_def ex_sys_def ref_env_def)

lemma ex_sel_api: "api_ready ref_env 0 ex_tgt ex_sel_sys"
  using ex_sel_dev by (simp add: api_ready_def live_sessions_def ex_tgt_def Let_def) (simp add: ex_sel_defs the_ctx_def)

lemma ex_sel_of: "sel_of ref_env ex_tgt 2 1 2 1 ex_sel_sys"
  using ex_sel_dev by (simp add: sel_of_def table_of_def ex_tgt_def)
    (simp add: ex_sel_defs get_profile_obj_def mat_handle_def mat_ctx_of_def)

lemma ex_sel_inv: "adt_inv ref_env {1} ex_sel_sys"
  by (auto simp: adt_inv_def adt_st_def adt_files_def ex_sel_defs adt_member_def ref_env_def)

lemma ex_sel_mbr: "adt_mbrs ref_env ex_sel_sys 1 1 = Some (adt_member 7 5 ex_ads 1)"
  by (simp add: adt_mbrs_def adt_st_def ex_sel_defs ref_env_def)

lemma ex_sel_no_null: "sel_no_null ref_env 2 ex_sel_sys"
  by (auto simp: sel_no_null_def adt_st_def ex_sel_defs ref_env_def)

lemmas sel_set_run = pipe_mgr_sel_grp_mbrs_set_def with_sel_adt_def tbl_section_def with_table_def pipe_mgr_ctx_get_table_def
  pipe_mgr_get_profile_ctx_def pipe_mgr_get_profile_def get_profile_obj_def mat_handle_def set_state_def mat_ctx_of_def
  sel_mbrs_set_work_def pipe_mgr_sel_pack_entry_data_def sel_fill_def allocate_def put_sel_ent_def upd_sel_ent_def
  sel_mbrs_program_def sel_set_file_def dal_table_sel_member_add_del_def sel_ctl_def pipeline_find_def pipe_obj_def
  elem_def pipe_mgr_adt_member_reference_add_delete_def upd_adt_ent_def upt_rec

lemma ex_set: "wp (pipe_mgr_sel_grp_mbrs_set ref_env 0 ex_tgt 2 3 1 [1]) (\<lambda>r t. r = BF_SUCCESS \<and> \<not> os_fault t) ex_sel_sys"
  by (simp add: sel_set_run bracket_run wp_simps ex_sel_defs ref_env_def dev_of_def the_ctx_def world0_def
      live_sessions_def st_upd.simps)

section \<open>Properties\<close>

text \<open>C26. A member of a group is protected: when the members of a group have been set, the action-data table refuses to
  delete any of them, and the attempt changes the members of no table. The count of references is a 32-bit
  word, so it must not wrap around.\<close>

theorem sel_member_protected:
  assumes "map_ok E" "id_ok E" "unlock_ok E" "adt_inv E A s" "adt \<in> A" "tbl \<notin> A" "sel_of E tgt th ah tbl adt s"
    "n \<le> length ms" "m \<in> set (take n ms)" "adt_mbrs E s adt m = Some e"
    "unat (ae_reference_count e) + count_list (take n ms) m < 2 ^ 32"
  shows "wp (pipe_mgr_sel_grp_mbrs_set E sh tgt th h n ms) (\<lambda>r t. if r = BF_SUCCESS
    then wp (pipe_mgr_adt_ent_del E sh' tgt ah m) (\<lambda>r u. r \<noteq> BF_SUCCESS \<and> (\<forall>v\<in>A. adt_mbrs E u v = adt_mbrs E t v)) t
    else True) s"
proof (rule wp_conseq [OF sel_mbrs_set_api [OF assms(1,4-8)]])
  fix r t assume t: "sel_result E A tgt ah adt False (take n ms) s r t"
  let ?c = "count_list (take n ms) m"
  have c: "?c \<noteq> 0" using assms(9) by (simp add: count_list_0_iff)
  then have "unat (ae_reference_count e + of_nat ?c) \<noteq> 0"
    using assms(11) by (simp add: unat_word_ariths unat_of_nat)
  then have ne: "ae_reference_count e + of_nat ?c \<noteq> 0" by (metis unat_0)
  show "if r = BF_SUCCESS
    then wp (pipe_mgr_adt_ent_del E sh' tgt ah m) (\<lambda>r u. r \<noteq> BF_SUCCESS \<and> (\<forall>v\<in>A. adt_mbrs E u v = adt_mbrs E t v)) t
    else True"
  proof (cases "r = BF_SUCCESS")
    case True
    with t have inv: "adt_inv E A t" "table_of E tgt ah PIPE_MGR_TABLE_TYPE_ADT t = Some adt"
      and at: "adt_mbrs E t adt m = Some (e\<lparr>ae_reference_count := ae_reference_count e + of_nat ?c\<rparr>)"
      by (simp_all add: sel_result_def sel_counted_def adt_refs_def refs_of_def assms(10))
    have "wp (pipe_mgr_adt_ent_del E sh' tgt ah m) (\<lambda>r u. r \<noteq> BF_SUCCESS \<and> (\<forall>v\<in>A. adt_mbrs E u v = adt_mbrs E t v)) t"
      by (rule wp_conseq [OF adt_del_api [OF assms(1-3) inv(1) assms(5) inv(2)]])
        (use at ne in \<open>auto simp: adt_del_result_def adt_deleted_def adt_unchanged_def split: if_splits\<close>)
    with True show ?thesis by simp
  qed simp
qed

theorem sel_member_protected_witness:
  "wp (pipe_mgr_sel_grp_mbrs_set ref_env 0 ex_tgt 2 3 1 [1]) (\<lambda>_ t.
     wp (pipe_mgr_adt_ent_del ref_env 0 ex_tgt 1 1) (\<lambda>r _. r \<noteq> BF_SUCCESS) t) ex_sel_sys"
  by (rule wp_conseq [OF wp_conj [OF ex_set
        sel_member_protected [OF _ _ _ ex_sel_inv _ _ ex_sel_of _ _ ex_sel_mbr, of 1 "[1]"]]])
    (auto simp: adt_member_def intro: wp_conseq)

text \<open>C27. A group gives back the references it took: after its members were set and the group was deleted, both with
  success, every member of every action-data table is as it was before, with the references it had.\<close>

theorem sel_set_del_references:
  assumes "map_ok E" "adt_inv E A s" "adt \<in> A" "tbl \<notin> A" "sel_of E tgt th ah tbl adt s" "n \<le> length ms"
    "sel_no_null E tbl s"
  shows "wp (pipe_mgr_sel_grp_mbrs_set E sh tgt th h n ms) (\<lambda>r t. if r = BF_SUCCESS
    then wp (pipe_mgr_sel_grp_del E sh' tgt th h) (\<lambda>r u. if r = BF_SUCCESS then \<forall>v\<in>A. adt_mbrs E u v = adt_mbrs E s v else True) t
    else True) s"
proof (rule wp_conseq [OF wp_conj [OF sel_mbrs_set_api [OF assms(1-6)] sel_set_after [OF assms(1,5,7)]]])
  fix r t assume t: "sel_result E A tgt ah adt False (take n ms) s r t \<and>
    sel_of E tgt th ah tbl adt t \<and> (r = BF_SUCCESS \<longrightarrow> sel_has E tbl h n ms t)"
  show "if r = BF_SUCCESS
    then wp (pipe_mgr_sel_grp_del E sh' tgt th h) (\<lambda>r u. if r = BF_SUCCESS then \<forall>v\<in>A. adt_mbrs E u v = adt_mbrs E s v else True) t
    else True"
  proof (cases "r = BF_SUCCESS")
    case True
    with t have cnt: "sel_counted E A adt False (take n ms) s t" and inv: "adt_inv E A t"
      and has: "sel_of E tgt th ah tbl adt t" "sel_has E tbl h n ms t" by (simp_all add: sel_result_def)
    have "refs_of False xs k + refs_of True xs k = 0" for xs k by (simp add: refs_of_def)
    with cnt have undone: "\<forall>v\<in>A. adt_mbrs E u v = adt_mbrs E s v" if "sel_counted E A adt True (take n ms) t u" for u
      using that assms(3) by (auto simp: sel_counted_def adt_refs_add adt_refs_zero)
    have "wp (pipe_mgr_sel_grp_del E sh' tgt th h) (\<lambda>r u. if r = BF_SUCCESS then \<forall>v\<in>A. adt_mbrs E u v = adt_mbrs E s v else True) t"
      by (rule wp_conseq [OF sel_grp_del_api [OF assms(1) inv assms(3,4) has assms(6)]])
        (use undone in \<open>auto simp: sel_result_def\<close>)
    with True show ?thesis by simp
  qed simp
qed

theorem sel_set_del_references_witness:
  "wp (pipe_mgr_sel_grp_mbrs_set ref_env 0 ex_tgt 2 3 1 [1]) (\<lambda>_ t.
     wp (pipe_mgr_sel_grp_del ref_env 0 ex_tgt 2 3) (\<lambda>r u.
       if r = BF_SUCCESS then adt_mbrs ref_env u 1 1 = Some (adt_member 7 5 ex_ads 1) else True) t) ex_sel_sys"
proof -
  from sel_set_del_references [OF _ ex_sel_inv _ _ ex_sel_of _ ex_sel_no_null, of 1 "[1]" 0 3 0]
  have "wp (pipe_mgr_sel_grp_mbrs_set ref_env 0 ex_tgt 2 3 1 [1]) (\<lambda>r t. if r = BF_SUCCESS
    then wp (pipe_mgr_sel_grp_del ref_env 0 ex_tgt 2 3) (\<lambda>r u. if r = BF_SUCCESS
      then \<forall>v\<in>{1}. adt_mbrs ref_env u v = adt_mbrs ref_env ex_sel_sys v else True) t
    else True) ex_sel_sys" by simp
  from wp_conj [OF ex_set this] show ?thesis
    by (rule wp_conseq) (auto simp: ex_sel_mbr simp del: One_nat_def elim!: wp_conseq split: if_splits)
qed

text \<open>C28. What a client sets it reads back: after the members of a group were set with success, reading the group into
  buffers with room for them returns them in their order, each of them enabled, leaves the rest of the
  buffers as it was, and changes nothing.\<close>

theorem sel_set_get_roundtrip:
  assumes "map_ok E" "unlock_ok E" "api_ready E sh tgt s" "sel_of E tgt th ah tbl adt s" "sel_no_null E tbl s"
    "os_locks s (TBL_LOCK tbl) = Free" "n \<le> length ms" "n \<le> m" "n \<le> length a" "n \<le> length b"
  shows "wp (pipe_mgr_sel_grp_mbrs_set E sh tgt th h n ms) (\<lambda>r t. if r = BF_SUCCESS \<and> \<not> os_fault t
    then wp (pipe_mgr_sel_grp_mbrs_get E sh tgt th h m (a, b, c)) (\<lambda>r u.
      r = (BF_SUCCESS, take n ms @ drop n a, replicate n True @ drop n b, c + of_nat n) \<and> (\<exists>k. u = t\<lparr>os_clk := k\<rparr>)) t
    else True) s"
proof (rule wp_runI)
  fix r t assume run: "run_state (pipe_mgr_sel_grp_mbrs_set E sh tgt th h n ms) s = (r, t)"
  have t: "sel_of E tgt th ah tbl adt t" "r = BF_SUCCESS \<Longrightarrow> sel_has E tbl h n ms t"
    using wp_run [OF run sel_set_after [OF assms(1,4,5)]] by auto
  have "api_frame t = api_frame s" by (rule keepsD [OF sel_set.frame_kept run [unfolded pipe_mgr_sel_grp_mbrs_set_def]])
  moreover have "os_locks t = os_locks s" if "\<not> os_fault t"
    by (rule sel_set.locks_restored [OF assms(2) run [unfolded pipe_mgr_sel_grp_mbrs_set_def] that])
  ultimately have "api_ready E sh tgt t" "os_locks t (TBL_LOCK tbl) = Free" if "\<not> os_fault t"
    using that api_ready_frame [OF assms(3)] assms(6) by auto
  from sel_mbrs_get_api [OF assms(1) this(1) t(1) this(2) t(2) assms(7-10), where c = c]
  show "if r = BF_SUCCESS \<and> \<not> os_fault t
    then wp (pipe_mgr_sel_grp_mbrs_get E sh tgt th h m (a, b, c)) (\<lambda>r u.
      r = (BF_SUCCESS, take n ms @ drop n a, replicate n True @ drop n b, c + of_nat n) \<and> (\<exists>k. u = t\<lparr>os_clk := k\<rparr>)) t
    else True" by simp
qed

theorem sel_set_get_roundtrip_witness:
  "wp (pipe_mgr_sel_grp_mbrs_set ref_env 0 ex_tgt 2 3 1 [1]) (\<lambda>_ t.
     wp (pipe_mgr_sel_grp_mbrs_get ref_env 0 ex_tgt 2 3 2 ([0, 0], [False, False], 0)) (\<lambda>r _.
       r = (BF_SUCCESS, [1, 0], [True, False], 1)) t) ex_sel_sys"
proof -
  have "os_locks ex_sel_sys (TBL_LOCK 2) = Free" by (simp add: ex_sel_defs)
  from wp_conj [OF ex_set sel_set_get_roundtrip [OF _ _ ex_sel_api ex_sel_of ex_sel_no_null this,
      where h = 3 and n = 1 and ms = "[1]" and m = 2 and a = "[0, 0]" and b = "[False, False]" and c = 0]]
  show ?thesis by (simp, elim wp_conseq) (auto elim!: wp_conseq)
qed

text \<open>C29. When the data plane refuses the members of a group that is there, the group is left with their number but
  without the members, and the next read of its first member goes through a null pointer.\<close>

theorem sel_failed_set_dangles:
  assumes "map_ok E" "sel_grps E s tbl h = Some x" "sel_no_null E tbl s" "0 < n" "n \<le> length ms" "\<And>k. x_calloc E k"
    and "\<And>u. wp (dal_table_sel_member_add_del E tgt h n (Some ms) False tbl) (\<lambda>st _. st \<noteq> BF_SUCCESS) u"
  shows "wp (sel_mbrs_set_work E tgt th h n ms tbl ah) (\<lambda>r t. r = BF_NO_SYS_RESOURCES \<and>
    (\<exists>y. sel_grps E t tbl h = Some y \<and> se_num_mbrs y = n \<and> se_mbrs y = None \<and>
      wp (sel_first_mbr y) (\<lambda>_. os_fault) t)) s"
proof -
  let ?Q = "\<lambda>r t. r = BF_NO_SYS_RESOURCES \<and> (\<exists>y. sel_grps E t tbl h = Some y \<and> se_num_mbrs y = n \<and> se_mbrs y = None \<and>
      wp (sel_first_mbr y) (\<lambda>_. os_fault) t)"
  from assms(2) obtain z p where z: "adt_state_of tbl s = Some z" and p: "map_abs E (entry_info_htbl z) (ucast h) = Some p"
    "w_sel_ents s p = Some x"
    by (auto simp: sel_grps_def adt_st_def bind_eq_Some_conv split: option.splits)
  have "p \<noteq> NULL" using assms(3) z p(1) by (cases "p = NULL") (auto simp: sel_no_null_def adt_st_def)
  have rejected: "wp (sel_mbrs_program E tgt h n ms tbl ah BF_MAP_OK p) ?Q u"
    if u: "adt_st E u tbl = adt_st E s tbl" "w_sel_ents u p = Some y" "se_num_mbrs y = n" for u y
  proof -
    have dropped: "wp (do { sel_drop_mbrs p; ret BF_NO_SYS_RESOURCES }) ?Q v" if "sel_v E tbl v = sel_v E tbl u" for v
      using that u z p(1) \<open>p \<noteq> NULL\<close> assms(4)
      by (auto simp: sel_drop_mbrs_def upd_sel_ent_def sel_v_def sel_grps_def adt_st_def sel_first_mbr_def elem_def wp_simps
          intro!: exI [where x = "y\<lparr>se_mbrs := None\<rparr>"])
    show ?thesis
      unfolding sel_mbrs_program_def wp_bind [of "dal_table_sel_member_add_del _ _ _ _ _ _ _"]
      by (rule wp_conseq [OF wp_conj [OF assms(7) keeps_wp [OF sel_v_dal [OF dal_sel_calls(3), of E tbl]]]])
        (use dropped in \<open>simp add: wp_bind [of "ret _"] wp_return\<close>)
  qed
  show ?thesis
    unfolding sel_mbrs_set_work_def wp_deref z option.case map_ok_get(1) [OF assms(1) p(1)] prod.case
    using \<open>p \<noteq> NULL\<close> assms(4-6) p(2)
    by (auto simp: pipe_mgr_sel_pack_entry_data_def sel_fill_def upd_sel_ent_def allocate_def wp_simps adt_st_def intro!: rejected)
qed

text \<open>The data plane refuses every call.\<close>

definition refusing_env :: "(lmap, lids, lht) dpdk" where
  "refusing_env = ref_env\<lparr>r_call := \<lambda>_ _. -1\<rparr>"

definition ex_grp_sys :: "(lmap, lids, lht) world" where
  "ex_grp_sys = ex_sel_sys\<lparr>w_mats := (w_mats ex_sel_sys)(2 \<mapsto> ex_mat\<lparr>mat_state := Some \<lparr>entry_handle_array = [],
       entry_info_htbl = [(3, 9)], mbr_id_htbl = [], key_htbl = [None]\<rparr>\<rparr>),
     w_sel_ents := [9 \<mapsto> \<lparr>se_sel_tbl_hdl = 2, se_sel_grp_hdl = 3, se_sel_grp_id = 1, se_max_grp_size = 4, se_num_mbrs = 0,
       se_mbrs = None\<rparr>]\<rparr>"

theorem sel_failed_set_dangles_witness:
  "wp (sel_mbrs_set_work refusing_env ex_tgt 2 3 1 [1] 2 1) (\<lambda>r t. r = BF_NO_SYS_RESOURCES \<and>
    (\<exists>y. sel_grps refusing_env t 2 3 = Some y \<and> se_num_mbrs y = 1 \<and> se_mbrs y = None \<and>
      wp (sel_first_mbr y) (\<lambda>_. os_fault) t)) ex_grp_sys"
proof (rule sel_failed_set_dangles)
  show "map_ok refusing_env" using ref_map_ok by (simp add: refusing_env_def map_ok_def)
  show "sel_grps refusing_env ex_grp_sys 2 3 = Some \<lparr>se_sel_tbl_hdl = 2, se_sel_grp_hdl = 3, se_sel_grp_id = 1,
    se_max_grp_size = 4, se_num_mbrs = 0, se_mbrs = None\<rparr>"
    by (simp add: sel_grps_def adt_st_def ex_grp_sys_def refusing_env_def ref_env_def)
  show "sel_no_null refusing_env 2 ex_grp_sys"
    by (auto simp: sel_no_null_def adt_st_def ex_grp_sys_def refusing_env_def ref_env_def split: if_splits)
  show "wp (dal_table_sel_member_add_del refusing_env ex_tgt 3 1 (Some [1]) False 2) (\<lambda>st _. st \<noteq> BF_SUCCESS) u" for u
    by (auto simp: dal_table_sel_member_add_del_def sel_ctl_def pipe_mgr_get_profile_def get_pipe_mgr_ctx_def pipe_mgr_get_dev_def
        pipeline_find_def elem_def refusing_env_def wp_simps split: option.split)
qed (simp_all add: refusing_env_def ref_env_def)

end
