(* ===== verification/Vl.thy ===== *)
theory Vl
  imports Mat
begin

text \<open>
  Value-lookup tables: the operations on the data plane (\<^verbatim>\<open>src/pipe_mgr/shared/dal/dpdk/dal_value_lookup.c\<close> and
  \<^verbatim>\<open>dal_mirror.c\<close>), where the one supported resource is a mirroring session, and the public calls
  (\<^verbatim>\<open>src/pipe_mgr/shared/features/pipe_mgr_value_lookup.c\<close>).
\<close>

section \<open>Mirroring\<close>

record pipe_mgr_mir_prof =
  mp_port_id :: u32
  mp_truncate_length :: u32
  mp_fast_clone :: int

definition dal_mirror_session_set ::
  "('m, 'i, 'h, 'z) dpdk_scheme \<Rightarrow> u32 \<Rightarrow> pipe_mgr_mir_prof \<Rightarrow> ptr \<Rightarrow> ('m, 'i, 'h, bf_status) cmd" where
  "dal_mirror_session_set E i params p = do {
     rc \<leftarrow> rte_do E (MirroringSessionSet p i (mp_port_id params) (mp_fast_clone params) (mp_truncate_length params));
     ret (if rc \<noteq> 0 then BF_UNEXPECTED else BF_SUCCESS) }"

definition dal_mirror_session_clear :: "u32 \<Rightarrow> ptr \<Rightarrow> ('m, 'i, 'h, bf_status) cmd" where
  "dal_mirror_session_clear i p = ret BF_SUCCESS"

text \<open>The key is copied into one byte, whatever its size.\<close>

definition dal_mirror_get_mirror_session_id ::
  "('m, 'i, 'h, 'z) ext_scheme \<Rightarrow> pipe_tbl_match_spec \<Rightarrow> ('a os_scheme, bf_status \<times> u8) state" where
  "dal_mirror_get_mirror_session_id E match_spec = do {
     (status, val_ptr) \<leftarrow> pipe_mgr_dpdk_encode_key_from_match_spec E match_spec;
     if status \<noteq> BF_SUCCESS then ret (status, 0)
     else do {
       val \<leftarrow> memcpy [0] 0 val_ptr (length val_ptr);
       ret (BF_SUCCESS, hd val) }}"

text \<open>An integer in network order, stored in a field of 32 bits.\<close>

definition be_field :: "u8 list \<Rightarrow> u32" where
  "be_field bs = word_of_int (horner_sum uint 256 (rev bs))"

text \<open>\<^verbatim>\<open>PIPE_MGR_DPDK_FILL_DATA_FROM_IMMEDIATE_FIELD_AND_DATA_SPEC\<close>: the next immediate field, if there is one, gives the value
  of the parameter.\<close>

definition fill_from_immediate_field ::
  "('m, 'i, 'h, 'z) ext_scheme \<Rightarrow> pipe_mgr_dpdk_immediate_fields list \<Rightarrow> pipe_data_spec \<Rightarrow> u32 \<Rightarrow>
   ('a os_scheme, bf_status \<times> pipe_mgr_dpdk_immediate_fields list \<times> u32) state" where
  "fill_from_immediate_field E im data_spec field = (case im of
     [] \<Rightarrow> ret (BF_SUCCESS, [], field)
   | i # is \<Rightarrow> do {
       (status, val_ptr) \<leftarrow> pipe_mgr_dpdk_encode_param_from_data_spec E i data_spec;
       if status \<noteq> BF_SUCCESS then ret (status, im, field)
       else if length val_ptr \<in> {1, 2, 4, 8} then ret (BF_SUCCESS, is, be_field val_ptr)
       else ret (BF_NOT_SUPPORTED, im, field) })"

definition dal_mirror_fill_mirror_session_params ::
  "('m, 'i, 'h, 'z) ext_scheme \<Rightarrow> pipe_mgr_dpdk_immediate_fields list \<Rightarrow> pipe_data_spec \<Rightarrow> int \<Rightarrow>
   ('a os_scheme, bf_status \<times> pipe_mgr_mir_prof) state" where
  "dal_mirror_fill_mirror_session_params E immediate_fields data_spec fast_clone = do {
     (status, im, port) \<leftarrow> fill_from_immediate_field E immediate_fields data_spec 0;
     if status \<noteq> BF_SUCCESS
     then ret (status, \<lparr>mp_port_id = port, mp_truncate_length = 0, mp_fast_clone = fast_clone\<rparr>)
     else do {
       (status, im, trunc) \<leftarrow> fill_from_immediate_field E im data_spec 0;
       ret (status, \<lparr>mp_port_id = port, mp_truncate_length = trunc, mp_fast_clone = fast_clone\<rparr>) }}"

section \<open>The data plane\<close>

definition vl_ctx_of :: "ptr \<Rightarrow> ('m, 'i, 'h) world \<Rightarrow> pipe_mgr_value_lookup_ctx option" where
  "vl_ctx_of tbl s = map_option vl_ctx (w_vls s tbl)"

text \<open>The pipeline of the metadata. The pointer may be one that a failed query has left behind.\<close>

fun live_pipe :: "ptr cbuf \<Rightarrow> ptr option" where
  "live_pipe (Live p) = Some p"
| "live_pipe _ = None"

definition vl_mirror_add ::
  "('m, 'i, 'h, 'z) dpdk_scheme \<Rightarrow> pipe_mgr_dpdk_stage_table \<Rightarrow> int \<Rightarrow> pipe_tbl_match_spec \<Rightarrow> pipe_data_spec \<Rightarrow> pipeline \<Rightarrow>
   ('m, 'i, 'h, bf_status) cmd" where
  "vl_mirror_add E stage_table fast_clone match_spec data_spec pl =
     (case st_resource_id stage_table of
        PIPE_MGR_DPDK_RES_MIR_SESSION \<Rightarrow> do {
          (status, mirror_id) \<leftarrow> dal_mirror_get_mirror_session_id E match_spec;
          if status \<noteq> BF_SUCCESS then ret status
          else do {
            (status, mir_params) \<leftarrow>
              dal_mirror_fill_mirror_session_params E (st_immediate_field stage_table) data_spec fast_clone;
            if status \<noteq> BF_SUCCESS then ret status
            else do {
              status \<leftarrow> dal_mirror_session_set E (ucast mirror_id) mir_params (pl_p pl);
              if status \<noteq> BF_SUCCESS then ret status
              else do {
                rc \<leftarrow> rte_do E (Commit (pl_ctl pl));
                ret (if rc \<noteq> 0 then BF_UNEXPECTED else BF_SUCCESS) }}}}
      | _ \<Rightarrow> ret BF_NOT_SUPPORTED)"

definition dal_value_lookup_ent_add ::
  "('m, 'i, 'h, 'z) dpdk_scheme \<Rightarrow> bf_dev_target \<Rightarrow> pipe_tbl_match_spec \<Rightarrow> pipe_data_spec \<Rightarrow> ptr \<Rightarrow> ('m, 'i, 'h, bf_status) cmd" where
  "dal_value_lookup_ent_add E dev_tgt match_spec data_spec tbl = deref (vl_ctx_of tbl) BF_UNEXPECTED (\<lambda>tbl_ctx.
     if vc_match_stage_table_count tbl_ctx > 1 then ret BF_NOT_SUPPORTED
     else case vc_match_stage_table tbl_ctx of
       None \<Rightarrow> ret BF_OBJECT_NOT_FOUND
     | Some stage_table \<Rightarrow> do {
         (status, profile) \<leftarrow> pipe_mgr_get_profile E (device_id dev_tgt) (dev_pipe_id dev_tgt);
         case profile of
           None \<Rightarrow> ret BF_OBJECT_NOT_FOUND
         | Some pf \<Rightarrow> deref (get_profile_obj pf) BF_UNEXPECTED (\<lambda>profile. do {
             status \<leftarrow> (if st_val_lookup_meta stage_table = Null
               then dal_dpdk_value_lookup_metadata_get E tbl (pf_pipeline_name profile)
               else ret BF_SUCCESS);
             if status \<noteq> BF_SUCCESS then ret BF_OBJECT_NOT_FOUND
             else deref (\<lambda>s. Option.bind (vl_stage tbl s) (\<lambda>st. live_pipe (st_val_lookup_meta st))) BF_UNEXPECTED (\<lambda>pipe.
               deref (pipe_obj pipe) BF_UNEXPECTED (\<lambda>pl.
                 if pl_ctl pl = NULL then ret BF_OBJECT_NOT_FOUND
                 else vl_mirror_add E stage_table (pf_fast_clone profile) match_spec data_spec pl)) }) })"

text \<open>Deletion: every status from the key of the mirroring session on is dropped.\<close>

definition dal_value_lookup_ent_del ::
  "('m, 'i, 'h, 'z) dpdk_scheme \<Rightarrow> pipe_tbl_match_spec \<Rightarrow> ptr \<Rightarrow> ('m, 'i, 'h, bf_status) cmd" where
  "dal_value_lookup_ent_del E match_spec tbl = deref (vl_ctx_of tbl) BF_UNEXPECTED (\<lambda>tbl_ctx.
     if vc_match_stage_table_count tbl_ctx > 1 then ret BF_NOT_SUPPORTED
     else deref (vl_stage tbl) BF_UNEXPECTED (\<lambda>stage_table.
       if st_val_lookup_meta stage_table = Null then ret BF_OBJECT_NOT_FOUND
       else deref (\<lambda>_. live_pipe (st_val_lookup_meta stage_table)) BF_UNEXPECTED (\<lambda>pipe.
         if pipe = NULL then ret BF_OBJECT_NOT_FOUND
         else deref (pipe_obj pipe) BF_UNEXPECTED (\<lambda>pl.
           if pl_ctl pl = NULL then ret BF_OBJECT_NOT_FOUND
           else (case st_resource_id stage_table of
               PIPE_MGR_DPDK_RES_MIR_SESSION \<Rightarrow> do {
                 (status, mirror_id) \<leftarrow> dal_mirror_get_mirror_session_id E match_spec;
                 if status \<noteq> BF_SUCCESS then ret BF_SUCCESS
                 else do {
                   status \<leftarrow> dal_mirror_session_clear (ucast mirror_id) (pl_p pl);
                   if status \<noteq> BF_SUCCESS then ret BF_SUCCESS
                   else do {
                     rte_do E (Commit (pl_ctl pl));
                     ret BF_SUCCESS }}}
             | _ \<Rightarrow> ret BF_SUCCESS)))))"

definition dal_value_lookup_ent_get_first :: "('m, 'i, 'h, bf_status) cmd" where
  "dal_value_lookup_ent_get_first = ret BF_NOT_SUPPORTED"

definition dal_value_lookup_ent_get_next_n_by_key :: "('m, 'i, 'h, bf_status) cmd" where
  "dal_value_lookup_ent_get_next_n_by_key = ret BF_NOT_SUPPORTED"

section \<open>Packing and unpacking\<close>

definition pipe_mgr_value_lookup_pack_match_spec ::
  "('m, 'i, 'h, 'z) ext_scheme \<Rightarrow> pipe_tbl_match_spec \<Rightarrow> ('a os_scheme, bf_status \<times> pipe_tbl_match_spec option) state" where
  "pipe_mgr_value_lookup_pack_match_spec E match_spec = do {
     ok \<leftarrow> allocate E;
     if \<not> ok then ret (BF_NO_SYS_RESOURCES, None)
     else do {
       v \<leftarrow> calloc_bytes E (num_match_bytes match_spec);
       case v of
         None \<Rightarrow> ret (BF_NO_SYS_RESOURCES, None)
       | Some v \<Rightarrow> do {
           v \<leftarrow> memcpy v 0 (match_value_bits match_spec) (num_match_bytes match_spec);
           m \<leftarrow> calloc_bytes E (num_match_bytes match_spec);
           case m of
             None \<Rightarrow> ret (BF_NO_SYS_RESOURCES, None)
           | Some m \<Rightarrow> do {
               m \<leftarrow> memcpy m 0 (match_mask_bits match_spec) (num_match_bytes match_spec);
               ret (BF_SUCCESS, Some (packed_match_spec match_spec v m)) }}}}"

definition pipe_mgr_value_lookup_unpack_match_spec ::
  "pipe_tbl_match_spec \<Rightarrow> pipe_tbl_match_spec \<Rightarrow> ('a os_scheme, bf_status \<times> pipe_tbl_match_spec) state" where
  "pipe_mgr_value_lookup_unpack_match_spec match_spec match_spec_out = do {
     v \<leftarrow> memcpy (match_value_bits match_spec_out) 0 (match_value_bits match_spec) (num_match_bytes match_spec);
     m \<leftarrow> memcpy (match_mask_bits match_spec_out) 0 (match_mask_bits match_spec) (num_match_bytes match_spec);
     ret (BF_SUCCESS, match_spec_out\<lparr>num_valid_match_bits := num_valid_match_bits match_spec,
       num_match_bytes := num_match_bytes match_spec, priority := priority match_spec, match_value_bits := v,
       match_mask_bits := m\<rparr>) }"

definition pipe_mgr_value_lookup_pack_data_spec ::
  "('m, 'i, 'h, 'z) ext_scheme \<Rightarrow> pipe_data_spec \<Rightarrow> ('a os_scheme, bf_status \<times> pipe_data_spec option) state" where
  "pipe_mgr_value_lookup_pack_data_spec E data_spec = do {
     ok \<leftarrow> allocate E;
     if \<not> ok then ret (BF_NO_SYS_RESOURCES, None)
     else do {
       b \<leftarrow> calloc_bytes E (num_data_bytes data_spec);
       case b of
         None \<Rightarrow> ret (BF_NO_SYS_RESOURCES, None)
       | Some b \<Rightarrow> do {
           b \<leftarrow> memcpy b 0 (data_bytes data_spec) (num_data_bytes data_spec);
           ret (BF_SUCCESS, Some \<lparr>num_data_bytes = num_data_bytes data_spec, data_bytes = b\<rparr>) }}}"

definition pipe_mgr_value_lookup_unpack_data_spec ::
  "pipe_data_spec \<Rightarrow> pipe_data_spec \<Rightarrow> ('a os_scheme, bf_status \<times> pipe_data_spec) state" where
  "pipe_mgr_value_lookup_unpack_data_spec data_spec data_spec_out = do {
     b \<leftarrow> memcpy (data_bytes data_spec_out) 0 (data_bytes data_spec) (num_data_bytes data_spec);
     ret (BF_SUCCESS, data_spec_out\<lparr>num_data_bytes := num_data_bytes data_spec, data_bytes := b\<rparr>) }"

definition put_vl_ent :: "ptr \<Rightarrow> pipe_mgr_value_lookup_entry_info option \<Rightarrow> ('m, 'i, 'h, unit) cmd" where
  "put_vl_ent e x = modify (\<lambda>s. s\<lparr>w_vl_ents := (w_vl_ents s)(e := x)\<rparr>)"

definition pipe_mgr_value_lookup_pack_entry_info ::
  "('m, 'i, 'h, 'z) ext_scheme \<Rightarrow> pipe_tbl_match_spec \<Rightarrow> pipe_data_spec \<Rightarrow> ('m, 'i, 'h, bf_status \<times> ptr) cmd" where
  "pipe_mgr_value_lookup_pack_entry_info E match_spec data_spec = do {
     entry \<leftarrow> calloc E;
     if entry = NULL then ret (BF_NO_SYS_RESOURCES, NULL)
     else do {
       (status, ms) \<leftarrow> pipe_mgr_value_lookup_pack_match_spec E match_spec;
       case ms of
         None \<Rightarrow> ret (status, NULL)
       | Some ms \<Rightarrow> do {
           (status, ds) \<leftarrow> pipe_mgr_value_lookup_pack_data_spec E data_spec;
           case ds of
             None \<Rightarrow> ret (status, NULL)
           | Some ds \<Rightarrow> do {
               put_vl_ent entry (Some \<lparr>ve_mat_ent_hdl = 0, ve_match_spec = ms, ve_data_spec = ds\<rparr>);
               ret (BF_SUCCESS, entry) }}}}"

text \<open>What a client gets back.\<close>

record vl_out =
  vo_match_spec :: pipe_tbl_match_spec
  vo_data_spec :: pipe_data_spec

definition pipe_mgr_value_lookup_unpack_entry_info ::
  "vl_out \<Rightarrow> u32 \<Rightarrow> ptr \<Rightarrow> ('m, 'i, 'h, bf_status \<times> vl_out) cmd" where
  "pipe_mgr_value_lookup_unpack_entry_info out eh entry =
     deref (\<lambda>s. w_vl_ents s entry) (BF_UNEXPECTED, out) (\<lambda>e.
       if eh \<noteq> ve_mat_ent_hdl e then ret (BF_UNEXPECTED, out)
       else do {
         (status, ms) \<leftarrow> pipe_mgr_value_lookup_unpack_match_spec (ve_match_spec e) (vo_match_spec out);
         (status, ds) \<leftarrow> pipe_mgr_value_lookup_unpack_data_spec (ve_data_spec e) (vo_data_spec out);
         ret (BF_SUCCESS, \<lparr>vo_match_spec = ms, vo_data_spec = ds\<rparr>) })"

definition pipe_mgr_value_lookup_del_entry :: "ptr \<Rightarrow> ('m, 'i, 'h, unit) cmd" where
  "pipe_mgr_value_lookup_del_entry entry = deref (\<lambda>s. w_vl_ents s entry) () (\<lambda>_. put_vl_ent entry None)"

section \<open>The public calls\<close>

abbreviation VLT where
  "VLT \<equiv> PIPE_MGR_TABLE_TYPE_VALUE_LOOKUP"

text \<open>The handle that the look-up of a key finds is passed on with the error for a duplicate. Without a store, the
  packed entry is nobody's afterwards.\<close>

definition vl_add_body ::
  "('m, 'i, 'h, 'z) dpdk_scheme \<Rightarrow> bf_dev_target \<Rightarrow> u32 \<Rightarrow> pipe_tbl_match_spec \<Rightarrow> pipe_data_spec \<Rightarrow>
   ('m, 'i, 'h, bf_status \<times> u32 option) cmd" where
  "vl_add_body E dev_tgt tbl_hdl match_spec data_spec =
     with_table E dev_tgt tbl_hdl VLT (\<lambda>st. (st, None)) (\<lambda>tbl. deref (vl_ctx_of tbl) (BF_UNEXPECTED, None) (\<lambda>ctx. do {
       (status, exists, hdl, _) \<leftarrow>
         (if vc_store_entries ctx then pipe_mgr_table_key_exists E tbl VLT match_spec (dev_pipe_id dev_tgt) False
          else ret (BF_SUCCESS, False, 0, NULL));
       if status \<noteq> BF_SUCCESS then ret (status, None)
       else if exists then ret (BF_UNEXPECTED, Some hdl)
       else do {
         (status, entry) \<leftarrow> pipe_mgr_value_lookup_pack_entry_info E match_spec data_spec;
         if status \<noteq> BF_SUCCESS then ret (status, None)
         else do {
           status \<leftarrow> dal_value_lookup_ent_add E dev_tgt match_spec data_spec tbl;
           if status \<noteq> BF_SUCCESS then do { pipe_mgr_value_lookup_del_entry entry; ret (status, None) }
           else if \<not> vc_store_entries ctx then ret (BF_SUCCESS, None)
           else do {
             (status, hdl) \<leftarrow> pipe_mgr_table_key_insert E dev_tgt tbl VLT entry;
             if status \<noteq> BF_SUCCESS then do { pipe_mgr_value_lookup_del_entry entry; ret (status, None) }
             else ret (BF_SUCCESS, Some hdl) }}}}))"

definition pipe_mgr_value_lookup_ent_add where
  "pipe_mgr_value_lookup_ent_add E sess_hdl dev_tgt tbl_hdl match_spec data_spec =
     with_api E sess_hdl dev_tgt (\<lambda>st. (st, None)) (vl_add_body E dev_tgt tbl_hdl match_spec data_spec)"

definition vl_del_body ::
  "('m, 'i, 'h, 'z) dpdk_scheme \<Rightarrow> bf_dev_target \<Rightarrow> u32 \<Rightarrow> pipe_tbl_match_spec \<Rightarrow> ('m, 'i, 'h, bf_status) cmd" where
  "vl_del_body E dev_tgt tbl_hdl match_spec =
     with_table E dev_tgt tbl_hdl VLT (\<lambda>st. st) (\<lambda>tbl. deref (vl_ctx_of tbl) BF_UNEXPECTED (\<lambda>ctx. do {
       (status, exists, _, entry) \<leftarrow>
         (if vc_store_entries ctx then pipe_mgr_table_key_exists E tbl VLT match_spec (dev_pipe_id dev_tgt) True
          else ret (BF_SUCCESS, True, 0, NULL));
       if status \<noteq> BF_SUCCESS then ret status
       else if \<not> exists then ret BF_UNEXPECTED
       else do {
         status \<leftarrow> dal_value_lookup_ent_del E match_spec tbl;
         if status \<noteq> BF_SUCCESS then ret status
         else if \<not> vc_store_entries ctx then ret BF_SUCCESS
         else do {
           status \<leftarrow> pipe_mgr_table_key_delete E dev_tgt tbl VLT match_spec;
           if status \<noteq> BF_SUCCESS then ret status
           else do { pipe_mgr_value_lookup_del_entry entry; ret BF_SUCCESS }}}}))"

definition pipe_mgr_value_lookup_ent_del where
  "pipe_mgr_value_lookup_ent_del E sess_hdl dev_tgt tbl_hdl match_spec =
     with_api E sess_hdl dev_tgt (\<lambda>st. st) (vl_del_body E dev_tgt tbl_hdl match_spec)"

definition vl_get_body ::
  "('m, 'i, 'h, 'z) ext_scheme \<Rightarrow> bf_dev_target \<Rightarrow> u32 \<Rightarrow> u32 \<Rightarrow> vl_out \<Rightarrow> ('m, 'i, 'h, bf_status \<times> vl_out) cmd" where
  "vl_get_body E dev_tgt tbl_hdl eh out =
     with_table E dev_tgt tbl_hdl VLT (\<lambda>st. (st, out)) (\<lambda>tbl. deref (vl_ctx_of tbl) (BF_UNEXPECTED, out) (\<lambda>ctx.
       if \<not> vc_store_entries ctx then ret (BF_NOT_SUPPORTED, out)
       else do {
         (status, entry) \<leftarrow> pipe_mgr_table_get E tbl VLT eh True;
         if status \<noteq> BF_SUCCESS then ret (status, out)
         else pipe_mgr_value_lookup_unpack_entry_info out eh entry }))"

definition pipe_mgr_value_lookup_ent_get where
  "pipe_mgr_value_lookup_ent_get E sess_hdl dev_tgt tbl_hdl eh out =
     with_api E sess_hdl dev_tgt (\<lambda>st. (st, out)) (vl_get_body E dev_tgt tbl_hdl eh out)"

definition vl_iter_body where
  "vl_iter_body E dev_tgt tbl_hdl dal_call = with_table E dev_tgt tbl_hdl VLT (\<lambda>st. st) (\<lambda>tbl. dal_call)"

definition pipe_mgr_value_lookup_ent_get_first where
  "pipe_mgr_value_lookup_ent_get_first E sess_hdl dev_tgt tbl_hdl =
     with_api E sess_hdl dev_tgt (\<lambda>st. st) (vl_iter_body E dev_tgt tbl_hdl dal_value_lookup_ent_get_first)"

definition pipe_mgr_value_lookup_ent_get_next_n_by_key where
  "pipe_mgr_value_lookup_ent_get_next_n_by_key E sess_hdl dev_tgt tbl_hdl =
     with_api E sess_hdl dev_tgt (\<lambda>st. st) (vl_iter_body E dev_tgt tbl_hdl dal_value_lookup_ent_get_next_n_by_key)"

definition vl_first_body where
  "vl_first_body E dev_tgt tbl_hdl ent_hdl_p =
     with_table E dev_tgt tbl_hdl VLT (\<lambda>st. (st, 0)) (\<lambda>tbl. deref (vl_ctx_of tbl) (BF_UNEXPECTED, 0) (\<lambda>ctx.
       if vc_store_entries ctx then pipe_mgr_table_get_first E tbl VLT ent_hdl_p else ret (BF_NOT_SUPPORTED, 0)))"

definition pipe_mgr_value_lookup_get_first_ent_handle where
  "pipe_mgr_value_lookup_get_first_ent_handle E sess_hdl dev_tgt tbl_hdl ent_hdl_p =
     with_api E sess_hdl dev_tgt (\<lambda>st. (st, 0)) (vl_first_body E dev_tgt tbl_hdl ent_hdl_p)"

definition vl_next_body where
  "vl_next_body E dev_tgt tbl_hdl eh num_hdl next_ent_hdl =
     with_table E dev_tgt tbl_hdl VLT (\<lambda>st. (st, [])) (\<lambda>tbl. deref (vl_ctx_of tbl) (BF_UNEXPECTED, []) (\<lambda>ctx.
       if vc_store_entries ctx then pipe_mgr_table_get_next_n E tbl VLT eh num_hdl next_ent_hdl
       else do { guard_c next_ent_hdl; ret (BF_NOT_SUPPORTED, [-1]) }))"

definition pipe_mgr_value_lookup_get_next_n_ent_handle where
  "pipe_mgr_value_lookup_get_next_n_ent_handle E sess_hdl dev_tgt tbl_hdl eh num_hdl next_ent_hdl =
     with_api E sess_hdl dev_tgt (\<lambda>st. (st, [])) (vl_next_body E dev_tgt tbl_hdl eh num_hdl next_ent_hdl)"

definition vl_find_body where
  "vl_find_body E dev_tgt tbl_hdl match_spec =
     with_table E dev_tgt tbl_hdl VLT (\<lambda>st. (st, None)) (\<lambda>tbl. deref (vl_ctx_of tbl) (BF_UNEXPECTED, None) (\<lambda>ctx.
       if \<not> vc_store_entries ctx then ret (BF_NOT_SUPPORTED, None)
       else do {
         (status, exists, hdl, _) \<leftarrow> pipe_mgr_table_key_exists E tbl VLT match_spec (dev_pipe_id dev_tgt) False;
         ret (if status \<noteq> BF_SUCCESS then (status, None)
           else if \<not> exists then (BF_OBJECT_NOT_FOUND, None) else (BF_SUCCESS, Some hdl)) }))"

definition pipe_mgr_value_lookup_match_spec_to_ent_hdl where
  "pipe_mgr_value_lookup_match_spec_to_ent_hdl E sess_hdl dev_tgt tbl_hdl match_spec =
     with_api E sess_hdl dev_tgt (\<lambda>st. (st, None)) (vl_find_body E dev_tgt tbl_hdl match_spec)"

end
