(* ===== verification/Vl_Spec.thy ===== *)
theory Vl_Spec
  imports Vl Mat_Calls
begin

text \<open>
  Value-lookup tables: the calls give back their locks; what they do to the store of entries; what an addition
  sends to the data plane.
\<close>

declare st_upd.simps [simp del]

section \<open>The calls are balanced\<close>

lemma dal_vl_pack [dal_intros]:
  "dal_op (pipe_mgr_value_lookup_pack_match_spec E ms)" "dal_op (pipe_mgr_value_lookup_unpack_match_spec ms ms')"
  "dal_op (pipe_mgr_value_lookup_pack_data_spec E ds)" "dal_op (pipe_mgr_value_lookup_unpack_data_spec ds ds')"
  by (auto simp: pipe_mgr_value_lookup_pack_match_spec_def pipe_mgr_value_lookup_unpack_match_spec_def
      pipe_mgr_value_lookup_pack_data_spec_def pipe_mgr_value_lookup_unpack_data_spec_def intro!: dal_intros)

lemma dal_mirror [dal_intros]:
  "dal_op (dal_mirror_session_set E i p q)" "dal_op (dal_mirror_session_clear i q)"
  "dal_op (dal_mirror_get_mirror_session_id E ms)" "dal_op (fill_from_immediate_field E im ds f)"
  "dal_op (dal_mirror_fill_mirror_session_params E im ds fc)"
  by (auto simp: dal_mirror_session_set_def dal_mirror_session_clear_def dal_mirror_get_mirror_session_id_def
      fill_from_immediate_field_def dal_mirror_fill_mirror_session_params_def intro!: dal_intros split: list.split)

lemma dal_vl_metadata [dal_intros]: "dal_op (dal_dpdk_value_lookup_metadata_get E tbl name)"
  by (auto simp: dal_dpdk_value_lookup_metadata_get_def intro!: dal_intros)

lemma dal_vl_calls [dal_intros]:
  "dal_op (dal_value_lookup_ent_add E tgt ms ds tbl)" "dal_op (dal_value_lookup_ent_del E ms tbl)"
  "dal_op dal_value_lookup_ent_get_first" "dal_op dal_value_lookup_ent_get_next_n_by_key"
  "dal_op (pipe_mgr_value_lookup_unpack_entry_info out eh e)"
  by (auto simp: dal_value_lookup_ent_add_def dal_value_lookup_ent_del_def dal_value_lookup_ent_get_first_def
      dal_value_lookup_ent_get_next_n_by_key_def vl_mirror_add_def pipe_mgr_value_lookup_unpack_entry_info_def
      intro!: dal_intros split: option.split pipe_mgr_dpdk_resource_id.split)

lemmas [keeps_intros] = dal_vl_pack [THEN frame_dal] dal_vl_calls [THEN frame_dal]
lemmas [bal_ops] = dal_vl_pack [THEN dal_bal] dal_vl_calls [THEN dal_bal]

lemma vl_entry_rules [keeps_intros, bal_ops]:
  "keeps api_frame (put_vl_ent e x)" "bal (put_vl_ent e x)"
  "keeps api_frame (pipe_mgr_value_lookup_pack_entry_info E ms ds)" "bal (pipe_mgr_value_lookup_pack_entry_info E ms ds)"
  "keeps api_frame (pipe_mgr_value_lookup_del_entry e)" "bal (pipe_mgr_value_lookup_del_entry e)"
  by (auto simp: put_vl_ent_def pipe_mgr_value_lookup_pack_entry_info_def pipe_mgr_value_lookup_del_entry_def api_frame_def
      intro!: keeps_intros bal_intros bal_ops)

lemma vl_bodies_bal:
  assumes "unlock_ok E"
  shows "bal (vl_add_body E tgt hdl ms ds)" "bal (vl_del_body E tgt hdl ms)"
  unfolding vl_add_body_def vl_del_body_def by (rule bal_intros bal_ops bal_key_table [OF assms] | simp)+

lemma vl_reads_bal:
  assumes "unlock_ok E"
  shows "bal (vl_get_body E tgt hdl eh out)" "bal (vl_first_body E tgt hdl nn)" "bal (vl_next_body E tgt hdl eh n nn)"
    "bal (vl_find_body E tgt hdl ms)"
  unfolding vl_get_body_def vl_first_body_def vl_next_body_def vl_find_body_def
  by (rule bal_intros bal_ops bal_key_table [OF assms] | simp)+

lemma vl_bodies_frame:
  "keeps api_frame (vl_add_body E tgt hdl ms ds)" "keeps api_frame (vl_del_body E tgt hdl ms)"
  unfolding vl_add_body_def vl_del_body_def by (rule keeps_intros | simp)+

lemma vl_reads_frame:
  "keeps api_frame (vl_get_body E tgt hdl eh out)" "keeps api_frame (vl_first_body E tgt hdl nn)"
  "keeps api_frame (vl_next_body E tgt hdl eh n nn)" "keeps api_frame (vl_find_body E tgt hdl ms)"
  unfolding vl_get_body_def vl_first_body_def vl_next_body_def vl_find_body_def by (rule keeps_intros | simp)+

lemma vl_iter_rules: "dal_op m \<Longrightarrow> bal (vl_iter_body E tgt hdl m)" "dal_op m \<Longrightarrow> keeps api_frame (vl_iter_body E tgt hdl m)"
  unfolding vl_iter_body_def by (rule with_table_rules; simp add: dal_bal frame_dal)+

interpretation vl_add: api_call E "vl_add_body E tgt hdl ms ds" for E tgt hdl ms ds
  by unfold_locales (fact vl_bodies_bal vl_bodies_frame)+

interpretation vl_del: api_call E "vl_del_body E tgt hdl ms" for E tgt hdl ms
  by unfold_locales (fact vl_bodies_bal vl_bodies_frame)+

interpretation vl_get: api_call E "vl_get_body E tgt hdl eh out" for E tgt hdl eh out
  by unfold_locales (fact vl_reads_bal vl_reads_frame)+

interpretation vl_find: api_call E "vl_find_body E tgt hdl ms" for E tgt hdl ms
  by unfold_locales (fact vl_reads_bal vl_reads_frame)+

section \<open>The store of entries\<close>

text \<open>Buffers of the announced size.\<close>

definition vl_client :: "pipe_tbl_match_spec \<Rightarrow> pipe_data_spec \<Rightarrow> bool" where
  "vl_client ms ds \<longleftrightarrow> num_match_bytes ms \<le> length (match_value_bits ms) \<and>
     num_match_bytes ms \<le> length (match_mask_bits ms) \<and> num_data_bytes ds \<le> length (data_bytes ds)"

text \<open>The entry that a call packs.\<close>

definition vl_entry :: "u32 \<Rightarrow> pipe_tbl_match_spec \<Rightarrow> pipe_data_spec \<Rightarrow> pipe_mgr_value_lookup_entry_info" where
  "vl_entry hdl ms ds = \<lparr>ve_mat_ent_hdl = hdl,
     ve_match_spec = packed_match_spec ms (take (num_match_bytes ms) (match_value_bits ms))
       (take (num_match_bytes ms) (match_mask_bits ms)),
     ve_data_spec = \<lparr>num_data_bytes = num_data_bytes ds, data_bytes = take (num_data_bytes ds) (data_bytes ds)\<rparr>\<rparr>"

lemma vl_pack_spec:
  assumes "vl_client ms ds"
  shows "wp (pipe_mgr_value_lookup_pack_entry_info E ms ds) (\<lambda>(st, e) t. os_next s \<le> os_next t \<and>
    (if st = BF_SUCCESS then e = Suc (os_next s) \<and>
       t = s\<lparr>os_clk := os_clk t, os_next := e, w_vl_ents := (w_vl_ents s)(e \<mapsto> vl_entry 0 ms ds)\<rparr>
     else t = s\<lparr>os_clk := os_clk t, os_next := os_next t\<rparr>)) s"
  using assms
  by (auto simp: pipe_mgr_value_lookup_pack_entry_info_def pipe_mgr_value_lookup_pack_match_spec_def put_vl_ent_def
      pipe_mgr_value_lookup_pack_data_spec_def wp_simps vl_client_def mem_write_def vl_entry_def Let_def)

text \<open>The store of a table, with the locks that are held meanwhile.\<close>

definition vl_kt where
  "vl_kt E L tbl pid N tr s A \<longleftrightarrow> kt_ready E VLT tbl pid N tr s A \<and> L = os_locks s"

lemma vl_ktD: "vl_kt E L tbl pid N tr s A \<Longrightarrow> kt_ready E VLT tbl pid N tr s A" "vl_kt E L tbl pid N tr s A \<Longrightarrow> L = os_locks s"
  by (simp_all add: vl_kt_def)

lemma vl_kt_dal: "dal_frame t = dal_frame s \<Longrightarrow> vl_kt E L tbl pid N tr s A \<Longrightarrow> vl_kt E L tbl pid N tr t A"
  unfolding vl_kt_def by (metis kt_ready_dal dal_frameD(1))

lemma vl_kt_clk: "vl_kt E L tbl pid N tr s A \<Longrightarrow> vl_kt E L tbl pid N tr (s\<lparr>os_clk := c\<rparr>) A"
  by (simp add: vl_kt_def kt_ready_clk)

interpretation vkt: keyed_table "vl_kt E L tbl (dev_pipe_id tgt) N is_tern" "spec_key is_tern N" "ent_key VLT is_tern N"
  "\<lambda>ms. pipe_mgr_table_key_exists E tbl VLT ms (dev_pipe_id tgt) True" "pipe_mgr_table_key_insert E tgt tbl VLT"
  "pipe_mgr_table_key_delete E tgt tbl VLT"
  for E L tbl tgt N is_tern
proof (unfold_locales, goal_cases)
  case (1 s A q k)
  show ?case
  proof (rule wp_conseq [OF wp_conj [OF kt.lookup_ok [OF vl_ktD(1) [OF 1(1)] 1(2)] key_exists_ready [OF vl_ktD(1) [OF 1(1)] 1(2)]]], goal_cases)
    case (1 r t)
    then have "t = s\<lparr>os_clk := os_clk t\<rparr>" by blast
    then obtain c where "t = s\<lparr>os_clk := c\<rparr>" ..
    with 1 vl_ktD(2) [OF \<open>vl_kt E L tbl (dev_pipe_id tgt) N is_tern s A\<close>] show ?case by (simp add: vl_kt_def)
  qed
next
  case (2 s A e k)
  then obtain ms where "ent_spec VLT e s = Some ms" "spec_key is_tern N ms = Some k"
    by (auto simp: ent_key_def bind_eq_Some_conv)
  with 2 show ?case
    by (intro wp_conseq [OF wp_conj [OF kt.put_ok [where A = A and k = k, OF vl_ktD(1)] key_insert_spec [of E VLT tbl tgt N s A is_tern e ms]]])
      (auto simp: vl_kt_def kt_ready_def spec_key_def insert_post_def split: if_splits)
next
  case (3 s A q k)
  then show ?case
    by (intro wp_conseq [OF wp_conj [OF kt.del_ok [OF vl_ktD(1)] key_delete_spec [of E VLT tbl tgt N s A q]]])
      (auto simp: vl_kt_def kt_ready_def spec_key_def split: if_splits)
qed

text \<open>A store to an entry that is not in the table.\<close>

lemma vl_ready_put:
  assumes "vl_kt E L tbl pid N tr s A" "e \<notin> ktable_ents A" "tbl_view VLT tbl t = tbl_view VLT tbl s"
    "w_nodes t = w_nodes s" "os_next s \<le> os_next t" "os_locks t = os_locks s" "w_vl_ents t = (w_vl_ents s)(e := x)"
  shows "vl_kt E L tbl pid N tr t A"
proof -
  have "kt_rel E VLT tbl pid N t A"
    by (rule kt_rel_frame [of E VLT tbl pid N s]) (use assms in \<open>auto simp: vl_kt_def kt_ready_def\<close>)
  with assms show ?thesis by (simp add: vl_kt_def kt_ready_def tbl_tern_def)
qed

lemma vl_pack_ready:
  assumes ready: "vl_kt E L tbl pid N tr s A" and new: "Suc (os_next s) \<notin> ktable_ents A" and client: "vl_client ms ds"
  shows "wp (pipe_mgr_value_lookup_pack_entry_info E ms ds) (\<lambda>(st, e) t. vl_kt E L tbl pid N tr t A \<and>
    (st = BF_SUCCESS \<longrightarrow> w_vl_ents t e = Some (vl_entry 0 ms ds) \<and> e \<notin> ktable_ents A \<and> e \<le> os_next t)) s"
proof (rule wp_conseq [OF vl_pack_spec [OF client]], goal_cases)
  case (1 r t)
  obtain st e where r: "r = (st, e)" by (cases r)
  let ?put = "\<lambda>c n es. s\<lparr>os_clk := c, os_next := n, w_vl_ents := es\<rparr>"
  have put: "vl_kt E L tbl pid N tr (?put c n ((w_vl_ents s)(Suc (os_next s) := x))) A" if "os_next s \<le> n" for c n x
    by (rule vl_ready_put [OF ready new, where x = x]) (use that in simp_all)
  show ?case
  proof (cases "st = BF_SUCCESS")
    case True
    with 1 r obtain c where "t = ?put c e ((w_vl_ents s)(e \<mapsto> vl_entry 0 ms ds))" "e = Suc (os_next s)" by auto
    with put [where n = e] new r show ?thesis by simp
  next
    case False
    with 1 r obtain c n where "t = s\<lparr>os_clk := c, os_next := n\<rparr>" "os_next s \<le> os_next t" by auto
    with put [where n = n and c = c and x = "w_vl_ents s (Suc (os_next s))"] False r show ?thesis by simp
  qed
qed

lemma vl_del_entry_spec:
  assumes "vl_kt E L tbl pid N tr s A" "e \<notin> ktable_ents A"
  shows "wp (pipe_mgr_value_lookup_del_entry e) (\<lambda>_ t. vl_kt E L tbl pid N tr t A) s"
proof -
  have "vl_kt E L tbl pid N tr (s\<lparr>w_vl_ents := (w_vl_ents s)(e := None)\<rparr>) A"
    by (rule vl_ready_put [OF assms, where x = None]) simp_all
  moreover have "vl_kt E L tbl pid N tr (s\<lparr>os_fault := True\<rparr>) A" using assms(1) by (simp add: vl_kt_def kt_ready_def)
  ultimately show ?thesis
    by (simp add: pipe_mgr_value_lookup_del_entry_def put_vl_ent_def wp_simps split: option.split)
qed

text \<open>What an addition does to the table: a duplicate key is refused, otherwise the entry is filed under its key with a
  new handle or the table is as it was.\<close>

definition vl_added where
  "vl_added E L tbl pid N tr A k r t \<longleftrightarrow> (case A k of
     Some (h, e) \<Rightarrow> r = (BF_UNEXPECTED, Some h) \<and> vl_kt E L tbl pid N tr t A
   | None \<Rightarrow> if fst r = BF_SUCCESS
       then \<exists>h e. snd r = Some h \<and> h \<noteq> 0 \<and> h \<notin> handles A \<and> e \<le> os_next t \<and> vl_kt E L tbl pid N tr t (A(k \<mapsto> (h, e)))
       else snd r = None \<and> vl_kt E L tbl pid N tr t A)"

definition vl_table where
  "vl_table E tgt hdl tbl N tr s A \<longleftrightarrow> kt_ready E VLT tbl (dev_pipe_id tgt) N tr s A \<and> table_of E tgt hdl VLT s = Some tbl \<and>
     map_option vc_store_entries (vl_ctx_of tbl s) = Some True \<and> (\<forall>e. e \<in> ktable_ents A \<longrightarrow> e \<le> os_next s)"

lemma vl_tableE:
  assumes "vl_table E tgt hdl tbl N tr s A"
  obtains ctx where "vl_kt E (os_locks s) tbl (dev_pipe_id tgt) N tr s A" "table_of E tgt hdl VLT s = Some tbl"
    "vl_ctx_of tbl s = Some ctx" "vc_store_entries ctx" "Suc (os_next s) \<notin> ktable_ents A"
  using assms by (force simp: vl_table_def vl_kt_def)

lemma vl_insert_spec:
  assumes ready: "vl_kt E L tbl (dev_pipe_id tgt) N tr s A" and k: "spec_key tr N ms = Some k" "vl_client ms ds" "A k = None"
    and e: "w_vl_ents s e = Some (vl_entry 0 ms ds)" "e \<notin> ktable_ents A" "e \<le> os_next s"
  shows "wp (do {
      (status, hdl) \<leftarrow> pipe_mgr_table_key_insert E tgt tbl VLT e;
      if status \<noteq> BF_SUCCESS then do { pipe_mgr_value_lookup_del_entry e; ret (status, None) }
      else ret (BF_SUCCESS, Some hdl) }) (vl_added E L tbl (dev_pipe_id tgt) N tr A k) s"
proof -
  have "spec_key tr N (ve_match_spec (vl_entry 0 ms ds)) = Some k"
    using packed_key [OF k(1)] k(2) by (simp add: vl_entry_def vl_client_def)
  then have key: "ent_key VLT tr N s e = Some k" using e(1) by (simp add: ent_key_def)
  show ?thesis
    unfolding wp_bind
    by (rule wp_conseq [OF wp_conj [OF vkt.put_ok [OF ready key k(3)] pres_wp [OF pres_next_insert e(3)]]])
      (auto simp: wp_return wp_bind wp_if vl_added_def k(3) vl_del_entry_spec [OF _ e(2)] split: prod.split if_splits)
qed

lemma vl_packed_spec:
  assumes ready: "vl_kt E L tbl (dev_pipe_id tgt) N tr s A" and k: "spec_key tr N ms = Some k" "vl_client ms ds" "A k = None"
    and e: "w_vl_ents s e = Some (vl_entry 0 ms ds)" "e \<notin> ktable_ents A" "e \<le> os_next s"
  shows "wp (do {
      status \<leftarrow> dal_value_lookup_ent_add E tgt ms ds tbl;
      if status \<noteq> BF_SUCCESS then do { pipe_mgr_value_lookup_del_entry e; ret (status, None) }
      else do {
        (status, hdl) \<leftarrow> pipe_mgr_table_key_insert E tgt tbl VLT e;
        if status \<noteq> BF_SUCCESS then do { pipe_mgr_value_lookup_del_entry e; ret (status, None) }
        else ret (BF_SUCCESS, Some hdl) }}) (vl_added E L tbl (dev_pipe_id tgt) N tr A k) s"
  unfolding wp_bind [of "dal_value_lookup_ent_add E tgt ms ds tbl"]
proof (rule wp_conseq [OF keeps_wp [OF dal_opD(1) [OF dal_vl_calls(1)]]], goal_cases)
  case (1 st t)
  have rd: "vl_kt E L tbl (dev_pipe_id tgt) N tr t A" by (rule vl_kt_dal [OF 1 ready])
  have ent: "w_vl_ents t e = Some (vl_entry 0 ms ds)" using e(1) dal_frameD(4) [OF 1] by simp
  have "wp (do { pipe_mgr_value_lookup_del_entry e; ret (st, None) }) (vl_added E L tbl (dev_pipe_id tgt) N tr A k) t"
    if "st \<noteq> BF_SUCCESS"
    using that by (simp add: wp_simps vl_added_def k(3)) (rule vl_del_entry_spec [OF rd e(2)])
  moreover have "e \<le> os_next t" using e(3) dal_frameD(8) [OF 1] by simp
  ultimately show ?case using vl_insert_spec [OF rd k ent e(2)] by simp
qed

lemma vl_add_body_spec:
  assumes tbl: "vl_table E tgt hdl tbl N tr s A" and k: "spec_key tr N ms = Some k" "vl_client ms ds"
    and L: "L = os_locks s"
  shows "wp (vl_add_body E tgt hdl ms ds) (vl_added E L tbl (dev_pipe_id tgt) N tr A k) s"
proof -
  obtain ctx where ready: "vl_kt E L tbl (dev_pipe_id tgt) N tr s A" and tb: "table_of E tgt hdl VLT s = Some tbl"
    and ctx: "vl_ctx_of tbl s = Some ctx" "vc_store_entries ctx" and new: "Suc (os_next s) \<notin> ktable_ents A"
    unfolding L by (rule vl_tableE [OF tbl])
  show ?thesis
    unfolding vl_add_body_def wp_with_table [OF tb] wp_deref
    apply (simp add: ctx wp_bind)
  proof (rule wp_conseq [OF key_exists_ready [OF vl_ktD(1) [OF ready] k(1)]], goal_cases)
    case (1 r t)
    show ?case
    proof (cases "A k")
      case (Some he)
      with 1 vl_kt_clk [OF ready, of "os_clk t"] show ?thesis
        by (cases he) (simp add: lookup_result_def wp_simps vl_added_def)
    next
      case None
      from 1 have "t = s\<lparr>os_clk := os_clk t\<rparr>" by blast
      then obtain c where t: "t = s\<lparr>os_clk := c\<rparr>" by blast
      have ready': "vl_kt E L tbl (dev_pipe_id tgt) N tr t A" unfolding t by (rule vl_kt_clk [OF ready])
      have e: "Suc (os_next t) \<notin> ktable_ents A" using t new by simp
      from 1 None have r: "r = (BF_SUCCESS, False, 0, NULL)" by (simp add: lookup_result_def)
      show ?thesis
        unfolding r prod.case
        by (simp add: wp_bind [of "pipe_mgr_value_lookup_pack_entry_info E ms ds"] None ctx(2), rule wp_conseq [OF vl_pack_ready [OF ready' e k(2)]])
          (use vl_packed_spec [where A = A and k = k, OF _ k None] in \<open>auto simp: ctx(2) wp_return vl_added_def None\<close>)
    qed
  qed
qed

text \<open>Deletion: an absent key is refused; a refusal of the data plane leaves the table as it was; else the key is
  gone.\<close>

definition vl_deleted where
  "vl_deleted E L tbl pid N tr A k st t \<longleftrightarrow> (case A k of
     None \<Rightarrow> st = BF_UNEXPECTED \<and> vl_kt E L tbl pid N tr t A
   | Some _ \<Rightarrow> vl_kt E L tbl pid N tr t (if st = BF_SUCCESS then A(k := None) else A))"

lemma vl_del_body_spec:
  assumes tbl: "vl_table E tgt hdl tbl N tr s A" and k: "spec_key tr N ms = Some k"
    and L: "L = os_locks s"
  shows "wp (vl_del_body E tgt hdl ms) (vl_deleted E L tbl (dev_pipe_id tgt) N tr A k) s"
proof -
  obtain ctx where ready: "vl_kt E L tbl (dev_pipe_id tgt) N tr s A" and tb: "table_of E tgt hdl VLT s = Some tbl"
    and ctx: "vl_ctx_of tbl s = Some ctx" "vc_store_entries ctx"
    unfolding L by (rule vl_tableE [OF tbl])
  show ?thesis
    unfolding vl_del_body_def wp_with_table [OF tb] wp_deref
    apply (simp add: ctx wp_bind)
  proof (rule wp_conseq [OF vkt.lookup_ok [OF ready k]], goal_cases)
    case (1 r t)
    show ?case
    proof (cases "A k")
      case None
      with 1 show ?thesis by (simp add: lookup_result_def wp_simps vl_deleted_def)
    next
      case (Some he)
      obtain h e where he: "he = (h, e)" by (cases he)
      have gone: "e \<notin> ktable_ents (A(k := None))"
        using removed_ents [of E VLT tbl "dev_pipe_id tgt" N t A k h e] 1 Some he by (simp add: vl_kt_def kt_ready_def)
      have "wp (pipe_mgr_table_key_delete E tgt tbl VLT ms) (\<lambda>st. wp (if st \<noteq> BF_SUCCESS then ret st
          else do { pipe_mgr_value_lookup_del_entry e; ret BF_SUCCESS }) (vl_deleted E L tbl (dev_pipe_id tgt) N tr A k)) u"
        if "vl_kt E L tbl (dev_pipe_id tgt) N tr u A" for u
        by (rule wp_conseq [OF vkt.del_ok [OF that k]])
          (auto simp: wp_bind wp_return vl_deleted_def Some intro!: wp_conseq [OF vl_del_entry_spec [OF _ gone]])
      then have "wp (dal_value_lookup_ent_del E ms tbl) (\<lambda>st. wp (if st \<noteq> BF_SUCCESS then ret st
          else do { st \<leftarrow> pipe_mgr_table_key_delete E tgt tbl VLT ms; if st \<noteq> BF_SUCCESS then ret st
            else do { pipe_mgr_value_lookup_del_entry e; ret BF_SUCCESS }})
          (vl_deleted E L tbl (dev_pipe_id tgt) N tr A k)) t"
        by (intro wp_conseq [OF keeps_wp [OF dal_opD(1) [OF dal_vl_calls(2)]]])
          (use 1 vl_kt_dal in \<open>fastforce simp: wp_bind wp_return vl_deleted_def Some\<close>)
      with 1 Some he show ?thesis by (simp add: lookup_result_def wp_bind ctx(2))
    qed
  qed
qed

section \<open>The calls\<close>

text \<open>The handles of the tables and whether they store their entries.\<close>

definition vl_ids :: "('m, 'i, 'h) world \<Rightarrow> ptr \<Rightarrow> (u32 \<times> bool) option" where
  "vl_ids s p = map_option (\<lambda>v. (vc_handle (vl_ctx v), vc_store_entries (vl_ctx v))) (w_vls s p)"

lemma vl_ids_os [simp]:
  "vl_ids (s\<lparr>os_clk := c\<rparr>) = vl_ids s" "vl_ids (s\<lparr>os_fault := b\<rparr>) = vl_ids s"
  "vl_ids (s\<lparr>os_next := n\<rparr>) = vl_ids s" "vl_ids (s\<lparr>os_locks := l\<rparr>) = vl_ids s"
  "vl_ids (s\<lparr>w_nodes := ns\<rparr>) = vl_ids s" "vl_ids (s\<lparr>w_vl_ents := es\<rparr>) = vl_ids s"
  by (simp_all add: vl_ids_def fun_eq_iff)

lemma vl_ids_frame:
  assumes "dal_frame t = dal_frame s"
  shows "vl_ids t = vl_ids s"
proof
  fix p
  from dal_frameD(10) [OF assms, of p] show "vl_ids t p = vl_ids s p"
    by (cases "w_vls t p"; cases "w_vls s p") (auto simp: vl_ids_def vl_store_def)
qed

lemma vl_ids_dal: "dal_op m \<Longrightarrow> keeps vl_ids m"
  by (auto simp: keeps_def dal_op_def intro: vl_ids_frame)

lemma keeps_vl_ids_store [keeps_intros]:
  "keeps vl_ids (set_state tt p f)" "keeps vl_ids (set_ent_hdl tt e h)" "keeps vl_ids (put_vl_ent e x)"
  by (cases tt; auto simp: set_state_def set_ent_hdl_def put_vl_ent_def vl_ids_def st_upd.simps fun_eq_iff option.map_comp comp_def
      intro!: keeps_modify)+

lemma keeps_vl_ids_search [keeps_intros]: "keeps vl_ids (bf_hashtbl_search E tt t key ns)"
  by (induction ns) (auto simp: key_cmp_fn_def pipe_mgr_cmp_match_value_bits_def
      pipe_mgr_form_htbl_key_def intro!: keeps_intros)

lemma keeps_vl_ids_table [keeps_intros]:
  "keeps vl_ids (pipe_mgr_table_key_exists E tbl tt ms pipe_id want)"
  "keeps vl_ids (pipe_mgr_table_key_delete E tgt tbl tt ms)"
  "keeps vl_ids (pipe_mgr_table_key_insert E tgt tbl tt ent)"
  unfolding key_table_unfold by (rule keeps_intros | simp)+

lemma keeps_vl_ids_get_table [keeps_intros]: "keeps vl_ids (get_table h hdl ps)"
  by (induction ps) (auto intro!: keeps_intros)

lemma keeps_vl_ids_ctx_get_table [keeps_intros]: "keeps vl_ids (pipe_mgr_ctx_get_table E tgt hdl tt)"
  by (auto simp: pipe_mgr_ctx_get_table_def pipe_mgr_get_profile_ctx_def pipe_mgr_get_profile_def
      pipe_mgr_get_dev_def get_pipe_mgr_ctx_def intro!: keeps_intros split: pipe_mgr_table_type.split)

lemmas [keeps_intros] = dal_vl_pack [THEN vl_ids_dal] dal_vl_calls [THEN vl_ids_dal]

lemma keeps_vl_ids_bodies:
  "keeps vl_ids (vl_add_body E tgt hdl ms ds)" "keeps vl_ids (vl_del_body E tgt hdl ms)"
  unfolding vl_add_body_def vl_del_body_def with_table_def pipe_mgr_value_lookup_pack_entry_info_def
    pipe_mgr_value_lookup_del_entry_def
  by (rule keeps_intros | simp)+

lemma next_dal: "dal_op m \<Longrightarrow> pres (\<lambda>s. n \<le> os_next s) m"
  by (rule pres_keeps [where f = os_next]) (auto simp: dal_op_def keeps_def intro!: dal_frameD(8))

lemmas [pres_intros] = dal_vl_pack [THEN next_dal] dal_vl_calls [THEN next_dal] pres_next_insert pres_next_delete

lemma pres_next_vl [pres_intros]:
  "pres (\<lambda>s. n \<le> os_next s) (put_vl_ent e x)" "pres (\<lambda>s. n \<le> os_next s) (get_table h hdl ps)"
  by (simp add: put_vl_ent_def pres_modify, induction ps) (auto intro!: pres_intros)

lemma pres_next_lookups [pres_intros]:
  "pres (\<lambda>s. n \<le> os_next s) (pipe_mgr_table_key_exists E tbl tt ms pipe_id want)"
  "pres (\<lambda>s. n \<le> os_next s) (pipe_mgr_ctx_get_table E tgt hdl tt)"
  unfolding key_table_unfold pipe_mgr_ctx_get_table_def pipe_mgr_get_profile_ctx_def pipe_mgr_get_profile_def
    pipe_mgr_get_dev_def get_pipe_mgr_ctx_def
  by (auto intro!: pres_intros split: pipe_mgr_table_type.split)

lemma pres_next_vl_bodies:
  "pres (\<lambda>s. n \<le> os_next s) (vl_add_body E tgt hdl ms ds)" "pres (\<lambda>s. n \<le> os_next s) (vl_del_body E tgt hdl ms)"
  unfolding vl_add_body_def vl_del_body_def with_table_def pipe_mgr_value_lookup_pack_entry_info_def
    pipe_mgr_value_lookup_del_entry_def
  by (rule pres_intros | simp)+

lemma vl_table_of:
  assumes "api_frame t = api_frame s" "vl_ids t = vl_ids s"
  shows "table_of E tgt hdl VLT t = table_of E tgt hdl VLT s"
proof -
  have "vl_handle p t = vl_handle p s" for p
    using fun_cong [OF assms(2), of p] by (cases "w_vls t p"; cases "w_vls s p") (auto simp: vl_ids_def vl_handle_def)
  then show ?thesis
    using frame_eqD(3) [OF assms(1)] frame_eqD(6) [OF assms(1), where E = E]
    by (simp add: table_of_def get_profile_obj_def Let_def)
qed

lemma vl_store_ids: "map_option vc_store_entries (vl_ctx_of tbl s) = map_option snd (vl_ids s tbl)"
  by (simp add: vl_ctx_of_def vl_ids_def option.map_comp comp_def)

lemma vl_table_after:
  assumes "vl_table E tgt hdl tbl N tr s A" "kt_ready E VLT tbl (dev_pipe_id tgt) N tr u A'" "api_frame u = api_frame s"
    "vl_ids u = vl_ids s" "\<And>e. e \<in> ktable_ents A' \<Longrightarrow> e \<le> os_next u" "l (VL_LOCK tbl) = os_locks u (VL_LOCK tbl)"
  shows "vl_table E tgt hdl tbl N tr (u\<lparr>os_clk := c, os_locks := l\<rparr>) A'"
proof -
  let ?t = "u\<lparr>os_clk := c, os_locks := l\<rparr>"
  have fr: "api_frame ?t = api_frame s" "vl_ids ?t = vl_ids s" using assms(3,4) by simp_all
  show ?thesis
    unfolding vl_table_def vl_store_ids vl_table_of [OF fr] fr(2)
    using assms by (simp add: vl_table_def kt_ready_def vl_store_ids)
qed

text \<open>A session, a target and a table that calls can use.\<close>

definition vl_ready where
  "vl_ready E h tgt hdl tbl N tr s A \<longleftrightarrow> api_ready E h tgt s \<and> vl_table E tgt hdl tbl N tr s A"

lemma vl_inside:
  assumes "vl_ready E h tgt hdl tbl N tr s A" "entered E h tgt s L"
  shows "vl_table E tgt hdl tbl N tr (s\<lparr>os_clk := c, os_locks := L\<rparr>) A"
proof -
  have "L (VL_LOCK tbl) = os_locks s (VL_LOCK tbl)" using assms(2) by (auto simp: entered_def Let_def)
  with assms(1) show ?thesis by (intro vl_table_after) (auto simp: vl_ready_def vl_table_def)
qed

text \<open>From the work inside the bracket to the call: the table is usable again, with what the work has made of it.\<close>

lemma vl_call:
  assumes ready: "vl_ready E h tgt hdl tbl N tr s A"
    and body: "\<And>u. vl_table E tgt hdl tbl N tr u A \<Longrightarrow> wp body (\<lambda>r v. \<exists>A'. P r A' \<and>
      vl_kt E (os_locks u) tbl (dev_pipe_id tgt) N tr v A' \<and> (\<forall>e. e \<in> ktable_ents A' \<longrightarrow> e \<in> ktable_ents A \<or> e \<le> os_next v)) u"
    and rules: "keeps api_frame body" "keeps vl_ids body" "\<And>n. pres (\<lambda>s. n \<le> os_next s) body"
  shows "wp (with_api E h tgt err body) (\<lambda>r t. \<exists>A'. P r A' \<and> vl_ready E h tgt hdl tbl N tr t A') s"
proof -
  have api: "api_ready E h tgt s" and tb: "vl_table E tgt hdl tbl N tr s A" using ready by (simp_all add: vl_ready_def)
  let ?Q = "\<lambda>r u A'. P r A' \<and> kt_ready E VLT tbl (dev_pipe_id tgt) N tr u A' \<and> api_frame u = api_frame s \<and>
    vl_ids u = vl_ids s \<and> (\<forall>e. e \<in> ktable_ents A' \<longrightarrow> e \<le> os_next u) \<and> os_locks u (VL_LOCK tbl) = os_locks s (VL_LOCK tbl)"
  have "wp body (\<lambda>r u. (\<exists>A'. ?Q r u A') \<and> os_locks u = L \<and> api_frame u = api_frame s) (s\<lparr>os_clk := c, os_locks := L\<rparr>)"
    if ent: "entered E h tgt s L" for c L
  proof -
    let ?s = "s\<lparr>os_clk := c, os_locks := L\<rparr>"
    have L: "L (VL_LOCK tbl) = os_locks s (VL_LOCK tbl)" using ent by (auto simp: entered_def Let_def)
    have mono: "wp body (\<lambda>_ v. os_next s \<le> os_next v) ?s" by (rule pres_wp [OF rules(3)]) simp
    show ?thesis
      by (rule wp_conseq [OF wp_conj [OF body [OF vl_inside [OF ready ent, of c]]
              wp_conj [OF mono wp_conj [OF keeps_wp [OF rules(1)] keeps_wp [OF rules(2)]]]]])
        (use L tb in \<open>force simp: vl_table_def vl_kt_def\<close>)
  qed
  then have "wp (with_api E h tgt err body)
      (\<lambda>r t. \<exists>u c. (\<exists>A'. ?Q r u A') \<and> t = u\<lparr>os_clk := c, os_locks := os_locks s\<rparr>) s"
    by (rule wp_with_api [OF api])
  then show ?thesis
  proof (rule wp_conseq, goal_cases)
    case (1 r t)
    then obtain u c A' where q: "?Q r u A'" and t: "t = u\<lparr>os_clk := c, os_locks := os_locks s\<rparr>" by blast
    have "vl_table E tgt hdl tbl N tr t A'" unfolding t by (rule vl_table_after [OF tb]) (use q in auto)
    moreover have "api_ready E h tgt t" by (rule api_ready_frame [OF api]) (use q t in simp_all)
    ultimately show ?case using q by (auto simp: vl_ready_def)
  qed
qed

text \<open>The specification of the calls on the finite map from keys to handles and entries.\<close>

definition vl_add_map :: "ktable \<Rightarrow> u8 list \<Rightarrow> bf_status \<times> u32 option \<Rightarrow> ktable \<Rightarrow> bool" where
  "vl_add_map A k r A' \<longleftrightarrow> (case A k of
     Some (h, e) \<Rightarrow> r = (BF_UNEXPECTED, Some h) \<and> A' = A
   | None \<Rightarrow> if fst r = BF_SUCCESS then \<exists>h e. snd r = Some h \<and> h \<noteq> 0 \<and> h \<notin> handles A \<and> A' = A(k \<mapsto> (h, e))
       else snd r = None \<and> A' = A)"

definition vl_del_map :: "ktable \<Rightarrow> u8 list \<Rightarrow> bf_status \<Rightarrow> ktable \<Rightarrow> bool" where
  "vl_del_map A k st A' \<longleftrightarrow> (case A k of None \<Rightarrow> st = BF_UNEXPECTED \<and> A' = A
     | Some _ \<Rightarrow> A' = (if st = BF_SUCCESS then A(k := None) else A))"

lemma ktable_ents_upd:
  "e \<in> ktable_ents (A(k \<mapsto> (h, e'))) \<Longrightarrow> e \<in> ktable_ents A \<or> e = e'" "e \<in> ktable_ents (A(k := None)) \<Longrightarrow> e \<in> ktable_ents A"
  by (auto simp: ktable_ents_def ran_def split: if_splits)

lemma vl_add_call:
  assumes "vl_ready E h tgt hdl tbl N tr s A" and k: "spec_key tr N ms = Some k" "vl_client ms ds"
  shows "wp (pipe_mgr_value_lookup_ent_add E h tgt hdl ms ds)
    (\<lambda>r t. \<exists>A'. vl_add_map A k r A' \<and> vl_ready E h tgt hdl tbl N tr t A') s"
  unfolding pipe_mgr_value_lookup_ent_add_def
proof (rule vl_call [OF assms(1)], goal_cases)
  case (1 u)
  show ?case
  proof (rule wp_conseq [OF vl_add_body_spec [OF 1 k refl]], goal_cases)
    case (1 r v)
    show ?case
    proof (cases "A k")
      case None
      with 1 show ?thesis
        by (auto simp: vl_added_def vl_add_map_def dest!: ktable_ents_upd split: if_splits)
    qed (use 1 in \<open>auto simp: vl_added_def vl_add_map_def\<close>)
  qed
qed (rule vl_bodies_frame keeps_vl_ids_bodies pres_next_vl_bodies)+

lemma vl_del_call:
  assumes "vl_ready E h tgt hdl tbl N tr s A" and k: "spec_key tr N ms = Some k"
  shows "wp (pipe_mgr_value_lookup_ent_del E h tgt hdl ms)
    (\<lambda>st t. \<exists>A'. vl_del_map A k st A' \<and> vl_ready E h tgt hdl tbl N tr t A') s"
  unfolding pipe_mgr_value_lookup_ent_del_def
proof (rule vl_call [OF assms(1)], goal_cases)
  case (1 u)
  show ?case
    by (rule wp_conseq [OF vl_del_body_spec [OF 1 k refl]])
      (auto simp: vl_deleted_def vl_del_map_def dest!: ktable_ents_upd(2) split: option.splits if_splits)
qed (rule vl_bodies_frame keeps_vl_ids_bodies pres_next_vl_bodies)+

lemma vl_find_call:
  assumes ready: "vl_ready E h tgt hdl tbl N tr s A" and k: "spec_key tr N ms = Some k"
  shows "wp (pipe_mgr_value_lookup_match_spec_to_ent_hdl E h tgt hdl ms) (\<lambda>r t.
    r = (case A k of None \<Rightarrow> (BF_OBJECT_NOT_FOUND, None) | Some (eh, e) \<Rightarrow> (BF_SUCCESS, Some eh)) \<and>
    (\<exists>c. t = s\<lparr>os_clk := c\<rparr>)) s"
  unfolding pipe_mgr_value_lookup_match_spec_to_ent_hdl_def
proof (rule wp_read_api, goal_cases)
  case 1
  show ?case using ready by (simp add: vl_ready_def)
next
  case (2 c L)
  let ?u = "s\<lparr>os_clk := c, os_locks := L\<rparr>"
  obtain ctx where kt: "vl_kt E (os_locks ?u) tbl (dev_pipe_id tgt) N tr ?u A" and tb: "table_of E tgt hdl VLT ?u = Some tbl"
      and ctx: "vl_ctx_of tbl ?u = Some ctx" "vc_store_entries ctx"
    using vl_inside [OF ready 2, of c] by (rule vl_tableE)
  have "wp (pipe_mgr_table_key_exists E tbl VLT ms (dev_pipe_id tgt) False)
      (\<lambda>r t. r = lookup_result False (A k) \<and> (\<exists>d. t = s\<lparr>os_locks := L, os_clk := d\<rparr>)) ?u"
    by (rule wp_conseq [OF key_exists_ready [OF vl_ktD(1) [OF kt] k]]) (auto simp del: os.update_convs)
  then show ?case
    unfolding vl_find_body_def wp_with_table [OF tb] wp_deref
    by (simp add: ctx wp_bind) (erule wp_conseq, auto simp: wp_return lookup_result_def split: option.split)
qed

end
