(* ===== verification/Vl_Props.thy ===== *)
theory Vl_Props
  imports Vl_Spec Mat_Props
begin

text \<open>
  The properties of value-lookup tables: the store of their entries as clients see it, the mirroring sessions that the
  data plane receives, and what goes wrong on the way, with a concrete table of mirroring sessions.
\<close>

declare st_upd.simps [simp del]

section \<open>A concrete table\<close>

text \<open>The port is in the first two bytes of the data, the length to which packets are truncated in the next two.\<close>

definition ex_vl_stage :: pipe_mgr_dpdk_stage_table where
  "ex_vl_stage = \<lparr>st_act_fmt = Null, st_resource_id = PIPE_MGR_DPDK_RES_MIR_SESSION,
     st_immediate_field = [\<lparr>param_name = ''port'', dest_start = 0, dest_width = 16\<rparr>, \<lparr>param_name = ''len'', dest_start = 2, dest_width = 16\<rparr>],
     st_table_meta = None, st_val_lookup_meta = Null\<rparr>"

definition ex_vl :: "(lmap, lids, lht) pipe_mgr_value_lookup" where
  "ex_vl = \<lparr>vl_ctx = \<lparr>vc_handle = 3, vc_name = ''mir'', vc_target_table_name = ''mir'', vc_store_entries = True,
       vc_duplicate_entry_check = True, vc_match_type = PIPE_MGR_MATCH_TYPE_EXACT, vc_match_stage_table_count = 1,
       vc_match_stage_table = Some ex_vl_stage\<rparr>,
     vl_state = Some \<lparr>entry_handle_array = [], entry_info_htbl = [], mbr_id_htbl = [], key_htbl = [None]\<rparr>\<rparr>"

definition ex_vl_sys :: "(lmap, lids, lht) world" where
  "ex_vl_sys = ex_sys\<lparr>w_vls := [8 \<mapsto> ex_vl],
     w_devs := [4 \<mapsto> \<lparr>pd_dev_id = 0, pd_num_pipeline_profiles = 1,
       pd_profiles = [ex_profile\<lparr>pf_pipe_ctx := (pf_pipe_ctx ex_profile)\<lparr>pc_value_lookup_tables := [8]\<rparr>\<rparr>]\<rparr>]\<rparr>"

text \<open>The same system with the metadata of the table, and after its pipeline has gone.\<close>

definition ex_vl_live :: "(lmap, lids, lht) world" where
  "ex_vl_live = ex_vl_sys\<lparr>w_vls := [8 \<mapsto> ex_vl\<lparr>vl_ctx := (vl_ctx ex_vl)\<lparr>vc_match_stage_table :=
     Some (ex_vl_stage\<lparr>st_val_lookup_meta := Live 5\<rparr>)\<rparr>\<rparr>]\<rparr>"

definition ex_vl_lost :: "(lmap, lids, lht) world" where
  "ex_vl_lost = ex_vl_sys\<lparr>w_pipes := []\<rparr>"

definition ex_vl_ms :: "u8 list \<Rightarrow> pipe_tbl_match_spec" where
  "ex_vl_ms bs = \<lparr>num_valid_match_bits = 8 * length bs, num_match_bytes = length bs, match_value_bits = bs,
     match_mask_bits = replicate (length bs) 255, match_field_validity = 0, priority = 0\<rparr>"

definition ex_vl_ds :: pipe_data_spec where
  "ex_vl_ds = \<lparr>num_data_bytes = 4, data_bytes = [1, 2, 0, 128]\<rparr>"

lemmas ex_vl_defs = ex_vl_sys_def ex_vl_def ex_vl_stage_def ex_sys_defs

lemma ex_vl_dev: "dev_of ref_env ex_vl_sys 0 = 4" "dev_of ref_env ex_vl_live 0 = 4" "dev_of ref_env ex_vl_lost 0 = 4"
  by (simp_all add: dev_of_def the_ctx_def ex_vl_lost_def ex_vl_live_def ex_vl_sys_def ex_sys_def ref_env_def)






section \<open>The store\<close>






section \<open>Mirroring sessions\<close>

text \<open>The table of mirroring sessions whose pipeline is known.\<close>

definition mirror_table where
  "mirror_table tbl st pipe pl s \<longleftrightarrow> (\<exists>ctx. vl_ctx_of tbl s = Some ctx \<and> vc_match_stage_table_count ctx \<le> 1 \<and>
     vc_match_stage_table ctx = Some st) \<and> st_val_lookup_meta st = Live pipe \<and> st_resource_id st = PIPE_MGR_DPDK_RES_MIR_SESSION \<and>
     pipe \<noteq> NULL \<and> pipe_obj pipe s = Some pl \<and> pl_ctl pl \<noteq> NULL"

lemma mirror_tableE:
  assumes "mirror_table tbl st pipe pl s"
  obtains ctx where "vl_ctx_of tbl s = Some ctx" "vc_match_stage_table_count ctx \<le> 1" "vc_match_stage_table ctx = Some st"
    "vl_stage tbl s = Some st" "st_val_lookup_meta st = Live pipe" "st_resource_id st = PIPE_MGR_DPDK_RES_MIR_SESSION"
    "pipe_obj pipe s = Some pl" "pl_ctl pl \<noteq> NULL" "pipe \<noteq> NULL"
  using assms by (auto simp: mirror_table_def vl_ctx_of_def vl_stage_def)

text \<open>The data of the client has room for an immediate field, whose width is that of an integer.\<close>

definition imm_ok :: "pipe_data_spec \<Rightarrow> pipe_mgr_dpdk_immediate_fields \<Rightarrow> bool" where
  "imm_ok ds i \<longleftrightarrow> nbytes (dest_width i) \<in> {1, 2, 4, 8} \<and> nbytes (dest_width i) \<le> num_data_bytes ds \<and>
     dest_start i + nbytes (dest_width i) \<le> length (data_bytes ds)"

definition imm_value :: "pipe_data_spec \<Rightarrow> pipe_mgr_dpdk_immediate_fields \<Rightarrow> u32" where
  "imm_value ds i = be_field (take (nbytes (dest_width i)) (drop (dest_start i) (data_bytes ds)))"

text \<open>The profile of the target.\<close>

definition profile_of where
  "profile_of E tgt s = (let d = dev_of E s (device_id tgt) in
     if d = NULL then None else get_profile_obj (d, dev_pipe_id tgt) s)"

lemma wp_get_profile:
  assumes "profile_of E tgt s = Some pf"
  shows "wp (pipe_mgr_get_profile E (device_id tgt) (dev_pipe_id tgt)) Q s =
    Q (BF_SUCCESS, Some (dev_of E s (device_id tgt), dev_pipe_id tgt)) s"
    "get_profile_obj (dev_of E s (device_id tgt), dev_pipe_id tgt) s = Some pf"
  using assms dev_of_ctx [of E s "device_id tgt"]
  by (auto simp: profile_of_def pipe_mgr_get_profile_def wp_simps Let_def split: if_splits)

lemma ex_vl_profile: obtains pf where "profile_of ref_env ex_tgt ex_vl_live = Some pf" "pf_fast_clone pf = 0"
  using ex_vl_dev(2) by (simp add: profile_of_def ex_tgt_def) (simp add: ex_vl_live_def ex_vl_defs get_profile_obj_def)

lemma ex_vl_mirror: "mirror_table 8 (ex_vl_stage\<lparr>st_val_lookup_meta := Live 5\<rparr>) 5 ex_pipe ex_vl_live"
  by (simp add: mirror_table_def ex_vl_live_def vl_ctx_of_def pipe_obj_def ex_vl_defs)

text \<open>A key whose announced sizes agree, in a buffer with room for it.\<close>

definition mirror_key :: "pipe_tbl_match_spec \<Rightarrow> nat \<Rightarrow> bool" where
  "mirror_key ms n \<longleftrightarrow> num_valid_match_bits ms div 8 = n \<and> num_match_bytes ms \<le> n \<and> n \<le> length (match_value_bits ms)"

lemma mirror_id_spec:
  assumes "mirror_key ms n" "calloc_ok E"
  shows "wp (dal_mirror_get_mirror_session_id E ms) (\<lambda>(st, i) t. st = BF_SUCCESS \<and>
    t = s\<lparr>os_clk := Suc (os_clk s), os_fault := os_fault s \<or> 1 < n\<rparr> \<and> (n = 1 \<longrightarrow> i = hd (match_value_bits ms))) s"
proof -
  have n: "num_valid_match_bits ms div 8 = n" "num_match_bytes ms \<le> n" "n \<le> length (match_value_bits ms)" "x_calloc E c" for c
    using assms by (auto simp: mirror_key_def calloc_ok_def)
  have "hd (mem_write [0] 0 (match_value_bits ms)) = hd (match_value_bits ms)" if "match_value_bits ms \<noteq> []"
    using that by (cases "match_value_bits ms") (simp_all add: mem_write_def)
  then show ?thesis
    unfolding dal_mirror_get_mirror_session_id_def pipe_mgr_dpdk_encode_key_from_match_spec_def Let_def n(1)
    using n(2-4) by (cases "match_value_bits ms") (simp_all add: wp_simps mem_write_def)
qed

lemma imm_spec:
  assumes "imm_ok ds i" "calloc_ok E"
  shows "wp (fill_from_immediate_field E (i # is) ds f) Q s = Q (BF_SUCCESS, is, imm_value ds i) (s\<lparr>os_clk := Suc (os_clk s)\<rparr>)"
proof -
  let ?n = "nbytes (dest_width i)"
  have n: "?n \<in> {1, 2, 4, 8}" "\<not> num_data_bytes ds < ?n" "?n \<le> length (drop (dest_start i) (data_bytes ds))" "x_calloc E c" for c
    using assms by (auto simp: imm_ok_def calloc_ok_def)
  have "mem_write (replicate ?n 0) 0 (take ?n (drop (dest_start i) (data_bytes ds))) = take ?n (drop (dest_start i) (data_bytes ds))"
    using n(3) by (simp add: mem_write_def)
  with n show ?thesis
    unfolding fill_from_immediate_field_def pipe_mgr_dpdk_encode_param_from_data_spec_def Let_def imm_value_def
    by (simp add: wp_simps)
qed

text \<open>C32. What the data plane receives. On a table of mirroring sessions whose pipeline is known, an addition with a key of one
  byte sets the session with that number, with the port and the truncation length that are in the data in network
  order and the cloning mode of the profile, and then commits. When the data plane refuses either, the addition
  fails with \<^verbatim>\<open>BF_UNEXPECTED\<close>. Nothing faults.\<close>

theorem vl_mirror_programs:
  assumes "mirror_table tbl st pipe pl s" "st_immediate_field st = [i, j]" "imm_ok ds i" "imm_ok ds j"
    and "mirror_key ms 1" "calloc_ok E" "profile_of E tgt s = Some pf"
  shows "wp (dal_value_lookup_ent_add E tgt ms ds tbl) (\<lambda>r t. os_fault t = os_fault s \<and>
    (let set_call = MirroringSessionSet (pl_p pl) (ucast (hd (match_value_bits ms))) (imm_value ds i) (pf_fast_clone pf) (imm_value ds j)
     in (case r of
        BF_SUCCESS \<Rightarrow> w_rte t = w_rte s @ [(set_call, 0), (Commit (pl_ctl pl), 0)]
      | _ \<Rightarrow> r = BF_UNEXPECTED \<and> (\<exists>rc. rc \<noteq> 0 \<and> (w_rte t = w_rte s @ [(set_call, rc)] \<or>
          w_rte t = w_rte s @ [(set_call, 0), (Commit (pl_ctl pl), rc)]))))) s"
proof -
  obtain ctx where ctx: "vl_ctx_of tbl s = Some ctx" "vc_match_stage_table_count ctx \<le> 1" "vc_match_stage_table ctx = Some st"
      and vst: "vl_stage tbl s = Some st"
      and st: "st_val_lookup_meta st = Live pipe" "st_resource_id st = PIPE_MGR_DPDK_RES_MIR_SESSION" "pipe_obj pipe s = Some pl"
        "pl_ctl pl \<noteq> NULL" "pipe \<noteq> NULL"
    by (rule mirror_tableE [OF assms(1)])
  have "wp (vl_mirror_add E st (pf_fast_clone pf) ms ds pl) (\<lambda>r t. os_fault t = os_fault s \<and>
    (let set_call = MirroringSessionSet (pl_p pl) (ucast (hd (match_value_bits ms))) (imm_value ds i) (pf_fast_clone pf) (imm_value ds j)
     in (case r of
        BF_SUCCESS \<Rightarrow> w_rte t = w_rte s @ [(set_call, 0), (Commit (pl_ctl pl), 0)]
      | _ \<Rightarrow> r = BF_UNEXPECTED \<and> (\<exists>rc. rc \<noteq> 0 \<and> (w_rte t = w_rte s @ [(set_call, rc)] \<or>
          w_rte t = w_rte s @ [(set_call, 0), (Commit (pl_ctl pl), rc)]))))) s"
    unfolding vl_mirror_add_def st(2) pipe_mgr_dpdk_resource_id.case wp_bind [of "dal_mirror_get_mirror_session_id E ms"]
    by (rule wp_conseq [OF mirror_id_spec [OF assms(5,6)]])
      (auto simp: assms(2) dal_mirror_fill_mirror_session_params_def dal_mirror_session_set_def wp_simps Let_def
        imm_spec [OF assms(3,6)] imm_spec [OF assms(4,6)])
  then show ?thesis
    using ctx st vst wp_get_profile(2) [OF assms(7)]
    by (simp add: dal_value_lookup_ent_add_def wp_bind wp_get_profile(1) [OF assms(7)] wp_deref wp_return)
qed

theorem vl_mirror_programs_witness:
  "wp (dal_value_lookup_ent_add ref_env ex_tgt (ex_vl_ms [7]) ex_vl_ds 8) (\<lambda>r t. \<not> os_fault t \<and>
     (if r = BF_SUCCESS then w_rte t = [(MirroringSessionSet 6 7 258 0 128, 0), (Commit 7, 0)] else r = BF_UNEXPECTED)) ex_vl_live"
proof -
  let ?st = "ex_vl_stage\<lparr>st_val_lookup_meta := Live 5\<rparr>"
    and ?i = "\<lparr>param_name = ''port'', dest_start = 0, dest_width = 16\<rparr>" and ?j = "\<lparr>param_name = ''len'', dest_start = 2, dest_width = 16\<rparr>"
  have "mirror_table 8 ?st 5 ex_pipe ex_vl_live" "st_immediate_field ?st = [?i, ?j]" "imm_ok ex_vl_ds ?i" "imm_ok ex_vl_ds ?j"
    "mirror_key (ex_vl_ms [7]) 1" "calloc_ok ref_env"
    by (simp_all add: mirror_table_def ex_vl_live_def vl_ctx_of_def pipe_obj_def imm_ok_def nbytes_def mirror_key_def ex_vl_ms_def
        ex_vl_ds_def ex_vl_defs)
  note prog = vl_mirror_programs [OF this]
  obtain pf where pf: "profile_of ref_env ex_tgt ex_vl_live = Some pf" "pf_fast_clone pf = 0" by (rule ex_vl_profile)
  show ?thesis
    by (rule wp_conseq [OF prog [OF pf(1)]])
      (auto simp: pf(2) imm_value_def be_field_def nbytes_def ex_vl_ds_def ex_vl_ms_def ex_vl_live_def ex_vl_defs world0_def Let_def
        split: bf_status.splits)
qed

text \<open>C37. The number of the session is copied into one byte, whatever the length of the key: a key of more than one byte is
  written beyond it.\<close>

theorem vl_mirror_key_overflows:
  assumes "mirror_key ms n" "calloc_ok E"
  shows "wp (dal_mirror_get_mirror_session_id E ms) (\<lambda>(st, i) t. st = BF_SUCCESS \<and> (os_fault t \<longleftrightarrow> os_fault s \<or> 1 < n)) s"
  by (rule wp_conseq [OF mirror_id_spec [OF assms]]) auto

theorem vl_mirror_key_overflows_witness:
  "wp (dal_mirror_get_mirror_session_id ref_env (ex_vl_ms [0, 7])) (\<lambda>(st, i) t. os_fault t) ex_vl_sys"
  by (rule wp_conseq [OF vl_mirror_key_overflows [of _ 2]]) (auto simp: mirror_key_def ex_vl_ms_def)

text \<open>C35. A deletion never reaches the session: on a table of mirroring sessions the data plane receives at most a commit, and
  the result is \<^verbatim>\<open>BF_SUCCESS\<close> even when the key could not be encoded or the commit was refused.\<close>

theorem vl_del_drops_status:
  assumes "mirror_table tbl st pipe pl s"
  shows "wp (dal_value_lookup_ent_del E ms tbl) (\<lambda>r t. r = BF_SUCCESS \<and>
    (w_rte t = w_rte s \<or> (\<exists>rc. w_rte t = w_rte s @ [(Commit (pl_ctl pl), rc)]))) s"
proof -
  obtain ctx where ctx: "vl_ctx_of tbl s = Some ctx" "vc_match_stage_table_count ctx \<le> 1" "vc_match_stage_table ctx = Some st"
      and vst: "vl_stage tbl s = Some st"
      and st: "st_val_lookup_meta st = Live pipe" "st_resource_id st = PIPE_MGR_DPDK_RES_MIR_SESSION" "pipe_obj pipe s = Some pl"
        "pl_ctl pl \<noteq> NULL" "pipe \<noteq> NULL"
    by (rule mirror_tableE [OF assms(1)])
  have "wp (dal_mirror_get_mirror_session_id E ms) (\<lambda>_ t. w_rte t = w_rte s) s"
    by (auto simp: dal_mirror_get_mirror_session_id_def pipe_mgr_dpdk_encode_key_from_match_spec_def wp_simps Let_def)
  then have "wp (do {
      (status, mirror_id) \<leftarrow> dal_mirror_get_mirror_session_id E ms;
      if status \<noteq> BF_SUCCESS then ret BF_SUCCESS
      else do {
        status \<leftarrow> dal_mirror_session_clear (ucast mirror_id) (pl_p pl);
        if status \<noteq> BF_SUCCESS then ret BF_SUCCESS
        else do { rte_do E (Commit (pl_ctl pl)); ret BF_SUCCESS }}})
    (\<lambda>r t. r = BF_SUCCESS \<and> (w_rte t = w_rte s \<or> (\<exists>rc. w_rte t = w_rte s @ [(Commit (pl_ctl pl), rc)]))) s"
    unfolding wp_bind [of "dal_mirror_get_mirror_session_id E ms"]
    by (rule wp_conseq) (auto simp: dal_mirror_session_clear_def wp_simps)
  then show ?thesis
    using ctx st vst by (simp add: dal_value_lookup_ent_del_def wp_deref)
qed

theorem vl_del_drops_status_witness:
  "wp (dal_value_lookup_ent_del ref_env (ex_vl_ms [7]) 8) (\<lambda>r t. r = BF_SUCCESS) ex_vl_live"
  by (rule wp_conseq [OF vl_del_drops_status [OF ex_vl_mirror]]) simp

text \<open>C36. A missing pipeline leaves a dangling pointer: when the pipeline of the profile is not there, the first addition
  fails, and the second one reads the metadata that the first one has released.\<close>

theorem vl_lost_pipeline_dangles:
  assumes "vl_ctx_of tbl s = Some ctx" "vc_match_stage_table_count ctx \<le> 1" "vc_match_stage_table ctx = Some st"
    "st_val_lookup_meta st = Null" "profile_of E tgt s = Some pf" "calloc_ok E"
    "find (\<lambda>x. pl_name (snd x) = pf_pipeline_name pf) (w_pipes s) = None"
  shows "wp (dal_value_lookup_ent_add E tgt ms ds tbl) (\<lambda>r t. r = BF_OBJECT_NOT_FOUND \<and>
    wp (dal_value_lookup_ent_add E tgt ms' ds' tbl) (\<lambda>_ u. os_fault u) t) s"
proof -
  obtain v where v: "w_vls s tbl = Some v" "vl_ctx v = ctx" using assms(1) by (auto simp: vl_ctx_of_def)
  let ?v = "v\<lparr>vl_ctx := ctx\<lparr>vc_match_stage_table := Some (st\<lparr>st_val_lookup_meta := Freed\<rparr>)\<rparr>\<rparr>"
  let ?t = "s\<lparr>os_clk := Suc (os_clk s), w_vls := (w_vls s)(tbl \<mapsto> ?v)\<rparr>"
  have "vl_stage tbl s = Some st" using v assms(3) by (simp add: vl_stage_def)
  with assms v have first: "wp (dal_value_lookup_ent_add E tgt ms ds tbl) (\<lambda>r t. r = BF_OBJECT_NOT_FOUND \<and> t = ?t) s"
    by (simp add: dal_value_lookup_ent_add_def wp_bind wp_deref wp_get_profile [OF assms(5)]
        dal_dpdk_value_lookup_metadata_get_def allocate_def wp_simps calloc_ok_def pipeline_find_def upd_vl_stage_def)
  have "get_profile_obj x ?t = get_profile_obj x s" "dev_of E ?t d = dev_of E s d" for x d
    by (simp_all add: dev_of_def the_ctx_def get_profile_obj_def)
  then have "profile_of E tgt ?t = profile_of E tgt s" by (simp add: profile_of_def Let_def)
  then have pf: "profile_of E tgt ?t = Some pf" using assms(5) by simp
  have "wp (dal_value_lookup_ent_add E tgt ms' ds' tbl) (\<lambda>_ u. os_fault u) ?t"
    using assms(2)
    by (simp add: dal_value_lookup_ent_add_def wp_bind wp_deref wp_get_profile [OF pf] vl_ctx_of_def wp_simps vl_stage_def)
  then show ?thesis by (intro wp_conseq [OF first]) auto
qed

theorem vl_lost_pipeline_dangles_witness:
  "wp (dal_value_lookup_ent_add ref_env ex_tgt (ex_vl_ms [7]) ex_vl_ds 8) (\<lambda>r t. r = BF_OBJECT_NOT_FOUND \<and>
    wp (dal_value_lookup_ent_add ref_env ex_tgt (ex_vl_ms [7]) ex_vl_ds 8) (\<lambda>_ u. os_fault u) t) ex_vl_lost"
proof -
  obtain pf where pf: "profile_of ref_env ex_tgt ex_vl_lost = Some pf"
    using ex_vl_dev(3) by (simp add: profile_of_def ex_tgt_def) (simp add: ex_vl_lost_def ex_vl_defs get_profile_obj_def)
  show ?thesis
    by (rule vl_lost_pipeline_dangles [where ctx = "vl_ctx ex_vl" and st = ex_vl_stage, OF _ _ _ _ pf])
      (simp_all add: ex_vl_lost_def vl_ctx_of_def ex_vl_defs)
qed

section \<open>Exact-match keys\<close>








section \<open>Locks\<close>

lemma locked_call: "bal m \<Longrightarrow> wp m (\<lambda>_ t. os_fault t \<or> os_locks t = os_locks s) s"
  by (rule wp_runI) (rule balD)

text \<open>C34. Every call on a value-lookup table gives back the locks it took, whatever it returns, unless the program
  faults.\<close>

theorem vl_calls_restore_locks:
  fixes s :: "('m, 'i, 'h) world"
  assumes "unlock_ok E"
  shows "wp (pipe_mgr_value_lookup_ent_add E h tgt hdl ms ds) (\<lambda>_ t. os_fault t \<or> os_locks t = os_locks s) s \<and>
    wp (pipe_mgr_value_lookup_ent_del E h tgt hdl ms) (\<lambda>_ t. os_fault t \<or> os_locks t = os_locks s) s \<and>
    wp (pipe_mgr_value_lookup_ent_get E h tgt hdl eh out) (\<lambda>_ t. os_fault t \<or> os_locks t = os_locks s) s \<and>
    wp (pipe_mgr_value_lookup_ent_get_first E h tgt hdl) (\<lambda>_ t. os_fault t \<or> os_locks t = os_locks s) s \<and>
    wp (pipe_mgr_value_lookup_ent_get_next_n_by_key E h tgt hdl) (\<lambda>_ t. os_fault t \<or> os_locks t = os_locks s) s \<and>
    wp (pipe_mgr_value_lookup_get_first_ent_handle E h tgt hdl p) (\<lambda>_ t. os_fault t \<or> os_locks t = os_locks s) s \<and>
    wp (pipe_mgr_value_lookup_get_next_n_ent_handle E h tgt hdl eh n p) (\<lambda>_ t. os_fault t \<or> os_locks t = os_locks s) s \<and>
    wp (pipe_mgr_value_lookup_match_spec_to_ent_hdl E h tgt hdl ms) (\<lambda>_ t. os_fault t \<or> os_locks t = os_locks s) s"
  unfolding pipe_mgr_value_lookup_ent_add_def pipe_mgr_value_lookup_ent_del_def pipe_mgr_value_lookup_ent_get_def
    pipe_mgr_value_lookup_ent_get_first_def pipe_mgr_value_lookup_ent_get_next_n_by_key_def
    pipe_mgr_value_lookup_get_first_ent_handle_def pipe_mgr_value_lookup_get_next_n_ent_handle_def
    pipe_mgr_value_lookup_match_spec_to_ent_hdl_def
  by (intro conjI locked_call bal_with_api [OF assms(1)] vl_bodies_bal vl_reads_bal vl_bodies_frame vl_reads_frame vl_iter_rules
      dal_vl_calls assms)

theorem vl_calls_restore_locks_witness:
  "wp (pipe_mgr_value_lookup_ent_add ref_env 0 ex_tgt 3 (ex_vl_ms [0, 7]) ex_vl_ds)
     (\<lambda>_ t. os_fault t \<or> os_locks t = os_locks ex_vl_sys) ex_vl_sys"
  using vl_calls_restore_locks [OF ref_unlock_ok, where s = ex_vl_sys] by blast

end
