(* ===== verification/Tdi.thy ===== *)
theory Tdi
  imports Sel
begin

text \<open>
  The table objects of the driver interface that stand for action profiles and selectors
  (\<^verbatim>\<open>src/tdi_rt/tdi_p4/tdi_p4_table_impl.cpp\<close>, classes \<^verbatim>\<open>ActionProfile\<close> and \<^verbatim>\<open>Selector\<close>), on top of the public calls of the
  pipeline manager, to which \<^verbatim>\<open>PipeMgrIntf\<close> passes its arguments on. A call has the handle of the session and the device
  target that \<^verbatim>\<open>getTargetVals\<close> reads; the status codes of the interface are those of the manager. An uncaught exception of
  the C++ library ends the program, like a null pointer.
\<close>

section \<open>Objects\<close>

text \<open>A table: its id, its handle in the pipeline manager, the ids of its actions by their handles and the handles of the
  actions that have one by their ids.\<close>

record tdi_table =
  tt_id :: u32
  tt_handle :: u32
  tt_actions :: "u32 \<rightharpoonup> u32"
  tt_act_fns :: "u32 \<rightharpoonup> u32"

text \<open>A selector refers to its action profile.\<close>

record tdi_selector = tdi_table +
  ts_act_prof :: tdi_table

text \<open>The data of a member: the table it was made for, the action, its specification.\<close>

record ActionProfileData =
  apd_table :: tdi_table
  apd_action_id :: u32
  apd_action_spec :: pipe_action_spec

text \<open>The data of a group.\<close>

record SelectorTableData =
  std_table_id :: u32
  std_members :: "u32 list"
  std_member_status :: "bool list"
  std_max_grp_size :: u32

section \<open>Action profiles\<close>

text \<open>The handle of the action that the data are for.\<close>

definition ActionProfileData_getActFnHdl :: "ActionProfileData \<Rightarrow> u32" where
  "ActionProfileData_getActFnHdl data = (case tt_act_fns (apd_table data) (apd_action_id data) of None \<Rightarrow> 0 | Some hdl \<Rightarrow> hdl)"

definition ActionProfile_entryAdd where
  "ActionProfile_entryAdd E sess dev_tgt tbl mbr_id data =
     (if mbr_id = 0 then ret BF_INVALID_ARG
      else do {
        (status, _) \<leftarrow> pipe_mgr_adt_ent_add E sess dev_tgt (tt_handle tbl) (ActionProfileData_getActFnHdl data) mbr_id (apd_action_spec data);
        ret status })"

text \<open>The default entry is the member with the id 0.\<close>

definition ActionProfile_defaultEntrySet where
  "ActionProfile_defaultEntrySet E sess dev_tgt tbl data = do {
     (status, _) \<leftarrow> pipe_mgr_adt_default_ent_add E sess dev_tgt (tt_handle tbl) (ActionProfileData_getActFnHdl data) 0 (apd_action_spec data);
     ret status }"

text \<open>Reading from the hardware is tried again in software. The id of an action that the table does not have is an exception.\<close>

definition ActionProfile_entryGet_internal where
  "ActionProfile_entryGet_internal E sess dev_tgt tbl from_hw entry_hdl data = do {
     (status, ad, act_fn_hdl) \<leftarrow>
       pipe_mgr_get_action_data_entry E sess (tt_handle tbl) dev_tgt entry_hdl (act_data (apd_action_spec data));
     (status, ad, act_fn_hdl) \<leftarrow> (if status = BF_OBJECT_NOT_FOUND \<and> from_hw
       then pipe_mgr_get_action_data_entry E sess (tt_handle tbl) dev_tgt entry_hdl ad
       else ret (status, ad, act_fn_hdl));
     let data = data\<lparr>apd_action_spec := (apd_action_spec data)\<lparr>act_data := ad\<rparr>\<rparr>;
     if status \<noteq> BF_SUCCESS then ret (status, data)
     else deref (\<lambda>_. Option.bind act_fn_hdl (tt_actions tbl)) (BF_UNEXPECTED, data) (\<lambda>action_id.
       ret (BF_SUCCESS, data\<lparr>apd_action_id := action_id\<rparr>)) }"

definition ActionProfile_defaultEntryGet where
  "ActionProfile_defaultEntryGet E sess dev_tgt tbl from_hw data =
     (if tt_id (apd_table data) \<noteq> tt_id tbl then ret (BF_INVALID_ARG, data)
      else do {
        (status, out) \<leftarrow> pipe_mgr_adt_default_ent_hdl_get E sess dev_tgt (tt_handle tbl) 0;
        if status \<noteq> BF_SUCCESS then ret (BF_OBJECT_NOT_FOUND, data)
        else deref (\<lambda>_. ao_adt_ent_hdl out) (BF_UNEXPECTED, data) (\<lambda>adt_ent_hdl.
          ActionProfile_entryGet_internal E sess dev_tgt tbl from_hw adt_ent_hdl data) })"

definition ActionProfile_getHdlFromMbrId where
  "ActionProfile_getHdlFromMbrId E sess dev_tgt tbl mbr_id = do {
     (status, out) \<leftarrow> pipe_mgr_adt_ent_hdl_get E sess dev_tgt (tt_handle tbl) mbr_id;
     ret (status, ao_adt_ent_hdl out) }"

definition ActionProfile_getMbrIdFromHndl where
  "ActionProfile_getMbrIdFromHndl E sess dev_tgt tbl adt_ent_hdl = do {
     (status, out) \<leftarrow> pipe_mgr_adt_mbr_id_get E sess dev_tgt (tt_handle tbl) adt_ent_hdl;
     ret (status, ao_mbr_id out) }"

text \<open>The action of a member is read from the data even when there are none.\<close>

definition ActionProfile_getMbrState where
  "ActionProfile_getMbrState E sess dev_tgt tbl mbr_id ap_ent_data = do {
     (status, out) \<leftarrow> pipe_mgr_adt_ent_data_get E sess dev_tgt (tt_handle tbl) mbr_id;
     let ent_data = (case ao_ent_data out of None \<Rightarrow> ap_ent_data | Some d \<Rightarrow> d);
     ret (status, ad_act_fn_hdl ent_data, ao_adt_ent_hdl out, ent_data) }"

text \<open>The manager does not implement the modification of members (\<^verbatim>\<open>pipe_mgr_adt_ent_set\<close> in \<^verbatim>\<open>stubs/pipe_mgr_intf.c\<close>).\<close>

definition pipe_mgr_adt_ent_set :: "('m, 'i, 'h, bf_status) cmd" where
  "pipe_mgr_adt_ent_set = ret BF_SUCCESS"

definition ActionProfile_entryMod where
  "ActionProfile_entryMod E sess dev_tgt tbl mbr_id data = do {
     (status, _) \<leftarrow> pipe_mgr_adt_ent_hdl_get E sess dev_tgt (tt_handle tbl) mbr_id;
     if status \<noteq> BF_SUCCESS then ret BF_OBJECT_NOT_FOUND
     else pipe_mgr_adt_ent_set }"

definition ActionProfile_entryDel where
  "ActionProfile_entryDel E sess dev_tgt tbl mbr_id = do {
     (status, out) \<leftarrow> pipe_mgr_adt_ent_hdl_get E sess dev_tgt (tt_handle tbl) mbr_id;
     if status \<noteq> BF_SUCCESS then ret BF_OBJECT_NOT_FOUND
     else deref (\<lambda>_. ao_adt_ent_hdl out) BF_UNEXPECTED (\<lambda>adt_ent_hdl.
       pipe_mgr_adt_ent_del E sess dev_tgt (tt_handle tbl) adt_ent_hdl) }"

text \<open>The loop that empties a table: the first entry is deleted while there is one. The status is that of the last
  deletion. The loop may run forever, which is the result \<open>None\<close>.\<close>

partial_function (option) clear_loop ::
  "('s, bf_status \<times> u32) state \<Rightarrow> (u32 \<Rightarrow> ('s, bf_status) state) \<Rightarrow> bf_status \<Rightarrow> 's \<Rightarrow> (bf_status \<times> 's) option" where
  "clear_loop get_first del status s = (case run_state get_first s of ((first, hdl), s) \<Rightarrow>
     if first \<noteq> BF_SUCCESS then Some (status, s)
     else case run_state (del hdl) s of (status, s) \<Rightarrow>
       if status \<noteq> BF_SUCCESS then Some (status, s) else clear_loop get_first del status s)"

definition ActionProfile_clear where
  "ActionProfile_clear E sess dev_tgt tbl = clear_loop (pipe_mgr_get_first_entry_handle E sess (tt_handle tbl) dev_tgt True)
     (pipe_mgr_adt_ent_del E sess dev_tgt (tt_handle tbl)) BF_SUCCESS"

definition ActionProfile_entryGet where
  "ActionProfile_entryGet E sess dev_tgt tbl from_hw mbr_id data =
     (if tt_id (apd_table data) \<noteq> tt_id tbl then ret (BF_INVALID_ARG, data)
      else do {
        (status, out) \<leftarrow> pipe_mgr_adt_ent_hdl_get E sess dev_tgt (tt_handle tbl) mbr_id;
        if status \<noteq> BF_SUCCESS then ret (BF_OBJECT_NOT_FOUND, data)
        else deref (\<lambda>_. ao_adt_ent_hdl out) (BF_UNEXPECTED, data) (\<lambda>adt_ent_hdl.
          ActionProfile_entryGet_internal E sess dev_tgt tbl from_hw adt_ent_hdl data) })"

text \<open>The key of a handle; without success the key is as before.\<close>

definition ActionProfile_entryKeyGet where
  "ActionProfile_entryKeyGet E sess dev_tgt tbl entry_handle mbr_id = do {
     (status, out) \<leftarrow> pipe_mgr_adt_mbr_id_get E sess dev_tgt (tt_handle tbl) entry_handle;
     ret (if status \<noteq> BF_SUCCESS then (status, mbr_id)
       else (status, case ao_mbr_id out of None \<Rightarrow> mbr_id | Some m \<Rightarrow> m)) }"

definition ActionProfile_entryHandleGet where
  "ActionProfile_entryHandleGet E sess dev_tgt tbl mbr_id = do {
     (status, out) \<leftarrow> pipe_mgr_adt_ent_hdl_get E sess dev_tgt (tt_handle tbl) mbr_id;
     ret (status, ao_adt_ent_hdl out) }"

definition ActionProfile_entryGet_handle where
  "ActionProfile_entryGet_handle E sess dev_tgt tbl from_hw entry_handle mbr_id data = do {
     (status, mbr_id) \<leftarrow> ActionProfile_entryKeyGet E sess dev_tgt tbl entry_handle mbr_id;
     if status \<noteq> BF_SUCCESS then ret (status, mbr_id, data)
     else do {
       (status, data) \<leftarrow> ActionProfile_entryGet E sess dev_tgt tbl from_hw mbr_id data;
       ret (status, mbr_id, data) }}"

text \<open>Only \<^verbatim>\<open>TDI_OBJECT_NOT_FOUND\<close> ends the search for the first member. After another failure the call goes on with a handle
  that was never written.\<close>

definition ActionProfile_entryGetFirst where
  "ActionProfile_entryGetFirst E sess dev_tgt tbl from_hw mbr_id data =
     (if tt_id (apd_table data) \<noteq> tt_id tbl then ret (BF_INVALID_ARG, mbr_id, data)
      else do {
        (status, first_entry_hdl) \<leftarrow> pipe_mgr_get_first_entry_handle E sess (tt_handle tbl) dev_tgt True;
        if status = BF_OBJECT_NOT_FOUND then ret (status, mbr_id, data)
        else do {
          guard_c (status = BF_SUCCESS);
          (status, out) \<leftarrow> pipe_mgr_adt_mbr_id_get E sess dev_tgt (tt_handle tbl) first_entry_hdl;
          if status \<noteq> BF_SUCCESS then ret (status, mbr_id, data)
          else do {
            (status, data) \<leftarrow> ActionProfile_entryGet_internal E sess dev_tgt tbl from_hw first_entry_hdl data;
            if status \<noteq> BF_SUCCESS then ret (status, mbr_id, data)
            else ret (BF_SUCCESS, case ao_mbr_id out of None \<Rightarrow> mbr_id | Some m \<Rightarrow> m, data) }}})"

text \<open>The next members, into the pairs of keys and data of the client. A pair whose data could not be read loses its data object.
  The result has the number of pairs that were filled.\<close>

primrec actprof_next_loop where
  "actprof_next_loop E sess dev_tgt tbl from_hw hdls [] i pairs = ret (BF_SUCCESS, Some i, pairs)"
| "actprof_next_loop E sess dev_tgt tbl from_hw hdls (_ # is) i pairs = do {
     (status, out) \<leftarrow> pipe_mgr_adt_mbr_id_get E sess dev_tgt (tt_handle tbl) (hdls ! i);
     if status \<noteq> BF_SUCCESS then ret (BF_SUCCESS, Some i, pairs)
     else deref (\<lambda>_. if i < length pairs then snd (pairs ! i) else None) (BF_UNEXPECTED, None, pairs) (\<lambda>data.
       if tt_id (apd_table data) \<noteq> tt_id tbl then ret (BF_INVALID_ARG, None, pairs)
       else do {
         (status, data) \<leftarrow> ActionProfile_entryGet_internal E sess dev_tgt tbl from_hw (hdls ! i) data;
         actprof_next_loop E sess dev_tgt tbl from_hw hdls is (Suc i) (pairs[i :=
           (case ao_mbr_id out of None \<Rightarrow> fst (pairs ! i) | Some m \<Rightarrow> m, if status \<noteq> BF_SUCCESS then None else Some data)]) }) }"

text \<open>The buffer for the handles starts with zeros; the manager writes handles up to an end mark.\<close>

definition next_handles :: "nat \<Rightarrow> u32 list \<Rightarrow> u32 list" where
  "next_handles n hdls = take n (hdls @ replicate n 0)"

definition ActionProfile_entryGetNextN where
  "ActionProfile_entryGetNextN E sess dev_tgt tbl from_hw mbr_id n pairs = do {
     (status, out) \<leftarrow> pipe_mgr_adt_ent_hdl_get E sess dev_tgt (tt_handle tbl) mbr_id;
     if status \<noteq> BF_SUCCESS then ret (BF_OBJECT_NOT_FOUND, None, pairs)
     else deref (\<lambda>_. ao_adt_ent_hdl out) (BF_UNEXPECTED, None, pairs) (\<lambda>hdl. do {
       (status, hdls) \<leftarrow> pipe_mgr_get_next_entry_handles E sess (tt_handle tbl) dev_tgt (sint hdl) (int n) (0 < n);
       if status = BF_OBJECT_NOT_FOUND then ret (BF_SUCCESS, Some 0, pairs)
       else actprof_next_loop E sess dev_tgt tbl from_hw (next_handles n hdls) [0..<n] 0 pairs }) }"

section \<open>Selectors\<close>

definition Selector_getActMbrIdFromHndl where
  "Selector_getActMbrIdFromHndl E sess dev_tgt sel adt_ent_hdl =
     ActionProfile_getMbrIdFromHndl E sess dev_tgt (ts_act_prof sel) adt_ent_hdl"

text \<open>The handles of the members. The status of each member is copied as well, although the manager does not look at it.\<close>

primrec member_handles where
  "member_handles E sess dev_tgt act_tbl [] member_status = ret (BF_SUCCESS, [])"
| "member_handles E sess dev_tgt act_tbl (m # members) member_status = do {
     (status, hdl) \<leftarrow> ActionProfile_getHdlFromMbrId E sess dev_tgt act_tbl m;
     if status \<noteq> BF_SUCCESS then ret (BF_INVALID_ARG, [])
     else do {
       guard_c (member_status \<noteq> []);
       (status, hdls) \<leftarrow> member_handles E sess dev_tgt act_tbl members (tl member_status);
       ret (status, (case hdl of None \<Rightarrow> 0 | Some h \<Rightarrow> h) # hdls) }}"

text \<open>A new group: the members are looked up first; a group whose members cannot be set is deleted again.\<close>

definition selector_add where
  "selector_add E sess dev_tgt sel sel_grp_id data =
     (let members = std_members data in
      if length members \<noteq> length (std_member_status data) then ret BF_INVALID_ARG
      else if length members > unat (std_max_grp_size data) then ret BF_INVALID_ARG
      else do {
        (status, hdls) \<leftarrow> member_handles E sess dev_tgt (ts_act_prof sel) members (std_member_status data);
        if status \<noteq> BF_SUCCESS then ret BF_INVALID_ARG
        else do {
          (status, sel_grp_hdl) \<leftarrow> pipe_mgr_sel_grp_add E sess dev_tgt (tt_handle sel) sel_grp_id (std_max_grp_size data);
          if status \<noteq> BF_SUCCESS then ret status
          else deref (\<lambda>_. sel_grp_hdl) BF_UNEXPECTED (\<lambda>sel_grp_hdl. do {
            status \<leftarrow> pipe_mgr_sel_grp_mbrs_set E sess dev_tgt (tt_handle sel) sel_grp_hdl (length members) hdls;
            if status \<noteq> BF_SUCCESS then do {
              pipe_mgr_sel_grp_del E sess dev_tgt (tt_handle sel) sel_grp_hdl;
              ret status }
            else ret status }) }})"

definition Selector_entryAdd where
  "Selector_entryAdd E sess dev_tgt sel sel_grp_id data = selector_add E sess dev_tgt sel sel_grp_id data"

definition Selector_defaultEntrySet where
  "Selector_defaultEntrySet E sess dev_tgt sel data = selector_add E sess dev_tgt sel 0 data"

definition Selector_entryMod where
  "Selector_entryMod E sess dev_tgt sel sel_grp_id data = do {
     (status, out) \<leftarrow> pipe_mgr_sel_grp_hdl_get E sess dev_tgt (tt_handle sel) sel_grp_id;
     if status \<noteq> BF_SUCCESS then ret status
     else do {
       (status, hdls) \<leftarrow> member_handles E sess dev_tgt (ts_act_prof sel) (std_members data) (std_member_status data);
       if status \<noteq> BF_SUCCESS then ret BF_INVALID_ARG
       else deref (\<lambda>_. so_sel_grp_hdl out) BF_UNEXPECTED (\<lambda>sel_grp_hdl.
         pipe_mgr_sel_grp_mbrs_set E sess dev_tgt (tt_handle sel) sel_grp_hdl (length (std_members data)) hdls) }}"

definition Selector_entryDel where
  "Selector_entryDel E sess dev_tgt sel sel_grp_id = do {
     (status, out) \<leftarrow> pipe_mgr_sel_grp_hdl_get E sess dev_tgt (tt_handle sel) sel_grp_id;
     if status \<noteq> BF_SUCCESS then ret status
     else deref (\<lambda>_. so_sel_grp_hdl out) BF_UNEXPECTED (\<lambda>sel_grp_hdl.
       pipe_mgr_sel_grp_del E sess dev_tgt (tt_handle sel) sel_grp_hdl) }"

definition Selector_clear where
  "Selector_clear E sess dev_tgt sel = clear_loop (pipe_mgr_get_first_entry_handle E sess (tt_handle sel) dev_tgt True)
     (pipe_mgr_sel_grp_del E sess dev_tgt (tt_handle sel)) BF_SUCCESS"

text \<open>The ids of the first members of a buffer of handles.\<close>

primrec member_ids where
  "member_ids E sess dev_tgt sel [] = ret (BF_SUCCESS, [])"
| "member_ids E sess dev_tgt sel (h # hdls) = do {
     (status, member_id) \<leftarrow> Selector_getActMbrIdFromHndl E sess dev_tgt sel h;
     if status \<noteq> BF_SUCCESS then ret (BF_INVALID_ARG, [])
     else do {
       (status, ids) \<leftarrow> member_ids E sess dev_tgt sel hdls;
       ret (status, (case member_id of None \<Rightarrow> 0 | Some m \<Rightarrow> m) # ids) }}"

definition Selector_entryGet_internal where
  "Selector_entryGet_internal E sess dev_tgt sel grp_id data = do {
     (status, out) \<leftarrow> pipe_mgr_sel_grp_hdl_get E sess dev_tgt (tt_handle sel) grp_id;
     if status \<noteq> BF_SUCCESS then ret (status, data)
     else deref (\<lambda>_. so_sel_grp_hdl out) (BF_UNEXPECTED, data) (\<lambda>sel_grp_hdl. do {
       (status, max_out) \<leftarrow> pipe_mgr_get_sel_grp_max_size E sess dev_tgt (tt_handle sel) sel_grp_hdl;
       if status \<noteq> BF_SUCCESS then ret (status, data)
       else do {
         (status, count) \<leftarrow> pipe_mgr_get_sel_grp_mbr_count E sess dev_tgt (tt_handle sel) sel_grp_hdl;
         if status \<noteq> BF_SUCCESS then ret (status, data)
         else do {
           let n = (case count of None \<Rightarrow> 0 | Some c \<Rightarrow> c);
           (status, members, enabled, populated) \<leftarrow> pipe_mgr_sel_grp_mbrs_get E sess dev_tgt (tt_handle sel) sel_grp_hdl n
             (replicate n 0, replicate n False, 0);
           if status \<noteq> BF_SUCCESS then ret (status, data)
           else do {
             (status, ids) \<leftarrow> member_ids E sess dev_tgt sel (take (unat populated) members);
             if status \<noteq> BF_SUCCESS then ret (status, data)
             else ret (BF_SUCCESS, data\<lparr>std_members := ids, std_member_status := take (unat populated) enabled,
               std_max_grp_size := (case so_max_size max_out of None \<Rightarrow> 0 | Some m \<Rightarrow> m)\<rparr>) }}}}) }"

definition Selector_entryGet where
  "Selector_entryGet E sess dev_tgt sel grp_id data =
     (if std_table_id data \<noteq> tt_id sel then ret (BF_INVALID_ARG, data)
      else Selector_entryGet_internal E sess dev_tgt sel grp_id data)"

definition Selector_defaultEntryGet where
  "Selector_defaultEntryGet E sess dev_tgt sel data =
     (if std_table_id data \<noteq> tt_id sel then ret (BF_INVALID_ARG, data)
      else Selector_entryGet_internal E sess dev_tgt sel 0 data)"

definition Selector_entryKeyGet where
  "Selector_entryKeyGet E sess dev_tgt sel entry_handle grp_id = do {
     (status, out) \<leftarrow> pipe_mgr_sel_grp_id_get E sess dev_tgt (tt_handle sel) entry_handle;
     ret (if status \<noteq> BF_SUCCESS then (status, grp_id)
       else (status, case so_sel_grp_id out of None \<Rightarrow> grp_id | Some g \<Rightarrow> g)) }"

definition Selector_getGrpHdl where
  "Selector_getGrpHdl E sess dev_tgt sel sel_grp_id = do {
     (status, out) \<leftarrow> pipe_mgr_sel_grp_hdl_get E sess dev_tgt (tt_handle sel) sel_grp_id;
     ret (status, so_sel_grp_hdl out) }"

definition Selector_getGrpIdFromHndl where
  "Selector_getGrpIdFromHndl E sess dev_tgt sel sel_grp_hdl = do {
     (status, out) \<leftarrow> pipe_mgr_sel_grp_id_get E sess dev_tgt (tt_handle sel) sel_grp_hdl;
     ret (status, so_sel_grp_id out) }"

definition Selector_entryHandleGet where
  "Selector_entryHandleGet E sess dev_tgt sel sel_grp_id = do {
     (status, out) \<leftarrow> pipe_mgr_sel_grp_hdl_get E sess dev_tgt (tt_handle sel) sel_grp_id;
     ret (status, so_sel_grp_hdl out) }"

definition Selector_getOneMbr where
  "Selector_getOneMbr E sess dev_tgt sel sel_grp_hdl =
     pipe_mgr_get_first_group_member E sess (tt_handle sel) dev_tgt sel_grp_hdl"

definition Selector_entryGet_handle where
  "Selector_entryGet_handle E sess dev_tgt sel entry_handle grp_id data = do {
     (status, grp_id) \<leftarrow> Selector_entryKeyGet E sess dev_tgt sel entry_handle grp_id;
     if status \<noteq> BF_SUCCESS then ret (status, grp_id, data)
     else do {
       (status, data) \<leftarrow> Selector_entryGet E sess dev_tgt sel grp_id data;
       ret (status, grp_id, data) }}"

definition Selector_entryGetFirst where
  "Selector_entryGetFirst E sess dev_tgt sel grp_id data =
     (if std_table_id data \<noteq> tt_id sel then ret (BF_INVALID_ARG, grp_id, data)
      else do {
        (status, sel_grp_hdl) \<leftarrow> pipe_mgr_get_first_entry_handle E sess (tt_handle sel) dev_tgt True;
        if status \<noteq> BF_SUCCESS then ret (status, grp_id, data)
        else Selector_entryGet_handle E sess dev_tgt sel sel_grp_hdl grp_id data })"

primrec selector_next_loop where
  "selector_next_loop E sess dev_tgt sel hdls [] i pairs = ret (BF_SUCCESS, Some i, pairs)"
| "selector_next_loop E sess dev_tgt sel hdls (_ # is) i pairs =
     (if hdls ! i = (-1 :: u32) then ret (BF_SUCCESS, Some i, pairs)
      else deref (\<lambda>_. if i < length pairs then snd (pairs ! i) else None) (BF_UNEXPECTED, None, pairs) (\<lambda>data.
        if std_table_id data \<noteq> tt_id sel then ret (BF_INVALID_ARG, None, pairs)
        else do {
          (status, grp_id, data) \<leftarrow> Selector_entryGet_handle E sess dev_tgt sel (hdls ! i) (fst (pairs ! i)) data;
          selector_next_loop E sess dev_tgt sel hdls is (Suc i)
            (pairs[i := (grp_id, if status \<noteq> BF_SUCCESS then None else Some data)]) }))"

definition Selector_entryGetNextN where
  "Selector_entryGetNextN E sess dev_tgt sel sel_grp_id n pairs = do {
     (status, out) \<leftarrow> pipe_mgr_sel_grp_hdl_get E sess dev_tgt (tt_handle sel) sel_grp_id;
     if status \<noteq> BF_SUCCESS then ret (BF_OBJECT_NOT_FOUND, None, pairs)
     else deref (\<lambda>_. so_sel_grp_hdl out) (BF_UNEXPECTED, None, pairs) (\<lambda>hdl. do {
       (status, hdls) \<leftarrow> pipe_mgr_get_next_entry_handles E sess (tt_handle sel) dev_tgt (sint hdl) (int n) (0 < n);
       if status = BF_OBJECT_NOT_FOUND then ret (BF_SUCCESS, Some 0, pairs)
       else selector_next_loop E sess dev_tgt sel (next_handles n hdls) [0..<n] 0 pairs }) }"

end
