(* ===== verification/Tdi_Spec.thy ===== *)
theory Tdi_Spec
  imports Tdi Sel_Calls
begin

text \<open>
  Emptying a table: the contract under which the loop of \<^verbatim>\<open>clear\<close> ends, and that action profiles and selectors satisfy it.
\<close>

declare st_upd.simps [simp del]

section \<open>The contract\<close>

text \<open>Looking for the first entry keeps the invariant and the number of entries; every successful deletion leaves fewer.\<close>

locale emptying =
  fixes get_first :: "('s, bf_status \<times> u32) state"
    and del :: "u32 \<Rightarrow> ('s, bf_status) state"
    and inv :: "'s \<Rightarrow> bool"
    and entries :: "'s \<Rightarrow> nat"
  assumes first_keeps: "inv s \<Longrightarrow> wp get_first (\<lambda>_ t. inv t \<and> entries t = entries s) s"
    and del_shrinks: "inv s \<Longrightarrow> wp (del h) (\<lambda>r t. inv t \<and> (r = BF_SUCCESS \<longrightarrow> entries t < entries s)) s"
begin

text \<open>The loop returns. Success means that the search for a first entry has failed.\<close>

lemma clear_returns:
  "inv s \<Longrightarrow> \<exists>r t. clear_loop get_first del BF_SUCCESS s = Some (r, t) \<and> inv t \<and>
     (if r = BF_SUCCESS then \<exists>u h st. inv u \<and> st \<noteq> BF_SUCCESS \<and> run_state get_first u = ((st, h), t) else True)"
proof (induction "entries s" arbitrary: s rule: less_induct)
  case less
  obtain st h t where first: "run_state get_first s = ((st, h), t)" by (metis prod.exhaust)
  have t: "inv t" "entries t = entries s" using wp_run [OF first first_keeps [OF less.prems]] by simp_all
  obtain r u where del: "run_state (del h) t = (r, u)" by (metis prod.exhaust)
  have u: "inv u" "r = BF_SUCCESS \<Longrightarrow> entries u < entries s"
    using wp_run [OF del del_shrinks [OF t(1)]] t(2) by simp_all
  show ?case
  proof (cases "st = BF_SUCCESS \<and> r = BF_SUCCESS")
    case True
    with less.hyps [OF u(2) u(1)] first del show ?thesis by (subst clear_loop.simps) simp
  next
    case False
    with less.prems first del t(1) u(1) show ?thesis by (subst clear_loop.simps) auto
  qed
qed

end

text \<open>Running the loop: a round, and its end.\<close>

lemma clear_loop_round:
  assumes "wp get_first (\<lambda>(st, h) t. st = BF_SUCCESS \<and> wp (del h) (\<lambda>r u. r = BF_SUCCESS \<and>
    (\<exists>v. clear_loop get_first del BF_SUCCESS u = Some (BF_SUCCESS, v) \<and> P v)) t) s"
  shows "\<exists>v. clear_loop get_first del st s = Some (BF_SUCCESS, v) \<and> P v"
  using assms by (subst clear_loop.simps) (auto simp: wp_def split: prod.splits)

lemma clear_loop_end:
  assumes "wp get_first (\<lambda>(st, h) t. st \<noteq> BF_SUCCESS \<and> P t) s"
  shows "\<exists>v. clear_loop get_first del BF_SUCCESS s = Some (BF_SUCCESS, v) \<and> P v"
  using assms by (subst clear_loop.simps) (auto simp: wp_def split: prod.splits)

section \<open>Looking for the first entry\<close>

lemma rest_get_table [keeps_intros]: "keeps os_rest (get_table h hdl ps)"
  by (induction ps) (auto intro!: keeps_intros)

lemma rest_first_body: "keeps os_rest (get_first_entry_handle_body E hdl tgt nn)"
  by (auto simp: get_first_entry_handle_body_def with_table_def pipe_mgr_ctx_get_table_def pipe_mgr_get_profile_ctx_def
      pipe_mgr_get_profile_def pipe_mgr_get_dev_def get_pipe_mgr_ctx_def pipe_mgr_table_get_first_def lock_defs
      intro!: keeps_intros)

lemma rest_first: "keeps os_rest (pipe_mgr_get_first_entry_handle E sh hdl tgt nn)"
  unfolding pipe_mgr_get_first_entry_handle_def with_api_def
  by (rule keeps_intros keeps_rest_bracket keeps_rest rest_first_body | simp)+

lemma rest_ids: "os_rest t = os_rest s \<Longrightarrow> mat_ids t = mat_ids s" "os_rest t = os_rest s \<Longrightarrow> api_frame t = api_frame s"
  by (unfold os_rest_iff, (erule_tac ssubst, simp)+)

section \<open>Action profiles\<close>

lemma keeps_ids_adt_del: "keeps mat_ids (adt_del_body E tgt hdl h)"
  unfolding adt_del_body_def adt_unfile_def cleanup_tbl_unlock_def adt_free_id_def pipe_mgr_adt_delete_entry_data_def
    dal_delete_adt_table_entry_data_def with_table_def lock_defs
  by (rule keeps_intros ids_dal [OF dal_adt_calls(1)] ids_dal [OF dal_adt_calls(2)] ids_dal [OF dal_adt_calls(3)] | simp)+

text \<open>What has happened to an action profile when some of its members have been deleted: members that a group refers to
  are there, no member has changed, no other table has, and the locks are as they were unless the program faulted.\<close>

definition adt_shrunk where
  "adt_shrunk E A tgt hdl tbl s t \<longleftrightarrow> map_ok E \<and> id_ok E \<and> unlock_ok E \<and> tbl \<in> A \<and>
     table_of E tgt hdl PIPE_MGR_TABLE_TYPE_ADT s = Some tbl \<and> adt_inv E A t \<and> api_frame t = api_frame s \<and> mat_ids t = mat_ids s \<and>
     (os_fault t \<or> os_locks t = os_locks s) \<and> adt_mbrs E t tbl \<subseteq>\<^sub>m adt_mbrs E s tbl \<and>
     (\<forall>h e. adt_mbrs E s tbl h = Some e \<longrightarrow> ae_reference_count e \<noteq> 0 \<longrightarrow> adt_mbrs E t tbl h = Some e) \<and>
     (\<forall>u\<in>A. u \<noteq> tbl \<longrightarrow> adt_mbrs E t u = adt_mbrs E s u)"

lemma first_bal: "unlock_ok E \<Longrightarrow> bal (pipe_mgr_get_first_entry_handle E sh hdl tgt nn)"
  unfolding pipe_mgr_get_first_entry_handle_def by (rule bal_with_api) (rule mat_first.body_bal mat_first.body_frame | assumption)+

lemma adt_first_shrunk:
  assumes "adt_shrunk E A tgt hdl tbl s t"
  shows "wp (pipe_mgr_get_first_entry_handle E sh hdl tgt True)
    (\<lambda>_ u. adt_shrunk E A tgt hdl tbl s u \<and> card (dom (adt_mbrs E u tbl)) = card (dom (adt_mbrs E t tbl))) t"
proof (rule wp_runI)
  fix r u assume run: "run_state (pipe_mgr_get_first_entry_handle E sh hdl tgt True) t = (r, u)"
  have rest: "os_rest u = os_rest t" by (rule keepsD [OF rest_first run])
  have E: "unlock_ok E" using assms by (simp add: adt_shrunk_def)
  have locks: "os_fault u \<or> os_locks u = os_locks t" "os_fault t \<longrightarrow> os_fault u"
    using balD [OF first_bal [OF E] run] presD [OF bal_fault [OF first_bal [OF E]] _ run] by auto
  have v: "adt_inv E A u = adt_inv E A t" "adt_mbrs E u = adt_mbrs E t"
    using adt_v_same [OF adt_v_rest [OF rest], of E] by auto
  show "adt_shrunk E A tgt hdl tbl s u \<and> card (dom (adt_mbrs E u tbl)) = card (dom (adt_mbrs E t tbl))"
    using assms locks v rest_ids [OF rest] by (auto simp: adt_shrunk_def)
qed

lemma adt_del_shrunk:
  assumes "adt_shrunk E A tgt hdl tbl s t"
  shows "wp (pipe_mgr_adt_ent_del E sh tgt hdl h) (\<lambda>r u. adt_shrunk E A tgt hdl tbl s u \<and>
    (r = BF_SUCCESS \<longrightarrow> card (dom (adt_mbrs E u tbl)) < card (dom (adt_mbrs E t tbl)))) t"
proof (rule wp_runI)
  fix r u assume run: "run_state (pipe_mgr_adt_ent_del E sh tgt hdl h) t = (r, u)"
  have E: "map_ok E" "id_ok E" "unlock_ok E" and inv: "adt_inv E A t" "tbl \<in> A" and fr: "api_frame t = api_frame s" "mat_ids t = mat_ids s"
    using assms by (auto simp: adt_shrunk_def)
  have tb: "table_of E tgt hdl PIPE_MGR_TABLE_TYPE_ADT t = Some tbl"
    using table_of_ids [OF fr, of E tgt hdl] assms by (simp add: adt_shrunk_def)
  have old: "adt_mbrs E t tbl \<subseteq>\<^sub>m adt_mbrs E s tbl"
      "\<And>k x. adt_mbrs E s tbl k = Some x \<Longrightarrow> ae_reference_count x \<noteq> 0 \<Longrightarrow> adt_mbrs E t tbl k = Some x"
      "\<forall>v\<in>A. v \<noteq> tbl \<longrightarrow> adt_mbrs E t v = adt_mbrs E s v" "table_of E tgt hdl PIPE_MGR_TABLE_TYPE_ADT s = Some tbl"
      "os_fault t \<or> os_locks t = os_locks s" "api_frame t = api_frame s" "mat_ids t = mat_ids s"
    using assms unfolding adt_shrunk_def by blast+
  have res: "adt_del_result E A tbl h t r u" by (rule wp_run [OF run adt_del_api [OF E inv tb]])
  have frame: "api_frame u = api_frame t" "mat_ids u = mat_ids t"
    using keepsD [OF adt_del.frame_kept run [unfolded pipe_mgr_adt_ent_del_def]]
      keepsD [OF keeps_ids_api [OF keeps_ids_adt_del] run [unfolded pipe_mgr_adt_ent_del_def]] by auto
  have bal: "bal (pipe_mgr_adt_ent_del E sh tgt hdl h)"
    unfolding pipe_mgr_adt_ent_del_def by (rule bal_with_api [OF E(3) adt_del.body_bal [OF E(3)] adt_del.body_frame])
  have locks: "os_fault u \<or> os_locks u = os_locks t" "os_fault t \<longrightarrow> os_fault u"
    using balD [OF bal run] presD [OF bal_fault [OF bal] _ run] by auto
  have fin: "finite (dom (adt_mbrs E t tbl))" by (rule finite_subset [OF subset_UNIV]) simp
  show "adt_shrunk E A tgt hdl tbl s u \<and>
    (r = BF_SUCCESS \<longrightarrow> card (dom (adt_mbrs E u tbl)) < card (dom (adt_mbrs E t tbl)))"
  proof (cases "r = BF_SUCCESS")
    case True
    with res obtain e where del: "adt_inv E A u" "adt_mbrs E t tbl h = Some e" "ae_reference_count e = 0"
        "adt_mbrs E u tbl = (adt_mbrs E t tbl)(h := None)" "\<forall>v\<in>A. v \<noteq> tbl \<longrightarrow> adt_mbrs E u v = adt_mbrs E t v"
      by (auto simp: adt_del_result_def adt_deleted_def)
    have "dom (adt_mbrs E u tbl) = dom (adt_mbrs E t tbl) - {h}" using del(4) by auto
    then have "card (dom (adt_mbrs E u tbl)) < card (dom (adt_mbrs E t tbl))"
      using fin del(2) by (metis card_Diff1_less domI)
    moreover have "adt_mbrs E u tbl \<subseteq>\<^sub>m adt_mbrs E s tbl"
      using old(1) unfolding del(4) map_le_def by auto
    moreover have "adt_mbrs E u tbl k = Some x" if "adt_mbrs E s tbl k = Some x" "ae_reference_count x \<noteq> 0" for k x
      using old(2) that del(2,3) unfolding del(4) by auto
    moreover have "\<forall>v\<in>A. v \<noteq> tbl \<longrightarrow> adt_mbrs E u v = adt_mbrs E s v" using old(3) del(5) by simp
    ultimately show ?thesis using old(4-) del(1) locks frame E inv(2) unfolding adt_shrunk_def by auto
  next
    case False
    with res have "adt_inv E A u" "\<forall>v\<in>A. adt_mbrs E u v = adt_mbrs E t v"
      by (auto simp: adt_del_result_def adt_unchanged_def)
    with old locks frame False inv(2) E show ?thesis unfolding adt_shrunk_def by auto
  qed
qed

interpretation actprof: emptying "pipe_mgr_get_first_entry_handle E sh hdl tgt True" "pipe_mgr_adt_ent_del E sh tgt hdl"
  "adt_shrunk E A tgt hdl tbl s" "\<lambda>t. card (dom (adt_mbrs E t tbl))"
  for E sh hdl tgt A tbl s
  by unfold_locales (rule adt_first_shrunk adt_del_shrunk, assumption)+

text \<open>On a table that can be used, the search for a first member fails only when there is none.\<close>

lemma table_of_mat: "table_of E tgt hdl PIPE_MGR_TABLE_TYPE_MAT s = table_of E tgt hdl PIPE_MGR_TABLE_TYPE_ADT s"
  by (cases "dev_of E s (device_id tgt) = NULL") (simp_all add: table_of_def Let_def)

lemma adt_first_ready:
  assumes E: "map_iter_ok E" and ready: "adt_ready E sh tgt hdl tbl A s" and store: "map_option snd (mat_ids s tbl) = Some True"
    and mbr: "adt_mbrs E s tbl h = Some e"
  shows "wp (pipe_mgr_get_first_entry_handle E sh hdl tgt True) (\<lambda>r _. fst r = BF_SUCCESS) s"
proof -
  from ready have api: "api_ready E sh tgt s" and inv: "adt_inv E A s" "tbl \<in> A"
    and tbl: "table_of E tgt hdl PIPE_MGR_TABLE_TYPE_MAT s = Some tbl" and free: "os_locks s (TBL_LOCK tbl) = Free"
    by (auto simp: adt_ready_def table_of_mat)
  obtain ctx where ctx: "mat_ctx_of tbl s = Some ctx" "mc_store_entries ctx" using store by (auto simp: mat_ids_def mat_ctx_of_def)
  obtain F M I where st: "adt_st E s tbl = Some (F, M, I)" using adt_invD [OF inv] by blast
  have F: "F (ucast h) \<noteq> None" using mbr st by (auto simp: adt_mbrs_def bind_eq_Some_conv)
  obtain z where z: "adt_state_of tbl s = Some z" "map_abs E (entry_info_htbl z) = F" using st by (auto simp: adt_st_def)
  have ok: "locks_ok E" using api by (simp add: api_ready_def)
  obtain sts k p where fst: "x_map_get_first E (entry_info_htbl z) = (sts, k, p)" by (metis prod.exhaust)
  have sts: "sts = BF_MAP_OK" using E fst F z(2) unfolding map_iter_ok_def by (metis domIff empty_iff)
  have "wp (with_api E sh tgt (\<lambda>st. (st, 0)) (get_first_entry_handle_body E hdl tgt True))
      (\<lambda>r t. fst r = BF_SUCCESS \<and> (\<exists>c. t = s\<lparr>os_clk := c\<rparr>)) s"
  proof (rule wp_read_api [OF api])
    fix c L assume ent: "entered E sh tgt s L"
    let ?u = "s\<lparr>os_clk := c, os_locks := L\<rparr>"
    have tb: "table_of E tgt hdl PIPE_MGR_TABLE_TYPE_MAT ?u = Some tbl" using table_of_rest [of ?u s E] tbl by simp
    have u: "adt_state_of tbl ?u = Some z" "os_locks ?u (TBL_LOCK tbl) = Free" "mat_ctx_of tbl ?u = Some ctx"
      using z ctx free entered_other [OF ent] by (simp_all add: mat_ctx_of_def)
    obtain ti where ti: "tbl_view PIPE_MGR_TABLE_TYPE_MAT tbl ?u = Some ti" "ti_state ti = z"
      using u(1) by (auto simp: bind_eq_Some_conv)
    have "wp (pipe_mgr_table_get_first E tbl PIPE_MGR_TABLE_TYPE_MAT True)
        (\<lambda>r t. fst r = BF_SUCCESS \<and> (\<exists>d. t = s\<lparr>os_locks := L, os_clk := d\<rparr>)) ?u"
      using ti u(2) ok fst sts
      by (auto simp: pipe_mgr_table_get_first_def wp_simps fun_upd_idem wp_mutex_lock_free Let_def locks_ok_def
          wp_mutex_unlock_held tbl_known_def intro!: exI [of _ "Suc (Suc c)"])
    then show "wp (get_first_entry_handle_body E hdl tgt True) (\<lambda>r t. fst r = BF_SUCCESS \<and> (\<exists>d. t = s\<lparr>os_locks := L, os_clk := d\<rparr>)) ?u"
      unfolding get_first_entry_handle_body_def wp_with_table [OF tb] wp_deref u(3) by (simp add: ctx(2))
  qed
  then show ?thesis unfolding pipe_mgr_get_first_entry_handle_def by (rule wp_conseq) simp
qed

section \<open>Selectors\<close>

text \<open>The handles of the groups.\<close>

definition sel_hdls :: "('m, 'i, 'h, 'z) ext_scheme \<Rightarrow> ('m, 'i, 'h) world \<Rightarrow> ptr \<Rightarrow> u32 set" where
  "sel_hdls E s tbl = {h. \<exists>F R. adt_st E s tbl = Some (F, R) \<and> F (ucast h) \<noteq> None}"

lemma sel_v_hdls: "sel_v E tbl t = sel_v E tbl s \<Longrightarrow> sel_hdls E t tbl = sel_hdls E s tbl"
  by (simp add: sel_hdls_def sel_v_def)

text \<open>What a deletion does to the groups: without success nothing.\<close>

definition sel_deleted where
  "sel_deleted E tbl h s r t \<longleftrightarrow> (if r = BF_SUCCESS
     then h \<in> sel_hdls E s tbl \<and> sel_hdls E t tbl = sel_hdls E s tbl - {h} \<and> sel_grps E t tbl \<subseteq>\<^sub>m sel_grps E s tbl
     else sel_v E tbl t = sel_v E tbl s)"

lemma sel_deleted_rest:
  assumes "os_rest s' = os_rest s" "os_rest t' = os_rest t"
  shows "sel_deleted E tbl h s' r t' = sel_deleted E tbl h s r t"
  using sel_v_rest [OF assms(1), of E tbl] sel_v_rest [OF assms(2), of E tbl]
    sel_v_hdls [of E tbl s' s] sel_v_hdls [of E tbl t' t] sel_v_grps(1) [of E tbl s' s] sel_v_grps(1) [of E tbl t' t]
  by (simp add: sel_deleted_def)

lemma sel_v_remove_mbrs: "keeps (sel_v E tbl) (sel_remove_mbrs E' tgt h tbl' hdl x)"
  unfolding sel_remove_mbrs_def by (rule keeps_intros sel_v_dal [OF dal_sel_calls(3)] sel_v_reference | simp)+

lemma sel_state_upd [simp]:
  "adt_state_of u (st_upd PIPE_MGR_TABLE_TYPE_SEL tbl f s) =
     (if u = tbl then map_option f (adt_state_of tbl s) else adt_state_of u s)"
  "adt_st E (s\<lparr>w_sel_ents := y\<rparr>) = adt_st E s"
  by (auto simp: st_upd.simps adt_st_def fun_eq_iff split: Option.bind_splits)

lemma sel_unfile_spec:
  assumes E: "map_ok E" and p: "adt_st E s tbl = Some (F, R)" "F (ucast h) = Some p"
  shows "wp (sel_unfile E tbl p h) (\<lambda>_ t. sel_deleted E tbl h s BF_SUCCESS t) s"
proof -
  obtain z where z: "adt_state_of tbl s = Some z" "F = map_abs E (entry_info_htbl z)" using p(1) by (auto simp: adt_st_def)
  have gone: "sel_deleted E tbl h s BF_SUCCESS t"
    if t: "map_option fst (adt_st E t tbl) = Some (F(ucast h := None))" and
      that: "\<forall>q. q \<noteq> p \<longrightarrow> w_sel_ents t q = w_sel_ents s q" "w_sel_ents t p = None" for t
  proof -
    obtain R' where st: "adt_st E t tbl = Some (F(ucast h := None), R')" using t by auto
    have "sel_grps E t tbl k = Some x \<Longrightarrow> sel_grps E s tbl k = Some x" for k x
      using st that p by (cases R; cases R') (auto simp: sel_grps_def bind_eq_Some_conv split: if_splits, metis option.distinct(1))
    then have "sel_grps E t tbl \<subseteq>\<^sub>m sel_grps E s tbl" by (auto simp: map_le_def)
    moreover have "h \<in> sel_hdls E s tbl" "sel_hdls E t tbl = sel_hdls E s tbl - {h}"
      using st that p by (auto simp: sel_hdls_def)
    ultimately show ?thesis by (simp add: sel_deleted_def)
  qed
  show ?thesis
    unfolding sel_unfile_def pipe_mgr_sel_delete_entry_data_def
    by (simp add: wp_simps set_state_def z put_sel_ent_def split: option.split)
      (auto intro!: gone simp: z map_rmv_any [OF E])
qed

lemma sel_grp_del_work_groups:
  assumes E: "map_ok E"
  shows "wp (sel_grp_del_work E tgt h tbl hdl) (\<lambda>r t. sel_deleted E tbl h s r t) s"
proof (cases "adt_state_of tbl s")
  case None
  then show ?thesis by (simp add: sel_grp_del_work_def wp_deref sel_deleted_def)
next
  case (Some z)
  let ?F = "map_abs E (entry_info_htbl z)"
  have st: "adt_st E s tbl = Some (?F, map_abs E (mbr_id_htbl z), id_used E (entry_handle_array z))"
    using Some by (simp add: adt_st_def)
  have same: "sel_deleted E tbl h s r t" if "r \<noteq> BF_SUCCESS" "sel_v E tbl t = sel_v E tbl s" for r t
    using that by (simp add: sel_deleted_def)
  show ?thesis
  proof (cases "?F (ucast h)")
    case None
    with Some map_ok_get(2) [OF E None] show ?thesis
      by (auto simp: sel_grp_del_work_def wp_deref wp_return same split: prod.split)
  next
    case (Some p)
    have unfile: "wp (do { sel_unfile E tbl p h; ret BF_SUCCESS }) (sel_deleted E tbl h s) v" if v: "sel_v E tbl v = sel_v E tbl s" for v
      unfolding wp_bind wp_return
      by (rule wp_conseq [OF sel_unfile_spec [OF E, of v tbl ?F _ h p]])
        (use v st Some sel_v_hdls [OF v] sel_v_grps(1) [OF v] in \<open>auto simp: sel_v_def sel_deleted_def\<close>)
    have rest: "wp (do { status \<leftarrow> dal_table_sel_ent_del E tgt tbl h;
        if status \<noteq> BF_SUCCESS then ret BF_UNEXPECTED
        else do { sel_unfile E tbl p h; ret BF_SUCCESS } }) (sel_deleted E tbl h s) u" if u: "sel_v E tbl u = sel_v E tbl s" for u
      unfolding wp_bind [of "dal_table_sel_ent_del _ _ _ _"]
      by (rule wp_view [OF sel_v_dal [OF dal_sel_calls(2), of E tbl]]) (use u unfile same in \<open>auto simp: wp_return\<close>)
    have work: "wp (do { status \<leftarrow> sel_remove_mbrs E tgt h tbl hdl x;
        if status \<noteq> BF_SUCCESS then ret status
        else do { status \<leftarrow> dal_table_sel_ent_del E tgt tbl h;
          if status \<noteq> BF_SUCCESS then ret BF_UNEXPECTED
          else do { sel_unfile E tbl p h; ret BF_SUCCESS } }}) (sel_deleted E tbl h s) s" for x
      unfolding wp_bind [of "sel_remove_mbrs _ _ _ _ _ _"]
      by (rule wp_view [OF sel_v_remove_mbrs [of E tbl]]) (use rest same in \<open>auto simp: wp_return\<close>)
    show ?thesis
      unfolding sel_grp_del_work_def wp_deref \<open>adt_state_of tbl s = Some z\<close> option.case map_ok_get(1) [OF E Some] prod.case
      using work by (auto simp: wp_deref same split: option.split)
  qed
qed

lemma ctxs_del_work: "keeps ctxs (sel_grp_del_work E tgt h tbl ah)"
  unfolding sel_grp_del_work_def sel_remove_mbrs_def sel_unfile_def pipe_mgr_sel_delete_entry_data_def
    dal_table_sel_member_add_del_def dal_table_sel_ent_del_def sel_ctl_def pipe_mgr_get_profile_def get_pipe_mgr_ctx_def
    pipe_mgr_get_dev_def pipeline_find_def dal_commit_def
  by (rule keeps_intros | simp)+

lemma sel_grp_del_groups:
  assumes E: "map_ok E" and sel: "sel_of E tgt th ah tbl adt s"
  shows "wp (pipe_mgr_sel_grp_del E sh tgt th h) (\<lambda>r t. sel_of E tgt th ah tbl adt t \<and> sel_deleted E tbl h s r t) s"
  unfolding pipe_mgr_sel_grp_del_def
proof (rule wp_sel_call [OF sel])
  let ?Q = "\<lambda>r t. sel_of E tgt th ah tbl adt t \<and> sel_deleted E tbl h s r t"
  fix u assume u: "os_rest u = os_rest s"
  show "wp (sel_grp_del_work E tgt h tbl ah) (\<lambda>r v. \<forall>w. os_rest w = os_rest v \<longrightarrow> ?Q r w) u"
  proof (rule wp_runI)
    fix r v assume run: "run_state (sel_grp_del_work E tgt h tbl ah) u = (r, v)"
    have "sel_of E tgt th ah tbl adt v"
      using sel_of_same [OF keepsD [OF sel_work_rules(4) run] keepsD [OF ctxs_del_work run], of E] sel sel_of_rest [OF u, of E] by simp
    moreover have "sel_deleted E tbl h u r v" by (rule wp_run [OF run sel_grp_del_work_groups [OF E]])
    ultimately show "\<forall>w. os_rest w = os_rest v \<longrightarrow> ?Q r w"
      using sel_deleted_rest [OF u [symmetric], of _ v E tbl h r] sel_of_rest [of _ v E tgt th ah tbl adt] by blast
  qed
next
  fix r u assume u: "os_rest u = os_rest s" and r: "r \<noteq> BF_SUCCESS"
  from u sel sel_of_rest [OF u, of E] r sel_v_rest [OF u, of E tbl]
  show "sel_of E tgt th ah tbl adt u \<and> sel_deleted E tbl h s r u" by (simp add: sel_deleted_def)
qed

text \<open>What has happened to a selector when some of its groups have been deleted: the groups that are left are as they were,
  and so are the locks unless the program faulted.\<close>

definition sel_shrunk where
  "sel_shrunk E tgt th ah tbl adt s t \<longleftrightarrow> map_ok E \<and> unlock_ok E \<and> sel_of E tgt th ah tbl adt t \<and>
     sel_hdls E t tbl \<subseteq> sel_hdls E s tbl \<and> sel_grps E t tbl \<subseteq>\<^sub>m sel_grps E s tbl \<and>
     (os_fault t \<or> os_locks t = os_locks s)"

lemma sel_first_shrunk:
  assumes "sel_shrunk E tgt th ah tbl adt s t"
  shows "wp (pipe_mgr_get_first_entry_handle E sh th tgt True)
    (\<lambda>_ u. sel_shrunk E tgt th ah tbl adt s u \<and> card (sel_hdls E u tbl) = card (sel_hdls E t tbl)) t"
proof (rule wp_runI)
  fix r u assume run: "run_state (pipe_mgr_get_first_entry_handle E sh th tgt True) t = (r, u)"
  have rest: "os_rest u = os_rest t" by (rule keepsD [OF rest_first run])
  have E: "unlock_ok E" using assms by (simp add: sel_shrunk_def)
  have locks: "os_fault u \<or> os_locks u = os_locks t" "os_fault t \<longrightarrow> os_fault u"
    using balD [OF first_bal [OF E] run] presD [OF bal_fault [OF first_bal [OF E]] _ run] by auto
  show "sel_shrunk E tgt th ah tbl adt s u \<and> card (sel_hdls E u tbl) = card (sel_hdls E t tbl)"
    using assms locks sel_of_rest [OF rest, of E tgt th ah tbl adt] sel_v_hdls [OF sel_v_rest [OF rest, of E tbl]]
      sel_v_grps(1) [OF sel_v_rest [OF rest, of E tbl]]
    by (auto simp: sel_shrunk_def)
qed

lemma sel_del_shrunk:
  assumes "sel_shrunk E tgt th ah tbl adt s t"
  shows "wp (pipe_mgr_sel_grp_del E sh tgt th h) (\<lambda>r u. sel_shrunk E tgt th ah tbl adt s u \<and>
    (r = BF_SUCCESS \<longrightarrow> card (sel_hdls E u tbl) < card (sel_hdls E t tbl))) t"
proof (rule wp_runI)
  fix r u assume run: "run_state (pipe_mgr_sel_grp_del E sh tgt th h) t = (r, u)"
  have E: "map_ok E" "unlock_ok E" and sel: "sel_of E tgt th ah tbl adt t" using assms by (auto simp: sel_shrunk_def)
  have del: "sel_of E tgt th ah tbl adt u" "sel_deleted E tbl h t r u"
    using wp_run [OF run sel_grp_del_groups [OF E(1) sel]] by auto
  have bal: "bal (pipe_mgr_sel_grp_del E sh tgt th h)"
    unfolding pipe_mgr_sel_grp_del_def by (rule bal_with_api [OF E(2) sel_del.body_bal [OF E(2)] sel_del.body_frame])
  have locks: "os_fault u \<or> os_locks u = os_locks t" "os_fault t \<longrightarrow> os_fault u"
    using balD [OF bal run] presD [OF bal_fault [OF bal] _ run] by auto
  have fin: "finite (sel_hdls E t tbl)" by (rule finite_subset [OF subset_UNIV]) simp
  show "sel_shrunk E tgt th ah tbl adt s u \<and> (r = BF_SUCCESS \<longrightarrow> card (sel_hdls E u tbl) < card (sel_hdls E t tbl))"
  proof (cases "r = BF_SUCCESS")
    case True
    with del(2) have gone: "h \<in> sel_hdls E t tbl" "sel_hdls E u tbl = sel_hdls E t tbl - {h}" "sel_grps E u tbl \<subseteq>\<^sub>m sel_grps E t tbl"
      by (auto simp: sel_deleted_def)
    have "sel_grps E u tbl \<subseteq>\<^sub>m sel_grps E s tbl" using gone(3) assms map_le_trans by (auto simp: sel_shrunk_def)
    moreover have "card (sel_hdls E u tbl) < card (sel_hdls E t tbl)" unfolding gone(2) by (rule card_Diff1_less [OF fin gone(1)])
    ultimately show ?thesis using gone(2) assms del(1) locks by (auto simp: sel_shrunk_def)
  next
    case False
    with del(2) have v: "sel_v E tbl u = sel_v E tbl t" by (simp add: sel_deleted_def)
    from assms False del(1) locks sel_v_hdls [OF v] sel_v_grps(1) [OF v] show ?thesis by (auto simp: sel_shrunk_def)
  qed
qed

interpretation selclear: emptying "pipe_mgr_get_first_entry_handle E sh th tgt True" "pipe_mgr_sel_grp_del E sh tgt th"
  "sel_shrunk E tgt th ah tbl adt s" "\<lambda>t. card (sel_hdls E t tbl)"
  for E sh th tgt ah tbl adt s
  by unfold_locales (rule sel_first_shrunk sel_del_shrunk, assumption)+

end
