(* ===== verification/Tdi_Props.thy ===== *)
theory Tdi_Props
  imports Tdi_Spec Sel_Props
begin

text \<open>
  The properties of the table objects of the driver interface: emptying a table ends, and what it leaves behind.
\<close>

declare st_upd.simps [simp del]

section \<open>A concrete action profile\<close>

definition ex_actprof :: tdi_table where
  "ex_actprof = \<lparr>tt_id = 100, tt_handle = 1, tt_actions = [7 \<mapsto> 70], tt_act_fns = [70 \<mapsto> 7]\<rparr>"

definition ex_selector :: tdi_selector where
  "ex_selector = \<lparr>tt_id = 200, tt_handle = 2, tt_actions = Map.empty, tt_act_fns = Map.empty, ts_act_prof = ex_actprof\<rparr>"

text \<open>The table has one member, which no group refers to.\<close>

definition ex_one_mbr :: "(lmap, lids, lht) world" where
  "ex_one_mbr = ex_adt_sys\<lparr>os_next := 10,
     w_mats := [1 \<mapsto> ex_mat\<lparr>mat_ctx := ex_ctx\<lparr>mc_stage_table_count := 1,
       mc_stage_table := Some (ex_stage\<lparr>st_table_meta := Some ex_adt_meta\<rparr>)\<rparr>,
       mat_state := Some \<lparr>entry_handle_array = [1], entry_info_htbl = [(1, 10)], mbr_id_htbl = [(5, 10)], key_htbl = [None]\<rparr>\<rparr>],
     w_adt_ents := [10 \<mapsto> adt_member 7 5 ex_ads 1]\<rparr>"

lemmas ex_one_defs = ex_one_mbr_def ex_adt_sys_def ex_adt_meta_def ex_sys_defs

lemma ex_one_dev: "dev_of ref_env ex_one_mbr 0 = 4"
  by (simp add: dev_of_def the_ctx_def ex_one_mbr_def ex_adt_sys_def ex_sys_def ref_env_def)

lemma ex_one_ready: "adt_ready ref_env 0 ex_tgt 1 1 {1} ex_one_mbr"
proof -
  have "api_ready ref_env 0 ex_tgt ex_one_mbr"
    using ex_one_dev by (simp add: api_ready_def live_sessions_def ex_tgt_def Let_def) (simp add: ex_one_defs the_ctx_def)
  moreover have "table_of ref_env ex_tgt 1 PIPE_MGR_TABLE_TYPE_ADT ex_one_mbr = Some 1"
    using ex_one_dev by (simp add: table_of_def ex_tgt_def) (simp add: ex_one_defs get_profile_obj_def mat_handle_def)
  moreover have "adt_inv ref_env {1} ex_one_mbr"
    by (auto simp: adt_inv_def adt_st_def adt_files_def ex_one_defs adt_member_def ref_env_def)
  ultimately show ?thesis by (simp add: adt_ready_def) (simp add: ex_one_defs)
qed

text \<open>A selector with one group.\<close>

definition ex_one_grp :: "(lmap, lids, lht) world" where
  "ex_one_grp = ex_sel_sys\<lparr>w_mats := (w_mats ex_sel_sys)(2 \<mapsto> ex_mat\<lparr>mat_ctx := ex_ctx\<lparr>mc_handle := 2, mc_name := ''sel'', mc_adt_handle := 1\<rparr>,
       mat_state := Some \<lparr>entry_handle_array = [], entry_info_htbl = [(3, 9)], mbr_id_htbl = [(1, 9)], key_htbl = [None]\<rparr>\<rparr>),
     w_sel_ents := [9 \<mapsto> \<lparr>se_sel_tbl_hdl = 2, se_sel_grp_hdl = 3, se_sel_grp_id = 1, se_max_grp_size = 4, se_num_mbrs = 0,
       se_mbrs = None\<rparr>]\<rparr>"

lemma ex_one_grp_of: "sel_of ref_env ex_tgt 2 1 2 1 ex_one_grp"
proof -
  have "dev_of ref_env ex_one_grp 0 = 4" by (simp add: dev_of_def the_ctx_def ex_one_grp_def ex_sel_sys_def ex_adt_sys_def ex_sys_def ref_env_def)
  then show ?thesis
    by (simp add: sel_of_def table_of_def ex_tgt_def)
      (simp add: ex_one_grp_def ex_sel_defs get_profile_obj_def mat_handle_def mat_ctx_of_def)
qed

lemma ex_one_grp_hdls: "sel_hdls ref_env ex_one_grp 2 = {3}"
  by (auto simp: sel_hdls_def adt_st_def ex_one_grp_def ref_env_def ucast_u32_u64_inj [of _ 3, simplified] split: if_splits)

lemmas clear_run = pipe_mgr_get_first_entry_handle_def get_first_entry_handle_body_def pipe_mgr_table_get_first_def
  pipe_mgr_adt_ent_del_def adt_del_body_def with_table_def pipe_mgr_ctx_get_table_def pipe_mgr_get_profile_ctx_def
  pipe_mgr_get_profile_def get_profile_obj_def mat_handle_def mat_ctx_of_def set_state_def adt_unfile_def adt_free_id_def
  dal_table_adt_ent_del_def adt_pipe_def pipe_obj_def dal_dpdk_table_entry_alloc_def alloc_if_def dal_commit_def
  pipe_mgr_adt_delete_entry_data_def dal_delete_adt_table_entry_data_def put_adt_ent_def le_bytes_def upt_rec nbytes_def
  cleanup_tbl_unlock_def empty_entry_def tbl_known_def list_first_def

lemma ex_cleared: "\<exists>t. ActionProfile_clear ref_env 0 ex_tgt ex_actprof ex_one_mbr = Some (BF_SUCCESS, t) \<and> \<not> os_fault t"
  unfolding ActionProfile_clear_def
  apply (rule clear_loop_round)
  apply (simp add: clear_run bracket_run wp_simps ex_actprof_def ex_one_defs adt_member_def ref_env_def dev_of_def the_ctx_def world0_def
      live_sessions_def st_upd.simps)
  apply (rule clear_loop_end)
  apply (simp add: clear_run bracket_run wp_simps ex_one_defs ref_env_def dev_of_def the_ctx_def world0_def
      live_sessions_def st_upd.simps)
  done

section \<open>Properties\<close>

text \<open>C38. Emptying an action profile ends, whatever the data plane, the locks and the groups do: every round deletes a member, and
  there are finitely many. Afterwards the table is consistent, members that a group refers to are still there, no member
  has changed, no other table has, and the locks are as before unless the program faulted.\<close>

theorem actprof_clear_terminates:
  assumes "map_ok E" "id_ok E" "unlock_ok E" "adt_inv E A s" "ap \<in> A"
    "table_of E tgt (tt_handle tbl) PIPE_MGR_TABLE_TYPE_ADT s = Some ap"
  shows "\<exists>r t. ActionProfile_clear E sess tgt tbl s = Some (r, t) \<and> adt_shrunk E A tgt (tt_handle tbl) ap s t"
proof -
  have "adt_shrunk E A tgt (tt_handle tbl) ap s s" using assms by (simp add: adt_shrunk_def)
  from actprof.clear_returns [OF this] show ?thesis unfolding ActionProfile_clear_def by blast
qed

theorem actprof_clear_terminates_witness:
  "\<exists>r t. ActionProfile_clear ref_env 0 ex_tgt ex_actprof ex_sel_sys = Some (r, t) \<and>
     adt_shrunk ref_env {1} ex_tgt 1 1 ex_sel_sys t"
  using actprof_clear_terminates [where tbl = ex_actprof and sess = 0, OF _ _ _ ex_sel_inv] ex_sel_of
  by (simp add: ex_actprof_def sel_of_def)

text \<open>C39. On a table that can be used and stores its entries, success means that the action profile is empty.\<close>

theorem actprof_clear_empties:
  assumes "map_ok E" "id_ok E" "map_iter_ok E" "adt_ready E sess tgt (tt_handle tbl) ap A s"
    "map_option snd (mat_ids s ap) = Some True" "ActionProfile_clear E sess tgt tbl s = Some (BF_SUCCESS, t)" "\<not> os_fault t"
  shows "adt_mbrs E t ap = Map.empty"
proof -
  have E: "unlock_ok E" using assms(4) by (simp add: adt_ready_def api_ready_def locks_ok_def)
  have "adt_shrunk E A tgt (tt_handle tbl) ap s s" using assms E by (simp add: adt_shrunk_def adt_ready_def)
  from actprof.clear_returns [OF this, of sess] assms(6) obtain u h st where
    u: "adt_shrunk E A tgt (tt_handle tbl) ap s u" "st \<noteq> BF_SUCCESS"
      and run: "run_state (pipe_mgr_get_first_entry_handle E sess (tt_handle tbl) tgt True) u = ((st, h), t)"
    unfolding ActionProfile_clear_def by auto
  have "\<not> os_fault u" using presD [OF bal_fault [OF first_bal [OF E]] _ run] assms(7) by blast
  then have ready: "adt_ready E sess tgt (tt_handle tbl) ap A u" and store: "map_option snd (mat_ids u ap) = Some True"
    using adt_ready_after [OF assms(4), of u] u(1) assms(5) by (auto simp: adt_shrunk_def)
  have "adt_mbrs E u ap k = None" for k
  proof (rule ccontr)
    assume "adt_mbrs E u ap k \<noteq> None"
    then obtain e where "adt_mbrs E u ap k = Some e" by blast
    from wp_run [OF run adt_first_ready [OF assms(3) ready store this]] u(2) show False by simp
  qed
  moreover have "adt_mbrs E t = adt_mbrs E u" using adt_v_same(2) [OF adt_v_rest [OF keepsD [OF rest_first run]], of E] by auto
  ultimately show ?thesis by auto
qed

theorem actprof_clear_empties_witness:
  "\<exists>t. ActionProfile_clear ref_env 0 ex_tgt ex_actprof ex_one_mbr = Some (BF_SUCCESS, t) \<and> adt_mbrs ref_env t 1 = Map.empty"
proof -
  obtain t where t: "ActionProfile_clear ref_env 0 ex_tgt ex_actprof ex_one_mbr = Some (BF_SUCCESS, t)" "\<not> os_fault t"
    using ex_cleared by blast
  have "map_option snd (mat_ids ex_one_mbr 1) = Some True" by (simp add: mat_ids_def ex_one_defs)
  with actprof_clear_empties [where tbl = ex_actprof, OF _ _ _ _ _ t] ex_one_ready t show ?thesis
    by (auto simp: ex_actprof_def)
qed

text \<open>C40. Emptying a selector ends, whatever the data plane and the locks do. The groups that are left afterwards are as they
  were, there are no new ones, and the locks are as before unless the program faulted.\<close>

theorem selector_clear_terminates:
  assumes "map_ok E" "unlock_ok E" "sel_of E tgt (tt_handle sel) ah tbl adt s"
  shows "\<exists>r t. Selector_clear E sess tgt sel s = Some (r, t) \<and> sel_shrunk E tgt (tt_handle sel) ah tbl adt s t"
proof -
  have "sel_shrunk E tgt (tt_handle sel) ah tbl adt s s" using assms by (simp add: sel_shrunk_def)
  from selclear.clear_returns [OF this] show ?thesis unfolding Selector_clear_def by blast
qed

theorem selector_clear_terminates_witness:
  "sel_hdls ref_env ex_one_grp 2 = {3} \<and> (\<exists>r t. Selector_clear ref_env 0 ex_tgt ex_selector ex_one_grp = Some (r, t) \<and>
     sel_shrunk ref_env ex_tgt 2 1 2 1 ex_one_grp t)"
  using selector_clear_terminates [where sel = ex_selector and sess = 0, of ref_env] ex_one_grp_of ex_one_grp_hdls
  by (simp add: ex_selector_def)

end
