(* ===== verification/Spec2Isabelle.thy ===== *)
theory Spec2Isabelle
  imports Session_Props KeyTable_Props Mat_Props Sel_Props Vl_Props Tdi_Props Externs
begin

text \<open>
  A verification development of the P4 DPDK target: the pipeline manager
  (\<^verbatim>\<open>src/src/pipe_mgr\<close>) that configures a software switch, and the layers around it.

  \<^bold>\<open>The program.\<close> A client registers a session, then calls table operations with that session
  and a device target. Every public call is bracketed by \<^verbatim>\<open>pipe_mgr_api_prologue\<close> and
  \<^verbatim>\<open>pipe_mgr_api_epilogue\<close> (locks of the manager, of the session and of the profile). The
  features keep a shadow of what they have programmed in the store of
  \<^verbatim>\<open>pipe_mgr_tbl.c\<close> and program the data plane through the device abstraction layer.

  \<^bold>\<open>The theories.\<close>
  \<^item> \<open>Prelude\<close>: status codes, the state monad with its weakest preconditions (\<open>wp\<close>), frame
    (\<open>keeps\<close>) and invariant (\<open>pres\<close>) calculus.
  \<^item> \<open>Osdep\<close>: locks, allocation and byte buffers, and the libraries the code links against
    (maps, id allocators, hash tables) as parameters with their documented contracts.
  \<^item> \<open>World\<close>: the structures of \<^verbatim>\<open>pipe_mgr_int.h\<close>, \<^verbatim>\<open>pipe_mgr_mat.h\<close>,
    \<^verbatim>\<open>pipe_mgr_dpdk_int.h\<close> and the state over which every operation runs.
  \<^item> \<open>Discipline\<close>: the logic of balanced locking.
  \<^item> \<open>Session\<close>, \<open>Session_Conc\<close>, \<open>Session_Props\<close>: \<^verbatim>\<open>pipe_mgr_session.c\<close>, the life cycle of
    \<^verbatim>\<open>pipe_mgr_shared_init.c\<close>, and threads as a step relation.
  \<^item> \<open>Device\<close>: devices, profiles and the bracket of public calls
    (\<^verbatim>\<open>pipe_mgr_shared_init.c\<close>, \<^verbatim>\<open>pipe_mgr_ctx_util.c\<close>).
  \<^item> \<open>KeyTable\<close> and the theories \<open>KeyTable_Spec\<close>, \<open>KeyTable_Refine\<close>, \<open>KeyTable_Iter\<close>,
    \<open>KeyTable_Iface\<close>, \<open>KeyTable_Props\<close>: the entry store \<^verbatim>\<open>pipe_mgr_tbl.c\<close>, its refinement of a
    finite map and its contract for the features.
  \<^item> \<open>Pipeline\<close>, \<open>Encode\<close>, \<open>Dal_Tbl\<close>: the registry of pipelines of \<^verbatim>\<open>dpdk_obj.c\<close>, the encoding
    of keys and action data (\<^verbatim>\<open>pipe_mgr_dpdk_ctx_util.c\<close>) and the metadata of tables (\<^verbatim>\<open>dal_tbl.c\<close>).
  \<^item> \<open>Dal_Mat\<close>, \<open>Dal_Mat_Spec\<close>: the operations of \<^verbatim>\<open>dal_mat.c\<close> and what they send to the data plane.
  \<^item> \<open>Mat\<close>, \<open>Mat_Spec\<close>, \<open>Bracket\<close>, \<open>Mat_Api\<close>: the public calls of \<^verbatim>\<open>pipe_mgr_mat.c\<close>, the refinement of
    the finite map by their bodies, and the calls as clients see them; \<open>Mat_Calls\<close>, \<open>Mat_Props\<close>: deletion, retrieval
    and the properties.
  \<^item> \<open>Dal_Adt\<close>, \<open>Adt\<close>, \<open>Adt_Spec\<close>, \<open>Adt_Calls\<close>, \<open>Adt_Props\<close>: action-data tables (\<^verbatim>\<open>dal_adt.c\<close>, \<^verbatim>\<open>pipe_mgr_adt.c\<close>), the
    consistency of their two maps and the members they hold.
  \<^item> \<open>Sel\<close>, \<open>Sel_Spec\<close>, \<open>Sel_Calls\<close>, \<open>Sel_Props\<close>: selectors (\<^verbatim>\<open>dal_sel.c\<close>, \<^verbatim>\<open>pipe_mgr_sel.c\<close>), the references that groups
    hold to members of action-data tables.
  \<^item> \<open>Vl\<close>, \<open>Vl_Spec\<close>, \<open>Vl_Props\<close>: value-lookup tables (\<^verbatim>\<open>pipe_mgr_value_lookup.c\<close>, \<^verbatim>\<open>dal_value_lookup.c\<close>) and the
    mirroring sessions that they set (\<^verbatim>\<open>dal_mirror.c\<close>).
  \<^item> \<open>Tdi\<close>, \<open>Tdi_Spec\<close>, \<open>Tdi_Props\<close>: action profiles and selectors as objects of the driver interface
    (\<^verbatim>\<open>tdi_p4_table_impl.cpp\<close>), over the calls above; the loop that empties a table is a partial function, and
    the contract \<open>emptying\<close> shows that it ends.
  \<^item> \<open>Externs\<close>: counters and registers.
  \<^item> \<open>RefEnv\<close>: a concrete environment that satisfies every contract, for the witnesses.

  \<^bold>\<open>Correspondence.\<close> A C function is a definition of the same name in the state monad; an out
  parameter is a component of its result; a fallible library call takes its result from the
  environment, indexed by a clock, so that every failure pattern is covered. Undefined
  behaviour (a null or dangling pointer, a copy out of bounds, a lock taken twice by the same
  thread) sets \<open>os_fault\<close>. Loops over a known number of steps are structural recursions; only the emptying
  of a table may not end, and it needs no fuel, since its termination is proved.

  \<^bold>\<open>Not modelled.\<close> The reading of the context file and of the port configuration goes through an external
  parser; ports, start-up and threads of the data plane are calls of an external library. The remaining table objects of
  \<^verbatim>\<open>src/src/tdi_rt\<close> derive from classes that are not in the repository, and \<^verbatim>\<open>src/src/bf_rt\<close> is a second front end over
  the same calls of the manager. The device manager, the switch daemon, the command line and the stubs only dispatch,
  print or return.
\<close>

end
